(* ===== verification/Prelude.thy ===== *)
theory Prelude
  imports Main "HOL-Library.Word"
begin

text \<open>
  Shared vocabulary of the development: the machine types of the C and Go sources, the
  theorem collections the component theories fill, and the generic facts on words and maps
  that their proofs use.
\<close>

section \<open>Machine types\<close>

type_synonym u64 = "64 word"
type_synonym u32 = "32 word"

section \<open>Theorem collections\<close>

text \<open>
  \<open>kern_defs\<close> unfolds the C functions of the enforcer, \<open>view_simps\<close> moves between the
  eight BPF maps and the four maps of one resource, \<open>lease_simps\<close> computes on leases.
\<close>

named_theorems kern_defs "definitions of the C functions of enforcer_kern.c"
named_theorems view_simps "field access through the per-resource view of the kernel state"
named_theorems lease_simps "what the lease operations do to each field"

section \<open>Words\<close>

lemma unat_Suc_below: "x < y \<Longrightarrow> unat (x + 1) = Suc (unat x)" for x y :: "'a::len word"
proof -
  assume "x < y"
  then have "Suc (unat x) \<le> unat y" by (simp add: word_less_nat_alt)
  also have "\<dots> < 2 ^ LENGTH('a)" by (rule unsigned_less)
  finally show ?thesis by (simp add: unat_word_ariths)
qed

lemma unat_pred_pos: "0 < x \<Longrightarrow> unat (x - 1) = unat x - 1" for x :: "'a::len word"
  by (rule unat_minus_one) auto

lemma unat_add_below: "unat x + unat y < 2 ^ LENGTH('a) \<Longrightarrow> unat (x + y) = unat x + unat y"
  for x y :: "'a::len word"
  by (simp add: unat_word_ariths)

end
