(* ===== verification/Kern_State.thy ===== *)
theory Kern_State
  imports Prelude
begin

text \<open>
  The data of \<^verbatim>\<open>ebpf/src/enforcer_kern.c\<close>: the value structs, the nine BPF maps, and what
  one invocation of a program gets from the BPF helpers.
\<close>

section \<open>Value structs\<close>

record cpu_lease =
  cl_count :: u64
  cl_lease_budget :: u64
  cl_last_used_ns :: u64
  cl_top_cgid :: u64
  cl_top_count :: u64

datatype breach_reason = REASON_FD | REASON_PROC

fun reason_code :: "breach_reason \<Rightarrow> u32" where
  "reason_code REASON_FD = 0"
| "reason_code REASON_PROC = 1"

record breach_event =
  be_ns_key :: u64
  be_cgid :: u64
  be_pid :: u32
  be_reason :: u32
  be_timestamp :: u64
  be_top_cgid :: u64

section \<open>The BPF maps\<close>

text \<open>
  A hash map is a partial function; a pointer that \<^verbatim>\<open>bpf_map_lookup_elem\<close> returns is the
  entry itself, so a write through it is an update of the map at that key. The ring buffer is
  the list of the records submitted to it, oldest first. \<open>signals\<close> records the signals
  \<^verbatim>\<open>bpf_send_signal\<close> raised, with the \<^verbatim>\<open>pid_tgid\<close> of the task it was raised on.
\<close>

record kstate =
  fd_cgroup :: "u64 \<rightharpoonup> u64"
  fd_cgroup_counter :: "u64 \<rightharpoonup> u64"
  fd_ns_limit :: "u64 \<rightharpoonup> u64"
  fd_ns_counter :: "u64 \<rightharpoonup> cpu_lease"
  proc_cgroup :: "u64 \<rightharpoonup> u64"
  proc_cgroup_counter :: "u64 \<rightharpoonup> u64"
  proc_ns_limit :: "u64 \<rightharpoonup> u64"
  proc_ns_counter :: "u64 \<rightharpoonup> cpu_lease"
  events :: "breach_event list"
  signals :: "(u64 \<times> nat) list"

definition empty_kstate :: kstate where
  "empty_kstate =
     \<lparr>fd_cgroup = Map.empty, fd_cgroup_counter = Map.empty,
      fd_ns_limit = Map.empty, fd_ns_counter = Map.empty,
      proc_cgroup = Map.empty, proc_cgroup_counter = Map.empty,
      proc_ns_limit = Map.empty, proc_ns_counter = Map.empty,
      events = [], signals = []\<rparr>"

section \<open>The BPF helpers\<close>

text \<open>
  The helpers are kernel code. One invocation of a program is given the values they return
  to it: the current cgroup, the current \<^verbatim>\<open>pid_tgid\<close>, the clock at its two readings (for
  \<^verbatim>\<open>last_used_ns\<close> and for the event's timestamp), whether \<^verbatim>\<open>bpf_ringbuf_reserve\<close>
  found room, and \<^verbatim>\<open>bpf_map_update_elem\<close> on an LRU hash as a function of the map.
\<close>

record helpers =
  h_cgid :: u64
  h_pid_tgid :: u64
  h_ktime_used :: u64
  h_ktime_event :: u64
  h_reserve_ok :: bool
  h_lru_update :: "(u64 \<rightharpoonup> u64) \<Rightarrow> u64 \<Rightarrow> u64 \<Rightarrow> (u64 \<rightharpoonup> u64)"

text \<open>
  What the kernel documents of \<^verbatim>\<open>bpf_map_update_elem(map, key, value, BPF_ANY)\<close> on an
  \<^verbatim>\<open>LRU_HASH\<close>: it may evict other entries to make room, and it either stores the value or
  fails and leaves no new entry. It never changes the value of another key.
\<close>

definition lru_ok :: "((u64 \<rightharpoonup> u64) \<Rightarrow> u64 \<Rightarrow> u64 \<Rightarrow> (u64 \<rightharpoonup> u64)) \<Rightarrow> bool" where
  "lru_ok upd \<longleftrightarrow>
     (\<forall>m k v. (upd m k v k = Some v \<or> upd m k v k = m k) \<and>
              (\<forall>k'. k' \<noteq> k \<longrightarrow> upd m k v k' = m k' \<or> upd m k v k' = None))"

definition lru_roomy :: "(u64 \<rightharpoonup> u64) \<Rightarrow> u64 \<Rightarrow> u64 \<Rightarrow> (u64 \<rightharpoonup> u64)" where
  "lru_roomy m k v = m(k \<mapsto> v)"

lemma lru_ok_roomy: "lru_ok lru_roomy"
  by (simp add: lru_ok_def lru_roomy_def)

lemma lru_ok_key: "lru_ok upd \<Longrightarrow> upd m k v k = Some v \<or> upd m k v k = m k"
  by (simp add: lru_ok_def)

lemma lru_ok_other: "lru_ok upd \<Longrightarrow> k' \<noteq> k \<Longrightarrow> upd m k v k' = m k' \<or> upd m k v k' = None"
  by (simp add: lru_ok_def)

section \<open>Reporting a breach\<close>

text \<open>\<^verbatim>\<open>emit_breach_event\<close>: nothing is reported when the ring buffer is full.\<close>

definition emit_breach_event ::
  "helpers \<Rightarrow> u64 \<Rightarrow> u64 \<Rightarrow> u64 \<Rightarrow> breach_reason \<Rightarrow> kstate \<Rightarrow> kstate" where
  [kern_defs]: "emit_breach_event h ns_key cgid top_cgid reason s =
     (if h_reserve_ok h then
        s\<lparr>events := events s @
           [\<lparr>be_ns_key = ns_key,
             be_cgid = cgid,
             be_pid = ucast (drop_bit 32 (h_pid_tgid h)),
             be_reason = reason_code reason,
             be_timestamp = h_ktime_event h,
             be_top_cgid = top_cgid\<rparr>]\<rparr>
      else s)"

text \<open>\<^verbatim>\<open>bpf_send_signal(9)\<close>: \<^verbatim>\<open>SIGKILL\<close> to the task that runs the program.\<close>

definition bpf_send_signal :: "helpers \<Rightarrow> nat \<Rightarrow> kstate \<Rightarrow> kstate" where
  [kern_defs]: "bpf_send_signal h sig s = s\<lparr>signals := signals s @ [(h_pid_tgid h, sig)]\<rparr>"

end
