(* ===== verification/Kern_Proc.thy ===== *)
theory Kern_Proc
  imports Kern_State
begin

text \<open>
  The process half of \<^verbatim>\<open>enforcer_kern.c\<close>: the per-cgroup counter, the limit check and
  the two programs attached to \<^verbatim>\<open>kernel_clone\<close> and \<^verbatim>\<open>do_exit\<close>.
\<close>

section \<open>Counting per cgroup\<close>

definition record_proc_cgroup_inc :: "helpers \<Rightarrow> u64 \<Rightarrow> kstate \<Rightarrow> kstate" where
  [kern_defs]: "record_proc_cgroup_inc h cgid s =
     (case proc_cgroup_counter s cgid of
        None \<Rightarrow> s\<lparr>proc_cgroup_counter := h_lru_update h (proc_cgroup_counter s) cgid 1\<rparr>
      | Some cg_count \<Rightarrow>
          s\<lparr>proc_cgroup_counter := (proc_cgroup_counter s)(cgid \<mapsto> cg_count + 1)\<rparr>)"

definition record_proc_cgroup_dec :: "u64 \<Rightarrow> kstate \<Rightarrow> kstate" where
  [kern_defs]: "record_proc_cgroup_dec cgid s =
     (case proc_cgroup_counter s cgid of
        None \<Rightarrow> s
      | Some cg_count \<Rightarrow>
          if 0 < cg_count
          then s\<lparr>proc_cgroup_counter := (proc_cgroup_counter s)(cgid \<mapsto> cg_count - 1)\<rparr>
          else s)"

section \<open>The limit check\<close>

text \<open>
  \<^verbatim>\<open>over_proc_limit\<close>, statement by statement. \<open>lease\<close> is the entry of
  \<^verbatim>\<open>proc_ns_counter\<close> the pointer stands for; every write through the pointer is in the state
  that is returned. The result is the C return value: 0 admitted (or not limited), 1 over the
  limit and the caller is the top consumer, 2 over the limit and another cgroup is.
\<close>

definition over_proc_limit :: "helpers \<Rightarrow> kstate \<Rightarrow> int \<times> kstate" where
  [kern_defs]: "over_proc_limit h s =
     (let cgid = h_cgid h in
      case proc_cgroup s cgid of
        None \<Rightarrow> (0, s)
      | Some ns_key \<Rightarrow>
     (let s = record_proc_cgroup_inc h cgid s in
      case proc_ns_limit s ns_key of
        None \<Rightarrow> (0, s)
      | Some limit \<Rightarrow>
      if limit = 0 then (0, s) else
     (case proc_ns_counter s ns_key of
        None \<Rightarrow> (0, s)
      | Some lease \<Rightarrow>
     (let lease =
        (case proc_cgroup_counter s cgid of
           None \<Rightarrow> lease
         | Some cg_count \<Rightarrow>
             if cl_top_count lease < cg_count
             then lease\<lparr>cl_top_cgid := cgid, cl_top_count := cg_count\<rparr>
             else lease);
          lease = lease\<lparr>cl_last_used_ns := h_ktime_used h\<rparr>;
          store = (\<lambda>lease s. s\<lparr>proc_ns_counter := (proc_ns_counter s)(ns_key \<mapsto> lease)\<rparr>);
          breach = (\<lambda>lease.
            let s = emit_breach_event h ns_key cgid (cl_top_cgid lease) REASON_PROC (store lease s)
            in if cgid = cl_top_cgid lease then (1, s) else (2, s));
          admit = (\<lambda>lease. (0, store (lease\<lparr>cl_count := cl_count lease + 1\<rparr>) s))
      in
      if limit \<le> cl_count lease then breach lease
      else if cl_lease_budget lease \<le> cl_count lease then
       (let step = limit div 10;
            step = (if step < 10 then 10 else step);
            step = (if 100 < step then 100 else step);
            lease =
              (if cl_lease_budget lease + step \<le> limit
               then lease\<lparr>cl_lease_budget := cl_lease_budget lease + step\<rparr>
               else lease\<lparr>cl_lease_budget := limit\<rparr>)
        in if cl_lease_budget lease \<le> cl_count lease then breach lease else admit lease)
      else admit lease))))"

section \<open>The programs\<close>

text \<open>\<^verbatim>\<open>track_clone\<close>, on entry to \<^verbatim>\<open>kernel_clone\<close>. It always returns 0.\<close>

definition track_clone :: "helpers \<Rightarrow> kstate \<Rightarrow> kstate" where
  [kern_defs]: "track_clone h s =
     (let (ret, s) = over_proc_limit h s in if ret = 1 then bpf_send_signal h 9 s else s)"

text \<open>\<^verbatim>\<open>track_exit\<close>, on entry to \<^verbatim>\<open>do_exit\<close>.\<close>

definition track_exit :: "helpers \<Rightarrow> kstate \<Rightarrow> kstate" where
  [kern_defs]: "track_exit h s =
     (let cgid = h_cgid h;
          s = record_proc_cgroup_dec cgid s in
      case proc_cgroup s cgid of
        None \<Rightarrow> s
      | Some ns_key \<Rightarrow>
     (case proc_ns_counter s ns_key of
        None \<Rightarrow> s
      | Some lease \<Rightarrow>
          if 0 < cl_count lease
          then s\<lparr>proc_ns_counter := (proc_ns_counter s)(ns_key \<mapsto>
                  lease\<lparr>cl_count := cl_count lease - 1, cl_last_used_ns := h_ktime_used h\<rparr>)\<rparr>
          else s))"

end
