(* ===== verification/Lease_Core.thy ===== *)
theory Lease_Core
  imports Kern_State
begin

text \<open>
  The part of the limit check that works on one lease: the budget step, the growth of the
  budget, the top consumer and the verdict. The C source writes it twice (once per resource);
  here it is named once, and the view theory shows that both C functions are built from it.
\<close>

section \<open>Budget step\<close>

definition budget_step :: "u64 \<Rightarrow> u64" where
  "budget_step limit =
     (let step = limit div 10;
          step = (if step < 10 then 10 else step)
      in if 100 < step then 100 else step)"

lemma unat_budget_step: "unat (budget_step limit) = max 10 (min 100 (unat limit div 10))"
proof -
  have "unat (limit div 10) = unat limit div 10" by (simp add: unat_div)
  then show ?thesis by (auto simp: budget_step_def Let_def word_less_nat_alt)
qed

lemma budget_step_bounds: "10 \<le> unat (budget_step limit)" "unat (budget_step limit) \<le> 100"
  by (simp_all add: unat_budget_step)

section \<open>Growing the budget\<close>

definition grow_budget :: "u64 \<Rightarrow> cpu_lease \<Rightarrow> cpu_lease" where
  "grow_budget limit lease =
     (if cl_lease_budget lease + budget_step limit \<le> limit
      then lease\<lparr>cl_lease_budget := cl_lease_budget lease + budget_step limit\<rparr>
      else lease\<lparr>cl_lease_budget := limit\<rparr>)"

lemma grow_budget_fields [lease_simps]:
  "cl_count (grow_budget limit lease) = cl_count lease"
  "cl_top_cgid (grow_budget limit lease) = cl_top_cgid lease"
  "cl_top_count (grow_budget limit lease) = cl_top_count lease"
  "cl_last_used_ns (grow_budget limit lease) = cl_last_used_ns lease"
  by (simp_all add: grow_budget_def)

text \<open>The largest limit an \<^verbatim>\<open>int64\<close> quota can ask for.\<close>

definition max_limit :: u64 where
  "max_limit = 0x7FFFFFFFFFFFFFFF"

lemma unat_max_limit: "unat max_limit = 9223372036854775807"
  by (simp add: max_limit_def)

lemma grow_budget_exact:
  assumes "cl_lease_budget lease \<le> limit" "limit \<le> max_limit"
  shows "unat (cl_lease_budget (grow_budget limit lease)) =
           min (unat limit) (unat (cl_lease_budget lease) + unat (budget_step limit))"
proof -
  have "unat (cl_lease_budget lease) \<le> unat limit" "unat limit \<le> 9223372036854775807"
    using assms by (simp_all add: word_le_nat_alt unat_max_limit)
  moreover have "unat (budget_step limit) \<le> 100" by (rule budget_step_bounds)
  ultimately have "unat (cl_lease_budget lease + budget_step limit) =
      unat (cl_lease_budget lease) + unat (budget_step limit)"
    by (intro unat_add_below) simp
  then show ?thesis by (auto simp: grow_budget_def word_le_nat_alt)
qed

lemma grow_budget_le: "cl_lease_budget (grow_budget limit lease) \<le> limit"
  by (simp add: grow_budget_def)

lemma grow_budget_above:
  assumes "cl_lease_budget lease \<le> limit" "limit \<le> max_limit"
    and "cl_count lease \<le> cl_lease_budget lease" "cl_count lease < limit"
  shows "cl_count lease < cl_lease_budget (grow_budget limit lease)"
  using assms(3,4) grow_budget_exact [OF assms(1,2)] budget_step_bounds(1) [of limit]
  by (simp add: word_less_nat_alt word_le_nat_alt)

section \<open>Top consumer\<close>

definition note_top :: "u64 \<Rightarrow> u64 option \<Rightarrow> cpu_lease \<Rightarrow> cpu_lease" where
  "note_top cgid cnt lease =
     (case cnt of
        None \<Rightarrow> lease
      | Some c \<Rightarrow>
          if cl_top_count lease < c
          then lease\<lparr>cl_top_cgid := cgid, cl_top_count := c\<rparr> else lease)"

lemma note_top_fields [lease_simps]:
  "cl_count (note_top cgid cnt lease) = cl_count lease"
  "cl_lease_budget (note_top cgid cnt lease) = cl_lease_budget lease"
  "cl_last_used_ns (note_top cgid cnt lease) = cl_last_used_ns lease"
  by (simp_all add: note_top_def split: option.split)

lemma note_top_max:
  "unat (cl_top_count (note_top cgid cnt lease)) =
     max (unat (cl_top_count lease)) (case cnt of None \<Rightarrow> 0 | Some c \<Rightarrow> unat c)"
  by (auto simp: note_top_def word_less_nat_alt max_def split: option.split)

lemma note_top_mono: "cl_top_count lease \<le> cl_top_count (note_top cgid cnt lease)"
  by (simp add: word_le_nat_alt note_top_max)

section \<open>The verdict\<close>

text \<open>
  \<open>lease_charge\<close>: whether one more object is admitted, and the lease after it. A lease that
  has run out of budget grows its budget once and looks again.
\<close>

datatype verdict = Admit | Breach

definition lease_charge :: "u64 \<Rightarrow> cpu_lease \<Rightarrow> verdict \<times> cpu_lease" where
  "lease_charge limit lease =
     (if limit \<le> cl_count lease then (Breach, lease)
      else if cl_lease_budget lease \<le> cl_count lease then
        (let lease = grow_budget limit lease in
         if cl_lease_budget lease \<le> cl_count lease then (Breach, lease)
         else (Admit, lease\<lparr>cl_count := cl_count lease + 1\<rparr>))
      else (Admit, lease\<lparr>cl_count := cl_count lease + 1\<rparr>))"

definition lease_discharge :: "u64 \<Rightarrow> cpu_lease \<Rightarrow> cpu_lease" where
  "lease_discharge now lease =
     (if 0 < cl_count lease
      then lease\<lparr>cl_count := cl_count lease - 1, cl_last_used_ns := now\<rparr> else lease)"

text \<open>
  Well-formed leases: the count is within the budget, the budget within the limit, and the
  limit is one an \<^verbatim>\<open>int64\<close> can hold.
\<close>

definition lease_wf :: "u64 \<Rightarrow> cpu_lease \<Rightarrow> bool" where
  "lease_wf limit lease \<longleftrightarrow>
     cl_count lease \<le> cl_lease_budget lease \<and> cl_lease_budget lease \<le> limit \<and>
     limit \<le> max_limit"

lemma lease_charge_kept [lease_simps]:
  "cl_last_used_ns (snd (lease_charge limit lease)) = cl_last_used_ns lease"
  "cl_top_cgid (snd (lease_charge limit lease)) = cl_top_cgid lease"
  "cl_top_count (snd (lease_charge limit lease)) = cl_top_count lease"
  by (simp_all add: lease_charge_def Let_def lease_simps)

text \<open>On a well-formed lease the two-stage check is the plain comparison with the limit.\<close>

lemma lease_charge_verdict:
  assumes "lease_wf limit lease"
  shows "fst (lease_charge limit lease) = (if cl_count lease < limit then Admit else Breach)"
proof (cases "cl_count lease < limit")
  case True
  with assms grow_budget_above [of lease limit] show ?thesis
    by (auto simp: lease_wf_def lease_charge_def Let_def lease_simps not_le)
qed (simp add: lease_charge_def not_less)

lemma lease_charge_count:
  "cl_count (snd (lease_charge limit lease)) =
     (if fst (lease_charge limit lease) = Admit then cl_count lease + 1 else cl_count lease)"
  by (simp add: lease_charge_def Let_def lease_simps)

lemma lease_charge_admit_below:
  "fst (lease_charge limit lease) = Admit \<Longrightarrow> cl_count lease < limit"
  by (auto simp: lease_charge_def split: if_splits)

lemma lease_charge_unat:
  assumes "fst (lease_charge limit lease) = Admit"
  shows "unat (cl_count (snd (lease_charge limit lease))) = Suc (unat (cl_count lease))"
  using assms unat_Suc_below [OF lease_charge_admit_below [OF assms]]
  by (simp add: lease_charge_count)

lemma inc_le: "x < y \<Longrightarrow> x + 1 \<le> y" for x y :: u64
  using unat_Suc_below [of x y] by (simp add: word_less_nat_alt word_le_nat_alt)

lemma lease_charge_wf:
  assumes "lease_wf limit lease"
  shows "lease_wf limit (snd (lease_charge limit lease))"
  using assms grow_budget_above [of lease limit] grow_budget_le [of limit lease]
  by (auto simp: lease_wf_def lease_charge_def Let_def lease_simps not_less not_le intro: inc_le)

lemma lease_discharge_fields [lease_simps]:
  "cl_lease_budget (lease_discharge now lease) = cl_lease_budget lease"
  "cl_top_cgid (lease_discharge now lease) = cl_top_cgid lease"
  "cl_top_count (lease_discharge now lease) = cl_top_count lease"
  by (simp_all add: lease_discharge_def)

lemma lease_discharge_unat: "unat (cl_count (lease_discharge now lease)) = unat (cl_count lease) - 1"
  by (cases "cl_count lease = 0") (simp_all add: lease_discharge_def unat_pred_pos word_neq_0_conv)

lemma lease_discharge_wf: "lease_wf limit lease \<Longrightarrow> lease_wf limit (lease_discharge now lease)"
  using lease_discharge_unat [of now lease]
  by (auto simp: lease_wf_def lease_simps word_le_nat_alt)

end
