(* ===== verification/Quota_View.thy ===== *)
theory Quota_View
  imports Kern_Proc Kern_Fd Lease_Core
begin

text \<open>
  The two halves of the enforcer seen as one. A \<open>quota\<close> holds the four maps of one
  resource; \<open>charge\<close> and \<open>discharge\<close> are the two operations on it. The lemmas at the end
  show that the C functions of both halves are these operations on their own four maps.
\<close>

section \<open>One resource\<close>

record quota =
  q_cgroup :: "u64 \<rightharpoonup> u64"
  q_counter :: "u64 \<rightharpoonup> u64"
  q_limit :: "u64 \<rightharpoonup> u64"
  q_lease :: "u64 \<rightharpoonup> cpu_lease"

definition fd_view :: "kstate \<Rightarrow> quota" where
  "fd_view s = \<lparr>q_cgroup = fd_cgroup s, q_counter = fd_cgroup_counter s,
                q_limit = fd_ns_limit s, q_lease = fd_ns_counter s\<rparr>"

definition proc_view :: "kstate \<Rightarrow> quota" where
  "proc_view s = \<lparr>q_cgroup = proc_cgroup s, q_counter = proc_cgroup_counter s,
                  q_limit = proc_ns_limit s, q_lease = proc_ns_counter s\<rparr>"

definition fd_put :: "quota \<Rightarrow> kstate \<Rightarrow> kstate" where
  "fd_put q s = s\<lparr>fd_cgroup := q_cgroup q, fd_cgroup_counter := q_counter q,
                  fd_ns_limit := q_limit q, fd_ns_counter := q_lease q\<rparr>"

definition proc_put :: "quota \<Rightarrow> kstate \<Rightarrow> kstate" where
  "proc_put q s = s\<lparr>proc_cgroup := q_cgroup q, proc_cgroup_counter := q_counter q,
                    proc_ns_limit := q_limit q, proc_ns_counter := q_lease q\<rparr>"

definition log_events :: "breach_event list \<Rightarrow> kstate \<Rightarrow> kstate" where
  "log_events es s = s\<lparr>events := events s @ es\<rparr>"

definition log_signals :: "(u64 \<times> nat) list \<Rightarrow> kstate \<Rightarrow> kstate" where
  "log_signals gs s = s\<lparr>signals := signals s @ gs\<rparr>"

lemmas view_defs = fd_view_def proc_view_def fd_put_def proc_put_def log_events_def log_signals_def

lemma view_laws [view_simps]:
  "fd_view (fd_put q s) = q" "proc_view (proc_put q s) = q"
  "fd_view (proc_put q s) = fd_view s" "proc_view (fd_put q s) = proc_view s"
  "fd_view (log_events es s) = fd_view s" "proc_view (log_events es s) = proc_view s"
  "fd_view (log_signals gs s) = fd_view s" "proc_view (log_signals gs s) = proc_view s"
  "fd_put (fd_view s) s = s" "proc_put (proc_view s) s = s"
  by (simp_all add: view_defs)

lemma log_laws [view_simps]:
  "events (fd_put q s) = events s" "events (proc_put q s) = events s"
  "signals (fd_put q s) = signals s" "signals (proc_put q s) = signals s"
  "events (log_events es s) = events s @ es" "signals (log_events es s) = signals s"
  "events (log_signals gs s) = events s" "signals (log_signals gs s) = signals s @ gs"
  "log_events [] s = s" "log_signals [] s = s"
  by (simp_all add: view_defs)

section \<open>Charging and discharging one resource\<close>

definition count_inc :: "helpers \<Rightarrow> u64 \<Rightarrow> quota \<Rightarrow> quota" where
  "count_inc h cgid q =
     (case q_counter q cgid of
        None \<Rightarrow> q\<lparr>q_counter := h_lru_update h (q_counter q) cgid 1\<rparr>
      | Some c \<Rightarrow> q\<lparr>q_counter := (q_counter q)(cgid \<mapsto> c + 1)\<rparr>)"

definition count_dec :: "u64 \<Rightarrow> quota \<Rightarrow> quota" where
  "count_dec cgid q =
     (case q_counter q cgid of
        None \<Rightarrow> q
      | Some c \<Rightarrow> if 0 < c then q\<lparr>q_counter := (q_counter q)(cgid \<mapsto> c - 1)\<rparr> else q)"

text \<open>The limit and the lease of a namespace whose count is limited at all.\<close>

definition limited :: "quota \<Rightarrow> u64 \<Rightarrow> (u64 \<times> cpu_lease) option" where
  "limited q ns =
     (case q_limit q ns of
        None \<Rightarrow> None
      | Some limit \<Rightarrow> if limit = 0 then None else map_option (Pair limit) (q_lease q ns))"

definition breach_events :: "helpers \<Rightarrow> breach_reason \<Rightarrow> u64 \<Rightarrow> u64 \<Rightarrow> breach_event list" where
  "breach_events h reason ns tc =
     (if h_reserve_ok h then
        [\<lparr>be_ns_key = ns, be_cgid = h_cgid h, be_pid = ucast (drop_bit 32 (h_pid_tgid h)),
          be_reason = reason_code reason, be_timestamp = h_ktime_event h, be_top_cgid = tc\<rparr>]
      else [])"

definition touch :: "helpers \<Rightarrow> quota \<Rightarrow> cpu_lease \<Rightarrow> cpu_lease" where
  "touch h q lease =
     (note_top (h_cgid h) (q_counter q (h_cgid h)) lease)\<lparr>cl_last_used_ns := h_ktime_used h\<rparr>"

lemma touch_fields [lease_simps]:
  "cl_count (touch h q lease) = cl_count lease"
  "cl_lease_budget (touch h q lease) = cl_lease_budget lease"
  "cl_top_count lease \<le> cl_top_count (touch h q lease)"
  by (simp_all add: touch_def lease_simps note_top_mono)

lemma touch_wf [simp]: "lease_wf limit (touch h q lease) = lease_wf limit lease"
  by (simp add: lease_wf_def lease_simps)

definition charge ::
  "helpers \<Rightarrow> breach_reason \<Rightarrow> quota \<Rightarrow> int \<times> quota \<times> breach_event list" where
  "charge h reason q =
     (case q_cgroup q (h_cgid h) of
        None \<Rightarrow> (0, q, [])
      | Some ns \<Rightarrow>
     (let q = count_inc h (h_cgid h) q in
      case limited q ns of
        None \<Rightarrow> (0, q, [])
      | Some (limit, lease) \<Rightarrow>
     (let (v, lease) = lease_charge limit (touch h q lease);
          q = q\<lparr>q_lease := (q_lease q)(ns \<mapsto> lease)\<rparr>
      in case v of
           Admit \<Rightarrow> (0, q, [])
         | Breach \<Rightarrow> (if h_cgid h = cl_top_cgid lease then 1 else 2, q,
                      breach_events h reason ns (cl_top_cgid lease)))))"

definition discharge :: "helpers \<Rightarrow> quota \<Rightarrow> quota" where
  "discharge h q =
     (let q = count_dec (h_cgid h) q in
      case q_cgroup q (h_cgid h) of
        None \<Rightarrow> q
      | Some ns \<Rightarrow>
     (case q_lease q ns of
        None \<Rightarrow> q
      | Some lease \<Rightarrow> q\<lparr>q_lease := (q_lease q)(ns \<mapsto> lease_discharge (h_ktime_used h) lease)\<rparr>))"

section \<open>The C functions are these operations\<close>

lemma over_limit_view:
  "over_limit h s =
     (case charge h REASON_FD (fd_view s) of (r, q, es) \<Rightarrow> (r, log_events es (fd_put q s)))"
  by (simp add: kern_defs charge_def view_defs limited_def count_inc_def touch_def note_top_def
      lease_charge_def grow_budget_def budget_step_def breach_events_def Let_def
      split: option.split)

lemma over_proc_limit_view:
  "over_proc_limit h s =
     (case charge h REASON_PROC (proc_view s) of (r, q, es) \<Rightarrow> (r, log_events es (proc_put q s)))"
  by (simp add: kern_defs charge_def view_defs limited_def count_inc_def touch_def note_top_def
      lease_charge_def grow_budget_def budget_step_def breach_events_def Let_def
      split: option.split)

lemma track_exit_view: "track_exit h s = proc_put (discharge h (proc_view s)) s"
  by (simp add: kern_defs discharge_def view_defs count_dec_def lease_discharge_def Let_def map_upd_triv
      split: option.split)

lemma track_close_fd_view:
  "track_close_fd h file s =
     (case file of
        None \<Rightarrow> s
      | Some f_count \<Rightarrow> if 1 < sint f_count then s else fd_put (discharge h (fd_view s)) s)"
  by (simp add: kern_defs discharge_def view_defs count_dec_def lease_discharge_def Let_def
      word_neq_0_conv map_upd_triv split: option.split)

end
