(* ===== verification/Quota_Spec.thy ===== *)
theory Quota_Spec
  imports Quota_View
begin

text \<open>
  What the limit check promises: a pool of counted objects per namespace. The abstract
  operations, the abstraction from the four maps of a resource, and the simulation.
\<close>

section \<open>The abstract pool\<close>

text \<open>For every limited namespace, its limit and the number of objects counted against it.\<close>

type_synonym pool = "u64 \<rightharpoonup> nat \<times> nat"

definition acquire :: "u64 option \<Rightarrow> pool \<Rightarrow> bool \<times> pool" where
  "acquire ns p =
     (case Option.bind ns p of
        None \<Rightarrow> (True, p)
      | Some (limit, n) \<Rightarrow>
          if n < limit then (True, p(the ns \<mapsto> (limit, Suc n))) else (False, p))"

definition give_back :: "u64 option \<Rightarrow> pool \<Rightarrow> pool" where
  "give_back ns p =
     (case Option.bind ns p of
        None \<Rightarrow> p
      | Some (limit, n) \<Rightarrow> p(the ns \<mapsto> (limit, n - 1)))"

definition within :: "pool \<Rightarrow> bool" where
  "within p \<longleftrightarrow> (\<forall>ns limit n. p ns = Some (limit, n) \<longrightarrow> n \<le> limit)"

lemma within_acquire: "within p \<Longrightarrow> within (snd (acquire ns p))"
  by (auto simp: within_def acquire_def bind_eq_Some_conv split: option.split)

lemma within_give_back: "within p \<Longrightarrow> within (give_back ns p)"
proof (cases "Option.bind ns p")
  case (Some ln)
  then obtain k limit n where "ns = Some k" "ln = (limit, n)" "p k = Some (limit, n)"
    by (cases ln) (auto simp: bind_eq_Some_conv)
  moreover assume "within p"
  ultimately show ?thesis
    by (auto simp: within_def give_back_def intro: le_trans [OF diff_le_self])
qed (simp add: give_back_def)

section \<open>Abstraction and invariant\<close>

definition abs_pool :: "quota \<Rightarrow> pool" where
  "abs_pool q ns =
     map_option (\<lambda>(limit, lease). (unat limit, unat (cl_count lease))) (limited q ns)"

definition quota_wf :: "quota \<Rightarrow> bool" where
  "quota_wf q \<longleftrightarrow> (\<forall>ns limit lease. limited q ns = Some (limit, lease) \<longrightarrow> lease_wf limit lease)"

lemma quota_wfD: "quota_wf q \<Longrightarrow> limited q ns = Some (limit, lease) \<Longrightarrow> lease_wf limit lease"
  by (simp add: quota_wf_def)

lemma quota_wf_within: "quota_wf q \<Longrightarrow> within (abs_pool q)"
  by (fastforce simp: quota_wf_def within_def abs_pool_def lease_wf_def word_le_nat_alt)

section \<open>How the operations change a quota\<close>

lemma count_inc_maps [view_simps]:
  "q_cgroup (count_inc h cgid q) = q_cgroup q" "q_limit (count_inc h cgid q) = q_limit q"
  "q_lease (count_inc h cgid q) = q_lease q"
  by (simp_all add: count_inc_def split: option.split)

lemma count_dec_maps [view_simps]:
  "q_cgroup (count_dec cgid q) = q_cgroup q" "q_limit (count_dec cgid q) = q_limit q"
  "q_lease (count_dec cgid q) = q_lease q"
  by (simp_all add: count_dec_def split: option.split)

lemma limited_cong: "q_limit q = q_limit q' \<Longrightarrow> q_lease q = q_lease q' \<Longrightarrow> limited q = limited q'"
  by (rule ext) (simp add: limited_def split: option.split)

lemma limited_count [view_simps]:
  "limited (count_inc h cgid q) = limited q" "limited (count_dec cgid q) = limited q"
  by (rule limited_cong; simp add: view_simps)+

lemma limited_store [view_simps]:
  "limited (q\<lparr>q_lease := (q_lease q)(ns \<mapsto> lease)\<rparr>) ns' =
     (if ns' = ns
      then (case q_limit q ns of None \<Rightarrow> None
            | Some limit \<Rightarrow> if limit = 0 then None else Some (limit, lease))
      else limited q ns')"
  by (simp add: limited_def split: option.split)

lemma limited_Some_limit:
  "limited q ns = Some (limit, lease) \<longleftrightarrow>
     q_limit q ns = Some limit \<and> limit \<noteq> 0 \<and> q_lease q ns = Some lease"
  by (auto simp: limited_def split: option.splits if_splits)

text \<open>The three ways through \<open>charge\<close>: not limited, admitted, or a breach.\<close>

lemma charge_unlimited:
  "Option.bind (q_cgroup q (h_cgid h)) (limited q) = None \<Longrightarrow>
   charge h reason q =
     (0, if q_cgroup q (h_cgid h) = None then q else count_inc h (h_cgid h) q, [])"
  by (auto simp: charge_def view_simps split: option.splits)

lemma charge_limited:
  assumes "q_cgroup q (h_cgid h) = Some ns" "limited q ns = Some (limit, lease)"
    and "lease_charge limit (touch h (count_inc h (h_cgid h) q) lease) = (v, lease')"
  shows "charge h reason q =
    (let q' = (count_inc h (h_cgid h) q)\<lparr>q_lease := (q_lease q)(ns \<mapsto> lease')\<rparr> in
     case v of
       Admit \<Rightarrow> (0, q', [])
     | Breach \<Rightarrow> (if h_cgid h = cl_top_cgid lease' then 1 else 2, q',
                  breach_events h reason ns (cl_top_cgid lease')))"
  by (simp add: charge_def assms limited_count count_inc_maps Let_def)

lemma charge_cases [case_names unlimited limited]:
  obtains
    "Option.bind (q_cgroup q (h_cgid h)) (limited q) = None"
  | ns limit lease v lease' where
    "q_cgroup q (h_cgid h) = Some ns" "limited q ns = Some (limit, lease)"
    "lease_charge limit (touch h (count_inc h (h_cgid h) q) lease) = (v, lease')"
proof (cases "Option.bind (q_cgroup q (h_cgid h)) (limited q)")
  case None
  then show ?thesis by (rule that(1))
next
  case (Some p)
  then obtain ns where "q_cgroup q (h_cgid h) = Some ns" "limited q ns = Some (fst p, snd p)"
    by (auto simp: bind_eq_Some_conv)
  then show ?thesis by (rule that(2)) (rule surjective_pairing)
qed

section \<open>What charging does\<close>

lemma charge_frame:
  assumes "charge h reason q = (r, q', es)"
  shows "q_cgroup q' = q_cgroup q" "q_limit q' = q_limit q"
    and "q_cgroup q (h_cgid h) \<noteq> Some ns \<Longrightarrow> q_lease q' ns = q_lease q ns"
  using assms
  by (cases h q rule: charge_cases;
      auto simp: charge_unlimited charge_limited view_simps Let_def split: verdict.splits if_splits)+

lemma charge_ret: "charge h reason q = (r, q', es) \<Longrightarrow> r = 0 \<or> r = 1 \<or> r = 2"
  by (cases h q rule: charge_cases)
    (auto simp: charge_unlimited charge_limited Let_def split: verdict.splits if_splits)

lemma touch_charge_wf:
  assumes "lease_wf limit lease" "lease_charge limit (touch h q lease) = (v, lease')"
  shows "lease_wf limit lease'" "v = (if cl_count lease < limit then Admit else Breach)"
    "cl_count lease' = (if cl_count lease < limit then cl_count lease + 1 else cl_count lease)"
  using lease_charge_wf [of limit "touch h q lease"] lease_charge_verdict [of limit "touch h q lease"]
    lease_charge_count [of limit "touch h q lease"] assms
  by (auto simp: lease_simps)

lemma charge_wf:
  assumes "quota_wf q" "charge h reason q = (r, q', es)"
  shows "quota_wf q'"
proof (cases h q rule: charge_cases)
  case unlimited
  with assms show ?thesis
    by (auto simp: charge_unlimited quota_wf_def view_simps split: if_splits)
next
  case (limited ns limit lease v lease')
  with assms(1) have "lease_wf limit lease'"
    by (blast intro: touch_charge_wf(1) quota_wfD)
  moreover have "q' = (count_inc h (h_cgid h) q)\<lparr>q_lease := (q_lease q)(ns \<mapsto> lease')\<rparr>"
    using assms(2) charge_limited [OF limited] by (auto simp: Let_def split: verdict.splits)
  ultimately show ?thesis
    using assms(1) limited(2)
    by (auto simp: quota_wf_def limited_Some_limit view_simps split: if_splits)
qed

text \<open>The simulation: on a well-formed quota, charging is acquiring from the abstract pool.\<close>

lemma charge_abs:
  assumes "quota_wf q" "charge h reason q = (r, q', es)"
  shows "acquire (q_cgroup q (h_cgid h)) (abs_pool q) = (r = 0, abs_pool q')"
proof (cases h q rule: charge_cases)
  case unlimited
  with assms(2) show ?thesis
    by (auto simp: charge_unlimited acquire_def abs_pool_def fun_eq_iff view_simps
        bind_eq_None_conv split: option.splits if_splits)
next
  case (limited ns limit lease v lease')
  note wf = touch_charge_wf [OF quota_wfD [OF assms(1) limited(2)] limited(3)]
  have q': "q' = (count_inc h (h_cgid h) q)\<lparr>q_lease := (q_lease q)(ns \<mapsto> lease')\<rparr>"
    and r: "r = 0 \<longleftrightarrow> v = Admit"
    using assms(2) charge_limited [OF limited] by (auto simp: Let_def split: verdict.splits if_splits)
  have "limited q' = (limited q)(ns \<mapsto> (limit, lease'))"
    using limited(2) by (auto simp: q' fun_eq_iff limited_def view_simps split: option.splits)
  then have "abs_pool q' = (abs_pool q)(ns \<mapsto> (unat limit, unat (cl_count lease')))"
    by (simp add: abs_pool_def fun_eq_iff)
  then show ?thesis
    using limited(1,2) r wf(2,3) unat_Suc_below [of "cl_count lease" limit]
    by (auto simp: acquire_def abs_pool_def word_less_nat_alt fun_eq_iff)
qed

text \<open>On a well-formed lease the outcome of a charge, and the lease it leaves, in full.\<close>

lemma charge_step:
  assumes "q_cgroup q (h_cgid h) = Some ns" "limited q ns = Some (limit, lease)" "lease_wf limit lease"
  shows "\<exists>lease'. charge h reason q =
      (if cl_count lease < limit then 0 else if h_cgid h = cl_top_cgid lease' then 1 else 2,
       (count_inc h (h_cgid h) q)\<lparr>q_lease := (q_lease q)(ns \<mapsto> lease')\<rparr>,
       if cl_count lease < limit then [] else breach_events h reason ns (cl_top_cgid lease')) \<and>
     lease_wf limit lease' \<and>
     unat (cl_count lease') = (if cl_count lease < limit then Suc (unat (cl_count lease)) else unat (cl_count lease)) \<and>
     cl_last_used_ns lease' = h_ktime_used h"
proof -
  obtain v lease' where v:
    "lease_charge limit (touch h (count_inc h (h_cgid h) q) lease) = (v, lease')"
    by (cases "lease_charge limit (touch h (count_inc h (h_cgid h) q) lease)")
  have "cl_last_used_ns lease' = h_ktime_used h"
    using lease_charge_kept(1) [of limit "touch h (count_inc h (h_cgid h) q) lease"] v
    by (simp add: touch_def)
  then show ?thesis
    using charge_limited [OF assms(1,2) v, of reason] touch_charge_wf [OF assms(3) v] unat_Suc_below
    by (intro exI [of _ lease']) (auto simp: Let_def)
qed
section \<open>What discharging does\<close>

lemma discharge_frame:
  "q_cgroup (discharge h q) = q_cgroup q" "q_limit (discharge h q) = q_limit q"
  "q_cgroup q (h_cgid h) \<noteq> Some ns \<Longrightarrow> q_lease (discharge h q) ns = q_lease q ns"
  by (auto simp: discharge_def view_simps Let_def split: option.split)

lemma discharge_limited:
  "limited (discharge h q) ns =
     map_option (\<lambda>(limit, lease). (limit,
       if q_cgroup q (h_cgid h) = Some ns then lease_discharge (h_ktime_used h) lease else lease))
       (limited q ns)"
  by (cases "q_lease q ns"; cases "q_cgroup q (h_cgid h)")
    (auto simp: discharge_def view_simps Let_def limited_def split: option.split)

lemma discharge_wf: "quota_wf q \<Longrightarrow> quota_wf (discharge h q)"
  by (auto simp: quota_wf_def discharge_limited intro: lease_discharge_wf split: if_splits)

lemma discharge_abs: "abs_pool (discharge h q) = give_back (q_cgroup q (h_cgid h)) (abs_pool q)"
proof (rule ext)
  fix ns
  show "abs_pool (discharge h q) ns = give_back (q_cgroup q (h_cgid h)) (abs_pool q) ns"
    by (cases "limited q ns"; cases "q_cgroup q (h_cgid h)")
      (auto simp: abs_pool_def give_back_def discharge_limited lease_discharge_unat
        split: option.split)
qed

end
