(* ===== verification/Enforcer.thy ===== *)
theory Enforcer
  imports Quota_Spec
begin

text \<open>
  The interface of one half of the enforcer, as a locale: a limit check, a program that kills
  on its verdict, and a release, all built on one resource's four maps and nothing else. Its
  lemmas are proved once and interpreted for file descriptors and for processes.
\<close>

locale resource_enforcer =
  fixes over :: "helpers \<Rightarrow> kstate \<Rightarrow> int \<times> kstate"
    and track :: "helpers \<Rightarrow> kstate \<Rightarrow> kstate"
    and release :: "helpers \<Rightarrow> kstate \<Rightarrow> kstate"
    and view :: "kstate \<Rightarrow> quota"
    and put :: "quota \<Rightarrow> kstate \<Rightarrow> kstate"
    and other :: "kstate \<Rightarrow> quota"
    and reason :: breach_reason
  assumes over_eq: "over h s =
      (case charge h reason (view s) of (r, q, es) \<Rightarrow> (r, log_events es (put q s)))"
    and track_eq: "track h s =
      (let (ret, s) = over h s in if ret = 1 then bpf_send_signal h 9 s else s)"
    and release_eq: "release h s = put (discharge h (view s)) s"
    and view_put [simp]: "view (put q s) = q"
    and other_put [simp]: "other (put q s) = other s"
    and view_log [simp]: "view (log_events es s) = view s" "view (log_signals gs s) = view s"
    and other_log [simp]: "other (log_events es s) = other s" "other (log_signals gs s) = other s"
    and logs_log [simp]: "events (log_events es s) = events s @ es"
    and logs_put [simp]: "events (put q s) = events s" "signals (put q s) = signals s"
begin

lemma over_cases:
  obtains r q es where "charge h reason (view s) = (r, q, es)"
    "over h s = (r, log_events es (put q s))" "view (snd (over h s)) = q"
  by (cases "charge h reason (view s)") (auto simp: over_eq)

lemma over_isolated: "other (snd (over h s)) = other s"
  by (simp add: over_eq split: prod.split)

lemma over_wf: "quota_wf (view s) \<Longrightarrow> quota_wf (view (snd (over h s)))"
  by (rule over_cases [of h s]) (auto intro: charge_wf)

lemma over_refines:
  "quota_wf (view s) \<Longrightarrow>
   acquire (q_cgroup (view s) (h_cgid h)) (abs_pool (view s)) =
     (fst (over h s) = 0, abs_pool (view (snd (over h s))))"
  by (rule over_cases [of h s]) (auto dest: charge_abs)

lemma over_frame:
  "q_cgroup (view (snd (over h s))) = q_cgroup (view s)"
  "q_limit (view (snd (over h s))) = q_limit (view s)"
  "q_cgroup (view s) (h_cgid h) \<noteq> Some ns \<Longrightarrow>
   q_lease (view (snd (over h s))) ns = q_lease (view s) ns"
  by (rule over_cases [of h s], auto dest: charge_frame)+

lemma over_ret: "fst (over h s) = 0 \<or> fst (over h s) = 1 \<or> fst (over h s) = 2"
  by (rule over_cases [of h s]) (auto dest: charge_ret)

lemma over_step:
  assumes "q_cgroup (view s) (h_cgid h) = Some ns" "limited (view s) ns = Some (limit, lease)"
    and "lease_wf limit lease"
  shows "\<exists>lease'. q_lease (view (snd (over h s))) = (q_lease (view s))(ns \<mapsto> lease') \<and>
     cl_last_used_ns lease' = h_ktime_used h \<and>
     (if cl_count lease < limit
      then fst (over h s) = 0 \<and> unat (cl_count lease') = Suc (unat (cl_count lease)) \<and>
           events (snd (over h s)) = events s
      else fst (over h s) = (if h_cgid h = cl_top_cgid lease' then 1 else 2) \<and>
           cl_count lease' = cl_count lease \<and>
           events (snd (over h s)) = events s @ breach_events h reason ns (cl_top_cgid lease'))"
proof -
  from charge_step [OF assms, of reason] obtain lease' where ch: "charge h reason (view s) =
      (if cl_count lease < limit then 0 else if h_cgid h = cl_top_cgid lease' then 1 else 2,
       (count_inc h (h_cgid h) (view s))\<lparr>q_lease := (q_lease (view s))(ns \<mapsto> lease')\<rparr>,
       if cl_count lease < limit then [] else breach_events h reason ns (cl_top_cgid lease'))"
    and fields: "unat (cl_count lease') =
        (if cl_count lease < limit then Suc (unat (cl_count lease)) else unat (cl_count lease))"
      "cl_last_used_ns lease' = h_ktime_used h"
    by blast
  from fields show ?thesis
    by (intro exI [of _ lease']) (simp add: over_eq ch word_unat_eq_iff)
qed

lemma over_unlimited:
  assumes "Option.bind (q_cgroup (view s) (h_cgid h)) (limited (view s)) = None"
  shows "fst (over h s) = 0" "q_lease (view (snd (over h s))) = q_lease (view s)"
    "events (snd (over h s)) = events s"
  using charge_unlimited [OF assms, of reason] by (auto simp: over_eq view_simps)

lemma track_cases:
  obtains "track h s = snd (over h s)" "fst (over h s) \<noteq> 1"
  | "track h s = log_signals [(h_pid_tgid h, 9)] (snd (over h s))" "fst (over h s) = 1"
  by (cases "over h s") (auto simp: track_eq bpf_send_signal_def log_signals_def)

lemma track_views: "view (track h s) = view (snd (over h s))" "other (track h s) = other s"
  using over_isolated [of h s] by (rule_tac [!] track_cases [of h s]) auto

lemma track_wf: "quota_wf (view s) \<Longrightarrow> quota_wf (view (track h s))"
  by (simp add: track_views over_wf)

lemma track_refines:
  "quota_wf (view s) \<Longrightarrow>
   abs_pool (view (track h s)) = snd (acquire (q_cgroup (view s) (h_cgid h)) (abs_pool (view s)))"
  by (simp add: track_views over_refines)

lemma track_signals:
  "signals (track h s) =
     signals s @ (if fst (over h s) = 1 then [(h_pid_tgid h, 9)] else [])"
proof -
  have "signals (snd (over h s)) = signals s"
    by (simp add: over_eq view_simps split: prod.split)
  then show ?thesis by (cases h s rule: track_cases) (simp_all add: view_simps)
qed

lemma release_views: "view (release h s) = discharge h (view s)" "other (release h s) = other s"
  by (simp_all add: release_eq)

lemma release_logs: "events (release h s) = events s" "signals (release h s) = signals s"
  by (simp_all add: release_eq)

lemma release_wf: "quota_wf (view s) \<Longrightarrow> quota_wf (view (release h s))"
  by (simp add: release_views discharge_wf)

lemma release_refines:
  "abs_pool (view (release h s)) = give_back (q_cgroup (view s) (h_cgid h)) (abs_pool (view s))"
  by (simp add: release_views discharge_abs)

end

section \<open>Both halves implement the interface\<close>

text \<open>A close that drops the last reference is the release of the descriptor half.\<close>

definition last_close :: "helpers \<Rightarrow> kstate \<Rightarrow> kstate" where
  "last_close h = track_close_fd h (Some 1)"

interpretation fd: resource_enforcer over_limit track_install_fd last_close
  fd_view fd_put proc_view REASON_FD
  by unfold_locales
    (simp_all add: over_limit_view track_install_fd_def track_close_fd_view last_close_def view_simps)

interpretation proc: resource_enforcer over_proc_limit track_clone track_exit
  proc_view proc_put fd_view REASON_PROC
  by unfold_locales
    (simp_all add: over_proc_limit_view track_clone_def track_exit_view view_simps)

section \<open>The four programs as steps\<close>

text \<open>
  A hook is the program that runs and what the kernel hands it; a trace is a sequence of
  invocations, each with the helpers' answers to it.
\<close>

datatype hook = Fd_install | Filp_close "64 word option" | Kernel_clone | Do_exit

fun kstep :: "helpers \<times> hook \<Rightarrow> kstate \<Rightarrow> kstate" where
  "kstep (h, Fd_install) s = track_install_fd h s"
| "kstep (h, Filp_close file) s = track_close_fd h file s"
| "kstep (h, Kernel_clone) s = track_clone h s"
| "kstep (h, Do_exit) s = track_exit h s"

definition krun :: "(helpers \<times> hook) list \<Rightarrow> kstate \<Rightarrow> kstate" where
  "krun cs s = fold kstep cs s"

lemma krun_simps [simp]: "krun [] s = s" "krun (c # cs) s = krun cs (kstep c s)"
  by (simp_all add: krun_def)

lemma krun_append: "krun (cs @ ds) s = krun ds (krun cs s)"
  by (simp add: krun_def)

text \<open>Only a close that drops the last reference does anything.\<close>

definition drops :: "64 word option \<Rightarrow> bool" where
  "drops file \<longleftrightarrow> (case file of None \<Rightarrow> False | Some f_count \<Rightarrow> sint f_count \<le> 1)"

lemma track_close_fd_drops: "track_close_fd h f s = (if drops f then last_close h s else s)"
  by (cases f) (auto simp: last_close_def track_close_fd_view drops_def)

definition kstate_wf :: "kstate \<Rightarrow> bool" where
  "kstate_wf s \<longleftrightarrow> quota_wf (fd_view s) \<and> quota_wf (proc_view s)"

lemmas enforcer_wf = fd.track_wf proc.track_wf fd.release_wf proc.release_wf
lemmas enforcer_views =
  fd.track_views(2) proc.track_views(2) fd.release_views(2) proc.release_views(2)

lemma kstep_wf: "kstate_wf s \<Longrightarrow> kstate_wf (kstep c s)"
  by (cases c; cases "snd c")
    (auto simp: kstate_wf_def enforcer_views track_close_fd_drops intro: enforcer_wf)

lemma krun_wf: "kstate_wf s \<Longrightarrow> kstate_wf (krun cs s)"
  by (induction cs arbitrary: s) (auto intro: kstep_wf)

end
