(* ===== verification/Enforcer_Run.thy ===== *)
theory Enforcer_Run
  imports Enforcer
begin

text \<open>
  Runs of the enforcer as a sequential program: each program invocation runs to its end
  before the next begins. The theory on interleavings drops that assumption.
\<close>

section \<open>Every trace refines the abstract pools\<close>

fun spec_step ::
  "(u64 \<rightharpoonup> u64) \<Rightarrow> (u64 \<rightharpoonup> u64) \<Rightarrow> helpers \<times> hook \<Rightarrow> pool \<times> pool \<Rightarrow> pool \<times> pool" where
  "spec_step fds procs (h, Fd_install) (pf, pp) = (snd (acquire (fds (h_cgid h)) pf), pp)"
| "spec_step fds procs (h, Filp_close file) (pf, pp) =
     (if drops file then give_back (fds (h_cgid h)) pf else pf, pp)"
| "spec_step fds procs (h, Kernel_clone) (pf, pp) = (pf, snd (acquire (procs (h_cgid h)) pp))"
| "spec_step fds procs (h, Do_exit) (pf, pp) = (pf, give_back (procs (h_cgid h)) pp)"

definition pools :: "kstate \<Rightarrow> pool \<times> pool" where
  "pools s = (abs_pool (fd_view s), abs_pool (proc_view s))"

lemma view_cgroup [simp]: "q_cgroup (fd_view s) = fd_cgroup s" "q_cgroup (proc_view s) = proc_cgroup s"
  by (simp_all add: view_defs)

lemma view_limit [simp]: "q_limit (fd_view s) = fd_ns_limit s" "q_limit (proc_view s) = proc_ns_limit s"
  by (simp_all add: view_defs)

lemma view_lease [simp]: "q_lease (fd_view s) = fd_ns_counter s" "q_lease (proc_view s) = proc_ns_counter s"
  by (simp_all add: view_defs)

lemma view_counter [simp]:
  "q_counter (fd_view s) = fd_cgroup_counter s" "q_counter (proc_view s) = proc_cgroup_counter s"
  by (simp_all add: view_defs)

lemma kstep_refines:
  "kstate_wf s \<Longrightarrow> pools (kstep c s) = spec_step (fd_cgroup s) (proc_cgroup s) c (pools s)"
  by (cases c; cases "snd c")
    (simp_all add: kstate_wf_def pools_def enforcer_views track_close_fd_drops
      fd.track_refines proc.track_refines fd.release_refines proc.release_refines)

lemma track_cgroup:
  "q_cgroup (fd_view (track_install_fd h s)) = q_cgroup (fd_view s)"
  "q_cgroup (proc_view (track_clone h s)) = q_cgroup (proc_view s)"
  by (simp_all only: fd.track_views proc.track_views fd.over_frame proc.over_frame)

lemma release_cgroup:
  "q_cgroup (fd_view (last_close h s)) = q_cgroup (fd_view s)"
  "q_cgroup (proc_view (track_exit h s)) = q_cgroup (proc_view s)"
  by (simp_all only: fd.release_views proc.release_views discharge_frame)

lemma kstep_cgroups: "fd_cgroup (kstep c s) = fd_cgroup s" "proc_cgroup (kstep c s) = proc_cgroup s"
proof -
  have "q_cgroup (fd_view (kstep c s)) = q_cgroup (fd_view s)"
    by (cases c; cases "snd c")
      (simp_all only: kstep.simps snd_conv track_cgroup release_cgroup enforcer_views
        track_close_fd_drops split: if_split, simp_all)
  then show "fd_cgroup (kstep c s) = fd_cgroup s" by simp
  have "q_cgroup (proc_view (kstep c s)) = q_cgroup (proc_view s)"
    by (cases c; cases "snd c")
      (simp_all only: kstep.simps snd_conv track_cgroup release_cgroup enforcer_views
        track_close_fd_drops split: if_split, simp_all)
  then show "proc_cgroup (kstep c s) = proc_cgroup s" by simp
qed

lemma krun_refines:
  "kstate_wf s \<Longrightarrow>
   pools (krun cs s) = fold (spec_step (fd_cgroup s) (proc_cgroup s)) cs (pools s)"
  by (induction cs arbitrary: s) (simp_all add: kstep_wf kstep_refines kstep_cgroups)

section \<open>Limits and leases never move between cgroups or namespaces\<close>

lemma kstep_limits: "fd_ns_limit (kstep c s) = fd_ns_limit s" "proc_ns_limit (kstep c s) = proc_ns_limit s"
proof -
  have "q_limit (fd_view (kstep c s)) = q_limit (fd_view s)"
    by (cases c; cases "snd c")
      (simp_all only: kstep.simps snd_conv fd.track_views fd.over_frame fd.release_views
        discharge_frame enforcer_views track_close_fd_drops split: if_split, simp_all)
  then show "fd_ns_limit (kstep c s) = fd_ns_limit s" by simp
  have "q_limit (proc_view (kstep c s)) = q_limit (proc_view s)"
    by (cases c; cases "snd c")
      (simp_all only: kstep.simps snd_conv proc.track_views proc.over_frame proc.release_views
        discharge_frame enforcer_views track_close_fd_drops split: if_split, simp_all)
  then show "proc_ns_limit (kstep c s) = proc_ns_limit s" by simp
qed

lemma krun_limits: "fd_ns_limit (krun cs s) = fd_ns_limit s" "proc_ns_limit (krun cs s) = proc_ns_limit s"
  by (induction cs arbitrary: s) (simp_all add: kstep_limits)

lemma krun_cgroups: "fd_cgroup (krun cs s) = fd_cgroup s" "proc_cgroup (krun cs s) = proc_cgroup s"
  by (induction cs arbitrary: s) (simp_all add: kstep_cgroups)

lemma kstep_other_ns:
  "fd_cgroup s (h_cgid (fst c)) \<noteq> Some ns \<Longrightarrow> fd_ns_counter (kstep c s) ns = fd_ns_counter s ns"
  "proc_cgroup s (h_cgid (fst c)) \<noteq> Some ns \<Longrightarrow> proc_ns_counter (kstep c s) ns = proc_ns_counter s ns"
proof -
  have "q_lease (fd_view (kstep c s)) ns = q_lease (fd_view s) ns"
    if "q_cgroup (fd_view s) (h_cgid (fst c)) \<noteq> Some ns"
    using that
    by (cases c; cases "snd c")
      (simp_all only: kstep.simps fst_conv snd_conv fd.track_views fd.over_frame fd.release_views
        discharge_frame enforcer_views track_close_fd_drops split: if_split, simp_all)
  then show "fd_cgroup s (h_cgid (fst c)) \<noteq> Some ns \<Longrightarrow> fd_ns_counter (kstep c s) ns = fd_ns_counter s ns"
    by simp
  have "q_lease (proc_view (kstep c s)) ns = q_lease (proc_view s) ns"
    if "q_cgroup (proc_view s) (h_cgid (fst c)) \<noteq> Some ns"
    using that
    by (cases c; cases "snd c")
      (simp_all only: kstep.simps fst_conv snd_conv proc.track_views proc.over_frame proc.release_views
        discharge_frame enforcer_views track_close_fd_drops split: if_split, simp_all)
  then show "proc_cgroup s (h_cgid (fst c)) \<noteq> Some ns \<Longrightarrow> proc_ns_counter (kstep c s) ns = proc_ns_counter s ns"
    by simp
qed

lemma krun_other_ns:
  "\<forall>c \<in> set cs. fd_cgroup s (h_cgid (fst c)) \<noteq> Some ns \<Longrightarrow> fd_ns_counter (krun cs s) ns = fd_ns_counter s ns"
  "\<forall>c \<in> set cs. proc_cgroup s (h_cgid (fst c)) \<noteq> Some ns \<Longrightarrow> proc_ns_counter (krun cs s) ns = proc_ns_counter s ns"
  by (induction cs arbitrary: s) (simp_all add: kstep_other_ns kstep_cgroups)

section \<open>Leases are there or not\<close>

lemma charge_dom: "charge h reason q = (r, q', es) \<Longrightarrow> dom (q_lease q') = dom (q_lease q)"
  by (auto simp: charge_def count_inc_def limited_def Let_def split: option.splits prod.splits
      verdict.splits if_splits)

lemma discharge_dom: "dom (q_lease (discharge h q)) = dom (q_lease q)"
  by (auto simp: discharge_def count_dec_def Let_def split: option.splits)

lemma over_dom:
  "dom (fd_ns_counter (snd (over_limit h s))) = dom (fd_ns_counter s)"
  "dom (proc_ns_counter (snd (over_proc_limit h s))) = dom (proc_ns_counter s)"
  using charge_dom [of h _ "fd_view s"] charge_dom [of h _ "proc_view s"]
  by (simp_all add: over_limit_view over_proc_limit_view view_defs split: prod.split)

lemma kstep_leases:
  "dom (fd_ns_counter (kstep c s)) = dom (fd_ns_counter s)"
  "dom (proc_ns_counter (kstep c s)) = dom (proc_ns_counter s)"
proof -
  have "dom (fd_ns_counter (track_install_fd h s)) = dom (fd_ns_counter s)"
    "dom (proc_ns_counter (track_clone h s)) = dom (proc_ns_counter s)" for h
    using over_dom [of h s]
    by (simp_all add: track_install_fd_def track_clone_def bpf_send_signal_def Let_def case_prod_beta)
  moreover have "proc_ns_counter (track_install_fd h s) = proc_ns_counter s"
    "fd_ns_counter (track_clone h s) = fd_ns_counter s" for h
    by (auto simp: track_install_fd_def track_clone_def bpf_send_signal_def over_limit_view
        over_proc_limit_view view_defs split: prod.split)
  moreover have "dom (fd_ns_counter (track_close_fd h fc s)) = dom (fd_ns_counter s)"
    "proc_ns_counter (track_close_fd h fc s) = proc_ns_counter s"
    "dom (proc_ns_counter (track_exit h s)) = dom (proc_ns_counter s)"
    "fd_ns_counter (track_exit h s) = fd_ns_counter s" for h fc
    using discharge_dom [of h "fd_view s"] discharge_dom [of h "proc_view s"]
    by (simp_all add: track_close_fd_view track_exit_view view_defs split: option.split)
  ultimately show "dom (fd_ns_counter (kstep c s)) = dom (fd_ns_counter s)"
    "dom (proc_ns_counter (kstep c s)) = dom (proc_ns_counter s)"
    by (cases c; cases "snd c"; simp)+
qed

lemma krun_leases:
  "dom (fd_ns_counter (krun cs s)) = dom (fd_ns_counter s)"
  "dom (proc_ns_counter (krun cs s)) = dom (proc_ns_counter s)"
  by (induction cs arbitrary: s) (simp_all add: kstep_leases)

section \<open>Example configurations\<close>

text \<open>A small configuration for the witnesses: three cgroups of namespace 7, one limit.\<close>

definition ex_helpers :: "u64 \<Rightarrow> helpers" where
  "ex_helpers cg = \<lparr>h_cgid = cg, h_pid_tgid = 0x2A0000002A, h_ktime_used = 100,
     h_ktime_event = 101, h_reserve_ok = True, h_lru_update = lru_roomy\<rparr>"

definition ex_lease :: "u64 \<Rightarrow> u64 \<Rightarrow> cpu_lease" where
  "ex_lease n budget = \<lparr>cl_count = n, cl_lease_budget = budget, cl_last_used_ns = 0,
     cl_top_cgid = 0, cl_top_count = 0\<rparr>"

definition ex_state :: "u64 \<Rightarrow> u64 \<Rightarrow> u64 \<Rightarrow> kstate" where
  "ex_state limit n budget = empty_kstate
     \<lparr>fd_cgroup := [1 \<mapsto> 7, 2 \<mapsto> 7, 3 \<mapsto> 7], fd_ns_limit := [7 \<mapsto> limit],
      fd_ns_counter := [7 \<mapsto> ex_lease n budget],
      proc_cgroup := [1 \<mapsto> 7, 2 \<mapsto> 7, 3 \<mapsto> 7], proc_ns_limit := [7 \<mapsto> limit],
      proc_ns_counter := [7 \<mapsto> ex_lease n budget]\<rparr>"

lemmas ex_defs = ex_state_def ex_lease_def ex_helpers_def empty_kstate_def

lemma limited_ex_state:
  "limited (fd_view (ex_state limit n budget)) ns =
     (if ns = 7 \<and> limit \<noteq> 0 then Some (limit, ex_lease n budget) else None)"
  "limited (proc_view (ex_state limit n budget)) ns =
     (if ns = 7 \<and> limit \<noteq> 0 then Some (limit, ex_lease n budget) else None)"
  by (auto simp: limited_def ex_state_def)

lemma ex_state_wf: "n \<le> budget \<Longrightarrow> budget \<le> limit \<Longrightarrow> limit \<le> max_limit \<Longrightarrow>
    kstate_wf (ex_state limit n budget)"
  by (auto simp: kstate_wf_def quota_wf_def limited_ex_state lease_wf_def ex_lease_def)

lemma ex_state_fields [simp]:
  "fd_cgroup (ex_state limit n budget) = [1 \<mapsto> 7, 2 \<mapsto> 7, 3 \<mapsto> 7]"
  "proc_cgroup (ex_state limit n budget) = [1 \<mapsto> 7, 2 \<mapsto> 7, 3 \<mapsto> 7]"
  "fd_ns_limit (ex_state limit n budget) = [7 \<mapsto> limit]"
  "fd_ns_counter (ex_state limit n budget) = [7 \<mapsto> ex_lease n budget]"
  "fd_cgroup_counter (ex_state limit n budget) = Map.empty"
  "events (ex_state limit n budget) = []" "signals (ex_state limit n budget) = []"
  by (simp_all add: ex_state_def empty_kstate_def)

lemma ex_helpers_fields [simp]: "h_cgid (ex_helpers c) = c" "h_lru_update (ex_helpers c) = lru_roomy"
  by (simp_all add: ex_helpers_def)

lemma ex_state_proc [simp]:
  "proc_ns_limit (ex_state limit n budget) = [7 \<mapsto> limit]"
  "proc_ns_counter (ex_state limit n budget) = [7 \<mapsto> ex_lease n budget]"
  by (simp_all add: ex_state_def)

end
