(* ===== verification/Top_Consumer.thy ===== *)
theory Top_Consumer
  imports Enforcer_Run
begin

text \<open>
  The per-namespace top consumer. \<open>top_covers\<close> says that the recorded top count covers
  the counter of every cgroup of the namespace; every operation keeps it, whatever the LRU
  maps evict.
\<close>

section \<open>The top consumer\<close>

definition top_covers :: "quota \<Rightarrow> bool" where
  "top_covers q \<longleftrightarrow> (\<forall>cgid ns limit lease c.
     q_cgroup q cgid = Some ns \<longrightarrow> limited q ns = Some (limit, lease) \<longrightarrow> q_counter q cgid = Some c \<longrightarrow>
     c \<le> cl_top_count lease)"

lemma top_coversD:
  "top_covers q \<Longrightarrow> q_cgroup q cgid = Some ns \<Longrightarrow> limited q ns = Some (limit, lease) \<Longrightarrow>
   q_counter q cgid = Some c \<Longrightarrow> c \<le> cl_top_count lease"
  by (simp add: top_covers_def)

lemma count_inc_other:
  assumes "lru_ok (h_lru_update h)" "cgid \<noteq> cgid'" "q_counter (count_inc h cgid' q) cgid = Some c"
  shows "q_counter q cgid = Some c"
  using assms lru_ok_other [OF assms(1,2)]
  by (auto simp: count_inc_def split: option.splits) (metis option.distinct(1))

lemma count_dec_counter:
  assumes "q_counter (count_dec cgid' q) cgid = Some c"
  obtains c' where "q_counter q cgid = Some c'" "c \<le> c'"
proof (cases "q_counter q cgid'")
  case (Some d)
  then show ?thesis
    using assms that lease_discharge_unat [of 0 "\<lparr>cl_count = d, cl_lease_budget = 0, cl_last_used_ns = 0, cl_top_cgid = 0, cl_top_count = 0\<rparr>"]
    by (auto simp: count_dec_def lease_discharge_def word_le_nat_alt split: if_splits)
qed (use assms that in \<open>simp add: count_dec_def\<close>)

lemma touch_top: "q_counter q (h_cgid h) = Some c \<Longrightarrow> c \<le> cl_top_count (touch h q lease)"
  by (simp add: touch_def note_top_def not_less)

lemma charge_top_covers:
  assumes "lru_ok (h_lru_update h)" "top_covers q" "charge h reason q = (r, q', es)"
  shows "top_covers q'"
proof (cases h q rule: charge_cases)
  case unlimited
  with assms(3) have q': "q' = (if q_cgroup q (h_cgid h) = None then q else count_inc h (h_cgid h) q)"
    by (simp add: charge_unlimited)
  show ?thesis
    unfolding top_covers_def
  proof (intro allI impI)
    fix cgid ns limit lease c
    assume a: "q_cgroup q' cgid = Some ns" "limited q' ns = Some (limit, lease)"
      "q_counter q' cgid = Some c"
    have q: "q_cgroup q cgid = Some ns" "limited q ns = Some (limit, lease)"
      using a(1,2) by (simp_all add: q' view_simps split: if_splits)
    with unlimited have "cgid \<noteq> h_cgid h" by auto
    moreover have "q_counter q cgid = Some c \<or> q_counter (count_inc h (h_cgid h) q) cgid = Some c"
      using a(3) by (simp add: q' split: if_splits)
    ultimately have "q_counter q cgid = Some c" by (blast dest: count_inc_other [OF assms(1)])
    with q show "c \<le> cl_top_count lease"
      by (blast intro: top_coversD [OF assms(2)])
  qed
next
  case (limited ns0 limit0 lease0 v lease')
  have q': "q' = (count_inc h (h_cgid h) q)\<lparr>q_lease := (q_lease q)(ns0 \<mapsto> lease')\<rparr>"
    using assms(3) charge_limited [OF limited] by (auto simp: Let_def split: verdict.splits)
  have top': "cl_top_count lease' = cl_top_count (touch h (count_inc h (h_cgid h) q) lease0)"
    using lease_charge_kept(3) [of limit0 "touch h (count_inc h (h_cgid h) q) lease0"] limited(3)
    by simp
  show ?thesis
    unfolding top_covers_def
  proof (intro allI impI)
    fix cgid ns limit lease c
    assume a: "q_cgroup q' cgid = Some ns" "limited q' ns = Some (limit, lease)"
      "q_counter q' cgid = Some c"
    show "c \<le> cl_top_count lease"
    proof (cases "cgid = h_cgid h")
      case True
      with a(3) have "c \<le> cl_top_count lease'" unfolding top' by (intro touch_top) (simp add: q')
      then show ?thesis using a(1,2) limited(1) True
        by (simp add: q' limited_Some_limit view_simps)
    next
      case False
      have c: "q_counter q cgid = Some c"
        by (rule count_inc_other [OF assms(1) False]) (use a(3) in \<open>simp add: q'\<close>)
      show ?thesis
      proof (cases "ns = ns0")
        case True
        then have "c \<le> cl_top_count lease0"
          using a(1) limited(2) c by (intro top_coversD [OF assms(2)]) (auto simp: q' view_simps)
        also have "\<dots> \<le> cl_top_count lease'" by (simp add: top' lease_simps)
        finally show ?thesis using a(2) True by (auto simp: q' limited_Some_limit)
      next
        case False
        then show ?thesis
          using a(1,2) c by (intro top_coversD [OF assms(2)]) (auto simp: q' limited_Some_limit view_simps)
      qed
    qed
  qed
qed

lemma discharge_counter: "q_counter (discharge h q) = q_counter (count_dec (h_cgid h) q)"
  by (simp add: discharge_def Let_def split: option.split)

lemma discharge_top_covers:
  assumes "top_covers q"
  shows "top_covers (discharge h q)"
  unfolding top_covers_def discharge_counter discharge_frame discharge_limited
proof (intro allI impI)
  fix cgid ns limit lease c
  assume a: "q_cgroup q cgid = Some ns"
    "map_option (\<lambda>(limit, lease). (limit, if q_cgroup q (h_cgid h) = Some ns
        then lease_discharge (h_ktime_used h) lease else lease)) (limited q ns) = Some (limit, lease)"
    "q_counter (count_dec (h_cgid h) q) cgid = Some c"
  from a(2) obtain lease0 where l: "limited q ns = Some (limit, lease0)"
    "cl_top_count lease = cl_top_count lease0"
    by (auto simp: lease_simps)
  from a(3) obtain c' where "q_counter q cgid = Some c'" "c \<le> c'" by (rule count_dec_counter)
  then show "c \<le> cl_top_count lease"
    using top_coversD [OF assms a(1) l(1)] l(2) by fastforce
qed

context resource_enforcer
begin

lemma track_top_covers:
  assumes "lru_ok (h_lru_update h)" "top_covers (view s)"
  shows "top_covers (view (track h s))"
  using assms by (rule_tac over_cases [of h s]) (auto simp: track_views dest: charge_top_covers)

lemma release_top_covers: "top_covers (view s) \<Longrightarrow> top_covers (view (release h s))"
  by (simp add: release_views discharge_top_covers)

end

lemmas enforcer_top_covers =
  fd.track_top_covers proc.track_top_covers fd.release_top_covers proc.release_top_covers

lemma kstep_top_covers:
  assumes "lru_ok (h_lru_update (fst c))"
  shows "top_covers (fd_view s) \<Longrightarrow> top_covers (fd_view (kstep c s))"
    and "top_covers (proc_view s) \<Longrightarrow> top_covers (proc_view (kstep c s))"
  using assms
  by (cases c; cases "snd c";
      auto simp: enforcer_views track_close_fd_drops intro: enforcer_top_covers)+

lemma krun_top_covers:
  assumes "\<forall>c \<in> set cs. lru_ok (h_lru_update (fst c))"
  shows "top_covers (fd_view s) \<Longrightarrow> top_covers (fd_view (krun cs s))"
    and "top_covers (proc_view s) \<Longrightarrow> top_covers (proc_view (krun cs s))"
  using assms by (induction cs arbitrary: s) (simp_all add: kstep_top_covers)

end
