(* ===== verification/Budget_Lag.thy ===== *)
theory Budget_Lag
  imports Enforcer_Run
begin

text \<open>
  Leases that are not well-formed. User space resets the budget of a lease without looking at
  its count, so the budget can lag behind the count; \<open>lag\<close> is how many charges it takes
  to catch up.
\<close>

text \<open>The verdict for any lease, and the retry of a lease whose budget lags behind its count.\<close>

lemma lease_charge_admits:
  "fst (lease_charge limit lease) = Admit \<longleftrightarrow>
     cl_count lease < limit \<and>
     (cl_count lease < cl_lease_budget lease \<or>
      cl_count lease < cl_lease_budget (grow_budget limit lease))"
  by (auto simp: lease_charge_def Let_def lease_simps not_less not_le)

definition lag :: "u64 \<Rightarrow> cpu_lease \<Rightarrow> nat" where
  "lag limit lease = (unat (cl_count lease) - unat (cl_lease_budget lease)) div unat (budget_step limit)"

lemma lease_charge_lag:
  assumes "cl_count lease < limit" "cl_lease_budget lease \<le> limit" "limit \<le> max_limit"
    and "lease_charge limit lease = (v, lease')"
  shows "cl_lease_budget lease' \<le> limit"
    and "v = Breach \<Longrightarrow> cl_count lease' = cl_count lease \<and> lag limit lease' < lag limit lease"
proof -
  let ?c = "unat (cl_count lease)" and ?b = "unat (cl_lease_budget lease)"
    and ?st = "unat (budget_step limit)"
  show "cl_lease_budget lease' \<le> limit"
    using assms grow_budget_le [of limit lease]
    by (auto simp: lease_charge_def Let_def lease_simps split: if_splits)
  assume "v = Breach"
  with assms have l': "lease' = grow_budget limit lease"
    "cl_lease_budget (grow_budget limit lease) \<le> cl_count lease"
    by (auto simp: lease_charge_def Let_def lease_simps split: if_splits)
  have b': "unat (cl_lease_budget lease') = min (unat limit) (?b + ?st)"
    using grow_budget_exact [OF assms(2,3)] l'(1) by simp
  have "min (unat limit) (?b + ?st) \<le> ?c"
    using l' b' by (simp add: word_le_nat_alt)
  moreover have "?c < unat limit" using assms(1) by (simp add: word_less_nat_alt)
  ultimately have le: "?b + ?st \<le> ?c" and eq: "unat (cl_lease_budget lease') = ?b + ?st"
    using b' by linarith+
  have st: "0 < ?st" using budget_step_bounds(1) [of limit] by linarith
  have "?c - ?b = (?c - (?b + ?st)) + ?st" using le by linarith
  then have "(?c - ?b) div ?st = Suc ((?c - (?b + ?st)) div ?st)"
    using st by (metis div_add_self2 not_less_zero Suc_eq_plus1)
  then show "cl_count lease' = cl_count lease \<and> lag limit lease' < lag limit lease"
    using l' eq by (simp add: lag_def lease_simps)
qed

lemma lag_touch [simp]: "lag limit (touch h q lease) = lag limit lease"
  by (simp add: lag_def lease_simps)

lemma over_limit_retry:
  assumes "fd_cgroup s (h_cgid h) = Some ns" "fd_ns_limit s ns = Some limit"
    "fd_ns_counter s ns = Some lease" "cl_count lease < limit" "cl_lease_budget lease \<le> limit"
    "limit \<le> max_limit"
  shows "fst (over_limit h s) = 0 \<or>
    (\<exists>lease'. fd_cgroup (snd (over_limit h s)) (h_cgid h) = Some ns \<and>
       fd_ns_limit (snd (over_limit h s)) ns = Some limit \<and>
       fd_ns_counter (snd (over_limit h s)) ns = Some lease' \<and>
       cl_count lease' = cl_count lease \<and> cl_lease_budget lease' \<le> limit \<and>
       lag limit lease' < lag limit lease)"
proof -
  have "limit \<noteq> 0" using assms(4) by auto
  then have lim: "limited (fd_view s) ns = Some (limit, lease)"
    using assms by (simp add: limited_Some_limit)
  obtain v lease' where v:
    "lease_charge limit (touch h (count_inc h (h_cgid h) (fd_view s)) lease) = (v, lease')"
    by (cases "lease_charge limit (touch h (count_inc h (h_cgid h) (fd_view s)) lease)")
  have cg: "q_cgroup (fd_view s) (h_cgid h) = Some ns" using assms(1) by simp
  show ?thesis
  proof (cases v)
    case Admit
    then show ?thesis
      using charge_limited [OF cg lim v, of REASON_FD] by (simp add: over_limit_view Let_def)
  next
    case Breach
    have l': "cl_count lease' = cl_count lease" "cl_lease_budget lease' \<le> limit"
      "lag limit lease' < lag limit lease"
      using lease_charge_lag [OF _ _ assms(6) v] Breach assms(4,5) by (simp_all add: lease_simps)
    have "fd_ns_counter (snd (over_limit h s)) = (fd_ns_counter s)(ns \<mapsto> lease')"
      using charge_limited [OF cg lim v, of REASON_FD] Breach
      by (simp add: over_limit_view Let_def view_defs)
    then show ?thesis
      using l' fd.over_frame(1,2) [of h s] assms(1,2) by simp
  qed
qed

lemma over_limit_lag:
  assumes "fd_cgroup s (h_cgid h) = Some ns" "fd_ns_limit s ns = Some limit"
    "fd_ns_counter s ns = Some lease" "cl_count lease < limit" "cl_lease_budget lease \<le> limit"
    "limit \<le> max_limit"
  shows "\<exists>n \<le> lag limit lease. fst (over_limit h (((\<lambda>s. snd (over_limit h s)) ^^ n) s)) = 0"
  using assms
proof (induction "lag limit lease" arbitrary: s lease rule: less_induct)
  case less
  from over_limit_retry [OF less.prems] show ?case
  proof (elim disjE exE conjE)
    assume "fst (over_limit h s) = 0"
    then show ?thesis by (intro exI [of _ 0]) simp
  next
    fix lease'
    assume s': "fd_cgroup (snd (over_limit h s)) (h_cgid h) = Some ns"
      "fd_ns_limit (snd (over_limit h s)) ns = Some limit"
      "fd_ns_counter (snd (over_limit h s)) ns = Some lease'"
      and l': "cl_count lease' = cl_count lease" "cl_lease_budget lease' \<le> limit"
      and lag: "lag limit lease' < lag limit lease"
    have "cl_count lease' < limit" using l'(1) less.prems(4) by simp
    from less.hyps [OF lag s' this l'(2) less.prems(6)] obtain n where
      "n \<le> lag limit lease'"
      "fst (over_limit h (((\<lambda>s. snd (over_limit h s)) ^^ n) (snd (over_limit h s)))) = 0" by blast
    then show ?thesis
      using lag by (intro exI [of _ "Suc n"]) (simp add: funpow_Suc_right del: funpow.simps)
  qed
qed

end
