(* ===== verification/Enforcer_Props.thy ===== *)
theory Enforcer_Props
  imports Top_Consumer Budget_Lag
begin

text \<open>
  The properties of the enforcer in sequential runs, with their witnesses: the refinement of
  the abstract pools, the verdict and effect of one limit check, who is killed, isolation,
  closing, the top consumer, and how a lagging budget catches up.
\<close>

section \<open>Refinement and the limit\<close>

text \<open>(C1) From a well-formed state, any sequence of the four programs acts on the descriptor
  and process counts exactly as acquire and give-back act on two abstract pools, one per
  resource: each namespace's limit with the number of objects counted against it.\<close>

theorem krun_refines_pools:
  assumes "kstate_wf s"
  shows "pools (krun cs s) = fold (spec_step (fd_cgroup s) (proc_cgroup s)) cs (pools s)"
  using assms by (rule krun_refines)

theorem krun_refines_pools_witness:
  "pools (krun [(ex_helpers 1, Fd_install), (ex_helpers 2, Kernel_clone)] (ex_state 3 0 3)) =
     (([7 \<mapsto> (3, 1)], [7 \<mapsto> (3, 1)]) :: pool \<times> pool)"
proof -
  have p: "pools (ex_state 3 0 3) = ([7 \<mapsto> (3, 0)], [7 \<mapsto> (3, 0)])"
    by (auto simp: pools_def abs_pool_def fun_eq_iff limited_ex_state ex_lease_def)
  show ?thesis
    by (subst krun_refines_pools) (auto simp: p ex_state_wf max_limit_def acquire_def)
qed

text \<open>(C6) In any run from a well-formed state the descriptor count of a limited namespace is
  never above its budget, nor the budget above the limit.\<close>

theorem krun_within_limits:
  assumes "kstate_wf s" "fd_ns_limit s ns = Some limit" "limit \<noteq> 0"
    and "fd_ns_counter (krun cs s) ns = Some lease"
  shows "cl_count lease \<le> cl_lease_budget lease \<and> cl_lease_budget lease \<le> limit"
proof -
  have "limited (fd_view (krun cs s)) ns = Some (limit, lease)"
    using assms by (simp add: limited_Some_limit krun_limits)
  then have "lease_wf limit lease"
    using krun_wf [OF assms(1)] by (auto simp: kstate_wf_def intro: quota_wfD)
  then show ?thesis by (simp add: lease_wf_def)
qed

theorem krun_within_limits_witness:
  "\<exists>lease. fd_ns_counter (krun [(ex_helpers 1, Fd_install)] (ex_state 3 0 3)) 7 = Some lease \<and>
     cl_count lease = 1 \<and> cl_count lease \<le> cl_lease_budget lease \<and> cl_lease_budget lease \<le> 3"
proof -
  have "fd_ns_counter (krun [(ex_helpers 1, Fd_install)] (ex_state 3 0 3)) 7 =
      Some \<lparr>cl_count = 1, cl_lease_budget = 3, cl_last_used_ns = 100, cl_top_cgid = 1, cl_top_count = 1\<rparr>"
    by code_simp
  then show ?thesis
    using krun_within_limits [of "ex_state 3 0 3" 7 3 "[(ex_helpers 1, Fd_install)]"]
    by (auto simp: ex_state_wf max_limit_def)
qed

section \<open>One limit check\<close>

text \<open>(C4) \<^verbatim>\<open>over_limit\<close> on a well-formed lease: below the limit it returns 0 and counts
  the descriptor; at the limit it leaves the count, reports the breach with the top consumer
  and returns 1 or 2 by whether the caller is that consumer. No other namespace's lease changes.\<close>

theorem over_limit_step:
  assumes "fd_cgroup s (h_cgid h) = Some ns" "fd_ns_limit s ns = Some limit" "limit \<noteq> 0"
    and "fd_ns_counter s ns = Some lease" "lease_wf limit lease"
  shows "\<exists>lease'. fd_ns_counter (snd (over_limit h s)) = (fd_ns_counter s)(ns \<mapsto> lease') \<and>
     cl_last_used_ns lease' = h_ktime_used h \<and>
     (if cl_count lease < limit
      then fst (over_limit h s) = 0 \<and> unat (cl_count lease') = Suc (unat (cl_count lease)) \<and>
           events (snd (over_limit h s)) = events s
      else fst (over_limit h s) = (if h_cgid h = cl_top_cgid lease' then 1 else 2) \<and>
           cl_count lease' = cl_count lease \<and>
           events (snd (over_limit h s)) =
             events s @ breach_events h REASON_FD ns (cl_top_cgid lease'))"
  using fd.over_step [of s h ns limit lease] assms by (simp add: limited_Some_limit)

theorem over_limit_step_witness:
  "fst (over_limit (ex_helpers 1) (ex_state 3 3 3)) \<noteq> 0 \<and>
   fst (over_limit (ex_helpers 1) (ex_state 3 2 3)) = 0"
  using over_limit_step [of "ex_state 3 3 3" "ex_helpers 1" 7 3 "ex_lease 3 3"]
    over_limit_step [of "ex_state 3 2 3" "ex_helpers 1" 7 3 "ex_lease 2 3"]
  by (auto simp: ex_lease_def lease_wf_def max_limit_def split: if_splits)

text \<open>The same of \<^verbatim>\<open>over_proc_limit\<close>, which the source writes out a second time.\<close>

lemma over_proc_limit_step:
  assumes "proc_cgroup s (h_cgid h) = Some ns" "proc_ns_limit s ns = Some limit" "limit \<noteq> 0"
    and "proc_ns_counter s ns = Some lease" "lease_wf limit lease"
  shows "\<exists>lease'. proc_ns_counter (snd (over_proc_limit h s)) = (proc_ns_counter s)(ns \<mapsto> lease') \<and>
     cl_last_used_ns lease' = h_ktime_used h \<and>
     (if cl_count lease < limit
      then fst (over_proc_limit h s) = 0 \<and> unat (cl_count lease') = Suc (unat (cl_count lease)) \<and>
           events (snd (over_proc_limit h s)) = events s
      else fst (over_proc_limit h s) = (if h_cgid h = cl_top_cgid lease' then 1 else 2) \<and>
           cl_count lease' = cl_count lease \<and>
           events (snd (over_proc_limit h s)) =
             events s @ breach_events h REASON_PROC ns (cl_top_cgid lease'))"
  using proc.over_step [of s h ns limit lease] assms by (simp add: limited_Some_limit)

lemma over_proc_limit_step_witness:
  "fst (over_proc_limit (ex_helpers 1) (ex_state 3 3 3)) \<noteq> 0 \<and>
   fst (over_proc_limit (ex_helpers 1) (ex_state 3 2 3)) = 0"
  using over_proc_limit_step [of "ex_state 3 3 3" "ex_helpers 1" 7 3 "ex_lease 3 3"]
    over_proc_limit_step [of "ex_state 3 2 3" "ex_helpers 1" 7 3 "ex_lease 2 3"]
  by (auto simp: ex_lease_def lease_wf_def max_limit_def split: if_splits)



section \<open>Isolation\<close>

text \<open>The descriptor programs leave the process maps alone, and the other way round.\<close>

lemma fd_hooks_isolated:
  "proc_view (track_install_fd h s) = proc_view s \<and> proc_view (track_close_fd h f s) = proc_view s \<and>
   fd_view (track_clone h s) = fd_view s \<and> fd_view (track_exit h s) = fd_view s"
  by (simp add: enforcer_views track_close_fd_drops)

text \<open>A run in which no invocation comes from a cgroup of a namespace leaves that
  namespace's lease as it was.\<close>

lemma other_namespaces_untouched:
  assumes "\<forall>c \<in> set cs. fd_cgroup s (h_cgid (fst c)) \<noteq> Some ns"
  shows "fd_ns_counter (krun cs s) ns = fd_ns_counter s ns"
  using assms by (rule krun_other_ns)

lemma other_namespaces_untouched_witness:
  "fd_ns_counter (krun [(ex_helpers 1, Fd_install), (ex_helpers 2, Filp_close (Some 1))] (ex_state 3 0 3)) 8 = None"
  using other_namespaces_untouched [of "[(ex_helpers 1, Fd_install), (ex_helpers 2, Filp_close (Some 1))]"
      "ex_state 3 0 3" 8]
  by simp

text \<open>A namespace with no limit, or with limit 0, is not enforced: the check admits the
  descriptor without counting it against the lease, and nothing is killed.\<close>

lemma zero_limit_not_enforced:
  assumes "fd_cgroup s (h_cgid h) = Some ns" "fd_ns_limit s ns = Some 0 \<or> fd_ns_limit s ns = None"
  shows "fst (over_limit h s) = 0 \<and> fd_ns_counter (snd (over_limit h s)) = fd_ns_counter s \<and>
    signals (track_install_fd h s) = signals s"
proof -
  have n: "Option.bind (q_cgroup (fd_view s) (h_cgid h)) (limited (fd_view s)) = None"
    using assms by (auto simp: limited_def)
  show ?thesis
    using fd.over_unlimited(1,2) [OF n] by (simp add: fd.track_signals)
qed

lemma zero_limit_not_enforced_witness:
  "fst (over_limit (ex_helpers 1) (ex_state 0 9 0)) = 0"
  using zero_limit_not_enforced [of "ex_state 0 9 0" "ex_helpers 1" 7] by simp

text \<open>A cgroup that belongs to no namespace is not touched at all.\<close>

lemma unmapped_cgroup_untouched:
  assumes "fd_cgroup s (h_cgid h) = None"
  shows "over_limit h s = (0, s) \<and> track_install_fd h s = s"
  using assms by (simp add: kern_defs)

lemma unmapped_cgroup_untouched_witness: "track_install_fd (ex_helpers 9) (ex_state 3 0 3) = ex_state 3 0 3"
  using unmapped_cgroup_untouched [of "ex_state 3 0 3" "ex_helpers 9"] by simp

section \<open>Closing\<close>

text \<open>(C21) An admitted install followed by the last close from the same cgroup leaves both
  pools as they were.\<close>

theorem install_close_roundtrip:
  assumes "kstate_wf s" "fst (over_limit h s) = 0" "h_cgid h' = h_cgid h"
  shows "pools (kstep (h', Filp_close (Some 1)) (kstep (h, Fd_install) s)) = pools s"
proof -
  have ok: "fst (acquire (fd_cgroup s (h_cgid h)) (abs_pool (fd_view s)))"
    using fd.over_refines [of s h] assms(1,2) by (simp add: kstate_wf_def)
  have "pools (kstep (h', Filp_close (Some 1)) (kstep (h, Fd_install) s)) =
      (give_back (fd_cgroup s (h_cgid h)) (snd (acquire (fd_cgroup s (h_cgid h)) (abs_pool (fd_view s)))),
       abs_pool (proc_view s))"
    using assms kstep_wf [OF assms(1), of "(h, Fd_install)"]
    by (simp only: kstep_refines kstep_cgroups) (simp add: pools_def drops_def)
  also have "\<dots> = pools s"
    using ok by (auto simp: acquire_def give_back_def pools_def bind_eq_Some_conv fun_upd_idem
        split: option.splits if_splits)
  finally show ?thesis .
qed

theorem install_close_roundtrip_witness:
  "pools (kstep (ex_helpers 1, Filp_close (Some 1)) (kstep (ex_helpers 1, Fd_install) (ex_state 3 2 3))) =
     pools (ex_state 3 2 3)"
proof -
  have "fst (over_limit (ex_helpers 1) (ex_state 3 2 3)) = 0" by code_simp
  then show ?thesis
    by (intro install_close_roundtrip) (simp_all add: ex_state_wf max_limit_def)
qed

text \<open>
  The programs run on entry to the kernel functions and cannot refuse a descriptor. Live
  descriptors of a trace without kills: those installed less those finally closed.
\<close>

definition live_fds :: "(helpers \<times> hook) list \<Rightarrow> int" where
  "live_fds cs = int (length (filter (\<lambda>c. snd c = Fd_install) cs)) -
     int (length (filter (\<lambda>c. case snd c of Filp_close f \<Rightarrow> drops f | _ \<Rightarrow> False) cs))"


section \<open>The top consumer\<close>

text \<open>(C15) Whatever the LRU maps evict, the recorded top count of a limited namespace stays at
  or above the counter of every one of its cgroups, in every run.\<close>

theorem top_consumer_covers:
  assumes "top_covers (fd_view s)" "\<forall>c \<in> set cs. lru_ok (h_lru_update (fst c))"
    and "fd_cgroup s cgid = Some ns" "fd_ns_limit s ns = Some limit" "limit \<noteq> 0"
    and "fd_ns_counter (krun cs s) ns = Some lease" "fd_cgroup_counter (krun cs s) cgid = Some c"
  shows "c \<le> cl_top_count lease"
proof (rule top_coversD)
  show "top_covers (fd_view (krun cs s))" using krun_top_covers(1) [OF assms(2,1)] .
  show "limited (fd_view (krun cs s)) ns = Some (limit, lease)"
    using assms(4-6) by (simp add: limited_Some_limit krun_limits)
qed (use assms(3,7) in \<open>simp_all add: krun_cgroups\<close>)

theorem top_consumer_covers_witness:
  "\<exists>lease c. fd_ns_counter (krun [(ex_helpers 1, Fd_install)] (ex_state 3 0 3)) 7 = Some lease \<and>
     fd_cgroup_counter (krun [(ex_helpers 1, Fd_install)] (ex_state 3 0 3)) 1 = Some c \<and>
     c = 1 \<and> c \<le> cl_top_count lease"
proof -
  let ?s = "krun [(ex_helpers 1, Fd_install)] (ex_state 3 0 3)"
    and ?l = "\<lparr>cl_count = 1, cl_lease_budget = 3, cl_last_used_ns = 100, cl_top_cgid = 1, cl_top_count = 1\<rparr>"
  have l: "fd_ns_counter ?s 7 = Some ?l" and c: "fd_cgroup_counter ?s 1 = Some 1"
    by code_simp+
  have t: "top_covers (fd_view (ex_state 3 0 3))" by (simp add: top_covers_def)
  have le: "1 \<le> cl_top_count ?l"
    using top_consumer_covers [OF t _ _ _ _ l c] by (simp add: lru_ok_roomy)
  show ?thesis by (intro exI conjI, rule l, rule c, rule refl, rule le)
qed

text \<open>
  The top consumer is the largest ever, not the largest now: a cgroup that closed
  all it had opened stays the top consumer, and is killed for its next descriptor while
  another cgroup of the namespace holds more.\<close>

lemma past_top_consumer_is_killed:
  "\<exists>cs. let s = krun cs (ex_state 3 0 3); s' = krun [(ex_helpers 1, Fd_install)] s in
     signals s = [] \<and> fd_cgroup_counter s 1 = Some 0 \<and> fd_cgroup_counter s 2 = Some 2 \<and>
     signals s' = [(h_pid_tgid (ex_helpers 1), 9)]"
proof (intro exI)
  let ?opens = "\<lambda>cg. (ex_helpers cg, Fd_install)"
    and ?closes = "\<lambda>cg. (ex_helpers cg, Filp_close (Some 1))"
  show "let s = krun [?opens 1, ?opens 1, ?closes 1, ?closes 1, ?opens 2, ?opens 2, ?opens 3] (ex_state 3 0 3);
      s' = krun [(ex_helpers 1, Fd_install)] s in
     signals s = [] \<and> fd_cgroup_counter s 1 = Some 0 \<and> fd_cgroup_counter s 2 = Some 2 \<and>
     signals s' = [(h_pid_tgid (ex_helpers 1), 9)]"
    by code_simp
qed

section \<open>A lagging budget\<close>

text \<open>(C13) When the budget of a lease lags behind its count but the count is below the limit,
  installs are rejected for a while and then admitted: at most as many rejections as budget
  steps between the two.\<close>

theorem over_limit_catches_up:
  assumes "fd_cgroup s (h_cgid h) = Some ns" "fd_ns_limit s ns = Some limit"
    "fd_ns_counter s ns = Some lease" "cl_count lease < limit" "cl_lease_budget lease \<le> limit"
    "limit \<le> max_limit"
  shows "\<exists>n \<le> lag limit lease. fst (over_limit h (((\<lambda>s. snd (over_limit h s)) ^^ n) s)) = 0"
  using assms by (rule over_limit_lag)

theorem over_limit_catches_up_witness:
  "lag 1000 (ex_lease 500 100) = 4 \<and>
   (\<exists>n \<le> 4. fst (over_limit (ex_helpers 1)
      (((\<lambda>s. snd (over_limit (ex_helpers 1) s)) ^^ n) (ex_state 1000 500 100))) = 0)"
proof -
  have l: "lag 1000 (ex_lease 500 100) = 4" by code_simp
  show ?thesis
    using over_limit_catches_up [of "ex_state 1000 500 100" "ex_helpers 1" 7 1000 "ex_lease 500 100"]
    by (simp add: l) (simp add: ex_lease_def max_limit_def)
qed

end
