(* ===== verification/Kern_Mirror.thy ===== *)
theory Kern_Mirror
  imports Enforcer_Run
begin

text \<open>
  The process programs are the descriptor programs with the two sets of maps exchanged. The
  exchange is an involution on \<open>kstate\<close>; with it what holds of one half holds of the other.
\<close>

section \<open>Exchanging the two halves\<close>

definition mirror_event :: "breach_event \<Rightarrow> breach_event" where
  "mirror_event e = e\<lparr>be_reason := 1 - be_reason e\<rparr>"

definition mirror :: "kstate \<Rightarrow> kstate" where
  "mirror s =
     \<lparr>fd_cgroup = proc_cgroup s, fd_cgroup_counter = proc_cgroup_counter s,
      fd_ns_limit = proc_ns_limit s, fd_ns_counter = proc_ns_counter s,
      proc_cgroup = fd_cgroup s, proc_cgroup_counter = fd_cgroup_counter s,
      proc_ns_limit = fd_ns_limit s, proc_ns_counter = fd_ns_counter s,
      events = map mirror_event (events s), signals = signals s\<rparr>"

named_theorems mirror_simps "the exchange against the maps and their updates"

lemma mirror_fields [simp]:
  "fd_cgroup (mirror s) = proc_cgroup s" "fd_cgroup_counter (mirror s) = proc_cgroup_counter s"
  "fd_ns_limit (mirror s) = proc_ns_limit s" "fd_ns_counter (mirror s) = proc_ns_counter s"
  "proc_cgroup (mirror s) = fd_cgroup s" "proc_cgroup_counter (mirror s) = fd_cgroup_counter s"
  "proc_ns_limit (mirror s) = fd_ns_limit s" "proc_ns_counter (mirror s) = fd_ns_counter s"
  "events (mirror s) = map mirror_event (events s)" "signals (mirror s) = signals s"
  by (simp_all add: mirror_def)

lemma mirror_event_mirror [simp]: "mirror_event (mirror_event e) = e"
  by (simp add: mirror_event_def)

lemma mirror_mirror [simp]: "mirror (mirror s) = s"
  by (simp add: mirror_def comp_def)

lemma mirror_updates [mirror_simps]:
  "mirror (s\<lparr>fd_cgroup_counter := c\<rparr>) = (mirror s)\<lparr>proc_cgroup_counter := c\<rparr>"
  "mirror (s\<lparr>fd_ns_counter := l\<rparr>) = (mirror s)\<lparr>proc_ns_counter := l\<rparr>"
  "mirror (s\<lparr>proc_cgroup_counter := c\<rparr>) = (mirror s)\<lparr>fd_cgroup_counter := c\<rparr>"
  "mirror (s\<lparr>proc_ns_counter := l\<rparr>) = (mirror s)\<lparr>fd_ns_counter := l\<rparr>"
  by (simp_all add: mirror_def)

lemma mirror_emit [mirror_simps]:
  "mirror (emit_breach_event h ns cg tc REASON_FD s) = emit_breach_event h ns cg tc REASON_PROC (mirror s)"
  "mirror (emit_breach_event h ns cg tc REASON_PROC s) = emit_breach_event h ns cg tc REASON_FD (mirror s)"
  by (simp_all add: emit_breach_event_def mirror_def mirror_event_def)

lemma mirror_signal [mirror_simps]: "mirror (bpf_send_signal h n s) = bpf_send_signal h n (mirror s)"
  by (simp add: bpf_send_signal_def mirror_def)

lemma mirror_views [mirror_simps]: "fd_view (mirror s) = proc_view s" "proc_view (mirror s) = fd_view s"
  by (simp_all add: view_defs)

lemma mirror_put [mirror_simps]: "mirror (fd_put q s) = proc_put q (mirror s)"
  by (simp add: view_defs mirror_def)

lemma mirror_log [mirror_simps]:
  "mirror (log_events es s) = log_events (map mirror_event es) (mirror s)"
  by (simp add: log_events_def mirror_def)

section \<open>The programs\<close>

lemma charge_mirror:
  "charge h REASON_PROC q =
     (case charge h REASON_FD q of (r, q', es) \<Rightarrow> (r, q', map mirror_event es))"
  by (simp add: charge_def Let_def breach_events_def mirror_event_def split: option.split prod.split
      verdict.split)

lemma over_proc_limit_mirror:
  "over_proc_limit h s = map_prod id mirror (over_limit h (mirror s))"
  by (simp add: over_proc_limit_view over_limit_view charge_mirror mirror_simps split: prod.split)

lemma track_clone_mirror: "track_clone h s = mirror (track_install_fd h (mirror s))"
  by (simp add: track_clone_def track_install_fd_def over_proc_limit_mirror mirror_simps Let_def
      split: prod.split)

lemma track_exit_mirror: "track_exit h s = mirror (track_close_fd h (Some 1) (mirror s))"
  by (simp add: track_exit_view track_close_fd_view mirror_simps)

end
