(* ===== verification/Kern_Race.thy ===== *)
theory Kern_Race
  imports Kern_Mirror
begin

text \<open>
  The programs at the grain of their accesses to shared memory. Programs on
  different CPUs interleave between any two accesses; only the \<^verbatim>\<open>__sync\<close> operations and
  the map updates are atomic. One step is one statement of the source; a statement that
  compares two shared words reads both in its step, and a value already loaded is carried in
  the program point.
\<close>

section \<open>The program points\<close>

datatype install =
    I_Cgroup
  | I_Count u64
  | I_CountNew u64
  | I_CountAdd u64
  | I_Limit u64
  | I_Lease u64 u64
  | I_Top u64 u64
  | I_TopCgid u64 u64 u64
  | I_TopCount u64 u64 u64
  | I_Used u64 u64
  | I_CheckLimit u64 u64
  | I_CheckBudget u64 u64
  | I_Grow u64 u64
  | I_GrowStore u64 u64 u64
  | I_Recheck u64 u64
  | I_Add u64 u64
  | I_Emit u64 u64
  | I_Verdict u64 u64
  | I_Done int

datatype close_fd =
    C_Count
  | C_CountSub
  | C_Cgroup
  | C_Lease u64
  | C_Sub u64
  | C_Used u64
  | C_Done

section \<open>One access\<close>

definition with_lease :: "u64 \<Rightarrow> (cpu_lease \<Rightarrow> cpu_lease) \<Rightarrow> kstate \<Rightarrow> kstate" where
  "with_lease ns f s =
     (case fd_ns_counter s ns of
        None \<Rightarrow> s
      | Some lease \<Rightarrow> s\<lparr>fd_ns_counter := (fd_ns_counter s)(ns \<mapsto> f lease)\<rparr>)"

definition read_lease :: "u64 \<Rightarrow> (cpu_lease \<Rightarrow> u64) \<Rightarrow> kstate \<Rightarrow> u64" where
  "read_lease ns f s = (case fd_ns_counter s ns of None \<Rightarrow> 0 | Some lease \<Rightarrow> f lease)"

fun install_step :: "helpers \<Rightarrow> install \<Rightarrow> kstate \<Rightarrow> install \<times> kstate" where
  "install_step h I_Cgroup s =
     (case fd_cgroup s (h_cgid h) of None \<Rightarrow> (I_Done 0, s) | Some ns \<Rightarrow> (I_Count ns, s))"
| "install_step h (I_Count ns) s =
     (case fd_cgroup_counter s (h_cgid h) of
        None \<Rightarrow> (I_CountNew ns, s) | Some _ \<Rightarrow> (I_CountAdd ns, s))"
| "install_step h (I_CountNew ns) s =
     (I_Limit ns,
      s\<lparr>fd_cgroup_counter := h_lru_update h (fd_cgroup_counter s) (h_cgid h) 1\<rparr>)"
| "install_step h (I_CountAdd ns) s =
     (I_Limit ns,
      (case fd_cgroup_counter s (h_cgid h) of
         None \<Rightarrow> s
       | Some c \<Rightarrow> s\<lparr>fd_cgroup_counter := (fd_cgroup_counter s)(h_cgid h \<mapsto> c + 1)\<rparr>))"
| "install_step h (I_Limit ns) s =
     (case fd_ns_limit s ns of
        None \<Rightarrow> (I_Done 0, s)
      | Some limit \<Rightarrow> if limit = 0 then (I_Done 0, s) else (I_Lease ns limit, s))"
| "install_step h (I_Lease ns limit) s =
     (case fd_ns_counter s ns of None \<Rightarrow> (I_Done 0, s) | Some _ \<Rightarrow> (I_Top ns limit, s))"
| "install_step h (I_Top ns limit) s =
     (case fd_cgroup_counter s (h_cgid h) of
        None \<Rightarrow> (I_Used ns limit, s)
      | Some c \<Rightarrow>
          if read_lease ns cl_top_count s < c then (I_TopCgid ns limit c, s)
          else (I_Used ns limit, s))"
| "install_step h (I_TopCgid ns limit c) s =
     (I_TopCount ns limit c, with_lease ns (\<lambda>l. l\<lparr>cl_top_cgid := h_cgid h\<rparr>) s)"
| "install_step h (I_TopCount ns limit c) s =
     (I_Used ns limit, with_lease ns (\<lambda>l. l\<lparr>cl_top_count := c\<rparr>) s)"
| "install_step h (I_Used ns limit) s =
     (I_CheckLimit ns limit, with_lease ns (\<lambda>l. l\<lparr>cl_last_used_ns := h_ktime_used h\<rparr>) s)"
| "install_step h (I_CheckLimit ns limit) s =
     (if limit \<le> read_lease ns cl_count s then (I_Emit ns limit, s)
      else (I_CheckBudget ns limit, s))"
| "install_step h (I_CheckBudget ns limit) s =
     (if read_lease ns cl_lease_budget s \<le> read_lease ns cl_count s then (I_Grow ns limit, s)
      else (I_Add ns limit, s))"
| "install_step h (I_Grow ns limit) s =
     (let budget = read_lease ns cl_lease_budget s in
      if budget + budget_step limit \<le> limit
      then (I_GrowStore ns limit (budget + budget_step limit), s)
      else (I_GrowStore ns limit limit, s))"
| "install_step h (I_GrowStore ns limit b) s =
     (I_Recheck ns limit, with_lease ns (\<lambda>l. l\<lparr>cl_lease_budget := b\<rparr>) s)"
| "install_step h (I_Recheck ns limit) s =
     (if read_lease ns cl_lease_budget s \<le> read_lease ns cl_count s then (I_Emit ns limit, s)
      else (I_Add ns limit, s))"
| "install_step h (I_Add ns limit) s =
     (I_Done 0, with_lease ns (\<lambda>l. l\<lparr>cl_count := cl_count l + 1\<rparr>) s)"
| "install_step h (I_Emit ns limit) s =
     (I_Verdict ns limit,
      emit_breach_event h ns (h_cgid h) (read_lease ns cl_top_cgid s) REASON_FD s)"
| "install_step h (I_Verdict ns limit) s =
     (if h_cgid h = read_lease ns cl_top_cgid s then (I_Done 1, s) else (I_Done 2, s))"
| "install_step h (I_Done r) s = (I_Done r, s)"

fun close_step :: "helpers \<Rightarrow> close_fd \<Rightarrow> kstate \<Rightarrow> close_fd \<times> kstate" where
  "close_step h C_Count s =
     (case fd_cgroup_counter s (h_cgid h) of
        None \<Rightarrow> (C_Cgroup, s)
      | Some c \<Rightarrow> if 0 < c then (C_CountSub, s) else (C_Cgroup, s))"
| "close_step h C_CountSub s =
     (C_Cgroup,
      (case fd_cgroup_counter s (h_cgid h) of
         None \<Rightarrow> s
       | Some c \<Rightarrow> s\<lparr>fd_cgroup_counter := (fd_cgroup_counter s)(h_cgid h \<mapsto> c - 1)\<rparr>))"
| "close_step h C_Cgroup s =
     (case fd_cgroup s (h_cgid h) of None \<Rightarrow> (C_Done, s) | Some ns \<Rightarrow> (C_Lease ns, s))"
| "close_step h (C_Lease ns) s =
     (case fd_ns_counter s ns of
        None \<Rightarrow> (C_Done, s)
      | Some lease \<Rightarrow> if cl_count lease = 0 then (C_Done, s) else (C_Sub ns, s))"
| "close_step h (C_Sub ns) s =
     (C_Used ns, with_lease ns (\<lambda>l. l\<lparr>cl_count := cl_count l - 1\<rparr>) s)"
| "close_step h (C_Used ns) s =
     (C_Done, with_lease ns (\<lambda>l. l\<lparr>cl_last_used_ns := h_ktime_used h\<rparr>) s)"
| "close_step h C_Done s = (C_Done, s)"

section \<open>The process programs\<close>

text \<open>
  \<^verbatim>\<open>over_proc_limit\<close> and \<^verbatim>\<open>track_exit\<close> on the maps of processes. Their program points are
  those of the descriptor programs.
\<close>

definition with_proc_lease :: "u64 \<Rightarrow> (cpu_lease \<Rightarrow> cpu_lease) \<Rightarrow> kstate \<Rightarrow> kstate" where
  "with_proc_lease ns f s =
     (case proc_ns_counter s ns of
        None \<Rightarrow> s
      | Some lease \<Rightarrow> s\<lparr>proc_ns_counter := (proc_ns_counter s)(ns \<mapsto> f lease)\<rparr>)"

definition read_proc_lease :: "u64 \<Rightarrow> (cpu_lease \<Rightarrow> u64) \<Rightarrow> kstate \<Rightarrow> u64" where
  "read_proc_lease ns f s = (case proc_ns_counter s ns of None \<Rightarrow> 0 | Some lease \<Rightarrow> f lease)"

fun clone_step :: "helpers \<Rightarrow> install \<Rightarrow> kstate \<Rightarrow> install \<times> kstate" where
  "clone_step h I_Cgroup s =
     (case proc_cgroup s (h_cgid h) of None \<Rightarrow> (I_Done 0, s) | Some ns \<Rightarrow> (I_Count ns, s))"
| "clone_step h (I_Count ns) s =
     (case proc_cgroup_counter s (h_cgid h) of
        None \<Rightarrow> (I_CountNew ns, s) | Some _ \<Rightarrow> (I_CountAdd ns, s))"
| "clone_step h (I_CountNew ns) s =
     (I_Limit ns,
      s\<lparr>proc_cgroup_counter := h_lru_update h (proc_cgroup_counter s) (h_cgid h) 1\<rparr>)"
| "clone_step h (I_CountAdd ns) s =
     (I_Limit ns,
      (case proc_cgroup_counter s (h_cgid h) of
         None \<Rightarrow> s
       | Some c \<Rightarrow> s\<lparr>proc_cgroup_counter := (proc_cgroup_counter s)(h_cgid h \<mapsto> c + 1)\<rparr>))"
| "clone_step h (I_Limit ns) s =
     (case proc_ns_limit s ns of
        None \<Rightarrow> (I_Done 0, s)
      | Some limit \<Rightarrow> if limit = 0 then (I_Done 0, s) else (I_Lease ns limit, s))"
| "clone_step h (I_Lease ns limit) s =
     (case proc_ns_counter s ns of None \<Rightarrow> (I_Done 0, s) | Some _ \<Rightarrow> (I_Top ns limit, s))"
| "clone_step h (I_Top ns limit) s =
     (case proc_cgroup_counter s (h_cgid h) of
        None \<Rightarrow> (I_Used ns limit, s)
      | Some c \<Rightarrow>
          if read_proc_lease ns cl_top_count s < c then (I_TopCgid ns limit c, s)
          else (I_Used ns limit, s))"
| "clone_step h (I_TopCgid ns limit c) s =
     (I_TopCount ns limit c, with_proc_lease ns (\<lambda>l. l\<lparr>cl_top_cgid := h_cgid h\<rparr>) s)"
| "clone_step h (I_TopCount ns limit c) s =
     (I_Used ns limit, with_proc_lease ns (\<lambda>l. l\<lparr>cl_top_count := c\<rparr>) s)"
| "clone_step h (I_Used ns limit) s =
     (I_CheckLimit ns limit, with_proc_lease ns (\<lambda>l. l\<lparr>cl_last_used_ns := h_ktime_used h\<rparr>) s)"
| "clone_step h (I_CheckLimit ns limit) s =
     (if limit \<le> read_proc_lease ns cl_count s then (I_Emit ns limit, s)
      else (I_CheckBudget ns limit, s))"
| "clone_step h (I_CheckBudget ns limit) s =
     (if read_proc_lease ns cl_lease_budget s \<le> read_proc_lease ns cl_count s then (I_Grow ns limit, s)
      else (I_Add ns limit, s))"
| "clone_step h (I_Grow ns limit) s =
     (let budget = read_proc_lease ns cl_lease_budget s in
      if budget + budget_step limit \<le> limit
      then (I_GrowStore ns limit (budget + budget_step limit), s)
      else (I_GrowStore ns limit limit, s))"
| "clone_step h (I_GrowStore ns limit b) s =
     (I_Recheck ns limit, with_proc_lease ns (\<lambda>l. l\<lparr>cl_lease_budget := b\<rparr>) s)"
| "clone_step h (I_Recheck ns limit) s =
     (if read_proc_lease ns cl_lease_budget s \<le> read_proc_lease ns cl_count s then (I_Emit ns limit, s)
      else (I_Add ns limit, s))"
| "clone_step h (I_Add ns limit) s =
     (I_Done 0, with_proc_lease ns (\<lambda>l. l\<lparr>cl_count := cl_count l + 1\<rparr>) s)"
| "clone_step h (I_Emit ns limit) s =
     (I_Verdict ns limit,
      emit_breach_event h ns (h_cgid h) (read_proc_lease ns cl_top_cgid s) REASON_PROC s)"
| "clone_step h (I_Verdict ns limit) s =
     (if h_cgid h = read_proc_lease ns cl_top_cgid s then (I_Done 1, s) else (I_Done 2, s))"
| "clone_step h (I_Done r) s = (I_Done r, s)"

fun exit_step :: "helpers \<Rightarrow> close_fd \<Rightarrow> kstate \<Rightarrow> close_fd \<times> kstate" where
  "exit_step h C_Count s =
     (case proc_cgroup_counter s (h_cgid h) of
        None \<Rightarrow> (C_Cgroup, s)
      | Some c \<Rightarrow> if 0 < c then (C_CountSub, s) else (C_Cgroup, s))"
| "exit_step h C_CountSub s =
     (C_Cgroup,
      (case proc_cgroup_counter s (h_cgid h) of
         None \<Rightarrow> s
       | Some c \<Rightarrow> s\<lparr>proc_cgroup_counter := (proc_cgroup_counter s)(h_cgid h \<mapsto> c - 1)\<rparr>))"
| "exit_step h C_Cgroup s =
     (case proc_cgroup s (h_cgid h) of None \<Rightarrow> (C_Done, s) | Some ns \<Rightarrow> (C_Lease ns, s))"
| "exit_step h (C_Lease ns) s =
     (case proc_ns_counter s ns of
        None \<Rightarrow> (C_Done, s)
      | Some lease \<Rightarrow> if 0 < cl_count lease then (C_Sub ns, s) else (C_Done, s))"
| "exit_step h (C_Sub ns) s =
     (C_Used ns, with_proc_lease ns (\<lambda>l. l\<lparr>cl_count := cl_count l - 1\<rparr>) s)"
| "exit_step h (C_Used ns) s =
     (C_Done, with_proc_lease ns (\<lambda>l. l\<lparr>cl_last_used_ns := h_ktime_used h\<rparr>) s)"
| "exit_step h C_Done s = (C_Done, s)"

text \<open>Access by access they are the descriptor programs with the maps exchanged.\<close>

lemma mirror_lease [mirror_simps]:
  "mirror (with_lease ns f s) = with_proc_lease ns f (mirror s)"
  "read_lease ns g (mirror s) = read_proc_lease ns g s"
  by (simp_all add: with_lease_def with_proc_lease_def read_lease_def read_proc_lease_def
      mirror_simps split: option.split)

lemma clone_step_mirror: "clone_step h pc s = map_prod id mirror (install_step h pc (mirror s))"
  by (cases pc) (simp_all add: mirror_simps Let_def split: option.split)

lemma exit_step_mirror: "exit_step h pc s = map_prod id mirror (close_step h pc (mirror s))"
  by (cases pc) (simp_all add: mirror_simps word_neq_0_conv split: option.split)

section \<open>Alone on the machine, the programs are the sequential ones\<close>

fun install_run :: "nat \<Rightarrow> helpers \<Rightarrow> install \<Rightarrow> kstate \<Rightarrow> install \<times> kstate" where
  "install_run 0 h pc s = (pc, s)"
| "install_run (Suc n) h pc s = (case install_step h pc s of (pc, s) \<Rightarrow> install_run n h pc s)"

fun close_run :: "nat \<Rightarrow> helpers \<Rightarrow> close_fd \<Rightarrow> kstate \<Rightarrow> close_fd \<times> kstate" where
  "close_run 0 h pc s = (pc, s)"
| "close_run (Suc n) h pc s = (case close_step h pc s of (pc, s) \<Rightarrow> close_run n h pc s)"

lemma install_run_done [simp]: "install_run n h (I_Done r) s = (I_Done r, s)"
  by (induction n) auto

lemma close_run_done [simp]: "close_run n h C_Done s = (C_Done, s)"
  by (induction n) auto

lemma install_run_7:
  "install_run 7 h (I_CheckLimit ns limit) s = install_run (Suc (Suc (Suc (Suc (Suc (Suc (Suc 0))))))) h (I_CheckLimit ns limit) s"
  by (simp add: numeral_eq_Suc)

lemma lease_access [simp]:
  "fd_ns_counter s ns = Some l \<Longrightarrow> read_lease ns f s = f l"
  "fd_ns_counter s ns = Some l \<Longrightarrow>
     with_lease ns g s = s\<lparr>fd_ns_counter := (fd_ns_counter s)(ns \<mapsto> g l)\<rparr>"
  by (simp_all add: read_lease_def with_lease_def)

lemma install_tail:
  assumes "fd_ns_counter s ns = Some lease"
  shows "install_run 7 h (I_CheckLimit ns limit) s =
    (let (v, lease') = lease_charge limit lease;
         s' = s\<lparr>fd_ns_counter := (fd_ns_counter s)(ns \<mapsto> lease')\<rparr>
     in case v of
          Admit \<Rightarrow> (I_Done 0, s')
        | Breach \<Rightarrow> (I_Done (if h_cgid h = cl_top_cgid lease' then 1 else 2),
                    emit_breach_event h ns (h_cgid h) (cl_top_cgid lease') REASON_FD s'))"
  unfolding install_run_7
  using assms
  by (auto simp: lease_charge_def grow_budget_def Let_def emit_breach_event_def map_upd_triv)

lemma install_run_add:
  "install_run (m + n) h pc s = (case install_run m h pc s of (pc, s) \<Rightarrow> install_run n h pc s)"
  by (induction m arbitrary: pc s) (auto split: prod.split)

lemma install_tail_more:
  assumes "fd_ns_counter s ns = Some lease" "7 \<le> n"
  shows "install_run n h (I_CheckLimit ns limit) s = install_run 7 h (I_CheckLimit ns limit) s"
proof -
  obtain k where "n = 7 + k" using assms(2) le_Suc_ex by blast
  then show ?thesis
    by (simp add: install_run_add install_tail [OF assms(1)] Let_def split: prod.split verdict.split)
qed

lemma install_head:
  "install_run 3 h I_Cgroup s =
     (case fd_cgroup s (h_cgid h) of
        None \<Rightarrow> (I_Done 0, s) | Some ns \<Rightarrow> (I_Limit ns, record_cgroup_inc h (h_cgid h) s))"
  by (simp add: numeral_eq_Suc record_cgroup_inc_def split: option.split)

lemma install_middle:
  assumes "fd_ns_limit s ns = Some limit" "limit \<noteq> 0" "fd_ns_counter s ns = Some lease"
  shows "install_run 13 h (I_Limit ns) s =
    install_run 7 h (I_CheckLimit ns limit)
      (s\<lparr>fd_ns_counter := (fd_ns_counter s)(ns \<mapsto>
         (note_top (h_cgid h) (fd_cgroup_counter s (h_cgid h)) lease)
           \<lparr>cl_last_used_ns := h_ktime_used h\<rparr>)\<rparr>)"
    (is "_ = install_run 7 _ _ ?s")
proof -
  have l: "\<exists>l. fd_ns_counter ?s ns = Some l" by simp
  have "install_run 4 h (I_Limit ns) s = (I_CheckLimit ns limit, ?s) \<or>
        install_run 6 h (I_Limit ns) s = (I_CheckLimit ns limit, ?s)"
    using assms by (auto simp: numeral_eq_Suc note_top_def split: option.split)
  then show ?thesis
    using install_run_add [of 4 9 h "I_Limit ns" s] install_run_add [of 6 7 h "I_Limit ns" s]
      l install_tail_more [of ?s ns _ 9 h limit] by auto
qed

lemma inc_frame:
  "fd_ns_limit (record_cgroup_inc h cgid s) = fd_ns_limit s"
  "fd_ns_counter (record_cgroup_inc h cgid s) = fd_ns_counter s"
  by (simp_all add: record_cgroup_inc_def split: option.split)

lemma install_alone:
  "install_run 16 h I_Cgroup s = (I_Done (fst (over_limit h s)), snd (over_limit h s))"
proof (cases "fd_cgroup s (h_cgid h)")
  case None
  then show ?thesis
    using install_run_add [of 3 13 h I_Cgroup s] by (simp add: install_head kern_defs)
next
  case (Some ns)
  let ?s = "record_cgroup_inc h (h_cgid h) s"
  have r: "install_run 16 h I_Cgroup s = install_run 13 h (I_Limit ns) ?s"
    using install_run_add [of 3 13 h I_Cgroup s] Some by (simp add: install_head)
  show ?thesis
  proof (cases "limited (fd_view s) ns")
    case None
    then show ?thesis
      using Some install_run_add [of 2 11 h "I_Limit ns" ?s] unfolding r over_limit_def
      by (auto simp: limited_def inc_frame numeral_2_eq_2 split: option.splits if_splits)
  next
    case lim: (Some p)
    obtain limit lease where p: "p = (limit, lease)" by (cases p)
    obtain v lease' where v:
      "lease_charge limit (touch h (count_inc h (h_cgid h) (fd_view s)) lease) = (v, lease')"
      by (cases "lease_charge limit (touch h (count_inc h (h_cgid h) (fd_view s)) lease)")
    have l: "fd_ns_limit s ns = Some limit" "limit \<noteq> 0" "fd_ns_counter s ns = Some lease"
      using lim p by (simp_all add: limited_Some_limit)
    have inc: "q_counter (count_inc h (h_cgid h) (fd_view s)) = fd_cgroup_counter ?s"
      by (simp add: count_inc_def record_cgroup_inc_def split: option.split)
    have "install_run 13 h (I_Limit ns) ?s =
      (let s' = ?s\<lparr>fd_ns_counter := (fd_ns_counter s)(ns \<mapsto> lease')\<rparr> in
       case v of
          Admit \<Rightarrow> (I_Done 0, s')
        | Breach \<Rightarrow> (I_Done (if h_cgid h = cl_top_cgid lease' then 1 else 2),
                    emit_breach_event h ns (h_cgid h) (cl_top_cgid lease') REASON_FD s'))"
      using v l install_middle [of ?s ns limit lease h]
      by (simp add: inc_frame install_tail touch_def inc)
    moreover have "over_limit h s =
      (let s' = ?s\<lparr>fd_ns_counter := (fd_ns_counter s)(ns \<mapsto> lease')\<rparr> in
       case v of
          Admit \<Rightarrow> (0, s')
        | Breach \<Rightarrow> (if h_cgid h = cl_top_cgid lease' then 1 else 2,
                    emit_breach_event h ns (h_cgid h) (cl_top_cgid lease') REASON_FD s'))"
      using charge_limited [of "fd_view s" h ns limit lease v lease' REASON_FD] Some lim v p
      by (cases v; cases "fd_cgroup_counter s (h_cgid h)")
        (simp_all add: over_limit_view Let_def count_inc_def record_cgroup_inc_def view_defs
          emit_breach_event_def breach_events_def)
    ultimately show ?thesis unfolding r by (cases v) (simp_all add: Let_def)
  qed
qed
lemma close_alone: "close_run 6 h C_Count s = (C_Done, last_close h s)"
  unfolding last_close_def track_close_fd_def record_cgroup_dec_def
  by (auto simp: numeral_eq_Suc with_lease_def word_neq_0_conv Let_def split: option.splits)

fun clone_run :: "nat \<Rightarrow> helpers \<Rightarrow> install \<Rightarrow> kstate \<Rightarrow> install \<times> kstate" where
  "clone_run 0 h pc s = (pc, s)"
| "clone_run (Suc n) h pc s = (case clone_step h pc s of (pc, s) \<Rightarrow> clone_run n h pc s)"

fun exit_run :: "nat \<Rightarrow> helpers \<Rightarrow> close_fd \<Rightarrow> kstate \<Rightarrow> close_fd \<times> kstate" where
  "exit_run 0 h pc s = (pc, s)"
| "exit_run (Suc n) h pc s = (case exit_step h pc s of (pc, s) \<Rightarrow> exit_run n h pc s)"

lemma clone_run_mirror: "clone_run n h pc s = map_prod id mirror (install_run n h pc (mirror s))"
  by (induction n arbitrary: pc s) (simp_all add: clone_step_mirror map_prod_def split: prod.split)

lemma exit_run_mirror: "exit_run n h pc s = map_prod id mirror (close_run n h pc (mirror s))"
  by (induction n arbitrary: pc s) (simp_all add: exit_step_mirror map_prod_def split: prod.split)

lemma clone_alone:
  "clone_run 16 h I_Cgroup s = (I_Done (fst (over_proc_limit h s)), snd (over_proc_limit h s))"
  by (simp add: clone_run_mirror install_alone over_proc_limit_mirror)

lemma exit_alone: "exit_run 6 h C_Count s = (C_Done, track_exit h s)"
  by (simp add: exit_run_mirror close_alone track_exit_mirror last_close_def)

end
