(* ===== verification/Kern_Machine.thy ===== *)
theory Kern_Machine
  imports Kern_Race
begin

text \<open>
  The programs of the enforcer on several CPUs at once: the machine, how far a count can
  overshoot its limit, schedules, and how long a program runs.
\<close>

section \<open>Several CPUs\<close>

datatype thread =
    Idle
  | Installing helpers install
  | Closing helpers close_fd
  | Cloning helpers install
  | Exiting helpers close_fd

record machine =
  shared :: kstate
  cpu :: "nat \<Rightarrow> thread"

text \<open>
  \<open>mstep n closers exiters\<close>: one step of one of \<open>n\<close> CPUs. A CPU that is idle enters
  \<^verbatim>\<open>fd_install\<close> or \<^verbatim>\<open>kernel_clone\<close>, or \<^verbatim>\<open>filp_close\<close> with the last reference if it is
  one of the \<open>closers\<close>, or \<^verbatim>\<open>do_exit\<close> if it is one of the \<open>exiters\<close>; when the program
  has returned, the CPU is idle again.
\<close>

inductive mstep :: "nat \<Rightarrow> nat set \<Rightarrow> nat set \<Rightarrow> machine \<Rightarrow> machine \<Rightarrow> bool"
  for n closers exiters where
  enter_install: "i < n \<Longrightarrow> cpu m i = Idle \<Longrightarrow>
     mstep n closers exiters m (m\<lparr>cpu := (cpu m)(i := Installing h I_Cgroup)\<rparr>)"
| install: "i < n \<Longrightarrow> cpu m i = Installing h pc \<Longrightarrow> install_step h pc (shared m) = (pc', s) \<Longrightarrow>
     mstep n closers exiters m (m\<lparr>shared := s, cpu := (cpu m)(i := Installing h pc')\<rparr>)"
| leave_install: "i < n \<Longrightarrow> cpu m i = Installing h (I_Done r) \<Longrightarrow>
     mstep n closers exiters m
       (m\<lparr>shared := (if r = 1 then bpf_send_signal h 9 (shared m) else shared m),
         cpu := (cpu m)(i := Idle)\<rparr>)"
| enter_close: "i < n \<Longrightarrow> i \<in> closers \<Longrightarrow> cpu m i = Idle \<Longrightarrow>
     mstep n closers exiters m (m\<lparr>cpu := (cpu m)(i := Closing h C_Count)\<rparr>)"
| close: "i < n \<Longrightarrow> cpu m i = Closing h pc \<Longrightarrow> close_step h pc (shared m) = (pc', s) \<Longrightarrow>
     mstep n closers exiters m (m\<lparr>shared := s, cpu := (cpu m)(i := Closing h pc')\<rparr>)"
| leave_close: "i < n \<Longrightarrow> cpu m i = Closing h C_Done \<Longrightarrow>
     mstep n closers exiters m (m\<lparr>cpu := (cpu m)(i := Idle)\<rparr>)"
| enter_clone: "i < n \<Longrightarrow> cpu m i = Idle \<Longrightarrow>
     mstep n closers exiters m (m\<lparr>cpu := (cpu m)(i := Cloning h I_Cgroup)\<rparr>)"
| clone: "i < n \<Longrightarrow> cpu m i = Cloning h pc \<Longrightarrow> clone_step h pc (shared m) = (pc', s) \<Longrightarrow>
     mstep n closers exiters m (m\<lparr>shared := s, cpu := (cpu m)(i := Cloning h pc')\<rparr>)"
| leave_clone: "i < n \<Longrightarrow> cpu m i = Cloning h (I_Done r) \<Longrightarrow>
     mstep n closers exiters m
       (m\<lparr>shared := (if r = 1 then bpf_send_signal h 9 (shared m) else shared m),
         cpu := (cpu m)(i := Idle)\<rparr>)"
| enter_exit: "i < n \<Longrightarrow> i \<in> exiters \<Longrightarrow> cpu m i = Idle \<Longrightarrow>
     mstep n closers exiters m (m\<lparr>cpu := (cpu m)(i := Exiting h C_Count)\<rparr>)"
| exit: "i < n \<Longrightarrow> cpu m i = Exiting h pc \<Longrightarrow> exit_step h pc (shared m) = (pc', s) \<Longrightarrow>
     mstep n closers exiters m (m\<lparr>shared := s, cpu := (cpu m)(i := Exiting h pc')\<rparr>)"
| leave_exit: "i < n \<Longrightarrow> cpu m i = Exiting h C_Done \<Longrightarrow>
     mstep n closers exiters m (m\<lparr>cpu := (cpu m)(i := Idle)\<rparr>)"

inductive reach :: "nat \<Rightarrow> nat set \<Rightarrow> nat set \<Rightarrow> kstate \<Rightarrow> machine \<Rightarrow> bool"
  for n closers exiters s0 where
  start: "reach n closers exiters s0 \<lparr>shared = s0, cpu = (\<lambda>_. Idle)\<rparr>"
| step: "reach n closers exiters s0 m \<Longrightarrow> mstep n closers exiters m m' \<Longrightarrow>
     reach n closers exiters s0 m'"

section \<open>The machine with its halves exchanged\<close>

fun mirror_thread :: "thread \<Rightarrow> thread" where
  "mirror_thread Idle = Idle"
| "mirror_thread (Installing h pc) = Cloning h pc"
| "mirror_thread (Cloning h pc) = Installing h pc"
| "mirror_thread (Closing h pc) = Exiting h pc"
| "mirror_thread (Exiting h pc) = Closing h pc"

definition mirror_machine :: "machine \<Rightarrow> machine" where
  "mirror_machine m = \<lparr>shared = mirror (shared m), cpu = mirror_thread \<circ> cpu m\<rparr>"

lemma mirror_machine_fields [simp]:
  "shared (mirror_machine m) = mirror (shared m)" "cpu (mirror_machine m) i = mirror_thread (cpu m i)"
  by (simp_all add: mirror_machine_def)

lemma mirror_machine_update:
  "mirror_machine (m\<lparr>shared := s, cpu := (cpu m)(i := t)\<rparr>) =
     (mirror_machine m)\<lparr>shared := mirror s, cpu := (cpu (mirror_machine m))(i := mirror_thread t)\<rparr>"
  "mirror_machine (m\<lparr>cpu := (cpu m)(i := t)\<rparr>) =
     (mirror_machine m)\<lparr>cpu := (cpu (mirror_machine m))(i := mirror_thread t)\<rparr>"
  by (simp_all add: mirror_machine_def fun_upd_comp)

lemma steps_mirror:
  "install_step h pc s = (pc', s') \<Longrightarrow> clone_step h pc (mirror s) = (pc', mirror s')"
  "clone_step h pc s = (pc', s') \<Longrightarrow> install_step h pc (mirror s) = (pc', mirror s')"
  "close_step h qc s = (qc', s') \<Longrightarrow> exit_step h qc (mirror s) = (qc', mirror s')"
  "exit_step h qc s = (qc', s') \<Longrightarrow> close_step h qc (mirror s) = (qc', mirror s')"
  by (auto simp: clone_step_mirror exit_step_mirror map_prod_def split: prod.splits)

lemma mirror_mstep:
  assumes "mstep n closers exiters m m'"
  shows "mstep n exiters closers (mirror_machine m) (mirror_machine m')"
  using assms
proof cases
  case (enter_install i h)
  then show ?thesis
    using mstep.enter_clone [of i n "mirror_machine m"] by (simp add: mirror_machine_update)
next
  case (install i h pc pc' s)
  then show ?thesis
    using mstep.clone [of i n "mirror_machine m"] by (simp add: mirror_machine_update steps_mirror)
next
  case (leave_install i h r)
  then show ?thesis
    using mstep.leave_clone [of i n "mirror_machine m"]
    by (simp add: mirror_machine_update if_distrib [of mirror] mirror_signal cong: if_cong)
next
  case (enter_close i h)
  then show ?thesis
    using mstep.enter_exit [of i n closers "mirror_machine m"]
    by (simp add: mirror_machine_update)
next
  case (close i h pc pc' s)
  then show ?thesis
    using mstep.exit [of i n "mirror_machine m"] by (simp add: mirror_machine_update steps_mirror)
next
  case (leave_close i h)
  then show ?thesis
    using mstep.leave_exit [of i n "mirror_machine m"] by (simp add: mirror_machine_update)
next
  case (enter_clone i h)
  then show ?thesis
    using mstep.enter_install [of i n "mirror_machine m"] by (simp add: mirror_machine_update)
next
  case (clone i h pc pc' s)
  then show ?thesis
    using mstep.install [of i n "mirror_machine m"] by (simp add: mirror_machine_update steps_mirror)
next
  case (leave_clone i h r)
  then show ?thesis
    using mstep.leave_install [of i n "mirror_machine m"]
    by (simp add: mirror_machine_update if_distrib [of mirror] mirror_signal cong: if_cong)
next
  case (enter_exit i h)
  then show ?thesis
    using mstep.enter_close [of i n exiters "mirror_machine m"]
    by (simp add: mirror_machine_update)
next
  case (exit i h pc pc' s)
  then show ?thesis
    using mstep.close [of i n "mirror_machine m"] by (simp add: mirror_machine_update steps_mirror)
next
  case (leave_exit i h)
  then show ?thesis
    using mstep.leave_close [of i n "mirror_machine m"] by (simp add: mirror_machine_update)
qed

lemma mirror_reach:
  "reach n closers exiters s0 m \<Longrightarrow> reach n exiters closers (mirror s0) (mirror_machine m)"
proof (induction rule: reach.induct)
  case start
  have "mirror_machine \<lparr>shared = s0, cpu = (\<lambda>_. Idle)\<rparr> = \<lparr>shared = mirror s0, cpu = (\<lambda>_. Idle)\<rparr>"
    by (simp add: mirror_machine_def comp_def)
  then show ?case using reach.start by metis
next
  case (step m m')
  then show ?case using reach.step mirror_mstep by blast
qed

section \<open>How far the count can overshoot\<close>

text \<open>A thread that has passed the limit check of \<open>ns\<close> and may still count.\<close>

fun past_check :: "u64 \<Rightarrow> install \<Rightarrow> bool" where
  "past_check ns (I_CheckBudget ns' _) = (ns' = ns)"
| "past_check ns (I_Grow ns' _) = (ns' = ns)"
| "past_check ns (I_GrowStore ns' _ _) = (ns' = ns)"
| "past_check ns (I_Recheck ns' _) = (ns' = ns)"
| "past_check ns (I_Add ns' _) = (ns' = ns)"
| "past_check ns _ = False"

fun held_limit :: "install \<Rightarrow> (u64 \<times> u64) option" where
  "held_limit (I_Lease ns l) = Some (ns, l)"
| "held_limit (I_Top ns l) = Some (ns, l)"
| "held_limit (I_TopCgid ns l _) = Some (ns, l)"
| "held_limit (I_TopCount ns l _) = Some (ns, l)"
| "held_limit (I_Used ns l) = Some (ns, l)"
| "held_limit (I_CheckLimit ns l) = Some (ns, l)"
| "held_limit _ = None"

definition count_of :: "u64 \<Rightarrow> kstate \<Rightarrow> u64 option" where
  "count_of ns s = map_option cl_count (fd_ns_counter s ns)"

lemma install_step_count:
  "install_step h pc s = (pc', s') \<Longrightarrow>
   count_of ns s' = (if \<exists>l. pc = I_Add ns l then map_option (\<lambda>c. c + 1) (count_of ns s) else count_of ns s)"
  by (cases pc)
    (auto simp: with_lease_def count_of_def emit_breach_event_def Let_def
      split: option.splits if_splits)

lemma install_step_limits: "install_step h pc s = (pc', s') \<Longrightarrow> fd_ns_limit s' = fd_ns_limit s"
  by (cases pc) (auto simp: with_lease_def emit_breach_event_def Let_def split: option.splits if_splits)

lemma install_step_held:
  "install_step h pc s = (pc', s') \<Longrightarrow> held_limit pc' = Some (ns, l) \<Longrightarrow>
   held_limit pc = Some (ns, l) \<or> fd_ns_limit s ns = Some l"
  by (cases pc) (auto simp: Let_def split: option.splits if_splits)

lemma install_step_past:
  "install_step h pc s = (pc', s') \<Longrightarrow> past_check ns pc' \<Longrightarrow> count_of ns s = Some c \<Longrightarrow>
   past_check ns pc \<and> \<not> (\<exists>l. pc = I_Add ns l) \<or>
   (\<exists>l. held_limit pc = Some (ns, l) \<and> c < l)"
  by (cases pc) (auto simp: Let_def read_lease_def count_of_def split: option.splits if_splits)

lemma close_step_count:
  "close_step h pc s = (pc', s') \<Longrightarrow>
   count_of ns s' = (if pc = C_Sub ns then map_option (\<lambda>c. c - 1) (count_of ns s) else count_of ns s)"
  by (cases pc) (auto simp: with_lease_def count_of_def split: option.splits if_splits)

lemma close_step_limits: "close_step h pc s = (pc', s') \<Longrightarrow> fd_ns_limit s' = fd_ns_limit s"
  by (cases pc) (auto simp: with_lease_def split: option.splits if_splits)

lemma close_step_sub:
  "close_step h pc s = (C_Sub ns, s') \<Longrightarrow> count_of ns s = Some c \<Longrightarrow> 0 < c \<and> pc \<noteq> C_Sub ns"
  by (cases pc) (auto simp: count_of_def word_neq_0_conv split: option.splits if_splits)

definition checked :: "nat \<Rightarrow> u64 \<Rightarrow> machine \<Rightarrow> nat set" where
  "checked n ns m = {i. i < n \<and> (\<exists>h pc. cpu m i = Installing h pc \<and> past_check ns pc)}"

lemma checked_finite: "finite (checked n ns m)" "card (checked n ns m) \<le> n"
proof -
  have "checked n ns m \<subseteq> {..<n}" by (auto simp: checked_def)
  then show "finite (checked n ns m)" by (rule finite_subset) simp
  show "card (checked n ns m) \<le> n"
    using card_mono [OF _ \<open>checked n ns m \<subseteq> {..<n}\<close>] by simp
qed

lemma checked_update:
  "i < n \<Longrightarrow> checked n ns (m\<lparr>shared := s, cpu := (cpu m)(i := t)\<rparr>) =
     (if \<exists>h pc. t = Installing h pc \<and> past_check ns pc
      then insert i (checked n ns m) else checked n ns m - {i})"
  by (auto simp: checked_def)

text \<open>
  The invariant: each thread past the check will add at most one, and a closing thread that
  has seen a positive count still finds one.
\<close>

definition race_inv :: "nat \<Rightarrow> nat \<Rightarrow> u64 \<Rightarrow> u64 \<Rightarrow> machine \<Rightarrow> bool" where
  "race_inv n k ns limit m \<longleftrightarrow>
     fd_ns_limit (shared m) ns = Some limit \<and>
     (\<exists>c. count_of ns (shared m) = Some c \<and>
          unat c + card (checked n ns m) < unat limit + n \<and>
          (\<forall>i h. cpu m i = Closing h (C_Sub ns) \<longrightarrow> 0 < c)) \<and>
     (\<forall>i h pc l. cpu m i = Installing h pc \<longrightarrow> held_limit pc = Some (ns, l) \<longrightarrow> l = limit) \<and>
     (\<forall>i h pc. cpu m i = Closing h pc \<longrightarrow> i = k)"

lemma race_inv_install:
  assumes inv: "race_inv n k ns limit m" and fit: "unat limit + n \<le> 2 ^ 64"
    and i: "i < n" "cpu m i = Installing h pc" and st: "install_step h pc (shared m) = (pc', s)"
  shows "race_inv n k ns limit (m\<lparr>shared := s, cpu := (cpu m)(i := Installing h pc')\<rparr>)"
    (is "race_inv n k ns limit ?m")
proof -
  from inv obtain c where c: "count_of ns (shared m) = Some c"
    "unat c + card (checked n ns m) < unat limit + n"
    "\<forall>i h. cpu m i = Closing h (C_Sub ns) \<longrightarrow> 0 < c"
    by (auto simp: race_inv_def)
  have lim: "fd_ns_limit (shared m) ns = Some limit"
    and held: "held_limit pc = Some (ns, l) \<Longrightarrow> l = limit" for l
    using inv i(2) by (auto simp: race_inv_def)
  have held': "held_limit pc' = Some (ns, l) \<Longrightarrow> l = limit" for l
    using install_step_held [OF st] held lim by auto
  have chk: "checked n ns ?m =
      (if past_check ns pc' then insert i (checked n ns m) else checked n ns m - {i})"
    using i(1) by (simp add: checked_update)
  have cl: "cpu ?m j = Closing h' p \<Longrightarrow> cpu m j = Closing h' p" for j h' p
    by (simp split: if_splits)
  have "\<exists>c'. count_of ns s = Some c' \<and> unat c' + card (checked n ns ?m) < unat limit + n \<and>
      (0 < c \<longrightarrow> 0 < c')"
  proof (cases "\<exists>l. pc = I_Add ns l")
    case True
    then have "past_check ns pc" "\<not> past_check ns pc'" using st by auto
    then have mem: "i \<in> checked n ns m" and chk': "checked n ns ?m = checked n ns m - {i}"
      using i chk by (auto simp: checked_def)
    then have card: "card (checked n ns m) = Suc (card (checked n ns ?m))"
      using card_Suc_Diff1 [OF checked_finite(1) mem] by (simp only: chk')
    then have "unat (c + 1) = Suc (unat c)"
      using c(2) fit by (intro trans [OF unat_add_below]) simp_all
    then show ?thesis
      using install_step_count [OF st, of ns] True c card
      by (auto simp: word_less_nat_alt)
  next
    case False
    then have c': "count_of ns s = Some c" using install_step_count [OF st, of ns] c by simp
    show ?thesis
    proof (cases "past_check ns pc' \<and> \<not> past_check ns pc")
      case True
      with install_step_past [OF st _ c(1)] held have "c < limit" by blast
      then have "unat c + card (checked n ns ?m) < unat limit + n"
        using checked_finite(2) [of n ns ?m] by (simp add: word_less_nat_alt)
      with c' show ?thesis by blast
    next
      case False
      then have "checked n ns ?m \<subseteq> checked n ns m"
        using i chk by (auto simp: checked_def)
      then have "card (checked n ns ?m) \<le> card (checked n ns m)"
        by (simp add: card_mono checked_finite)
      with c c' show ?thesis by auto
    qed
  qed
  then show ?thesis
    unfolding race_inv_def
    using install_step_limits [OF st] lim held' inv c(3)
    by (auto simp: race_inv_def)
qed

lemma race_inv_close:
  assumes inv: "race_inv n k ns limit m"
    and i: "i < n" "cpu m i = Closing h pc" and st: "close_step h pc (shared m) = (pc', s)"
  shows "race_inv n k ns limit (m\<lparr>shared := s, cpu := (cpu m)(i := Closing h pc')\<rparr>)"
    (is "race_inv n k ns limit ?m")
proof -
  from inv obtain c where c: "count_of ns (shared m) = Some c"
    "unat c + card (checked n ns m) < unat limit + n"
    "\<forall>i h. cpu m i = Closing h (C_Sub ns) \<longrightarrow> 0 < c"
    by (auto simp: race_inv_def)
  have only: "cpu m j = Closing h' p \<Longrightarrow> j = i" for j h' p
    using inv i(2) by (metis race_inv_def)
  have chk: "checked n ns ?m = checked n ns m"
    using i by (auto simp: checked_def)
  have "\<exists>c'. count_of ns s = Some c' \<and> unat c' \<le> unat c \<and> (pc' = C_Sub ns \<longrightarrow> 0 < c')"
  proof (cases "pc = C_Sub ns")
    case True
    then have "0 < c" "pc' \<noteq> C_Sub ns" using c(3) i(2) st by auto
    then show ?thesis
      using close_step_count [OF st, of ns] True c(1) unat_pred_pos [of c] by auto
  next
    case False
    then have "count_of ns s = Some c" using close_step_count [OF st, of ns] c by simp
    moreover have "pc' = C_Sub ns \<longrightarrow> 0 < c"
      using close_step_sub [of h pc "shared m" ns s c] st c(1) by auto
    ultimately show ?thesis by auto
  qed
  then obtain c' where c': "count_of ns s = Some c'" "unat c' \<le> unat c" "pc' = C_Sub ns \<longrightarrow> 0 < c'"
    by blast
  have "\<forall>j h'. cpu ?m j = Closing h' (C_Sub ns) \<longrightarrow> 0 < c'"
    using only c'(3) by (auto split: if_splits)
  then show ?thesis
    unfolding race_inv_def
    using close_step_limits [OF st] inv c(2) c'(1,2) chk i(2)
    by (auto simp: race_inv_def)
qed

lemma race_inv_idle:
  assumes inv: "race_inv n k ns limit m" and i: "i < n" "fd_ns_limit s = fd_ns_limit (shared m)"
      "fd_ns_counter s = fd_ns_counter (shared m)"
    and t: "\<forall>h pc. t = Installing h pc \<longrightarrow> pc = I_Cgroup"
      "\<forall>h pc. t = Closing h pc \<longrightarrow> pc = C_Count \<and> i = k"
  shows "race_inv n k ns limit (m\<lparr>shared := s, cpu := (cpu m)(i := t)\<rparr>)"
    (is "race_inv n k ns limit ?m")
proof -
  have "checked n ns ?m \<subseteq> checked n ns m"
    using i t by (auto simp: checked_def split: if_splits)
  then have "card (checked n ns ?m) \<le> card (checked n ns m)"
    by (simp add: card_mono checked_finite)
  then show ?thesis
    using inv i t unfolding race_inv_def count_of_def
    by (elim conjE exE) (intro conjI exI, simp_all, auto split: if_splits)
qed

lemma proc_steps_frame:
  "clone_step h pc s = (pc', s') \<Longrightarrow>
     fd_ns_limit s' = fd_ns_limit s \<and> fd_ns_counter s' = fd_ns_counter s"
  "exit_step h qc s = (qc', s') \<Longrightarrow>
     fd_ns_limit s' = fd_ns_limit s \<and> fd_ns_counter s' = fd_ns_counter s"
  by (cases pc; auto simp: with_proc_lease_def emit_breach_event_def Let_def
        split: option.splits if_splits)
    (cases qc; auto simp: with_proc_lease_def split: option.splits if_splits)

lemma race_inv_mstep:
  assumes "mstep n {k} exiters m m'" "race_inv n k ns limit m" "unat limit + n \<le> 2 ^ 64"
  shows "race_inv n k ns limit m'"
  using assms(1)
proof cases
  case (install i h pc pc' s)
  with assms race_inv_install show ?thesis by blast
next
  case (close i h pc pc' s)
  with assms race_inv_close show ?thesis by blast
next
  case (clone i h pc pc' s)
  with assms(2) proc_steps_frame(1) race_inv_idle [of n k ns limit m i s] show ?thesis by auto
next
  case (exit i h pc pc' s)
  with assms(2) proc_steps_frame(2) race_inv_idle [of n k ns limit m i s] show ?thesis by auto
qed (use assms(2) race_inv_idle [of n k ns limit m _ "shared m"]
        race_inv_idle [of n k ns limit m _ "if _ then bpf_send_signal _ 9 (shared m) else shared m"]
      in \<open>simp_all add: bpf_send_signal_def\<close>)

lemma race_inv_reach:
  assumes "reach n {k} exiters s0 m" "fd_ns_limit s0 ns = Some limit" "count_of ns s0 = Some c" "c \<le> limit"
    "0 < n" "unat limit + n \<le> 2 ^ 64"
  shows "race_inv n k ns limit m"
  using assms
proof (induction rule: reach.induct)
  case start
  then show ?case by (simp add: race_inv_def checked_def word_le_nat_alt)
next
  case (step m m')
  then show ?case by (blast intro: race_inv_mstep)
qed

lemma count_overshoot:
  assumes "reach n {k} exiters s0 m" "fd_ns_limit s0 ns = Some limit" "count_of ns s0 = Some c"
    "c \<le> limit" "0 < n" "unat limit + n \<le> 2 ^ 64"
  shows "\<exists>c'. count_of ns (shared m) = Some c' \<and> unat c' \<le> unat limit + (n - 1)"
  using race_inv_reach [OF assms] assms(5) by (auto simp: race_inv_def)

definition proc_count_of :: "u64 \<Rightarrow> kstate \<Rightarrow> u64 option" where
  "proc_count_of ns s = map_option cl_count (proc_ns_counter s ns)"

lemma count_of_mirror: "count_of ns (mirror s) = proc_count_of ns s"
  by (simp add: count_of_def proc_count_of_def)

lemma proc_count_overshoot:
  assumes "reach n closers {k} s0 m" "proc_ns_limit s0 ns = Some limit"
    "proc_count_of ns s0 = Some c" "c \<le> limit" "0 < n" "unat limit + n \<le> 2 ^ 64"
  shows "\<exists>c'. proc_count_of ns (shared m) = Some c' \<and> unat c' \<le> unat limit + (n - 1)"
  using count_overshoot [OF mirror_reach [OF assms(1)], of ns limit c] assms(2-6)
  by (simp add: count_of_mirror)

section \<open>Schedules\<close>

text \<open>A schedule names, step by step, the CPU that moves and what it does.\<close>

datatype move =
    Enter_install helpers | Enter_close helpers | Enter_clone helpers | Enter_exit helpers | Go

fun mmove :: "nat \<Rightarrow> move \<Rightarrow> machine \<Rightarrow> machine" where
  "mmove i Go m =
     (case cpu m i of
        Idle \<Rightarrow> m
      | Installing h pc \<Rightarrow>
          (case install_step h pc (shared m) of
             (pc', s) \<Rightarrow> m\<lparr>shared := s, cpu := (cpu m)(i := Installing h pc')\<rparr>)
      | Closing h pc \<Rightarrow>
          (case close_step h pc (shared m) of
             (pc', s) \<Rightarrow> m\<lparr>shared := s, cpu := (cpu m)(i := Closing h pc')\<rparr>)
      | Cloning h pc \<Rightarrow>
          (case clone_step h pc (shared m) of
             (pc', s) \<Rightarrow> m\<lparr>shared := s, cpu := (cpu m)(i := Cloning h pc')\<rparr>)
      | Exiting h pc \<Rightarrow>
          (case exit_step h pc (shared m) of
             (pc', s) \<Rightarrow> m\<lparr>shared := s, cpu := (cpu m)(i := Exiting h pc')\<rparr>))"
| "mmove i a m =
     (if cpu m i \<noteq> Idle then m
      else m\<lparr>cpu := (cpu m)(i :=
        (case a of
           Enter_install h \<Rightarrow> Installing h I_Cgroup
         | Enter_close h \<Rightarrow> Closing h C_Count
         | Enter_clone h \<Rightarrow> Cloning h I_Cgroup
         | Enter_exit h \<Rightarrow> Exiting h C_Count
         | Go \<Rightarrow> Idle))\<rparr>)"

definition schedule :: "(nat \<times> move) list \<Rightarrow> machine \<Rightarrow> machine" where
  "schedule ms m = fold (\<lambda>(i, a). mmove i a) ms m"

definition booted :: "kstate \<Rightarrow> machine" where
  "booted s = \<lparr>shared = s, cpu = (\<lambda>_. Idle)\<rparr>"

fun may :: "nat set \<Rightarrow> nat set \<Rightarrow> nat \<Rightarrow> move \<Rightarrow> bool" where
  "may closers exiters i (Enter_close _) = (i \<in> closers)"
| "may closers exiters i (Enter_exit _) = (i \<in> exiters)"
| "may closers exiters i _ = True"

lemma mmove_reach:
  assumes "reach n closers exiters s0 m" "i < n" "may closers exiters i a"
  shows "reach n closers exiters s0 (mmove i a m)"
proof (cases "a = Go")
  case True
  with assms(1,2) show ?thesis
    by (auto intro: reach.step mstep.intros split: thread.split prod.split)
next
  case False
  with assms show ?thesis
    by (cases a) (auto intro: reach.step mstep.intros)
qed

lemma schedule_reach:
  assumes "\<forall>(i, a) \<in> set ms. i < n \<and> may closers exiters i a"
  shows "reach n closers exiters s0 m \<Longrightarrow> reach n closers exiters s0 (schedule ms m)"
  using assms
proof (induction ms arbitrary: m)
  case (Cons x ms)
  obtain i a where x: "x = (i, a)" by (cases x)
  with Cons.prems have "reach n closers exiters s0 (mmove i a m)" by (intro mmove_reach) auto
  with Cons x show ?case by (simp add: schedule_def)
qed (simp add: schedule_def)

lemma booted_reach: "reach n closers exiters s (booted s)"
  unfolding booted_def by (rule reach.start)

section \<open>How long a program runs\<close>

text \<open>The accesses a program has left at most, and the moves of a CPU in a schedule.\<close>

fun install_left :: "install \<Rightarrow> nat" where
  "install_left I_Cgroup = 16"
| "install_left (I_Count _) = 15"
| "install_left (I_CountNew _) = 14"
| "install_left (I_CountAdd _) = 14"
| "install_left (I_Limit _) = 13"
| "install_left (I_Lease _ _) = 12"
| "install_left (I_Top _ _) = 11"
| "install_left (I_TopCgid _ _ _) = 10"
| "install_left (I_TopCount _ _ _) = 9"
| "install_left (I_Used _ _) = 8"
| "install_left (I_CheckLimit _ _) = 7"
| "install_left (I_CheckBudget _ _) = 6"
| "install_left (I_Grow _ _) = 5"
| "install_left (I_GrowStore _ _ _) = 4"
| "install_left (I_Recheck _ _) = 3"
| "install_left (I_Add _ _) = 1"
| "install_left (I_Emit _ _) = 2"
| "install_left (I_Verdict _ _) = 1"
| "install_left (I_Done _) = 0"

fun close_left :: "close_fd \<Rightarrow> nat" where
  "close_left C_Count = 6"
| "close_left C_CountSub = 5"
| "close_left C_Cgroup = 4"
| "close_left (C_Lease _) = 3"
| "close_left (C_Sub _) = 2"
| "close_left (C_Used _) = 1"
| "close_left C_Done = 0"

fun thread_left :: "thread \<Rightarrow> nat" where
  "thread_left Idle = 0"
| "thread_left (Installing _ pc) = install_left pc"
| "thread_left (Closing _ pc) = close_left pc"
| "thread_left (Cloning _ pc) = install_left pc"
| "thread_left (Exiting _ pc) = close_left pc"

fun goes :: "nat \<Rightarrow> (nat \<times> move) list \<Rightarrow> nat" where
  "goes i [] = 0"
| "goes i ((j, Go) # ms) = (if j = i then Suc (goes i ms) else goes i ms)"
| "goes i (_ # ms) = goes i ms"

lemma install_left_step: "install_left (fst (install_step h pc s)) \<le> install_left pc - 1"
  by (cases pc) (auto simp: Let_def split: option.split)

lemma close_left_step: "close_left (fst (close_step h pc s)) \<le> close_left pc - 1"
  by (cases pc) (auto split: option.split)

lemma proc_left_step:
  "install_left (fst (clone_step h pc s)) \<le> install_left pc - 1"
  "close_left (fst (exit_step h qc s)) \<le> close_left qc - 1"
  by (simp_all add: clone_step_mirror exit_step_mirror install_left_step [simplified] close_left_step [simplified])

lemma install_left_0: "install_left pc = 0 \<Longrightarrow> \<exists>r. pc = I_Done r"
  by (cases pc) auto

lemma close_left_0: "close_left pc = 0 \<Longrightarrow> pc = C_Done"
  by (cases pc) auto

text \<open>The program a CPU runs, without its program point.\<close>

fun same_program :: "thread \<Rightarrow> thread \<Rightarrow> bool" where
  "same_program Idle t = True"
| "same_program (Installing h _) t = (\<exists>pc. t = Installing h pc)"
| "same_program (Closing h _) t = (\<exists>pc. t = Closing h pc)"
| "same_program (Cloning h _) t = (\<exists>pc. t = Cloning h pc)"
| "same_program (Exiting h _) t = (\<exists>pc. t = Exiting h pc)"

lemma same_program_refl: "same_program t t"
  by (cases t) auto

lemma same_program_trans:
  "same_program t u \<Longrightarrow> same_program u v \<Longrightarrow> same_program t v"
  by (cases t) auto

lemma mmove_other: "j \<noteq> i \<Longrightarrow> cpu (mmove j a m) i = cpu m i"
  by (cases a) (auto split: thread.split prod.split)

lemma mmove_own:
  assumes "cpu m i \<noteq> Idle"
  shows "same_program (cpu m i) (cpu (mmove i a m) i) \<and>
         thread_left (cpu (mmove i a m) i) \<le> thread_left (cpu m i) - (if a = Go then 1 else 0)"
proof (cases "a = Go")
  case False
  with assms show ?thesis by (cases a) (simp_all add: same_program_refl)
next
  case True
  then show ?thesis
    using assms install_left_step [of _ _ "shared m"] close_left_step [of _ _ "shared m"]
      proc_left_step [of _ _ "shared m"]
    by (cases "cpu m i") (auto split: prod.split, (metis fst_conv)+)
qed

lemma schedule_Cons: "schedule ((j, a) # ms) m = schedule ms (mmove j a m)"
  by (simp add: schedule_def)

lemma schedule_own:
  "cpu m i \<noteq> Idle \<Longrightarrow>
     same_program (cpu m i) (cpu (schedule ms m) i) \<and>
     thread_left (cpu (schedule ms m) i) \<le> thread_left (cpu m i) - goes i ms"
proof (induction ms arbitrary: m)
  case (Cons x ms)
  obtain j a where x: "x = (j, a)" by (cases x)
  let ?m = "mmove j a m"
  have own: "same_program (cpu m i) (cpu ?m i)"
    "thread_left (cpu ?m i) \<le> thread_left (cpu m i) - (if j = i \<and> a = Go then 1 else 0)"
    using mmove_own [OF Cons.prems, of a] mmove_other [of j i a m] same_program_refl
    by (cases "j = i"; auto)+
  have "cpu ?m i \<noteq> Idle" using own(1) Cons.prems by (cases "cpu m i") auto
  from Cons.IH [OF this] own show ?case
    by (cases a) (auto simp: x schedule_Cons intro: same_program_trans)
qed (simp add: schedule_def same_program_refl)

lemma schedule_finishes:
  assumes "cpu m i \<noteq> Idle" "thread_left (cpu m i) \<le> goes i ms"
  shows "same_program (cpu m i) (cpu (schedule ms m) i) \<and> thread_left (cpu (schedule ms m) i) = 0"
  using schedule_own [OF assms(1), of ms] assms(2) by simp

lemma left_bounds: "install_left pc \<le> 16" "close_left qc \<le> 6"
  by (cases pc; simp) (cases qc; simp)

end
