(* ===== verification/Race_Props.thy ===== *)
theory Race_Props
  imports Kern_Machine
begin

text \<open>
  Properties of the four programs when CPUs interleave: alone they are the sequential programs;
  together a count can overshoot its limit, by less than the number of CPUs, and two closes can
  take it below zero.
\<close>

text \<open>(C2) Run without interference, the access-by-access programs return what
  \<^verbatim>\<open>over_limit\<close>, \<^verbatim>\<open>over_proc_limit\<close>, the last-reference close and
  \<^verbatim>\<open>track_exit\<close> do, with the same final maps, after at most 16 and 6 accesses.\<close>

theorem programs_alone:
  "install_run 16 h I_Cgroup s = (I_Done (fst (over_limit h s)), snd (over_limit h s)) \<and>
   close_run 6 h C_Count s = (C_Done, track_close_fd h (Some 1) s) \<and>
   clone_run 16 h I_Cgroup s = (I_Done (fst (over_proc_limit h s)), snd (over_proc_limit h s)) \<and>
   exit_run 6 h C_Count s = (C_Done, track_exit h s)"
  using install_alone close_alone clone_alone exit_alone by (simp add: last_close_def)

text \<open>(C3) With any number of CPUs installing descriptors and forking, one of them closing and
  one of them exiting, in every reachable machine state the count of a namespace, of descriptors
  as of processes, is at most its limit plus the number of CPUs less one.\<close>

theorem count_overshoot_bounded:
  assumes "reach n {k} {l} s0 m" "0 < n"
  shows "(fd_ns_limit s0 ns = Some limit \<longrightarrow> unat limit + n \<le> 2 ^ 64 \<longrightarrow>
          count_of ns s0 = Some c \<longrightarrow> c \<le> limit \<longrightarrow>
            (\<exists>c'. count_of ns (shared m) = Some c' \<and> unat c' \<le> unat limit + (n - 1))) \<and>
         (proc_ns_limit s0 ns = Some plimit \<longrightarrow> unat plimit + n \<le> 2 ^ 64 \<longrightarrow>
          proc_count_of ns s0 = Some pc \<longrightarrow> pc \<le> plimit \<longrightarrow>
            (\<exists>c'. proc_count_of ns (shared m) = Some c' \<and> unat c' \<le> unat plimit + (n - 1)))"
  using count_overshoot [OF assms(1)] proc_count_overshoot [OF assms(1)] assms(2) by blast

definition two_entries :: "(nat \<times> move) list" where
  "two_entries =
     [(0, Enter_install (ex_helpers 1)), (1, Enter_install (ex_helpers 2))] @
     replicate 11 (0, Go) @ replicate 9 (1, Go) @ replicate 3 (0, Go) @ replicate 5 (1, Go)"

text \<open>The overshoot happens: two CPUs that both pass the check of a namespace with limit
  1 leave its count at 2.\<close>

lemma two_entries_reach: "reach 2 closers exiters s (schedule two_entries (booted s))"
  by (rule schedule_reach) (auto simp: two_entries_def booted_reach)

theorem count_overshoot_bounded_witness:
  "count_of 7 (shared (schedule two_entries (booted (ex_state 1 0 1)))) = Some 2 \<and>
   unat (2::u64) \<le> unat (1::u64) + (2 - 1) \<and>
   (\<exists>c'. proc_count_of 7 (shared (schedule two_entries (booted (ex_state 1 0 1)))) = Some c' \<and>
      unat c' \<le> unat (1::u64) + (2 - 1))"
proof -
  have c: "count_of 7 (shared (schedule two_entries (booted (ex_state 1 0 1)))) = Some 2"
    by code_simp
  have "count_of 7 (ex_state 1 0 1) = Some 0" "proc_count_of 7 (ex_state 1 0 1) = Some 0"
    by (simp_all add: count_of_def proc_count_of_def ex_lease_def)
  then show ?thesis
    using count_overshoot_bounded [OF two_entries_reach [of "{0}" "{0}" "ex_state 1 0 1"],
        of 7 1 0 1 0] c
    by simp
qed

definition two_closes :: "(nat \<times> move) list" where
  "two_closes =
     [(0, Enter_close (ex_helpers 1)), (1, Enter_close (ex_helpers 2))] @
     replicate 3 (0, Go) @ replicate 3 (1, Go) @ [(0, Go), (1, Go)]"



definition install_and_close :: "(nat \<times> move) list" where
  "install_and_close = concat (replicate 6 [(0, Go), (1, Go), (0, Go), (2, Enter_exit (ex_helpers 3))])
     @ replicate 4 (0, Go)"


end
