(* ===== verification/C_Layout.thy ===== *)
theory C_Layout
  imports Prelude
begin

text \<open>
  C object types as data, and their layout on the little-endian 64-bit target the BPF object is
  built for (\<^verbatim>\<open>bpf2go\<close>, target \<^verbatim>\<open>bpfel\<close>): sizes, alignments, where each member lies
  (bit-fields and unnamed members included), and the reading of a member from memory.
\<close>

section \<open>Types\<close>

text \<open>
  \<open>CInt n\<close> is an integer of \<open>n\<close> bytes, aligned to its size; a pointer keeps the text of what
  it points to, a pointer to a function nothing. A member without a name is the empty string: an unnamed struct or union whose
  members belong to the enclosing one, or an unnamed bit-field, which only pads.
\<close>

datatype csign = Signed | Unsigned

datatype ctype =
    CInt csign nat
  | CPtr string
  | CFnPtr
  | CEnum "(string \<times> int) list"
  | CArr ctype nat
  | CStruct "cmember list"
  | CUnion "cmember list"
  | CPacked "cmember list"
and cmember =
    Field string ctype
  | Bits string ctype nat

section \<open>Rounding\<close>

definition round_up :: "nat \<Rightarrow> nat \<Rightarrow> nat" where
  "round_up x a = (if a = 0 then x else (x + (a - 1)) div a * a)"

lemma round_up_ge: "x \<le> round_up x a"
proof (cases "a = 0")
  case False
  have "(x + (a - 1)) div a * a + (x + (a - 1)) mod a = x + (a - 1)" by simp
  moreover have "(x + (a - 1)) mod a < a" using False by simp
  ultimately have "x \<le> (x + (a - 1)) div a * a" by linarith
  with False show ?thesis unfolding round_up_def by simp
qed (simp add: round_up_def)

lemma round_up_dvd: "a dvd x \<or> a \<noteq> 0 \<Longrightarrow> a dvd round_up x a"
  by (auto simp: round_up_def)

section \<open>Layout of a member list\<close>

text \<open>
  What the layout needs of a member: whether it is an unnamed bit-field, its bits, the size and alignment of its type in bytes.
  \<open>Some w\<close> is a bit-field of \<open>w\<close> bits. It goes to the next free bit unless it would straddle a
  storage unit of its type; one of zero width closes the unit.
\<close>

record shape =
  sh_pads :: bool
  sh_bits :: "nat option"
  sh_size :: nat
  sh_align :: nat

definition bit_place :: "nat \<Rightarrow> nat \<Rightarrow> nat \<Rightarrow> nat \<Rightarrow> nat" where
  "bit_place off s b w =
     (if w = 0 \<or> off div (8 * s) \<noteq> (off + w - 1) div (8 * s) then round_up off (8 * b) else off)"

definition place :: "bool \<Rightarrow> nat \<Rightarrow> shape \<Rightarrow> nat \<times> nat" where
  "place packed off f =
     (case sh_bits f of
        None \<Rightarrow> (round_up off (8 * (if packed then 1 else sh_align f)), 8 * sh_size f)
      | Some w \<Rightarrow> (if packed then off else bit_place off (sh_size f) (sh_align f) w, w))"

lemma place_ge: "off \<le> fst (place packed off f)"
  by (simp add: place_def bit_place_def round_up_ge split: option.split)

text \<open>The first bit and the width of every member of a struct, in order, and its end.\<close>

fun s_place :: "bool \<Rightarrow> nat \<Rightarrow> shape list \<Rightarrow> (nat \<times> nat) list" where
  "s_place packed off [] = []"
| "s_place packed off (f # fs) =
     place packed off f # s_place packed (fst (place packed off f) + snd (place packed off f)) fs"

fun s_end :: "bool \<Rightarrow> nat \<Rightarrow> shape list \<Rightarrow> nat" where
  "s_end packed off [] = off"
| "s_end packed off (f # fs) =
     s_end packed (fst (place packed off f) + snd (place packed off f)) fs"

definition u_place :: "shape \<Rightarrow> nat \<times> nat" where
  "u_place f = (0, case sh_bits f of None \<Rightarrow> 8 * sh_size f | Some w \<Rightarrow> w)"

fun u_end :: "nat \<Rightarrow> shape list \<Rightarrow> nat" where
  "u_end n [] = n"
| "u_end n (f # fs) = u_end (max n (snd (u_place f))) fs"

text \<open>An unnamed bit-field does not align the struct; a packed struct has alignment 1.\<close>

fun m_align :: "nat \<Rightarrow> shape list \<Rightarrow> nat" where
  "m_align a [] = a"
| "m_align a (f # fs) = m_align (if sh_pads f then a else max a (sh_align f)) fs"

lemma s_place_length [simp]: "length (s_place packed off fs) = length fs"
  by (induction packed off fs rule: s_place.induct) (auto split: prod.split)

lemma s_end_ge: "off \<le> s_end packed off fs"
proof (induction packed off fs rule: s_end.induct)
  case (2 packed off f fs)
  then show ?case
    using place_ge [of off packed f] by (fastforce split: prod.split)
qed simp

lemma s_place_from: "(p, w) \<in> set (s_place packed off fs) \<Longrightarrow> off \<le> p"
proof (induction packed off fs rule: s_place.induct)
  case (2 packed off f fs)
  obtain p0 w0 where "place packed off f = (p0, w0)" by fastforce
  with 2 show ?case
    using place_ge [of off packed f] by fastforce
qed simp

lemma s_place_to: "(p, w) \<in> set (s_place packed off fs) \<Longrightarrow> p + w \<le> s_end packed off fs"
proof (induction packed off fs rule: s_place.induct)
  case (2 packed off f fs)
  obtain p0 w0 where "place packed off f = (p0, w0)" by fastforce
  with 2 show ?case
    using s_end_ge [of "p0 + w0" packed fs] by auto
qed simp

lemma s_place_apart:
  "sorted_wrt (\<lambda>(p, w) (p', w'). p + w \<le> p') (s_place packed off fs)"
  by (induction packed off fs rule: s_place.induct) (auto split: prod.split dest: s_place_from)

lemma u_end_ge: "n \<le> u_end n fs"
  by (induction n fs rule: u_end.induct) auto

lemma u_place_to: "f \<in> set fs \<Longrightarrow> fst (u_place f) + snd (u_place f) \<le> u_end n fs"
proof (induction n fs rule: u_end.induct)
  case (2 n g fs)
  then show ?case
    using u_end_ge [of "max n (snd (u_place g))" fs] by (auto simp: u_place_def)
qed simp

lemma m_align_ge: "a \<le> m_align a fs"
  by (induction a fs rule: m_align.induct) (auto split: if_splits)

section \<open>Layout of a type\<close>

definition closed_size :: "nat \<Rightarrow> nat \<Rightarrow> nat" where
  "closed_size bits a = round_up bits (8 * a) div 8"

primrec c_lay :: "ctype \<Rightarrow> nat \<times> nat" and m_shape :: "cmember \<Rightarrow> shape" where
  "c_lay (CInt sg n) = (n, n)"
| "c_lay (CPtr t) = (8, 8)"
| "c_lay CFnPtr = (8, 8)"
| "c_lay (CEnum es) = (4, 4)"
| "c_lay (CArr t n) = (n * fst (c_lay t), snd (c_lay t))"
| "c_lay (CStruct ms) =
     (let fs = map m_shape ms; a = m_align 1 fs in (closed_size (s_end False 0 fs) a, a))"
| "c_lay (CUnion ms) =
     (let fs = map m_shape ms; a = m_align 1 fs in (closed_size (u_end 0 fs) a, a))"
| "c_lay (CPacked ms) = (closed_size (s_end True 0 (map m_shape ms)) 1, 1)"
| "m_shape (Field x t) =
     \<lparr>sh_pads = False, sh_bits = None, sh_size = fst (c_lay t), sh_align = snd (c_lay t)\<rparr>"
| "m_shape (Bits x t w) =
     \<lparr>sh_pads = (x = []), sh_bits = Some w, sh_size = fst (c_lay t), sh_align = snd (c_lay t)\<rparr>"

definition c_size :: "ctype \<Rightarrow> nat" where
  "c_size t = fst (c_lay t)"

definition c_align :: "ctype \<Rightarrow> nat" where
  "c_align t = snd (c_lay t)"

lemma closed_size_ge: "1 \<le> a \<Longrightarrow> bits \<le> 8 * closed_size bits a"
proof -
  assume "1 \<le> a"
  then have "8 dvd round_up bits (8 * a)"
    using round_up_dvd [of "8 * a" bits] by (auto dest: dvd_mult_left)
  then show ?thesis
    unfolding closed_size_def using round_up_ge [of bits "8 * a"] by simp
qed

lemmas lay_defs =
  Let_def place_def bit_place_def round_up_def u_place_def closed_size_def

section \<open>Members\<close>

record member =
  mb_name :: string
  mb_off :: nat
  mb_width :: nat
  mb_bit_field :: bool
  mb_type :: ctype

text \<open>The members of a type that can be named: those of unnamed members are its own.\<close>

primrec c_members :: "ctype \<Rightarrow> member list" and m_members :: "cmember \<Rightarrow> nat \<times> nat \<Rightarrow> member list"
  where
  "c_members (CInt sg n) = []"
| "c_members (CPtr t) = []"
| "c_members CFnPtr = []"
| "c_members (CEnum es) = []"
| "c_members (CArr t n) = []"
| "c_members (CStruct ms) =
     concat (map2 (\<lambda>g pw. g pw) (map m_members ms) (s_place False 0 (map m_shape ms)))"
| "c_members (CUnion ms) =
     concat (map2 (\<lambda>g pw. g pw) (map m_members ms) (map u_place (map m_shape ms)))"
| "c_members (CPacked ms) =
     concat (map2 (\<lambda>g pw. g pw) (map m_members ms) (s_place True 0 (map m_shape ms)))"
| "m_members (Field x t) = (\<lambda>(p, w).
     if x = [] then map (\<lambda>m. m\<lparr>mb_off := p + mb_off m\<rparr>) (c_members t)
     else [\<lparr>mb_name = x, mb_off = p, mb_width = w, mb_bit_field = False, mb_type = t\<rparr>])"
| "m_members (Bits x t n) = (\<lambda>(p, w).
     if x = [] then []
     else [\<lparr>mb_name = x, mb_off = p, mb_width = w, mb_bit_field = True, mb_type = t\<rparr>])"

text \<open>
  First bit, width and type of \<^verbatim>\<open>x.y.z\<close> in an object of the type; a bit-field has no members.
\<close>

fun c_path :: "string list \<Rightarrow> ctype \<Rightarrow> (nat \<times> nat \<times> ctype) option" where
  "c_path [] t = Some (0, 8 * c_size t, t)"
| "c_path (x # xs) t =
     (case find (\<lambda>m. mb_name m = x) (c_members t) of
        None \<Rightarrow> None
      | Some m \<Rightarrow>
          if xs = [] then Some (mb_off m, mb_width m, mb_type m)
          else if mb_bit_field m then None
          else map_option (\<lambda>(p, w, t'). (mb_off m + p, w, t')) (c_path xs (mb_type m)))"

lemma place_width: "snd (place packed off f) = (case sh_bits f of None \<Rightarrow> 8 * sh_size f | Some w \<Rightarrow> w)"
  by (simp add: place_def split: option.split)

definition sh_width :: "shape \<Rightarrow> nat" where
  "sh_width f = (case sh_bits f of None \<Rightarrow> 8 * sh_size f | Some w \<Rightarrow> w)"

lemma s_place_width: "i < length fs \<Longrightarrow> snd (s_place packed off fs ! i) = sh_width (fs ! i)"
proof (induction packed off fs arbitrary: i rule: s_place.induct)
  case (2 packed off f fs)
  obtain p0 w0 where pw: "place packed off f = (p0, w0)" by fastforce
  then have "w0 = sh_width f" using place_width [of packed off f] by (simp add: sh_width_def)
  with 2 pw show ?case by (cases i) auto
qed simp

definition within_bits :: "nat \<Rightarrow> nat \<Rightarrow> member \<Rightarrow> bool" where
  "within_bits lo hi m \<longleftrightarrow>
     lo \<le> mb_off m \<and> mb_off m + mb_width m \<le> hi \<and>
     (\<not> mb_bit_field m \<longrightarrow> mb_width m = 8 * c_size (mb_type m))"

lemma within_list:
  assumes "\<forall>m\<in>set ms. \<forall>p. \<forall>x\<in>set (m_members m (p, sh_width (m_shape m))).
             within_bits p (p + sh_width (m_shape m)) x"
    and "length pws = length ms"
    and "\<forall>i<length ms. snd (pws ! i) = sh_width (m_shape (ms ! i))"
    and "\<forall>(p, w)\<in>set pws. p + w \<le> hi"
    and "x \<in> set (concat (map2 (\<lambda>g pw. g pw) (map m_members ms) pws))"
  shows "within_bits 0 hi x"
proof -
  from assms(2,5) obtain i where i: "i < length ms" "x \<in> set (m_members (ms ! i) (pws ! i))"
    by (fastforce simp: set_zip)
  obtain p w where pw: "pws ! i = (p, w)" by fastforce
  have w: "w = sh_width (m_shape (ms ! i))" using assms(3) i pw by (metis snd_conv)
  have "within_bits p (p + w) x" using assms(1) i pw w by fastforce
  moreover have "p + w \<le> hi"
    using assms(2,4) i(1) pw by (metis (mono_tags, lifting) case_prodD nth_mem)
  ultimately show ?thesis by (simp add: within_bits_def)
qed

lemma struct_fits:
  assumes "(p, w) \<in> set (s_place False 0 (map m_shape ms))"
  shows "p + w \<le> 8 * c_size (CStruct ms)"
  using order_trans [OF s_place_to [OF assms] closed_size_ge [OF m_align_ge]]
  by (simp add: c_size_def Let_def)

lemma packed_fits:
  assumes "(p, w) \<in> set (s_place True 0 (map m_shape ms))"
  shows "p + w \<le> 8 * c_size (CPacked ms)"
  using order_trans [OF s_place_to [OF assms] closed_size_ge [OF order_refl]]
  by (simp add: c_size_def)

lemma union_fits:
  assumes "f \<in> set ms"
  shows "fst (u_place (m_shape f)) + snd (u_place (m_shape f)) \<le> 8 * c_size (CUnion ms)"
proof -
  have "fst (u_place (m_shape f)) + snd (u_place (m_shape f)) \<le> u_end 0 (map m_shape ms)"
    using assms by (intro u_place_to) simp
  from order_trans [OF this closed_size_ge [OF m_align_ge]] show ?thesis
    by (simp add: c_size_def Let_def)
qed

lemma c_members_within: "x \<in> set (c_members t) \<Longrightarrow> within_bits 0 (8 * c_size t) x"
  and m_members_within:
    "x \<in> set (m_members m (p, sh_width (m_shape m))) \<Longrightarrow>
     within_bits p (p + sh_width (m_shape m)) x"
proof (induction t and m arbitrary: x and x p rule: ctype.induct cmember.induct)
  case (CStruct ms)
  show ?case
  proof (rule within_list [OF _ _ _ _ CStruct.prems [unfolded c_members.simps]])
    show "\<forall>(p, w)\<in>set (s_place False 0 (map m_shape ms)). p + w \<le> 8 * c_size (CStruct ms)"
      by (auto intro: struct_fits)
    show "\<forall>m\<in>set ms. \<forall>p. \<forall>x\<in>set (m_members m (p, sh_width (m_shape m))).
            within_bits p (p + sh_width (m_shape m)) x"
      using CStruct.IH by blast
  qed (simp_all add: s_place_width)
next
  case (CPacked ms)
  show ?case
  proof (rule within_list [OF _ _ _ _ CPacked.prems [unfolded c_members.simps]])
    show "\<forall>(p, w)\<in>set (s_place True 0 (map m_shape ms)). p + w \<le> 8 * c_size (CPacked ms)"
      by (auto intro: packed_fits)
    show "\<forall>m\<in>set ms. \<forall>p. \<forall>x\<in>set (m_members m (p, sh_width (m_shape m))).
            within_bits p (p + sh_width (m_shape m)) x"
      using CPacked.IH by blast
  qed (simp_all add: s_place_width)
next
  case (CUnion ms)
  show ?case
  proof (rule within_list [OF _ _ _ _ CUnion.prems [unfolded c_members.simps]])
    show "\<forall>(p, w)\<in>set (map u_place (map m_shape ms)). p + w \<le> 8 * c_size (CUnion ms)"
      using union_fits by (auto simp: case_prod_beta)
    show "\<forall>m\<in>set ms. \<forall>p. \<forall>x\<in>set (m_members m (p, sh_width (m_shape m))).
            within_bits p (p + sh_width (m_shape m)) x"
      using CUnion.IH by blast
  qed (simp_all add: u_place_def sh_width_def)
next
  case (Field y t)
  then show ?case
    by (auto simp: within_bits_def c_size_def sh_width_def split: if_splits)
next
  case (Bits y t n)
  then show ?case
    by (auto simp: within_bits_def sh_width_def split: if_splits)
qed simp_all

text \<open>A member expression denotes bits inside the object.\<close>

lemma c_path_within: "c_path xs t = Some (p, w, t') \<Longrightarrow> p + w \<le> 8 * c_size t"
proof (induction xs arbitrary: t p w t')
  case (Cons x xs)
  obtain m where m: "find (\<lambda>m. mb_name m = x) (c_members t) = Some m"
    using Cons.prems by (auto split: option.splits)
  then have within: "within_bits 0 (8 * c_size t) m"
    by (intro c_members_within) (auto simp: find_Some_iff)
  show ?case
  proof (cases "xs = []")
    case True
    with Cons.prems m within show ?thesis by (simp add: within_bits_def)
  next
    case False
    with Cons.prems m obtain p1 where
      "c_path xs (mb_type m) = Some (p1, w, t')" "p = mb_off m + p1" "\<not> mb_bit_field m"
      by (auto split: if_splits)
    with Cons.IH within show ?thesis by (fastforce simp: within_bits_def)
  qed
qed simp

end
