(* ===== verification/C_Memory.thy ===== *)
theory C_Memory
  imports C_Layout
begin

text \<open>
  Byte-addressed little-endian memory: integers as byte sequences, loads and stores, and the
  access to a member of an object through its type.
\<close>

section \<open>Integers as bytes\<close>

type_synonym byte = "8 word"
type_synonym mem = "nat \<Rightarrow> byte"

fun le_bytes :: "nat \<Rightarrow> nat \<Rightarrow> byte list" where
  "le_bytes 0 v = []"
| "le_bytes (Suc n) v = word_of_nat (v mod 256) # le_bytes n (v div 256)"

fun le_val :: "byte list \<Rightarrow> nat" where
  "le_val [] = 0"
| "le_val (b # bs) = unat b + 256 * le_val bs"

lemma le_bytes_length [simp]: "length (le_bytes n v) = n"
  by (induction n arbitrary: v) auto

lemma unat_byte [simp]: "unat (word_of_nat (v mod 256) :: byte) = v mod 256"
  by (simp add: unat_of_nat)

lemma le_val_bytes: "le_val (le_bytes n v) = v mod 256 ^ n"
proof (induction n arbitrary: v)
  case (Suc n)
  have "v mod 256 ^ Suc n = v mod 256 + 256 * (v div 256 mod 256 ^ n)"
    by (simp add: mod_mult2_eq)
  with Suc show ?case by simp
qed simp

lemma unat_u64_bound: "unat x < 256 ^ 8" for x :: u64
proof -
  have "unat x < 2 ^ LENGTH(64)" by (rule unsigned_less)
  then show ?thesis by simp
qed

lemma unat_u32_bound: "unat x < 256 ^ 4" for x :: u32
proof -
  have "unat x < 2 ^ LENGTH(32)" by (rule unsigned_less)
  then show ?thesis by simp
qed

lemma le_bytes_u64 [simp]: "le_val (le_bytes 8 (unat x)) = unat x" for x :: u64
  unfolding le_val_bytes by (rule mod_less [OF unat_u64_bound])

lemma le_bytes_u32 [simp]: "le_val (le_bytes 4 (unat x)) = unat x" for x :: u32
  unfolding le_val_bytes by (rule mod_less [OF unat_u32_bound])

section \<open>Loads and stores\<close>

definition load :: "mem \<Rightarrow> nat \<Rightarrow> nat \<Rightarrow> nat" where
  "load m a n = le_val (map m [a..<a + n])"

definition store :: "mem \<Rightarrow> nat \<Rightarrow> nat \<Rightarrow> nat \<Rightarrow> mem" where
  "store m a n v = (\<lambda>b. if a \<le> b \<and> b < a + n then le_bytes n v ! (b - a) else m b)"

lemma map_store_same: "map (store m a n v) [a..<a + n] = le_bytes n v"
  by (rule nth_equalityI) (auto simp: store_def)

lemma map_store_other: "b + k \<le> a \<or> a + n \<le> b \<Longrightarrow> map (store m a n v) [b..<b + k] = map m [b..<b + k]"
  by (auto simp: store_def)

lemma load_store_same: "load (store m a n v) a n = v mod 256 ^ n"
  unfolding load_def map_store_same by (rule le_val_bytes)

lemma load_store_u64 [simp]: "load (store m a 8 (unat x)) a 8 = unat x" for x :: u64
  unfolding load_store_same by (rule mod_less [OF unat_u64_bound])

lemma load_store_u32 [simp]: "load (store m a 4 (unat x)) a 4 = unat x" for x :: u32
  unfolding load_store_same by (rule mod_less [OF unat_u32_bound])

lemma load_store_other [simp]: "b + k \<le> a \<or> a + n \<le> b \<Longrightarrow> load (store m a n v) b k = load m b k"
  unfolding load_def by (subst map_store_other) auto

section \<open>Members\<close>

text \<open>
  \<open>member_at t xs\<close> is the byte offset and the size of the member, when it is a whole number of
  bytes.
\<close>

definition member_at :: "ctype \<Rightarrow> string list \<Rightarrow> (nat \<times> nat) option" where
  "member_at t xs =
     (case c_path xs t of
        None \<Rightarrow> None
      | Some (p, w, t') \<Rightarrow> if p mod 8 = 0 \<and> w mod 8 = 0 then Some (p div 8, w div 8) else None)"

definition load_member :: "ctype \<Rightarrow> string list \<Rightarrow> mem \<Rightarrow> nat \<Rightarrow> nat option" where
  "load_member t xs m a = map_option (\<lambda>(off, n). load m (a + off) n) (member_at t xs)"

definition store_member :: "ctype \<Rightarrow> string list \<Rightarrow> nat \<Rightarrow> nat \<Rightarrow> mem \<Rightarrow> mem" where
  "store_member t xs a v m =
     (case member_at t xs of None \<Rightarrow> m | Some (off, n) \<Rightarrow> store m (a + off) n v)"

lemma member_at_within: "member_at t xs = Some (off, n) \<Longrightarrow> off + n \<le> c_size t"
  by (auto simp: member_at_def dest!: c_path_within split: option.splits if_splits)

text \<open>A store to a member leaves every byte outside the object alone.\<close>

lemma store_member_outside:
  "b < a \<or> a + c_size t \<le> b \<Longrightarrow> store_member t xs a v m b = m b"
  by (auto simp: store_member_def store_def dest!: member_at_within split: option.split)

end
