(* ===== verification/Vm_File.thy ===== *)
theory Vm_File
  imports C_Layout
begin

text \<open>
  The kernel types behind the arguments of \<^verbatim>\<open>fd_install\<close>,
  \<^verbatim>\<open>filp_close\<close> and the clone hook: \<^verbatim>\<open>struct
  file\<close>, its operations, \<^verbatim>\<open>struct kernel_clone_args\<close>, and every
  type they hold by value.
  Each is the declaration of \<^verbatim>\<open>ebpf/src/vmlinux.h\<close> as a value of type \<open>ctype\<close>, with its
  size and alignment.
\<close>

definition t___s64 :: ctype where
  "t___s64 =
     CInt Signed 8"

lemma t___s64_lay [simp]: "c_lay t___s64 = (8, 8)"
  by (simp add: t___s64_def lay_defs)

definition t_s64 :: ctype where
  "t_s64 =
     t___s64"

lemma t_s64_lay [simp]: "c_lay t_s64 = (8, 8)"
  by (simp add: t_s64_def lay_defs)

definition atomic64_t :: ctype where
  "atomic64_t =
     CStruct
       [Field ''counter'' t_s64]"

lemma atomic64_t_lay [simp]: "c_lay atomic64_t = (8, 8)"
  by (simp add: atomic64_t_def lay_defs)

definition atomic_long_t :: ctype where
  "atomic_long_t =
     atomic64_t"

lemma atomic_long_t_lay [simp]: "c_lay atomic_long_t = (8, 8)"
  by (simp add: atomic_long_t_def lay_defs)

definition atomic_t :: ctype where
  "atomic_t =
     CStruct
       [Field ''counter'' (CInt Signed 4)]"

lemma atomic_t_lay [simp]: "c_lay atomic_t = (4, 4)"
  by (simp add: atomic_t_def lay_defs)

definition t___u8 :: ctype where
  "t___u8 =
     CInt Unsigned 1"

lemma t___u8_lay [simp]: "c_lay t___u8 = (1, 1)"
  by (simp add: t___u8_def lay_defs)

definition t_u8 :: ctype where
  "t_u8 =
     t___u8"

lemma t_u8_lay [simp]: "c_lay t_u8 = (1, 1)"
  by (simp add: t_u8_def lay_defs)

definition t___u16 :: ctype where
  "t___u16 =
     CInt Unsigned 2"

lemma t___u16_lay [simp]: "c_lay t___u16 = (2, 2)"
  by (simp add: t___u16_def lay_defs)

definition t_u16 :: ctype where
  "t_u16 =
     t___u16"

lemma t_u16_lay [simp]: "c_lay t_u16 = (2, 2)"
  by (simp add: t_u16_def lay_defs)

definition struct_qspinlock :: ctype where
  "struct_qspinlock =
     CStruct
       [Field '''' (CUnion
         [Field ''val'' atomic_t,
          Field '''' (CStruct
           [Field ''locked'' t_u8,
            Field ''pending'' t_u8]),
          Field '''' (CStruct
           [Field ''locked_pending'' t_u16,
            Field ''tail'' t_u16])])]"

lemma struct_qspinlock_lay [simp]: "c_lay struct_qspinlock = (4, 4)"
  by (simp add: struct_qspinlock_def lay_defs)

definition arch_spinlock_t :: ctype where
  "arch_spinlock_t =
     struct_qspinlock"

lemma arch_spinlock_t_lay [simp]: "c_lay arch_spinlock_t = (4, 4)"
  by (simp add: arch_spinlock_t_def lay_defs)

definition struct_raw_spinlock :: ctype where
  "struct_raw_spinlock =
     CStruct
       [Field ''raw_lock'' arch_spinlock_t]"

lemma struct_raw_spinlock_lay [simp]: "c_lay struct_raw_spinlock = (4, 4)"
  by (simp add: struct_raw_spinlock_def lay_defs)

definition struct_spinlock :: ctype where
  "struct_spinlock =
     CStruct
       [Field '''' (CUnion
         [Field ''rlock'' struct_raw_spinlock])]"

lemma struct_spinlock_lay [simp]: "c_lay struct_spinlock = (4, 4)"
  by (simp add: struct_spinlock_def lay_defs)

definition spinlock_t :: ctype where
  "spinlock_t =
     struct_spinlock"

lemma spinlock_t_lay [simp]: "c_lay spinlock_t = (4, 4)"
  by (simp add: spinlock_t_def lay_defs)

definition fmode_t :: ctype where
  "fmode_t =
     CInt Unsigned 4"

lemma fmode_t_lay [simp]: "c_lay fmode_t = (4, 4)"
  by (simp add: fmode_t_def lay_defs)

definition struct_path :: ctype where
  "struct_path =
     CStruct
       [Field ''mnt'' (CPtr ''struct vfsmount''),
        Field ''dentry'' (CPtr ''struct dentry'')]"

lemma struct_path_lay [simp]: "c_lay struct_path = (16, 8)"
  by (simp add: struct_path_def lay_defs)

definition raw_spinlock_t :: ctype where
  "raw_spinlock_t =
     struct_raw_spinlock"

lemma raw_spinlock_t_lay [simp]: "c_lay raw_spinlock_t = (4, 4)"
  by (simp add: raw_spinlock_t_def lay_defs)

definition struct_optimistic_spin_queue :: ctype where
  "struct_optimistic_spin_queue =
     CStruct
       [Field ''tail'' atomic_t]"

lemma struct_optimistic_spin_queue_lay [simp]: "c_lay struct_optimistic_spin_queue = (4, 4)"
  by (simp add: struct_optimistic_spin_queue_def lay_defs)

definition struct_list_head :: ctype where
  "struct_list_head =
     CStruct
       [Field ''next'' (CPtr ''struct list_head''),
        Field ''prev'' (CPtr ''struct list_head'')]"

lemma struct_list_head_lay [simp]: "c_lay struct_list_head = (16, 8)"
  by (simp add: struct_list_head_def lay_defs)

definition struct_mutex :: ctype where
  "struct_mutex =
     CStruct
       [Field ''owner'' atomic_long_t,
        Field ''wait_lock'' raw_spinlock_t,
        Field ''osq'' struct_optimistic_spin_queue,
        Field ''wait_list'' struct_list_head]"

lemma struct_mutex_lay [simp]: "c_lay struct_mutex = (32, 8)"
  by (simp add: struct_mutex_def lay_defs)

definition t___u64 :: ctype where
  "t___u64 =
     CInt Unsigned 8"

lemma t___u64_lay [simp]: "c_lay t___u64 = (8, 8)"
  by (simp add: t___u64_def lay_defs)

definition t_u64 :: ctype where
  "t_u64 =
     t___u64"

lemma t_u64_lay [simp]: "c_lay t_u64 = (8, 8)"
  by (simp add: t_u64_def lay_defs)

definition t___kernel_loff_t :: ctype where
  "t___kernel_loff_t =
     CInt Signed 8"

lemma t___kernel_loff_t_lay [simp]: "c_lay t___kernel_loff_t = (8, 8)"
  by (simp add: t___kernel_loff_t_def lay_defs)

definition loff_t :: ctype where
  "loff_t =
     t___kernel_loff_t"

lemma loff_t_lay [simp]: "c_lay loff_t = (8, 8)"
  by (simp add: loff_t_def lay_defs)

definition t___u32 :: ctype where
  "t___u32 =
     CInt Unsigned 4"

lemma t___u32_lay [simp]: "c_lay t___u32 = (4, 4)"
  by (simp add: t___u32_def lay_defs)

definition t_u32 :: ctype where
  "t_u32 =
     t___u32"

lemma t_u32_lay [simp]: "c_lay t_u32 = (4, 4)"
  by (simp add: t_u32_def lay_defs)

definition errseq_t :: ctype where
  "errseq_t =
     t_u32"

lemma errseq_t_lay [simp]: "c_lay errseq_t = (4, 4)"
  by (simp add: errseq_t_def lay_defs)

definition struct_callback_head :: ctype where
  "struct_callback_head =
     CStruct
       [Field ''next'' (CPtr ''struct callback_head''),
        Field ''func'' CFnPtr]"

lemma struct_callback_head_lay [simp]: "c_lay struct_callback_head = (16, 8)"
  by (simp add: struct_callback_head_def lay_defs)

definition struct_llist_node :: ctype where
  "struct_llist_node =
     CStruct
       [Field ''next'' (CPtr ''struct llist_node'')]"

lemma struct_llist_node_lay [simp]: "c_lay struct_llist_node = (8, 8)"
  by (simp add: struct_llist_node_def lay_defs)

definition struct_file_ra_state :: ctype where
  "struct_file_ra_state =
     CStruct
       [Field ''start'' (CInt Unsigned 8),
        Field ''size'' (CInt Unsigned 4),
        Field ''async_size'' (CInt Unsigned 4),
        Field ''ra_pages'' (CInt Unsigned 4),
        Field ''mmap_miss'' (CInt Unsigned 4),
        Field ''prev_pos'' loff_t]"

lemma struct_file_ra_state_lay [simp]: "c_lay struct_file_ra_state = (32, 8)"
  by (simp add: struct_file_ra_state_def lay_defs)

definition freeptr_t :: ctype where
  "freeptr_t =
     CStruct
       [Field ''v'' (CInt Unsigned 8)]"

lemma freeptr_t_lay [simp]: "c_lay freeptr_t = (8, 8)"
  by (simp add: freeptr_t_def lay_defs)

definition struct_file :: ctype where
  "struct_file =
     CStruct
       [Field ''f_count'' atomic_long_t,
        Field ''f_lock'' spinlock_t,
        Field ''f_mode'' fmode_t,
        Field ''f_op'' (CPtr ''struct file_operations''),
        Field ''f_mapping'' (CPtr ''struct address_space''),
        Field ''private_data'' (CPtr ''void''),
        Field ''f_inode'' (CPtr ''struct inode''),
        Field ''f_flags'' (CInt Unsigned 4),
        Field ''f_iocb_flags'' (CInt Unsigned 4),
        Field ''f_cred'' (CPtr ''struct cred''),
        Field ''f_path'' struct_path,
        Field '''' (CUnion
         [Field ''f_pos_lock'' struct_mutex,
          Field ''f_pipe'' t_u64]),
        Field ''f_pos'' loff_t,
        Field ''f_security'' (CPtr ''void''),
        Field ''f_owner'' (CPtr ''struct fown_struct''),
        Field ''f_wb_err'' errseq_t,
        Field ''f_sb_err'' errseq_t,
        Field ''f_ep'' (CPtr ''struct hlist_head''),
        Field '''' (CUnion
         [Field ''f_task_work'' struct_callback_head,
          Field ''f_llist'' struct_llist_node,
          Field ''f_ra'' struct_file_ra_state,
          Field ''f_freeptr'' freeptr_t])]"

lemma struct_file_lay [simp]: "c_lay struct_file = (184, 8)"
  by (simp add: struct_file_def lay_defs)

definition fop_flags_t :: ctype where
  "fop_flags_t =
     CInt Unsigned 4"

lemma fop_flags_t_lay [simp]: "c_lay fop_flags_t = (4, 4)"
  by (simp add: fop_flags_t_def lay_defs)

definition struct_file_operations :: ctype where
  "struct_file_operations =
     CStruct
       [Field ''owner'' (CPtr ''struct module''),
        Field ''fop_flags'' fop_flags_t,
        Field ''llseek'' CFnPtr,
        Field ''read'' CFnPtr,
        Field ''write'' CFnPtr,
        Field ''read_iter'' CFnPtr,
        Field ''write_iter'' CFnPtr,
        Field ''iopoll'' CFnPtr,
        Field ''iterate_shared'' CFnPtr,
        Field ''poll'' CFnPtr,
        Field ''unlocked_ioctl'' CFnPtr,
        Field ''compat_ioctl'' CFnPtr,
        Field ''mmap'' CFnPtr,
        Field ''open'' CFnPtr,
        Field ''flush'' CFnPtr,
        Field ''release'' CFnPtr,
        Field ''fsync'' CFnPtr,
        Field ''fasync'' CFnPtr,
        Field ''lock'' CFnPtr,
        Field ''get_unmapped_area'' CFnPtr,
        Field ''check_flags'' CFnPtr,
        Field ''flock'' CFnPtr,
        Field ''splice_write'' CFnPtr,
        Field ''splice_read'' CFnPtr,
        Field ''splice_eof'' CFnPtr,
        Field ''setlease'' CFnPtr,
        Field ''fallocate'' CFnPtr,
        Field ''show_fdinfo'' CFnPtr,
        Field ''copy_file_range'' CFnPtr,
        Field ''remap_file_range'' CFnPtr,
        Field ''fadvise'' CFnPtr,
        Field ''uring_cmd'' CFnPtr,
        Field ''uring_cmd_iopoll'' CFnPtr]"

lemma struct_file_operations_lay [simp]: "c_lay struct_file_operations = (264, 8)"
  by (simp add: struct_file_operations_def lay_defs)

definition t___kernel_ulong_t :: ctype where
  "t___kernel_ulong_t =
     CInt Unsigned 8"

lemma t___kernel_ulong_t_lay [simp]: "c_lay t___kernel_ulong_t = (8, 8)"
  by (simp add: t___kernel_ulong_t_def lay_defs)

definition t___kernel_size_t :: ctype where
  "t___kernel_size_t =
     t___kernel_ulong_t"

lemma t___kernel_size_t_lay [simp]: "c_lay t___kernel_size_t = (8, 8)"
  by (simp add: t___kernel_size_t_def lay_defs)

definition size_t :: ctype where
  "size_t =
     t___kernel_size_t"

lemma size_t_lay [simp]: "c_lay size_t = (8, 8)"
  by (simp add: size_t_def lay_defs)

definition struct_kernel_clone_args :: ctype where
  "struct_kernel_clone_args =
     CStruct
       [Field ''flags'' t_u64,
        Field ''pidfd'' (CPtr ''int''),
        Field ''child_tid'' (CPtr ''int''),
        Field ''parent_tid'' (CPtr ''int''),
        Field ''name'' (CPtr ''char''),
        Field ''exit_signal'' (CInt Signed 4),
        Bits ''kthread'' t_u32 1,
        Bits ''io_thread'' t_u32 1,
        Bits ''user_worker'' t_u32 1,
        Bits ''no_files'' t_u32 1,
        Field ''stack'' (CInt Unsigned 8),
        Field ''stack_size'' (CInt Unsigned 8),
        Field ''tls'' (CInt Unsigned 8),
        Field ''set_tid'' (CPtr ''pid_t''),
        Field ''set_tid_size'' size_t,
        Field ''cgroup'' (CInt Signed 4),
        Field ''idle'' (CInt Signed 4),
        Field ''fn'' CFnPtr,
        Field ''fn_arg'' (CPtr ''void''),
        Field ''cgrp'' (CPtr ''struct cgroup''),
        Field ''cset'' (CPtr ''struct css_set''),
        Field ''kill_seq'' (CInt Unsigned 4)]"

lemma struct_kernel_clone_args_lay [simp]: "c_lay struct_kernel_clone_args = (136, 8)"
  by (simp add: struct_kernel_clone_args_def lay_defs)

end
