(* ===== verification/Vm_Task.thy ===== *)
theory Vm_Task
  imports Vm_File
begin

text \<open>
  The task the hooks run in: \<^verbatim>\<open>struct task_struct\<close>, its file table,
  signals, memory map and credentials, and the types they hold by value.
  Each is the declaration of \<^verbatim>\<open>ebpf/src/vmlinux.h\<close> as a value of type \<open>ctype\<close>, with its
  size and alignment.
\<close>

definition struct_thread_info :: ctype where
  "struct_thread_info =
     CStruct
       [Field ''flags'' (CInt Unsigned 8),
        Field '''' (CUnion
         [Field ''preempt_count'' t_u64,
          Field ''preempt'' (CStruct
           [Field ''count'' t_u32,
            Field ''need_resched'' t_u32])]),
        Field ''cpu'' t_u32]"

lemma struct_thread_info_lay [simp]: "c_lay struct_thread_info = (24, 8)"
  by (simp add: struct_thread_info_def lay_defs)

definition struct_refcount_struct :: ctype where
  "struct_refcount_struct =
     CStruct
       [Field ''refs'' atomic_t]"

lemma struct_refcount_struct_lay [simp]: "c_lay struct_refcount_struct = (4, 4)"
  by (simp add: struct_refcount_struct_def lay_defs)

definition refcount_t :: ctype where
  "refcount_t =
     struct_refcount_struct"

lemma refcount_t_lay [simp]: "c_lay refcount_t = (4, 4)"
  by (simp add: refcount_t_def lay_defs)

definition struct___call_single_node :: ctype where
  "struct___call_single_node =
     CStruct
       [Field ''llist'' struct_llist_node,
        Field '''' (CUnion
         [Field ''u_flags'' (CInt Unsigned 4),
          Field ''a_flags'' atomic_t]),
        Field ''src'' t_u16,
        Field ''dst'' t_u16]"

lemma struct___call_single_node_lay [simp]: "c_lay struct___call_single_node = (16, 8)"
  by (simp add: struct___call_single_node_def lay_defs)

definition struct_load_weight :: ctype where
  "struct_load_weight =
     CStruct
       [Field ''weight'' (CInt Unsigned 8),
        Field ''inv_weight'' t_u32]"

lemma struct_load_weight_lay [simp]: "c_lay struct_load_weight = (16, 8)"
  by (simp add: struct_load_weight_def lay_defs)

definition struct_rb_node :: ctype where
  "struct_rb_node =
     CStruct
       [Field ''__rb_parent_color'' (CInt Unsigned 8),
        Field ''rb_right'' (CPtr ''struct rb_node''),
        Field ''rb_left'' (CPtr ''struct rb_node'')]"

lemma struct_rb_node_lay [simp]: "c_lay struct_rb_node = (24, 8)"
  by (simp add: struct_rb_node_def lay_defs)

definition struct_sched_avg :: ctype where
  "struct_sched_avg =
     CStruct
       [Field ''last_update_time'' t_u64,
        Field ''load_sum'' t_u64,
        Field ''runnable_sum'' t_u64,
        Field ''util_sum'' t_u32,
        Field ''period_contrib'' t_u32,
        Field ''load_avg'' (CInt Unsigned 8),
        Field ''runnable_avg'' (CInt Unsigned 8),
        Field ''util_avg'' (CInt Unsigned 8),
        Field ''util_est'' (CInt Unsigned 4)]"

lemma struct_sched_avg_lay [simp]: "c_lay struct_sched_avg = (64, 8)"
  by (simp add: struct_sched_avg_def lay_defs)

definition struct_sched_entity :: ctype where
  "struct_sched_entity =
     CStruct
       [Field ''load'' struct_load_weight,
        Field ''run_node'' struct_rb_node,
        Field ''deadline'' t_u64,
        Field ''min_vruntime'' t_u64,
        Field ''min_slice'' t_u64,
        Field ''group_node'' struct_list_head,
        Field ''on_rq'' (CInt Unsigned 1),
        Field ''sched_delayed'' (CInt Unsigned 1),
        Field ''rel_deadline'' (CInt Unsigned 1),
        Field ''custom_slice'' (CInt Unsigned 1),
        Field ''exec_start'' t_u64,
        Field ''sum_exec_runtime'' t_u64,
        Field ''prev_sum_exec_runtime'' t_u64,
        Field ''vruntime'' t_u64,
        Field ''vlag'' t_s64,
        Field ''slice'' t_u64,
        Field ''nr_migrations'' t_u64,
        Field ''depth'' (CInt Signed 4),
        Field ''parent'' (CPtr ''struct sched_entity''),
        Field ''cfs_rq'' (CPtr ''struct cfs_rq''),
        Field ''my_q'' (CPtr ''struct cfs_rq''),
        Field ''runnable_weight'' (CInt Unsigned 8),
        Bits '''' (CInt Signed 8) 64,
        Field ''avg'' struct_sched_avg]"

lemma struct_sched_entity_lay [simp]: "c_lay struct_sched_entity = (256, 8)"
  by (simp add: struct_sched_entity_def lay_defs)

definition struct_sched_rt_entity :: ctype where
  "struct_sched_rt_entity =
     CStruct
       [Field ''run_list'' struct_list_head,
        Field ''timeout'' (CInt Unsigned 8),
        Field ''watchdog_stamp'' (CInt Unsigned 8),
        Field ''time_slice'' (CInt Unsigned 4),
        Field ''on_rq'' (CInt Unsigned 2),
        Field ''on_list'' (CInt Unsigned 2),
        Field ''back'' (CPtr ''struct sched_rt_entity'')]"

lemma struct_sched_rt_entity_lay [simp]: "c_lay struct_sched_rt_entity = (48, 8)"
  by (simp add: struct_sched_rt_entity_def lay_defs)

definition ktime_t :: ctype where
  "ktime_t =
     t_s64"

lemma ktime_t_lay [simp]: "c_lay ktime_t = (8, 8)"
  by (simp add: ktime_t_def lay_defs)

definition struct_timerqueue_node :: ctype where
  "struct_timerqueue_node =
     CStruct
       [Field ''node'' struct_rb_node,
        Field ''expires'' ktime_t]"

lemma struct_timerqueue_node_lay [simp]: "c_lay struct_timerqueue_node = (32, 8)"
  by (simp add: struct_timerqueue_node_def lay_defs)

definition struct_hrtimer :: ctype where
  "struct_hrtimer =
     CStruct
       [Field ''node'' struct_timerqueue_node,
        Field ''_softexpires'' ktime_t,
        Field ''function'' CFnPtr,
        Field ''base'' (CPtr ''struct hrtimer_clock_base''),
        Field ''state'' t_u8,
        Field ''is_rel'' t_u8,
        Field ''is_soft'' t_u8,
        Field ''is_hard'' t_u8]"

lemma struct_hrtimer_lay [simp]: "c_lay struct_hrtimer = (64, 8)"
  by (simp add: struct_hrtimer_def lay_defs)

definition t_dl_server_pick_f :: ctype where
  "t_dl_server_pick_f =
     CFnPtr"

lemma t_dl_server_pick_f_lay [simp]: "c_lay t_dl_server_pick_f = (8, 8)"
  by (simp add: t_dl_server_pick_f_def lay_defs)

definition struct_sched_dl_entity :: ctype where
  "struct_sched_dl_entity =
     CStruct
       [Field ''rb_node'' struct_rb_node,
        Field ''dl_runtime'' t_u64,
        Field ''dl_deadline'' t_u64,
        Field ''dl_period'' t_u64,
        Field ''dl_bw'' t_u64,
        Field ''dl_density'' t_u64,
        Field ''runtime'' t_s64,
        Field ''deadline'' t_u64,
        Field ''flags'' (CInt Unsigned 4),
        Bits ''dl_throttled'' (CInt Unsigned 4) 1,
        Bits ''dl_yielded'' (CInt Unsigned 4) 1,
        Bits ''dl_non_contending'' (CInt Unsigned 4) 1,
        Bits ''dl_overrun'' (CInt Unsigned 4) 1,
        Bits ''dl_server'' (CInt Unsigned 4) 1,
        Bits ''dl_server_active'' (CInt Unsigned 4) 1,
        Bits ''dl_defer'' (CInt Unsigned 4) 1,
        Bits ''dl_defer_armed'' (CInt Unsigned 4) 1,
        Bits ''dl_defer_running'' (CInt Unsigned 4) 1,
        Field ''dl_timer'' struct_hrtimer,
        Field ''inactive_timer'' struct_hrtimer,
        Field ''rq'' (CPtr ''struct rq''),
        Field ''server_pick_task'' t_dl_server_pick_f,
        Field ''pi_se'' (CPtr ''struct sched_dl_entity'')]"

lemma struct_sched_dl_entity_lay [simp]: "c_lay struct_sched_dl_entity = (240, 8)"
  by (simp add: struct_sched_dl_entity_def lay_defs)

definition struct_sched_statistics :: ctype where
  "struct_sched_statistics =
     CStruct
       [Field ''wait_start'' t_u64,
        Field ''wait_max'' t_u64,
        Field ''wait_count'' t_u64,
        Field ''wait_sum'' t_u64,
        Field ''iowait_count'' t_u64,
        Field ''iowait_sum'' t_u64,
        Field ''sleep_start'' t_u64,
        Field ''sleep_max'' t_u64,
        Field ''sum_sleep_runtime'' t_s64,
        Field ''block_start'' t_u64,
        Field ''block_max'' t_u64,
        Field ''sum_block_runtime'' t_s64,
        Field ''exec_max'' t_s64,
        Field ''slice_max'' t_u64,
        Field ''nr_migrations_cold'' t_u64,
        Field ''nr_failed_migrations_affine'' t_u64,
        Field ''nr_failed_migrations_running'' t_u64,
        Field ''nr_failed_migrations_hot'' t_u64,
        Field ''nr_forced_migrations'' t_u64,
        Field ''nr_wakeups'' t_u64,
        Field ''nr_wakeups_sync'' t_u64,
        Field ''nr_wakeups_migrate'' t_u64,
        Field ''nr_wakeups_local'' t_u64,
        Field ''nr_wakeups_remote'' t_u64,
        Field ''nr_wakeups_affine'' t_u64,
        Field ''nr_wakeups_affine_attempts'' t_u64,
        Field ''nr_wakeups_passive'' t_u64,
        Field ''nr_wakeups_idle'' t_u64,
        Bits '''' (CInt Signed 8) 64,
        Bits '''' (CInt Signed 8) 64,
        Bits '''' (CInt Signed 8) 64,
        Bits '''' (CInt Signed 8) 64]"

lemma struct_sched_statistics_lay [simp]: "c_lay struct_sched_statistics = (256, 8)"
  by (simp add: struct_sched_statistics_def lay_defs)

definition struct_hlist_head :: ctype where
  "struct_hlist_head =
     CStruct
       [Field ''first'' (CPtr ''struct hlist_node'')]"

lemma struct_hlist_head_lay [simp]: "c_lay struct_hlist_head = (8, 8)"
  by (simp add: struct_hlist_head_def lay_defs)

definition struct_cpumask :: ctype where
  "struct_cpumask =
     CStruct
       [Field ''bits'' (CArr (CInt Unsigned 8) 8)]"

lemma struct_cpumask_lay [simp]: "c_lay struct_cpumask = (64, 8)"
  by (simp add: struct_cpumask_def lay_defs)

definition cpumask_t :: ctype where
  "cpumask_t =
     struct_cpumask"

lemma cpumask_t_lay [simp]: "c_lay cpumask_t = (64, 8)"
  by (simp add: cpumask_t_def lay_defs)

definition union_rcu_special :: ctype where
  "union_rcu_special =
     CUnion
       [Field ''b'' (CStruct
         [Field ''blocked'' t_u8,
          Field ''need_qs'' t_u8,
          Field ''exp_hint'' t_u8,
          Field ''need_mb'' t_u8]),
        Field ''s'' t_u32]"

lemma union_rcu_special_lay [simp]: "c_lay union_rcu_special = (4, 4)"
  by (simp add: union_rcu_special_def lay_defs)

definition struct_sched_info :: ctype where
  "struct_sched_info =
     CStruct
       [Field ''pcount'' (CInt Unsigned 8),
        Field ''run_delay'' (CInt Unsigned 8),
        Field ''last_arrival'' (CInt Unsigned 8),
        Field ''last_queued'' (CInt Unsigned 8)]"

lemma struct_sched_info_lay [simp]: "c_lay struct_sched_info = (32, 8)"
  by (simp add: struct_sched_info_def lay_defs)

definition struct_plist_node :: ctype where
  "struct_plist_node =
     CStruct
       [Field ''prio'' (CInt Signed 4),
        Field ''prio_list'' struct_list_head,
        Field ''node_list'' struct_list_head]"

lemma struct_plist_node_lay [simp]: "c_lay struct_plist_node = (40, 8)"
  by (simp add: struct_plist_node_def lay_defs)

definition t___kernel_clockid_t :: ctype where
  "t___kernel_clockid_t =
     CInt Signed 4"

lemma t___kernel_clockid_t_lay [simp]: "c_lay t___kernel_clockid_t = (4, 4)"
  by (simp add: t___kernel_clockid_t_def lay_defs)

definition clockid_t :: ctype where
  "clockid_t =
     t___kernel_clockid_t"

lemma clockid_t_lay [simp]: "c_lay clockid_t = (4, 4)"
  by (simp add: clockid_t_def lay_defs)

definition enum_timespec_type :: ctype where
  "enum_timespec_type =
     CEnum
       [(''TT_NONE'', 0),
        (''TT_NATIVE'', 1),
        (''TT_COMPAT'', 2)]"

lemma enum_timespec_type_lay [simp]: "c_lay enum_timespec_type = (4, 4)"
  by (simp add: enum_timespec_type_def lay_defs)

definition struct_restart_block :: ctype where
  "struct_restart_block =
     CStruct
       [Field ''arch_data'' (CInt Unsigned 8),
        Field ''fn'' CFnPtr,
        Field '''' (CUnion
         [Field ''futex'' (CStruct
           [Field ''uaddr'' (CPtr ''u32''),
            Field ''val'' t_u32,
            Field ''flags'' t_u32,
            Field ''bitset'' t_u32,
            Field ''time'' t_u64,
            Field ''uaddr2'' (CPtr ''u32'')]),
          Field ''nanosleep'' (CStruct
           [Field ''clockid'' clockid_t,
            Field ''type'' enum_timespec_type,
            Field '''' (CUnion
             [Field ''rmtp'' (CPtr ''struct __kernel_timespec''),
              Field ''compat_rmtp'' (CPtr ''struct old_timespec32'')]),
            Field ''expires'' t_u64]),
          Field ''poll'' (CStruct
           [Field ''ufds'' (CPtr ''struct pollfd''),
            Field ''nfds'' (CInt Signed 4),
            Field ''has_timeout'' (CInt Signed 4),
            Field ''tv_sec'' (CInt Unsigned 8),
            Field ''tv_nsec'' (CInt Unsigned 8)])])]"

lemma struct_restart_block_lay [simp]: "c_lay struct_restart_block = (56, 8)"
  by (simp add: struct_restart_block_def lay_defs)

definition t___kernel_pid_t :: ctype where
  "t___kernel_pid_t =
     CInt Signed 4"

lemma t___kernel_pid_t_lay [simp]: "c_lay t___kernel_pid_t = (4, 4)"
  by (simp add: t___kernel_pid_t_def lay_defs)

definition pid_t :: ctype where
  "pid_t =
     t___kernel_pid_t"

lemma pid_t_lay [simp]: "c_lay pid_t = (4, 4)"
  by (simp add: pid_t_def lay_defs)

definition struct_hlist_node :: ctype where
  "struct_hlist_node =
     CStruct
       [Field ''next'' (CPtr ''struct hlist_node''),
        Field ''pprev'' (CPtr ''struct hlist_node *'')]"

lemma struct_hlist_node_lay [simp]: "c_lay struct_hlist_node = (16, 8)"
  by (simp add: struct_hlist_node_def lay_defs)

definition struct_prev_cputime :: ctype where
  "struct_prev_cputime =
     CStruct
       [Field ''utime'' t_u64,
        Field ''stime'' t_u64,
        Field ''lock'' raw_spinlock_t]"

lemma struct_prev_cputime_lay [simp]: "c_lay struct_prev_cputime = (24, 8)"
  by (simp add: struct_prev_cputime_def lay_defs)

definition struct_seqcount :: ctype where
  "struct_seqcount =
     CStruct
       [Field ''sequence'' (CInt Unsigned 4)]"

lemma struct_seqcount_lay [simp]: "c_lay struct_seqcount = (4, 4)"
  by (simp add: struct_seqcount_def lay_defs)

definition seqcount_t :: ctype where
  "seqcount_t =
     struct_seqcount"

lemma seqcount_t_lay [simp]: "c_lay seqcount_t = (4, 4)"
  by (simp add: seqcount_t_def lay_defs)

definition enum_vtime_state :: ctype where
  "enum_vtime_state =
     CEnum
       [(''VTIME_INACTIVE'', 0),
        (''VTIME_IDLE'', 1),
        (''VTIME_SYS'', 2),
        (''VTIME_USER'', 3),
        (''VTIME_GUEST'', 4)]"

lemma enum_vtime_state_lay [simp]: "c_lay enum_vtime_state = (4, 4)"
  by (simp add: enum_vtime_state_def lay_defs)

definition struct_vtime :: ctype where
  "struct_vtime =
     CStruct
       [Field ''seqcount'' seqcount_t,
        Field ''starttime'' (CInt Unsigned 8),
        Field ''state'' enum_vtime_state,
        Field ''cpu'' (CInt Unsigned 4),
        Field ''utime'' t_u64,
        Field ''stime'' t_u64,
        Field ''gtime'' t_u64]"

lemma struct_vtime_lay [simp]: "c_lay struct_vtime = (48, 8)"
  by (simp add: struct_vtime_def lay_defs)

definition struct_rb_root :: ctype where
  "struct_rb_root =
     CStruct
       [Field ''rb_node'' (CPtr ''struct rb_node'')]"

lemma struct_rb_root_lay [simp]: "c_lay struct_rb_root = (8, 8)"
  by (simp add: struct_rb_root_def lay_defs)

definition struct_rb_root_cached :: ctype where
  "struct_rb_root_cached =
     CStruct
       [Field ''rb_root'' struct_rb_root,
        Field ''rb_leftmost'' (CPtr ''struct rb_node'')]"

lemma struct_rb_root_cached_lay [simp]: "c_lay struct_rb_root_cached = (16, 8)"
  by (simp add: struct_rb_root_cached_def lay_defs)

definition struct_timerqueue_head :: ctype where
  "struct_timerqueue_head =
     CStruct
       [Field ''rb_root'' struct_rb_root_cached]"

lemma struct_timerqueue_head_lay [simp]: "c_lay struct_timerqueue_head = (16, 8)"
  by (simp add: struct_timerqueue_head_def lay_defs)

definition struct_posix_cputimer_base :: ctype where
  "struct_posix_cputimer_base =
     CStruct
       [Field ''nextevt'' t_u64,
        Field ''tqhead'' struct_timerqueue_head]"

lemma struct_posix_cputimer_base_lay [simp]: "c_lay struct_posix_cputimer_base = (24, 8)"
  by (simp add: struct_posix_cputimer_base_def lay_defs)

definition struct_posix_cputimers :: ctype where
  "struct_posix_cputimers =
     CStruct
       [Field ''bases'' (CArr (struct_posix_cputimer_base) 3),
        Field ''timers_active'' (CInt Unsigned 4),
        Field ''expiry_active'' (CInt Unsigned 4)]"

lemma struct_posix_cputimers_lay [simp]: "c_lay struct_posix_cputimers = (80, 8)"
  by (simp add: struct_posix_cputimers_def lay_defs)

definition struct_posix_cputimers_work :: ctype where
  "struct_posix_cputimers_work =
     CStruct
       [Field ''work'' struct_callback_head,
        Field ''mutex'' struct_mutex,
        Field ''scheduled'' (CInt Unsigned 4)]"

lemma struct_posix_cputimers_work_lay [simp]: "c_lay struct_posix_cputimers_work = (56, 8)"
  by (simp add: struct_posix_cputimers_work_def lay_defs)

definition struct_sysv_sem :: ctype where
  "struct_sysv_sem =
     CStruct
       [Field ''undo_list'' (CPtr ''struct sem_undo_list'')]"

lemma struct_sysv_sem_lay [simp]: "c_lay struct_sysv_sem = (8, 8)"
  by (simp add: struct_sysv_sem_def lay_defs)

definition struct_sysv_shm :: ctype where
  "struct_sysv_shm =
     CStruct
       [Field ''shm_clist'' struct_list_head]"

lemma struct_sysv_shm_lay [simp]: "c_lay struct_sysv_shm = (16, 8)"
  by (simp add: struct_sysv_shm_def lay_defs)

definition sigset_t :: ctype where
  "sigset_t =
     CStruct
       [Field ''sig'' (CArr (CInt Unsigned 8) 1)]"

lemma sigset_t_lay [simp]: "c_lay sigset_t = (8, 8)"
  by (simp add: sigset_t_def lay_defs)

definition struct_sigpending :: ctype where
  "struct_sigpending =
     CStruct
       [Field ''list'' struct_list_head,
        Field ''signal'' sigset_t]"

lemma struct_sigpending_lay [simp]: "c_lay struct_sigpending = (24, 8)"
  by (simp add: struct_sigpending_def lay_defs)

definition t___kernel_uid32_t :: ctype where
  "t___kernel_uid32_t =
     CInt Unsigned 4"

lemma t___kernel_uid32_t_lay [simp]: "c_lay t___kernel_uid32_t = (4, 4)"
  by (simp add: t___kernel_uid32_t_def lay_defs)

definition uid_t :: ctype where
  "uid_t =
     t___kernel_uid32_t"

lemma uid_t_lay [simp]: "c_lay uid_t = (4, 4)"
  by (simp add: uid_t_def lay_defs)

definition kuid_t :: ctype where
  "kuid_t =
     CStruct
       [Field ''val'' uid_t]"

lemma kuid_t_lay [simp]: "c_lay kuid_t = (4, 4)"
  by (simp add: kuid_t_def lay_defs)

definition struct_seccomp :: ctype where
  "struct_seccomp =
     CStruct
       [Field ''mode'' (CInt Signed 4),
        Field ''filter_count'' atomic_t,
        Field ''filter'' (CPtr ''struct seccomp_filter'')]"

lemma struct_seccomp_lay [simp]: "c_lay struct_seccomp = (16, 8)"
  by (simp add: struct_seccomp_def lay_defs)

definition struct_syscall_user_dispatch :: ctype where
  "struct_syscall_user_dispatch =
     CStruct []"

lemma struct_syscall_user_dispatch_lay [simp]: "c_lay struct_syscall_user_dispatch = (0, 1)"
  by (simp add: struct_syscall_user_dispatch_def lay_defs)

definition struct_wake_q_node :: ctype where
  "struct_wake_q_node =
     CStruct
       [Field ''next'' (CPtr ''struct wake_q_node'')]"

lemma struct_wake_q_node_lay [simp]: "c_lay struct_wake_q_node = (8, 8)"
  by (simp add: struct_wake_q_node_def lay_defs)

definition struct_task_io_accounting :: ctype where
  "struct_task_io_accounting =
     CStruct
       [Field ''rchar'' t_u64,
        Field ''wchar'' t_u64,
        Field ''syscr'' t_u64,
        Field ''syscw'' t_u64,
        Field ''read_bytes'' t_u64,
        Field ''write_bytes'' t_u64,
        Field ''cancelled_write_bytes'' t_u64]"

lemma struct_task_io_accounting_lay [simp]: "c_lay struct_task_io_accounting = (56, 8)"
  by (simp add: struct_task_io_accounting_def lay_defs)

definition nodemask_t :: ctype where
  "nodemask_t =
     CStruct
       [Field ''bits'' (CArr (CInt Unsigned 8) 1)]"

lemma nodemask_t_lay [simp]: "c_lay nodemask_t = (8, 8)"
  by (simp add: nodemask_t_def lay_defs)

definition struct_seqcount_spinlock :: ctype where
  "struct_seqcount_spinlock =
     CStruct
       [Field ''seqcount'' seqcount_t]"

lemma struct_seqcount_spinlock_lay [simp]: "c_lay struct_seqcount_spinlock = (4, 4)"
  by (simp add: struct_seqcount_spinlock_def lay_defs)

definition seqcount_spinlock_t :: ctype where
  "seqcount_spinlock_t =
     struct_seqcount_spinlock"

lemma seqcount_spinlock_t_lay [simp]: "c_lay seqcount_spinlock_t = (4, 4)"
  by (simp add: seqcount_spinlock_t_def lay_defs)

definition struct_arch_tlbflush_unmap_batch :: ctype where
  "struct_arch_tlbflush_unmap_batch =
     CStruct []"

lemma struct_arch_tlbflush_unmap_batch_lay [simp]: "c_lay struct_arch_tlbflush_unmap_batch = (0, 1)"
  by (simp add: struct_arch_tlbflush_unmap_batch_def lay_defs)

definition t_bool :: ctype where
  "t_bool =
     CInt Unsigned 1"

lemma t_bool_lay [simp]: "c_lay t_bool = (1, 1)"
  by (simp add: t_bool_def lay_defs)

definition struct_tlbflush_unmap_batch :: ctype where
  "struct_tlbflush_unmap_batch =
     CStruct
       [Field ''arch'' struct_arch_tlbflush_unmap_batch,
        Field ''flush_required'' t_bool,
        Field ''writable'' t_bool]"

lemma struct_tlbflush_unmap_batch_lay [simp]: "c_lay struct_tlbflush_unmap_batch = (2, 1)"
  by (simp add: struct_tlbflush_unmap_batch_def lay_defs)

definition struct_page_frag :: ctype where
  "struct_page_frag =
     CStruct
       [Field ''page'' (CPtr ''struct page''),
        Field ''offset'' t___u32,
        Field ''size'' t___u32]"

lemma struct_page_frag_lay [simp]: "c_lay struct_page_frag = (16, 8)"
  by (simp add: struct_page_frag_def lay_defs)

definition struct_kmap_ctrl :: ctype where
  "struct_kmap_ctrl =
     CStruct []"

lemma struct_kmap_ctrl_lay [simp]: "c_lay struct_kmap_ctrl = (0, 1)"
  by (simp add: struct_kmap_ctrl_def lay_defs)

definition struct_timer_list :: ctype where
  "struct_timer_list =
     CStruct
       [Field ''entry'' struct_hlist_node,
        Field ''expires'' (CInt Unsigned 8),
        Field ''function'' CFnPtr,
        Field ''flags'' t_u32]"

lemma struct_timer_list_lay [simp]: "c_lay struct_timer_list = (40, 8)"
  by (simp add: struct_timer_list_def lay_defs)

definition struct_llist_head :: ctype where
  "struct_llist_head =
     CStruct
       [Field ''first'' (CPtr ''struct llist_node'')]"

lemma struct_llist_head_lay [simp]: "c_lay struct_llist_head = (8, 8)"
  by (simp add: struct_llist_head_def lay_defs)

definition struct_cpu_context :: ctype where
  "struct_cpu_context =
     CStruct
       [Field ''x19'' (CInt Unsigned 8),
        Field ''x20'' (CInt Unsigned 8),
        Field ''x21'' (CInt Unsigned 8),
        Field ''x22'' (CInt Unsigned 8),
        Field ''x23'' (CInt Unsigned 8),
        Field ''x24'' (CInt Unsigned 8),
        Field ''x25'' (CInt Unsigned 8),
        Field ''x26'' (CInt Unsigned 8),
        Field ''x27'' (CInt Unsigned 8),
        Field ''x28'' (CInt Unsigned 8),
        Field ''fp'' (CInt Unsigned 8),
        Field ''sp'' (CInt Unsigned 8),
        Field ''pc'' (CInt Unsigned 8)]"

lemma struct_cpu_context_lay [simp]: "c_lay struct_cpu_context = (104, 8)"
  by (simp add: struct_cpu_context_def lay_defs)

definition struct_user_fpsimd_state :: ctype where
  "struct_user_fpsimd_state =
     CStruct
       [Field ''vregs'' (CArr (CInt Unsigned 16) 32),
        Field ''fpsr'' t___u32,
        Field ''fpcr'' t___u32,
        Field ''__reserved'' (CArr (t___u32) 2)]"

lemma struct_user_fpsimd_state_lay [simp]: "c_lay struct_user_fpsimd_state = (528, 16)"
  by (simp add: struct_user_fpsimd_state_def lay_defs)

definition enum_fp_type :: ctype where
  "enum_fp_type =
     CEnum
       [(''FP_STATE_CURRENT'', 0),
        (''FP_STATE_FPSIMD'', 1),
        (''FP_STATE_SVE'', 2)]"

lemma enum_fp_type_lay [simp]: "c_lay enum_fp_type = (4, 4)"
  by (simp add: enum_fp_type_def lay_defs)

definition struct_debug_info :: ctype where
  "struct_debug_info =
     CStruct
       [Field ''suspended_step'' (CInt Signed 4),
        Field ''bps_disabled'' (CInt Signed 4),
        Field ''wps_disabled'' (CInt Signed 4),
        Field ''hbp_break'' (CArr (CPtr ''struct perf_event'') 16),
        Field ''hbp_watch'' (CArr (CPtr ''struct perf_event'') 16)]"

lemma struct_debug_info_lay [simp]: "c_lay struct_debug_info = (272, 8)"
  by (simp add: struct_debug_info_def lay_defs)

definition struct_ptrauth_key :: ctype where
  "struct_ptrauth_key =
     CStruct
       [Field ''lo'' (CInt Unsigned 8),
        Field ''hi'' (CInt Unsigned 8)]"

lemma struct_ptrauth_key_lay [simp]: "c_lay struct_ptrauth_key = (16, 8)"
  by (simp add: struct_ptrauth_key_def lay_defs)

definition struct_ptrauth_keys_user :: ctype where
  "struct_ptrauth_keys_user =
     CStruct
       [Field ''apia'' struct_ptrauth_key,
        Field ''apib'' struct_ptrauth_key,
        Field ''apda'' struct_ptrauth_key,
        Field ''apdb'' struct_ptrauth_key,
        Field ''apga'' struct_ptrauth_key]"

lemma struct_ptrauth_keys_user_lay [simp]: "c_lay struct_ptrauth_keys_user = (80, 8)"
  by (simp add: struct_ptrauth_keys_user_def lay_defs)

definition struct_ptrauth_keys_kernel :: ctype where
  "struct_ptrauth_keys_kernel =
     CStruct
       [Field ''apia'' struct_ptrauth_key]"

lemma struct_ptrauth_keys_kernel_lay [simp]: "c_lay struct_ptrauth_keys_kernel = (16, 8)"
  by (simp add: struct_ptrauth_keys_kernel_def lay_defs)

definition struct_thread_struct :: ctype where
  "struct_thread_struct =
     CStruct
       [Field ''cpu_context'' struct_cpu_context,
        Bits '''' (CInt Signed 8) 64,
        Field ''uw'' (CStruct
         [Field ''tp_value'' (CInt Unsigned 8),
          Field ''tp2_value'' (CInt Unsigned 8),
          Field ''fpmr'' t_u64,
          Field ''pad'' (CInt Unsigned 8),
          Field ''fpsimd_state'' struct_user_fpsimd_state]),
        Field ''fp_type'' enum_fp_type,
        Field ''fpsimd_cpu'' (CInt Unsigned 4),
        Field ''sve_state'' (CPtr ''void''),
        Field ''sme_state'' (CPtr ''void''),
        Field ''vl'' (CArr (CInt Unsigned 4) 2),
        Field ''vl_onexec'' (CArr (CInt Unsigned 4) 2),
        Field ''fault_address'' (CInt Unsigned 8),
        Field ''fault_code'' (CInt Unsigned 8),
        Field ''debug'' struct_debug_info,
        Bits '''' (CInt Signed 8) 64,
        Field ''kernel_fpsimd_state'' struct_user_fpsimd_state,
        Field ''kernel_fpsimd_cpu'' (CInt Unsigned 4),
        Field ''keys_user'' struct_ptrauth_keys_user,
        Field ''keys_kernel'' struct_ptrauth_keys_kernel,
        Field ''mte_ctrl'' t_u64,
        Field ''sctlr_user'' t_u64,
        Field ''svcr'' t_u64,
        Field ''tpidr2_el0'' t_u64,
        Field ''por_el0'' t_u64]"

lemma struct_thread_struct_lay [simp]: "c_lay struct_thread_struct = (1680, 16)"
  by (simp add: struct_thread_struct_def lay_defs)

definition struct_task_struct :: ctype where
  "struct_task_struct =
     CStruct
       [Field ''thread_info'' struct_thread_info,
        Field ''__state'' (CInt Unsigned 4),
        Field ''saved_state'' (CInt Unsigned 4),
        Field ''stack'' (CPtr ''void''),
        Field ''usage'' refcount_t,
        Field ''flags'' (CInt Unsigned 4),
        Field ''ptrace'' (CInt Unsigned 4),
        Field ''on_cpu'' (CInt Signed 4),
        Field ''wake_entry'' struct___call_single_node,
        Field ''wakee_flips'' (CInt Unsigned 4),
        Field ''wakee_flip_decay_ts'' (CInt Unsigned 8),
        Field ''last_wakee'' (CPtr ''struct task_struct''),
        Field ''recent_used_cpu'' (CInt Signed 4),
        Field ''wake_cpu'' (CInt Signed 4),
        Field ''on_rq'' (CInt Signed 4),
        Field ''prio'' (CInt Signed 4),
        Field ''static_prio'' (CInt Signed 4),
        Field ''normal_prio'' (CInt Signed 4),
        Field ''rt_priority'' (CInt Unsigned 4),
        Field ''se'' struct_sched_entity,
        Field ''rt'' struct_sched_rt_entity,
        Field ''dl'' struct_sched_dl_entity,
        Field ''dl_server'' (CPtr ''struct sched_dl_entity''),
        Field ''sched_class'' (CPtr ''struct sched_class''),
        Field ''sched_task_group'' (CPtr ''struct task_group''),
        Bits '''' (CInt Signed 8) 64,
        Field ''stats'' struct_sched_statistics,
        Field ''preempt_notifiers'' struct_hlist_head,
        Field ''btrace_seq'' (CInt Unsigned 4),
        Field ''policy'' (CInt Unsigned 4),
        Field ''max_allowed_capacity'' (CInt Unsigned 8),
        Field ''nr_cpus_allowed'' (CInt Signed 4),
        Field ''cpus_ptr'' (CPtr ''cpumask_t''),
        Field ''user_cpus_ptr'' (CPtr ''cpumask_t''),
        Field ''cpus_mask'' cpumask_t,
        Field ''migration_pending'' (CPtr ''void''),
        Field ''migration_disabled'' (CInt Unsigned 2),
        Field ''migration_flags'' (CInt Unsigned 2),
        Field ''trc_reader_nesting'' (CInt Signed 4),
        Field ''trc_ipi_to_cpu'' (CInt Signed 4),
        Field ''trc_reader_special'' union_rcu_special,
        Field ''trc_holdout_list'' struct_list_head,
        Field ''trc_blkd_node'' struct_list_head,
        Field ''trc_blkd_cpu'' (CInt Signed 4),
        Field ''sched_info'' struct_sched_info,
        Field ''tasks'' struct_list_head,
        Field ''pushable_tasks'' struct_plist_node,
        Field ''pushable_dl_tasks'' struct_rb_node,
        Field ''mm'' (CPtr ''struct mm_struct''),
        Field ''active_mm'' (CPtr ''struct mm_struct''),
        Field ''faults_disabled_mapping'' (CPtr ''struct address_space''),
        Field ''exit_state'' (CInt Signed 4),
        Field ''exit_code'' (CInt Signed 4),
        Field ''exit_signal'' (CInt Signed 4),
        Field ''pdeath_signal'' (CInt Signed 4),
        Field ''jobctl'' (CInt Unsigned 8),
        Field ''personality'' (CInt Unsigned 4),
        Bits ''sched_reset_on_fork'' (CInt Unsigned 4) 1,
        Bits ''sched_contributes_to_load'' (CInt Unsigned 4) 1,
        Bits ''sched_migrated'' (CInt Unsigned 4) 1,
        Bits ''sched_task_hot'' (CInt Unsigned 4) 1,
        Bits '''' (CInt Signed 8) 28,
        Bits ''sched_remote_wakeup'' (CInt Unsigned 4) 1,
        Bits ''sched_rt_mutex'' (CInt Unsigned 4) 1,
        Bits ''user_dumpable'' (CInt Unsigned 4) 1,
        Bits ''in_execve'' (CInt Unsigned 4) 1,
        Bits ''in_iowait'' (CInt Unsigned 4) 1,
        Bits ''in_lru_fault'' (CInt Unsigned 4) 1,
        Bits ''no_cgroup_migration'' (CInt Unsigned 4) 1,
        Bits ''frozen'' (CInt Unsigned 4) 1,
        Bits ''use_memdelay'' (CInt Unsigned 4) 1,
        Bits ''in_memstall'' (CInt Unsigned 4) 1,
        Bits ''in_eventfd'' (CInt Unsigned 4) 1,
        Bits ''in_thrashing'' (CInt Unsigned 4) 1,
        Field ''atomic_flags'' (CInt Unsigned 8),
        Field ''restart_block'' struct_restart_block,
        Field ''pid'' pid_t,
        Field ''tgid'' pid_t,
        Field ''stack_canary'' (CInt Unsigned 8),
        Field ''real_parent'' (CPtr ''struct task_struct''),
        Field ''parent'' (CPtr ''struct task_struct''),
        Field ''children'' struct_list_head,
        Field ''sibling'' struct_list_head,
        Field ''group_leader'' (CPtr ''struct task_struct''),
        Field ''ptraced'' struct_list_head,
        Field ''ptrace_entry'' struct_list_head,
        Field ''thread_pid'' (CPtr ''struct pid''),
        Field ''pid_links'' (CArr (struct_hlist_node) 4),
        Field ''thread_node'' struct_list_head,
        Field ''vfork_done'' (CPtr ''struct completion''),
        Field ''set_child_tid'' (CPtr ''int''),
        Field ''clear_child_tid'' (CPtr ''int''),
        Field ''worker_private'' (CPtr ''void''),
        Field ''utime'' t_u64,
        Field ''stime'' t_u64,
        Field ''gtime'' t_u64,
        Field ''prev_cputime'' struct_prev_cputime,
        Field ''vtime'' struct_vtime,
        Field ''tick_dep_mask'' atomic_t,
        Field ''nvcsw'' (CInt Unsigned 8),
        Field ''nivcsw'' (CInt Unsigned 8),
        Field ''start_time'' t_u64,
        Field ''start_boottime'' t_u64,
        Field ''min_flt'' (CInt Unsigned 8),
        Field ''maj_flt'' (CInt Unsigned 8),
        Field ''posix_cputimers'' struct_posix_cputimers,
        Field ''posix_cputimers_work'' struct_posix_cputimers_work,
        Field ''ptracer_cred'' (CPtr ''struct cred''),
        Field ''real_cred'' (CPtr ''struct cred''),
        Field ''cred'' (CPtr ''struct cred''),
        Field ''cached_requested_key'' (CPtr ''struct key''),
        Field ''comm'' (CArr (CInt Signed 1) 16),
        Field ''nameidata'' (CPtr ''struct nameidata''),
        Field ''sysvsem'' struct_sysv_sem,
        Field ''sysvshm'' struct_sysv_shm,
        Field ''last_switch_count'' (CInt Unsigned 8),
        Field ''last_switch_time'' (CInt Unsigned 8),
        Field ''fs'' (CPtr ''struct fs_struct''),
        Field ''files'' (CPtr ''struct files_struct''),
        Field ''io_uring'' (CPtr ''struct io_uring_task''),
        Field ''nsproxy'' (CPtr ''struct nsproxy''),
        Field ''signal'' (CPtr ''struct signal_struct''),
        Field ''sighand'' (CPtr ''struct sighand_struct''),
        Field ''blocked'' sigset_t,
        Field ''real_blocked'' sigset_t,
        Field ''saved_sigmask'' sigset_t,
        Field ''pending'' struct_sigpending,
        Field ''sas_ss_sp'' (CInt Unsigned 8),
        Field ''sas_ss_size'' size_t,
        Field ''sas_ss_flags'' (CInt Unsigned 4),
        Field ''task_works'' (CPtr ''struct callback_head''),
        Field ''audit_context'' (CPtr ''struct audit_context''),
        Field ''loginuid'' kuid_t,
        Field ''sessionid'' (CInt Unsigned 4),
        Field ''seccomp'' struct_seccomp,
        Field ''syscall_dispatch'' struct_syscall_user_dispatch,
        Field ''parent_exec_id'' t_u64,
        Field ''self_exec_id'' t_u64,
        Field ''alloc_lock'' spinlock_t,
        Field ''pi_lock'' raw_spinlock_t,
        Field ''wake_q'' struct_wake_q_node,
        Field ''pi_waiters'' struct_rb_root_cached,
        Field ''pi_top_task'' (CPtr ''struct task_struct''),
        Field ''pi_blocked_on'' (CPtr ''struct rt_mutex_waiter''),
        Field ''journal_info'' (CPtr ''void''),
        Field ''bio_list'' (CPtr ''struct bio_list''),
        Field ''plug'' (CPtr ''struct blk_plug''),
        Field ''reclaim_state'' (CPtr ''struct reclaim_state''),
        Field ''io_context'' (CPtr ''struct io_context''),
        Field ''capture_control'' (CPtr ''struct capture_control''),
        Field ''ptrace_message'' (CInt Unsigned 8),
        Field ''last_siginfo'' (CPtr ''kernel_siginfo_t''),
        Field ''ioac'' struct_task_io_accounting,
        Field ''psi_flags'' (CInt Unsigned 4),
        Field ''acct_rss_mem1'' t_u64,
        Field ''acct_vm_mem1'' t_u64,
        Field ''acct_timexpd'' t_u64,
        Field ''mems_allowed'' nodemask_t,
        Field ''mems_allowed_seq'' seqcount_spinlock_t,
        Field ''cpuset_mem_spread_rotor'' (CInt Signed 4),
        Field ''cgroups'' (CPtr ''struct css_set''),
        Field ''cg_list'' struct_list_head,
        Field ''robust_list'' (CPtr ''struct robust_list_head''),
        Field ''compat_robust_list'' (CPtr ''struct compat_robust_list_head''),
        Field ''pi_state_list'' struct_list_head,
        Field ''pi_state_cache'' (CPtr ''struct futex_pi_state''),
        Field ''futex_exit_mutex'' struct_mutex,
        Field ''futex_state'' (CInt Unsigned 4),
        Field ''perf_recursion'' (CArr (t_u8) 4),
        Field ''perf_event_ctxp'' (CPtr ''struct perf_event_context''),
        Field ''perf_event_mutex'' struct_mutex,
        Field ''perf_event_list'' struct_list_head,
        Field ''mempolicy'' (CPtr ''struct mempolicy''),
        Field ''il_prev'' (CInt Signed 2),
        Field ''il_weight'' t_u8,
        Field ''pref_node_fork'' (CInt Signed 2),
        Field ''numa_scan_seq'' (CInt Signed 4),
        Field ''numa_scan_period'' (CInt Unsigned 4),
        Field ''numa_scan_period_max'' (CInt Unsigned 4),
        Field ''numa_preferred_nid'' (CInt Signed 4),
        Field ''numa_migrate_retry'' (CInt Unsigned 8),
        Field ''node_stamp'' t_u64,
        Field ''last_task_numa_placement'' t_u64,
        Field ''last_sum_exec_runtime'' t_u64,
        Field ''numa_work'' struct_callback_head,
        Field ''numa_group'' (CPtr ''struct numa_group''),
        Field ''numa_faults'' (CPtr ''long unsigned int''),
        Field ''total_numa_faults'' (CInt Unsigned 8),
        Field ''numa_faults_locality'' (CArr (CInt Unsigned 8) 3),
        Field ''numa_pages_migrated'' (CInt Unsigned 8),
        Field ''rseq'' (CPtr ''struct rseq''),
        Field ''rseq_len'' t_u32,
        Field ''rseq_sig'' t_u32,
        Field ''rseq_event_mask'' (CInt Unsigned 8),
        Field ''mm_cid'' (CInt Signed 4),
        Field ''last_mm_cid'' (CInt Signed 4),
        Field ''migrate_from_cpu'' (CInt Signed 4),
        Field ''mm_cid_active'' (CInt Signed 4),
        Field ''cid_work'' struct_callback_head,
        Field ''tlb_ubc'' struct_tlbflush_unmap_batch,
        Field ''splice_pipe'' (CPtr ''struct pipe_inode_info''),
        Field ''task_frag'' struct_page_frag,
        Field ''delays'' (CPtr ''struct task_delay_info''),
        Field ''nr_dirtied'' (CInt Signed 4),
        Field ''nr_dirtied_pause'' (CInt Signed 4),
        Field ''dirty_paused_when'' (CInt Unsigned 8),
        Field ''timer_slack_ns'' t_u64,
        Field ''default_timer_slack_ns'' t_u64,
        Field ''curr_ret_stack'' (CInt Signed 4),
        Field ''curr_ret_depth'' (CInt Signed 4),
        Field ''ret_stack'' (CPtr ''long unsigned int''),
        Field ''ftrace_timestamp'' (CInt Unsigned 8),
        Field ''trace_overrun'' atomic_t,
        Field ''tracing_graph_pause'' atomic_t,
        Field ''trace_recursion'' (CInt Unsigned 8),
        Field ''memcg_nr_pages_over_high'' (CInt Unsigned 4),
        Field ''active_memcg'' (CPtr ''struct mem_cgroup''),
        Field ''objcg'' (CPtr ''struct obj_cgroup''),
        Field ''throttle_disk'' (CPtr ''struct gendisk''),
        Field ''utask'' (CPtr ''struct uprobe_task''),
        Field ''sequential_io'' (CInt Unsigned 4),
        Field ''sequential_io_avg'' (CInt Unsigned 4),
        Field ''kmap_ctrl'' struct_kmap_ctrl,
        Field ''rcu'' struct_callback_head,
        Field ''rcu_users'' refcount_t,
        Field ''pagefault_disabled'' (CInt Signed 4),
        Field ''oom_reaper_list'' (CPtr ''struct task_struct''),
        Field ''oom_reaper_timer'' struct_timer_list,
        Field ''stack_vm_area'' (CPtr ''struct vm_struct''),
        Field ''stack_refcount'' refcount_t,
        Field ''security'' (CPtr ''void''),
        Field ''bpf_storage'' (CPtr ''struct bpf_local_storage''),
        Field ''bpf_ctx'' (CPtr ''struct bpf_run_ctx''),
        Field ''bpf_net_context'' (CPtr ''struct bpf_net_context''),
        Field ''kstack_offset'' t_u32,
        Field ''kretprobe_instances'' struct_llist_head,
        Field ''thread'' struct_thread_struct,
        Bits '''' (CInt Signed 8) 64,
        Bits '''' (CInt Signed 8) 64,
        Bits '''' (CInt Signed 8) 64,
        Bits '''' (CInt Signed 8) 64]"

lemma struct_task_struct_lay [simp]: "c_lay struct_task_struct = (4736, 16)"
  by (simp add: struct_task_struct_def lay_defs)

definition struct_wait_queue_head :: ctype where
  "struct_wait_queue_head =
     CStruct
       [Field ''lock'' spinlock_t,
        Field ''head'' struct_list_head]"

lemma struct_wait_queue_head_lay [simp]: "c_lay struct_wait_queue_head = (24, 8)"
  by (simp add: struct_wait_queue_head_def lay_defs)

definition wait_queue_head_t :: ctype where
  "wait_queue_head_t =
     struct_wait_queue_head"

lemma wait_queue_head_t_lay [simp]: "c_lay wait_queue_head_t = (24, 8)"
  by (simp add: wait_queue_head_t_def lay_defs)

definition struct_fdtable :: ctype where
  "struct_fdtable =
     CStruct
       [Field ''max_fds'' (CInt Unsigned 4),
        Field ''fd'' (CPtr ''struct file *''),
        Field ''close_on_exec'' (CPtr ''long unsigned int''),
        Field ''open_fds'' (CPtr ''long unsigned int''),
        Field ''full_fds_bits'' (CPtr ''long unsigned int''),
        Field ''rcu'' struct_callback_head]"

lemma struct_fdtable_lay [simp]: "c_lay struct_fdtable = (56, 8)"
  by (simp add: struct_fdtable_def lay_defs)

definition struct_files_struct :: ctype where
  "struct_files_struct =
     CStruct
       [Field ''count'' atomic_t,
        Field ''resize_in_progress'' t_bool,
        Field ''resize_wait'' wait_queue_head_t,
        Field ''fdt'' (CPtr ''struct fdtable''),
        Field ''fdtab'' struct_fdtable,
        Bits '''' (CInt Signed 8) 64,
        Bits '''' (CInt Signed 8) 64,
        Bits '''' (CInt Signed 8) 64,
        Bits '''' (CInt Signed 8) 64,
        Field ''file_lock'' spinlock_t,
        Field ''next_fd'' (CInt Unsigned 4),
        Field ''close_on_exec_init'' (CArr (CInt Unsigned 8) 1),
        Field ''open_fds_init'' (CArr (CInt Unsigned 8) 1),
        Field ''full_fds_bits_init'' (CArr (CInt Unsigned 8) 1),
        Field ''fd_array'' (CArr (CPtr ''struct file'') 64),
        Bits '''' (CInt Signed 8) 64,
        Bits '''' (CInt Signed 8) 64,
        Bits '''' (CInt Signed 8) 64,
        Bits '''' (CInt Signed 8) 64]"

lemma struct_files_struct_lay [simp]: "c_lay struct_files_struct = (704, 8)"
  by (simp add: struct_files_struct_def lay_defs)

definition struct_fs_struct :: ctype where
  "struct_fs_struct =
     CStruct
       [Field ''users'' (CInt Signed 4),
        Field ''lock'' spinlock_t,
        Field ''seq'' seqcount_spinlock_t,
        Field ''umask'' (CInt Signed 4),
        Field ''in_exec'' (CInt Signed 4),
        Field ''root'' struct_path,
        Field ''pwd'' struct_path]"

lemma struct_fs_struct_lay [simp]: "c_lay struct_fs_struct = (56, 8)"
  by (simp add: struct_fs_struct_def lay_defs)

definition struct_cpu_itimer :: ctype where
  "struct_cpu_itimer =
     CStruct
       [Field ''expires'' t_u64,
        Field ''incr'' t_u64]"

lemma struct_cpu_itimer_lay [simp]: "c_lay struct_cpu_itimer = (16, 8)"
  by (simp add: struct_cpu_itimer_def lay_defs)

definition struct_task_cputime_atomic :: ctype where
  "struct_task_cputime_atomic =
     CStruct
       [Field ''utime'' atomic64_t,
        Field ''stime'' atomic64_t,
        Field ''sum_exec_runtime'' atomic64_t]"

lemma struct_task_cputime_atomic_lay [simp]: "c_lay struct_task_cputime_atomic = (24, 8)"
  by (simp add: struct_task_cputime_atomic_def lay_defs)

definition struct_thread_group_cputimer :: ctype where
  "struct_thread_group_cputimer =
     CStruct
       [Field ''cputime_atomic'' struct_task_cputime_atomic]"

lemma struct_thread_group_cputimer_lay [simp]: "c_lay struct_thread_group_cputimer = (24, 8)"
  by (simp add: struct_thread_group_cputimer_def lay_defs)

definition seqlock_t :: ctype where
  "seqlock_t =
     CStruct
       [Field ''seqcount'' seqcount_spinlock_t,
        Field ''lock'' spinlock_t]"

lemma seqlock_t_lay [simp]: "c_lay seqlock_t = (8, 4)"
  by (simp add: seqlock_t_def lay_defs)

definition struct_rlimit :: ctype where
  "struct_rlimit =
     CStruct
       [Field ''rlim_cur'' t___kernel_ulong_t,
        Field ''rlim_max'' t___kernel_ulong_t]"

lemma struct_rlimit_lay [simp]: "c_lay struct_rlimit = (16, 8)"
  by (simp add: struct_rlimit_def lay_defs)

definition struct_pacct_struct :: ctype where
  "struct_pacct_struct =
     CStruct
       [Field ''ac_flag'' (CInt Signed 4),
        Field ''ac_exitcode'' (CInt Signed 8),
        Field ''ac_mem'' (CInt Unsigned 8),
        Field ''ac_utime'' t_u64,
        Field ''ac_stime'' t_u64,
        Field ''ac_minflt'' (CInt Unsigned 8),
        Field ''ac_majflt'' (CInt Unsigned 8)]"

lemma struct_pacct_struct_lay [simp]: "c_lay struct_pacct_struct = (56, 8)"
  by (simp add: struct_pacct_struct_def lay_defs)

definition struct_rw_semaphore :: ctype where
  "struct_rw_semaphore =
     CStruct
       [Field ''count'' atomic_long_t,
        Field ''owner'' atomic_long_t,
        Field ''osq'' struct_optimistic_spin_queue,
        Field ''wait_lock'' raw_spinlock_t,
        Field ''wait_list'' struct_list_head]"

lemma struct_rw_semaphore_lay [simp]: "c_lay struct_rw_semaphore = (40, 8)"
  by (simp add: struct_rw_semaphore_def lay_defs)

definition struct_signal_struct :: ctype where
  "struct_signal_struct =
     CStruct
       [Field ''sigcnt'' refcount_t,
        Field ''live'' atomic_t,
        Field ''nr_threads'' (CInt Signed 4),
        Field ''quick_threads'' (CInt Signed 4),
        Field ''thread_head'' struct_list_head,
        Field ''wait_chldexit'' wait_queue_head_t,
        Field ''curr_target'' (CPtr ''struct task_struct''),
        Field ''shared_pending'' struct_sigpending,
        Field ''multiprocess'' struct_hlist_head,
        Field ''group_exit_code'' (CInt Signed 4),
        Field ''notify_count'' (CInt Signed 4),
        Field ''group_exec_task'' (CPtr ''struct task_struct''),
        Field ''group_stop_count'' (CInt Signed 4),
        Field ''flags'' (CInt Unsigned 4),
        Field ''core_state'' (CPtr ''struct core_state''),
        Bits ''is_child_subreaper'' (CInt Unsigned 4) 1,
        Bits ''has_child_subreaper'' (CInt Unsigned 4) 1,
        Field ''next_posix_timer_id'' (CInt Unsigned 4),
        Field ''posix_timers'' struct_hlist_head,
        Field ''real_timer'' struct_hrtimer,
        Field ''it_real_incr'' ktime_t,
        Field ''it'' (CArr (struct_cpu_itimer) 2),
        Field ''cputimer'' struct_thread_group_cputimer,
        Field ''posix_cputimers'' struct_posix_cputimers,
        Field ''pids'' (CArr (CPtr ''struct pid'') 4),
        Field ''tick_dep_mask'' atomic_t,
        Field ''tty_old_pgrp'' (CPtr ''struct pid''),
        Field ''leader'' (CInt Signed 4),
        Field ''tty'' (CPtr ''struct tty_struct''),
        Field ''autogroup'' (CPtr ''struct autogroup''),
        Field ''stats_lock'' seqlock_t,
        Field ''utime'' t_u64,
        Field ''stime'' t_u64,
        Field ''cutime'' t_u64,
        Field ''cstime'' t_u64,
        Field ''gtime'' t_u64,
        Field ''cgtime'' t_u64,
        Field ''prev_cputime'' struct_prev_cputime,
        Field ''nvcsw'' (CInt Unsigned 8),
        Field ''nivcsw'' (CInt Unsigned 8),
        Field ''cnvcsw'' (CInt Unsigned 8),
        Field ''cnivcsw'' (CInt Unsigned 8),
        Field ''min_flt'' (CInt Unsigned 8),
        Field ''maj_flt'' (CInt Unsigned 8),
        Field ''cmin_flt'' (CInt Unsigned 8),
        Field ''cmaj_flt'' (CInt Unsigned 8),
        Field ''inblock'' (CInt Unsigned 8),
        Field ''oublock'' (CInt Unsigned 8),
        Field ''cinblock'' (CInt Unsigned 8),
        Field ''coublock'' (CInt Unsigned 8),
        Field ''maxrss'' (CInt Unsigned 8),
        Field ''cmaxrss'' (CInt Unsigned 8),
        Field ''ioac'' struct_task_io_accounting,
        Field ''sum_sched_runtime'' (CInt Unsigned 8),
        Field ''rlim'' (CArr (struct_rlimit) 16),
        Field ''pacct'' struct_pacct_struct,
        Field ''stats'' (CPtr ''struct taskstats''),
        Field ''audit_tty'' (CInt Unsigned 4),
        Field ''tty_audit_buf'' (CPtr ''struct tty_audit_buf''),
        Field ''oom_flag_origin'' t_bool,
        Field ''oom_score_adj'' (CInt Signed 2),
        Field ''oom_score_adj_min'' (CInt Signed 2),
        Field ''oom_mm'' (CPtr ''struct mm_struct''),
        Field ''cred_guard_mutex'' struct_mutex,
        Field ''exec_update_lock'' struct_rw_semaphore]"

lemma struct_signal_struct_lay [simp]: "c_lay struct_signal_struct = (1104, 8)"
  by (simp add: struct_signal_struct_def lay_defs)

definition t___sighandler_t :: ctype where
  "t___sighandler_t =
     CPtr ''__signalfn_t''"

lemma t___sighandler_t_lay [simp]: "c_lay t___sighandler_t = (8, 8)"
  by (simp add: t___sighandler_t_def lay_defs)

definition t___sigrestore_t :: ctype where
  "t___sigrestore_t =
     CPtr ''__restorefn_t''"

lemma t___sigrestore_t_lay [simp]: "c_lay t___sigrestore_t = (8, 8)"
  by (simp add: t___sigrestore_t_def lay_defs)

definition struct_sigaction :: ctype where
  "struct_sigaction =
     CStruct
       [Field ''sa_handler'' t___sighandler_t,
        Field ''sa_flags'' (CInt Unsigned 8),
        Field ''sa_restorer'' t___sigrestore_t,
        Field ''sa_mask'' sigset_t]"

lemma struct_sigaction_lay [simp]: "c_lay struct_sigaction = (32, 8)"
  by (simp add: struct_sigaction_def lay_defs)

definition struct_k_sigaction :: ctype where
  "struct_k_sigaction =
     CStruct
       [Field ''sa'' struct_sigaction]"

lemma struct_k_sigaction_lay [simp]: "c_lay struct_k_sigaction = (32, 8)"
  by (simp add: struct_k_sigaction_def lay_defs)

definition struct_sighand_struct :: ctype where
  "struct_sighand_struct =
     CStruct
       [Field ''siglock'' spinlock_t,
        Field ''count'' refcount_t,
        Field ''signalfd_wqh'' wait_queue_head_t,
        Field ''action'' (CArr (struct_k_sigaction) 64)]"

lemma struct_sighand_struct_lay [simp]: "c_lay struct_sighand_struct = (2080, 8)"
  by (simp add: struct_sighand_struct_def lay_defs)

definition t_lockdep_map_p :: ctype where
  "t_lockdep_map_p =
     CStruct []"

lemma t_lockdep_map_p_lay [simp]: "c_lay t_lockdep_map_p = (0, 1)"
  by (simp add: t_lockdep_map_p_def lay_defs)

definition struct_maple_tree :: ctype where
  "struct_maple_tree =
     CStruct
       [Field '''' (CUnion
         [Field ''ma_lock'' spinlock_t,
          Field ''ma_external_lock'' t_lockdep_map_p]),
        Field ''ma_flags'' (CInt Unsigned 4),
        Field ''ma_root'' (CPtr ''void'')]"

lemma struct_maple_tree_lay [simp]: "c_lay struct_maple_tree = (16, 8)"
  by (simp add: struct_maple_tree_def lay_defs)

definition struct_percpu_counter :: ctype where
  "struct_percpu_counter =
     CStruct
       [Field ''lock'' raw_spinlock_t,
        Field ''count'' t_s64,
        Field ''list'' struct_list_head,
        Field ''counters'' (CPtr ''s32'')]"

lemma struct_percpu_counter_lay [simp]: "c_lay struct_percpu_counter = (40, 8)"
  by (simp add: struct_percpu_counter_def lay_defs)

definition mm_context_t :: ctype where
  "mm_context_t =
     CStruct
       [Field ''id'' atomic64_t,
        Field ''sigpage'' (CPtr ''void''),
        Field ''pinned'' refcount_t,
        Field ''vdso'' (CPtr ''void''),
        Field ''flags'' (CInt Unsigned 8),
        Field ''pkey_allocation_map'' t_u8]"

lemma mm_context_t_lay [simp]: "c_lay mm_context_t = (48, 8)"
  by (simp add: mm_context_t_def lay_defs)

definition struct_uprobes_state :: ctype where
  "struct_uprobes_state =
     CStruct
       [Field ''xol_area'' (CPtr ''struct xol_area'')]"

lemma struct_uprobes_state_lay [simp]: "c_lay struct_uprobes_state = (8, 8)"
  by (simp add: struct_uprobes_state_def lay_defs)

definition work_func_t :: ctype where
  "work_func_t =
     CFnPtr"

lemma work_func_t_lay [simp]: "c_lay work_func_t = (8, 8)"
  by (simp add: work_func_t_def lay_defs)

definition struct_work_struct :: ctype where
  "struct_work_struct =
     CStruct
       [Field ''data'' atomic_long_t,
        Field ''entry'' struct_list_head,
        Field ''func'' work_func_t]"

lemma struct_work_struct_lay [simp]: "c_lay struct_work_struct = (32, 8)"
  by (simp add: struct_work_struct_def lay_defs)

definition struct_mm_struct :: ctype where
  "struct_mm_struct =
     CStruct
       [Field '''' (CStruct
         [Field '''' (CStruct
           [Field ''mm_count'' atomic_t,
            Bits '''' (CInt Signed 8) 64,
            Bits '''' (CInt Signed 8) 64,
            Bits '''' (CInt Signed 8) 64,
            Bits '''' (CInt Signed 8) 64,
            Bits '''' (CInt Signed 8) 64,
            Bits '''' (CInt Signed 8) 64,
            Bits '''' (CInt Signed 8) 64]),
          Field ''mm_mt'' struct_maple_tree,
          Field ''mmap_base'' (CInt Unsigned 8),
          Field ''mmap_legacy_base'' (CInt Unsigned 8),
          Field ''task_size'' (CInt Unsigned 8),
          Field ''pgd'' (CPtr ''pgd_t''),
          Field ''membarrier_state'' atomic_t,
          Field ''mm_users'' atomic_t,
          Field ''pcpu_cid'' (CPtr ''struct mm_cid''),
          Field ''mm_cid_next_scan'' (CInt Unsigned 8),
          Field ''pgtables_bytes'' atomic_long_t,
          Field ''map_count'' (CInt Signed 4),
          Field ''page_table_lock'' spinlock_t,
          Field ''mmap_lock'' struct_rw_semaphore,
          Field ''mmlist'' struct_list_head,
          Field ''mm_lock_seq'' seqcount_t,
          Field ''hiwater_rss'' (CInt Unsigned 8),
          Field ''hiwater_vm'' (CInt Unsigned 8),
          Field ''total_vm'' (CInt Unsigned 8),
          Field ''locked_vm'' (CInt Unsigned 8),
          Field ''pinned_vm'' atomic64_t,
          Field ''data_vm'' (CInt Unsigned 8),
          Field ''exec_vm'' (CInt Unsigned 8),
          Field ''stack_vm'' (CInt Unsigned 8),
          Field ''def_flags'' (CInt Unsigned 8),
          Field ''write_protect_seq'' seqcount_t,
          Field ''arg_lock'' spinlock_t,
          Field ''start_code'' (CInt Unsigned 8),
          Field ''end_code'' (CInt Unsigned 8),
          Field ''start_data'' (CInt Unsigned 8),
          Field ''end_data'' (CInt Unsigned 8),
          Field ''start_brk'' (CInt Unsigned 8),
          Field ''brk'' (CInt Unsigned 8),
          Field ''start_stack'' (CInt Unsigned 8),
          Field ''arg_start'' (CInt Unsigned 8),
          Field ''arg_end'' (CInt Unsigned 8),
          Field ''env_start'' (CInt Unsigned 8),
          Field ''env_end'' (CInt Unsigned 8),
          Field ''saved_auxv'' (CArr (CInt Unsigned 8) 50),
          Field ''rss_stat'' (CArr (struct_percpu_counter) 4),
          Field ''binfmt'' (CPtr ''struct linux_binfmt''),
          Field ''context'' mm_context_t,
          Field ''flags'' (CInt Unsigned 8),
          Field ''ioctx_lock'' spinlock_t,
          Field ''ioctx_table'' (CPtr ''struct kioctx_table''),
          Field ''owner'' (CPtr ''struct task_struct''),
          Field ''user_ns'' (CPtr ''struct user_namespace''),
          Field ''exe_file'' (CPtr ''struct file''),
          Field ''notifier_subscriptions'' (CPtr ''struct mmu_notifier_subscriptions''),
          Field ''numa_next_scan'' (CInt Unsigned 8),
          Field ''numa_scan_offset'' (CInt Unsigned 8),
          Field ''numa_scan_seq'' (CInt Signed 4),
          Field ''tlb_flush_pending'' atomic_t,
          Field ''tlb_flush_batched'' atomic_t,
          Field ''uprobes_state'' struct_uprobes_state,
          Field ''hugetlb_usage'' atomic_long_t,
          Field ''async_put_work'' struct_work_struct,
          Field ''ksm_merging_pages'' (CInt Unsigned 8),
          Field ''ksm_rmap_items'' (CInt Unsigned 8),
          Field ''ksm_zero_pages'' atomic_long_t,
          Field ''lru_gen'' (CStruct
           [Field ''list'' struct_list_head,
            Field ''bitmap'' (CInt Unsigned 8),
            Field ''memcg'' (CPtr ''struct mem_cgroup'')]),
          Bits '''' (CInt Signed 8) 64,
          Bits '''' (CInt Signed 8) 64,
          Bits '''' (CInt Signed 8) 64]),
        Field ''cpu_bitmap'' (CArr (CInt Unsigned 8) 0)]"

lemma struct_mm_struct_lay [simp]: "c_lay struct_mm_struct = (1216, 8)"
  by (simp add: struct_mm_struct_def lay_defs)

definition pteval_t :: ctype where
  "pteval_t =
     t_u64"

lemma pteval_t_lay [simp]: "c_lay pteval_t = (8, 8)"
  by (simp add: pteval_t_def lay_defs)

definition pgprot_t :: ctype where
  "pgprot_t =
     CStruct
       [Field ''pgprot'' pteval_t]"

lemma pgprot_t_lay [simp]: "c_lay pgprot_t = (8, 8)"
  by (simp add: pgprot_t_def lay_defs)

definition vm_flags_t :: ctype where
  "vm_flags_t =
     CInt Unsigned 8"

lemma vm_flags_t_lay [simp]: "c_lay vm_flags_t = (8, 8)"
  by (simp add: vm_flags_t_def lay_defs)

definition struct_vm_userfaultfd_ctx :: ctype where
  "struct_vm_userfaultfd_ctx =
     CStruct
       [Field ''ctx'' (CPtr ''struct userfaultfd_ctx'')]"

lemma struct_vm_userfaultfd_ctx_lay [simp]: "c_lay struct_vm_userfaultfd_ctx = (8, 8)"
  by (simp add: struct_vm_userfaultfd_ctx_def lay_defs)

definition struct_vm_area_struct :: ctype where
  "struct_vm_area_struct =
     CStruct
       [Field '''' (CUnion
         [Field '''' (CStruct
           [Field ''vm_start'' (CInt Unsigned 8),
            Field ''vm_end'' (CInt Unsigned 8)]),
          Field ''vm_rcu'' struct_callback_head]),
        Field ''vm_mm'' (CPtr ''struct mm_struct''),
        Field ''vm_page_prot'' pgprot_t,
        Field '''' (CUnion
         [Field ''vm_flags'' vm_flags_t,
          Field ''__vm_flags'' vm_flags_t]),
        Field ''detached'' t_bool,
        Field ''vm_lock_seq'' (CInt Unsigned 4),
        Field ''vm_lock'' (CPtr ''struct vma_lock''),
        Field ''shared'' (CStruct
         [Field ''rb'' struct_rb_node,
          Field ''rb_subtree_last'' (CInt Unsigned 8)]),
        Field ''anon_vma_chain'' struct_list_head,
        Field ''anon_vma'' (CPtr ''struct anon_vma''),
        Field ''vm_ops'' (CPtr ''struct vm_operations_struct''),
        Field ''vm_pgoff'' (CInt Unsigned 8),
        Field ''vm_file'' (CPtr ''struct file''),
        Field ''vm_private_data'' (CPtr ''void''),
        Field ''swap_readahead_info'' atomic_long_t,
        Field ''vm_policy'' (CPtr ''struct mempolicy''),
        Field ''numab_state'' (CPtr ''struct vma_numab_state''),
        Field ''vm_userfaultfd_ctx'' struct_vm_userfaultfd_ctx]"

lemma struct_vm_area_struct_lay [simp]: "c_lay struct_vm_area_struct = (176, 8)"
  by (simp add: struct_vm_area_struct_def lay_defs)

definition struct_vm_operations_struct :: ctype where
  "struct_vm_operations_struct =
     CStruct
       [Field ''open'' CFnPtr,
        Field ''close'' CFnPtr,
        Field ''may_split'' CFnPtr,
        Field ''mremap'' CFnPtr,
        Field ''mprotect'' CFnPtr,
        Field ''fault'' CFnPtr,
        Field ''huge_fault'' CFnPtr,
        Field ''map_pages'' CFnPtr,
        Field ''pagesize'' CFnPtr,
        Field ''page_mkwrite'' CFnPtr,
        Field ''pfn_mkwrite'' CFnPtr,
        Field ''access'' CFnPtr,
        Field ''name'' CFnPtr,
        Field ''set_policy'' CFnPtr,
        Field ''get_policy'' CFnPtr,
        Field ''find_special_page'' CFnPtr]"

lemma struct_vm_operations_struct_lay [simp]: "c_lay struct_vm_operations_struct = (128, 8)"
  by (simp add: struct_vm_operations_struct_def lay_defs)

definition t___kernel_gid32_t :: ctype where
  "t___kernel_gid32_t =
     CInt Unsigned 4"

lemma t___kernel_gid32_t_lay [simp]: "c_lay t___kernel_gid32_t = (4, 4)"
  by (simp add: t___kernel_gid32_t_def lay_defs)

definition gid_t :: ctype where
  "gid_t =
     t___kernel_gid32_t"

lemma gid_t_lay [simp]: "c_lay gid_t = (4, 4)"
  by (simp add: gid_t_def lay_defs)

definition kgid_t :: ctype where
  "kgid_t =
     CStruct
       [Field ''val'' gid_t]"

lemma kgid_t_lay [simp]: "c_lay kgid_t = (4, 4)"
  by (simp add: kgid_t_def lay_defs)

definition kernel_cap_t :: ctype where
  "kernel_cap_t =
     CStruct
       [Field ''val'' t_u64]"

lemma kernel_cap_t_lay [simp]: "c_lay kernel_cap_t = (8, 8)"
  by (simp add: kernel_cap_t_def lay_defs)

definition struct_cred :: ctype where
  "struct_cred =
     CStruct
       [Field ''usage'' atomic_long_t,
        Field ''uid'' kuid_t,
        Field ''gid'' kgid_t,
        Field ''suid'' kuid_t,
        Field ''sgid'' kgid_t,
        Field ''euid'' kuid_t,
        Field ''egid'' kgid_t,
        Field ''fsuid'' kuid_t,
        Field ''fsgid'' kgid_t,
        Field ''securebits'' (CInt Unsigned 4),
        Field ''cap_inheritable'' kernel_cap_t,
        Field ''cap_permitted'' kernel_cap_t,
        Field ''cap_effective'' kernel_cap_t,
        Field ''cap_bset'' kernel_cap_t,
        Field ''cap_ambient'' kernel_cap_t,
        Field ''jit_keyring'' (CInt Unsigned 1),
        Field ''session_keyring'' (CPtr ''struct key''),
        Field ''process_keyring'' (CPtr ''struct key''),
        Field ''thread_keyring'' (CPtr ''struct key''),
        Field ''request_key_auth'' (CPtr ''struct key''),
        Field ''security'' (CPtr ''void''),
        Field ''user'' (CPtr ''struct user_struct''),
        Field ''user_ns'' (CPtr ''struct user_namespace''),
        Field ''ucounts'' (CPtr ''struct ucounts''),
        Field ''group_info'' (CPtr ''struct group_info''),
        Field '''' (CUnion
         [Field ''non_rcu'' (CInt Signed 4),
          Field ''rcu'' struct_callback_head])]"

lemma struct_cred_lay [simp]: "c_lay struct_cred = (184, 8)"
  by (simp add: struct_cred_def lay_defs)

definition struct_user_pt_regs :: ctype where
  "struct_user_pt_regs =
     CStruct
       [Field ''regs'' (CArr (t___u64) 31),
        Field ''sp'' t___u64,
        Field ''pc'' t___u64,
        Field ''pstate'' t___u64]"

lemma struct_user_pt_regs_lay [simp]: "c_lay struct_user_pt_regs = (272, 8)"
  by (simp add: struct_user_pt_regs_def lay_defs)

definition t___s32 :: ctype where
  "t___s32 =
     CInt Signed 4"

lemma t___s32_lay [simp]: "c_lay t___s32 = (4, 4)"
  by (simp add: t___s32_def lay_defs)

definition t_s32 :: ctype where
  "t_s32 =
     t___s32"

lemma t_s32_lay [simp]: "c_lay t_s32 = (4, 4)"
  by (simp add: t_s32_def lay_defs)

definition struct_pt_regs :: ctype where
  "struct_pt_regs =
     CStruct
       [Field '''' (CUnion
         [Field ''user_regs'' struct_user_pt_regs,
          Field '''' (CStruct
           [Field ''regs'' (CArr (t_u64) 31),
            Field ''sp'' t_u64,
            Field ''pc'' t_u64,
            Field ''pstate'' t_u64])]),
        Field ''orig_x0'' t_u64,
        Field ''syscallno'' t_s32,
        Field ''unused2'' t_u32,
        Field ''sdei_ttbr1'' t_u64,
        Field ''pmr_save'' t_u64,
        Field ''stackframe'' (CArr (t_u64) 2),
        Field ''lockdep_hardirqs'' t_u64,
        Field ''exit_rcu'' t_u64]"

lemma struct_pt_regs_lay [simp]: "c_lay struct_pt_regs = (336, 8)"
  by (simp add: struct_pt_regs_def lay_defs)

definition swp_entry_t :: ctype where
  "swp_entry_t =
     CStruct
       [Field ''val'' (CInt Unsigned 8)]"

lemma swp_entry_t_lay [simp]: "c_lay swp_entry_t = (8, 8)"
  by (simp add: swp_entry_t_def lay_defs)

definition struct_page :: ctype where
  "struct_page =
     CStruct
       [Field ''flags'' (CInt Unsigned 8),
        Field '''' (CUnion
         [Field '''' (CStruct
           [Field '''' (CUnion
             [Field ''lru'' struct_list_head,
              Field '''' (CStruct
               [Field ''__filler'' (CPtr ''void''),
                Field ''mlock_count'' (CInt Unsigned 4)]),
              Field ''buddy_list'' struct_list_head,
              Field ''pcp_list'' struct_list_head]),
            Field ''mapping'' (CPtr ''struct address_space''),
            Field '''' (CUnion
             [Field ''index'' (CInt Unsigned 8),
              Field ''share'' (CInt Unsigned 8)]),
            Field ''private'' (CInt Unsigned 8)]),
          Field '''' (CStruct
           [Field ''pp_magic'' (CInt Unsigned 8),
            Field ''pp'' (CPtr ''struct page_pool''),
            Field ''_pp_mapping_pad'' (CInt Unsigned 8),
            Field ''dma_addr'' (CInt Unsigned 8),
            Field ''pp_ref_count'' atomic_long_t]),
          Field '''' (CStruct
           [Field ''compound_head'' (CInt Unsigned 8)]),
          Field '''' (CStruct
           [Field ''pgmap'' (CPtr ''struct dev_pagemap''),
            Field ''zone_device_data'' (CPtr ''void'')]),
          Field ''callback_head'' struct_callback_head]),
        Field '''' (CUnion
         [Field ''page_type'' (CInt Unsigned 4),
          Field ''_mapcount'' atomic_t]),
        Field ''_refcount'' atomic_t,
        Field ''memcg_data'' (CInt Unsigned 8)]"

lemma struct_page_lay [simp]: "c_lay struct_page = (64, 8)"
  by (simp add: struct_page_def lay_defs)

definition struct_folio :: ctype where
  "struct_folio =
     CStruct
       [Field '''' (CUnion
         [Field '''' (CStruct
           [Field ''flags'' (CInt Unsigned 8),
            Field '''' (CUnion
             [Field ''lru'' struct_list_head,
              Field '''' (CStruct
               [Field ''__filler'' (CPtr ''void''),
                Field ''mlock_count'' (CInt Unsigned 4)])]),
            Field ''mapping'' (CPtr ''struct address_space''),
            Field ''index'' (CInt Unsigned 8),
            Field '''' (CUnion
             [Field ''private'' (CPtr ''void''),
              Field ''swap'' swp_entry_t]),
            Field ''_mapcount'' atomic_t,
            Field ''_refcount'' atomic_t,
            Field ''memcg_data'' (CInt Unsigned 8)]),
          Field ''page'' struct_page]),
        Field '''' (CUnion
         [Field '''' (CStruct
           [Field ''_flags_1'' (CInt Unsigned 8),
            Field ''_head_1'' (CInt Unsigned 8),
            Field ''_large_mapcount'' atomic_t,
            Field ''_entire_mapcount'' atomic_t,
            Field ''_nr_pages_mapped'' atomic_t,
            Field ''_pincount'' atomic_t,
            Field ''_folio_nr_pages'' (CInt Unsigned 4)]),
          Field ''__page_1'' struct_page]),
        Field '''' (CUnion
         [Field '''' (CStruct
           [Field ''_flags_2'' (CInt Unsigned 8),
            Field ''_head_2'' (CInt Unsigned 8),
            Field ''_hugetlb_subpool'' (CPtr ''void''),
            Field ''_hugetlb_cgroup'' (CPtr ''void''),
            Field ''_hugetlb_cgroup_rsvd'' (CPtr ''void''),
            Field ''_hugetlb_hwpoison'' (CPtr ''void'')]),
          Field '''' (CStruct
           [Field ''_flags_2a'' (CInt Unsigned 8),
            Field ''_head_2a'' (CInt Unsigned 8),
            Field ''_deferred_list'' struct_list_head]),
          Field ''__page_2'' struct_page])]"

lemma struct_folio_lay [simp]: "c_lay struct_folio = (192, 8)"
  by (simp add: struct_folio_def lay_defs)

end
