(* ===== verification/Vm_Cgroup.thy ===== *)
theory Vm_Cgroup
  imports Vm_Task
begin

text \<open>
  The cgroup whose id the hooks read and what hangs on it: hierarchy, controllers,
  \<^verbatim>\<open>kernfs\<close> nodes and the memory controller.
  Each is the declaration of \<^verbatim>\<open>ebpf/src/vmlinux.h\<close> as a value of type \<open>ctype\<close>, with its
  size and alignment.
\<close>

definition struct_percpu_ref :: ctype where
  "struct_percpu_ref =
     CStruct
       [Field ''percpu_count_ptr'' (CInt Unsigned 8),
        Field ''data'' (CPtr ''struct percpu_ref_data'')]"

lemma struct_percpu_ref_lay [simp]: "c_lay struct_percpu_ref = (16, 8)"
  by (simp add: struct_percpu_ref_def lay_defs)

definition struct_rcu_work :: ctype where
  "struct_rcu_work =
     CStruct
       [Field ''work'' struct_work_struct,
        Field ''rcu'' struct_callback_head,
        Field ''wq'' (CPtr ''struct workqueue_struct'')]"

lemma struct_rcu_work_lay [simp]: "c_lay struct_rcu_work = (56, 8)"
  by (simp add: struct_rcu_work_def lay_defs)

definition struct_cgroup_subsys_state :: ctype where
  "struct_cgroup_subsys_state =
     CStruct
       [Field ''cgroup'' (CPtr ''struct cgroup''),
        Field ''ss'' (CPtr ''struct cgroup_subsys''),
        Field ''refcnt'' struct_percpu_ref,
        Field ''sibling'' struct_list_head,
        Field ''children'' struct_list_head,
        Field ''rstat_css_node'' struct_list_head,
        Field ''id'' (CInt Signed 4),
        Field ''flags'' (CInt Unsigned 4),
        Field ''serial_nr'' t_u64,
        Field ''online_cnt'' atomic_t,
        Field ''destroy_work'' struct_work_struct,
        Field ''destroy_rwork'' struct_rcu_work,
        Field ''parent'' (CPtr ''struct cgroup_subsys_state''),
        Field ''nr_descendants'' (CInt Signed 4)]"

lemma struct_cgroup_subsys_state_lay [simp]: "c_lay struct_cgroup_subsys_state = (208, 8)"
  by (simp add: struct_cgroup_subsys_state_def lay_defs)

definition struct_cgroup_file :: ctype where
  "struct_cgroup_file =
     CStruct
       [Field ''kn'' (CPtr ''struct kernfs_node''),
        Field ''notified_at'' (CInt Unsigned 8),
        Field ''notify_timer'' struct_timer_list]"

lemma struct_cgroup_file_lay [simp]: "c_lay struct_cgroup_file = (56, 8)"
  by (simp add: struct_cgroup_file_def lay_defs)

definition struct_cacheline_padding :: ctype where
  "struct_cacheline_padding =
     CStruct
       [Field ''x'' (CArr (CInt Signed 1) 0)]"

lemma struct_cacheline_padding_lay [simp]: "c_lay struct_cacheline_padding = (0, 1)"
  by (simp add: struct_cacheline_padding_def lay_defs)

definition struct_task_cputime :: ctype where
  "struct_task_cputime =
     CStruct
       [Field ''stime'' t_u64,
        Field ''utime'' t_u64,
        Field ''sum_exec_runtime'' (CInt Unsigned 8)]"

lemma struct_task_cputime_lay [simp]: "c_lay struct_task_cputime = (24, 8)"
  by (simp add: struct_task_cputime_def lay_defs)

definition struct_cgroup_base_stat :: ctype where
  "struct_cgroup_base_stat =
     CStruct
       [Field ''cputime'' struct_task_cputime,
        Field ''ntime'' t_u64]"

lemma struct_cgroup_base_stat_lay [simp]: "c_lay struct_cgroup_base_stat = (32, 8)"
  by (simp add: struct_cgroup_base_stat_def lay_defs)

definition struct_cgroup_bpf :: ctype where
  "struct_cgroup_bpf =
     CStruct
       [Field ''effective'' (CArr (CPtr ''struct bpf_prog_array'') 38),
        Field ''progs'' (CArr (struct_hlist_head) 38),
        Field ''flags'' (CArr (t_u8) 38),
        Field ''storages'' struct_list_head,
        Field ''inactive'' (CPtr ''struct bpf_prog_array''),
        Field ''refcnt'' struct_percpu_ref,
        Field ''release_work'' struct_work_struct]"

lemma struct_cgroup_bpf_lay [simp]: "c_lay struct_cgroup_bpf = (720, 8)"
  by (simp add: struct_cgroup_bpf_def lay_defs)

definition struct_cgroup_freezer_state :: ctype where
  "struct_cgroup_freezer_state =
     CStruct
       [Field ''freeze'' t_bool,
        Field ''e_freeze'' (CInt Signed 4),
        Field ''nr_frozen_descendants'' (CInt Signed 4),
        Field ''nr_frozen_tasks'' (CInt Signed 4)]"

lemma struct_cgroup_freezer_state_lay [simp]: "c_lay struct_cgroup_freezer_state = (16, 4)"
  by (simp add: struct_cgroup_freezer_state_def lay_defs)

definition struct_cgroup :: ctype where
  "struct_cgroup =
     CStruct
       [Field ''self'' struct_cgroup_subsys_state,
        Field ''flags'' (CInt Unsigned 8),
        Field ''level'' (CInt Signed 4),
        Field ''max_depth'' (CInt Signed 4),
        Field ''nr_descendants'' (CInt Signed 4),
        Field ''nr_dying_descendants'' (CInt Signed 4),
        Field ''max_descendants'' (CInt Signed 4),
        Field ''nr_populated_csets'' (CInt Signed 4),
        Field ''nr_populated_domain_children'' (CInt Signed 4),
        Field ''nr_populated_threaded_children'' (CInt Signed 4),
        Field ''nr_threaded_children'' (CInt Signed 4),
        Field ''kill_seq'' (CInt Unsigned 4),
        Field ''kn'' (CPtr ''struct kernfs_node''),
        Field ''procs_file'' struct_cgroup_file,
        Field ''events_file'' struct_cgroup_file,
        Field ''psi_files'' (CArr (struct_cgroup_file) 3),
        Field ''subtree_control'' t_u16,
        Field ''subtree_ss_mask'' t_u16,
        Field ''old_subtree_control'' t_u16,
        Field ''old_subtree_ss_mask'' t_u16,
        Field ''subsys'' (CArr (CPtr ''struct cgroup_subsys_state'') 14),
        Field ''nr_dying_subsys'' (CArr (CInt Signed 4) 14),
        Field ''root'' (CPtr ''struct cgroup_root''),
        Field ''cset_links'' struct_list_head,
        Field ''e_csets'' (CArr (struct_list_head) 14),
        Field ''dom_cgrp'' (CPtr ''struct cgroup''),
        Field ''old_dom_cgrp'' (CPtr ''struct cgroup''),
        Field ''rstat_cpu'' (CPtr ''struct cgroup_rstat_cpu''),
        Field ''rstat_css_list'' struct_list_head,
        Bits '''' (CInt Signed 8) 64,
        Bits '''' (CInt Signed 8) 64,
        Field ''_pad_'' struct_cacheline_padding,
        Field ''rstat_flush_next'' (CPtr ''struct cgroup''),
        Field ''last_bstat'' struct_cgroup_base_stat,
        Field ''bstat'' struct_cgroup_base_stat,
        Field ''prev_cputime'' struct_prev_cputime,
        Field ''pidlists'' struct_list_head,
        Field ''pidlist_mutex'' struct_mutex,
        Field ''offline_waitq'' wait_queue_head_t,
        Field ''release_agent_work'' struct_work_struct,
        Field ''psi'' (CPtr ''struct psi_group''),
        Field ''bpf'' struct_cgroup_bpf,
        Field ''freezer'' struct_cgroup_freezer_state,
        Field ''bpf_cgrp_storage'' (CPtr ''struct bpf_local_storage''),
        Field ''ancestors'' (CArr (CPtr ''struct cgroup'') 0),
        Bits '''' (CInt Signed 8) 64]"

lemma struct_cgroup_lay [simp]: "c_lay struct_cgroup = (1984, 8)"
  by (simp add: struct_cgroup_def lay_defs)

definition struct_css_set :: ctype where
  "struct_css_set =
     CStruct
       [Field ''subsys'' (CArr (CPtr ''struct cgroup_subsys_state'') 14),
        Field ''refcount'' refcount_t,
        Field ''dom_cset'' (CPtr ''struct css_set''),
        Field ''dfl_cgrp'' (CPtr ''struct cgroup''),
        Field ''nr_tasks'' (CInt Signed 4),
        Field ''tasks'' struct_list_head,
        Field ''mg_tasks'' struct_list_head,
        Field ''dying_tasks'' struct_list_head,
        Field ''task_iters'' struct_list_head,
        Field ''e_cset_node'' (CArr (struct_list_head) 14),
        Field ''threaded_csets'' struct_list_head,
        Field ''threaded_csets_node'' struct_list_head,
        Field ''hlist'' struct_hlist_node,
        Field ''cgrp_links'' struct_list_head,
        Field ''mg_src_preload_node'' struct_list_head,
        Field ''mg_dst_preload_node'' struct_list_head,
        Field ''mg_node'' struct_list_head,
        Field ''mg_src_cgrp'' (CPtr ''struct cgroup''),
        Field ''mg_dst_cgrp'' (CPtr ''struct cgroup''),
        Field ''mg_dst_cset'' (CPtr ''struct css_set''),
        Field ''dead'' t_bool,
        Field ''callback_head'' struct_callback_head]"

lemma struct_css_set_lay [simp]: "c_lay struct_css_set = (592, 8)"
  by (simp add: struct_css_set_def lay_defs)

definition struct_cgroup_root :: ctype where
  "struct_cgroup_root =
     CStruct
       [Field ''kf_root'' (CPtr ''struct kernfs_root''),
        Field ''subsys_mask'' (CInt Unsigned 4),
        Field ''hierarchy_id'' (CInt Signed 4),
        Field ''root_list'' struct_list_head,
        Field ''rcu'' struct_callback_head,
        Bits '''' (CInt Signed 8) 64,
        Bits '''' (CInt Signed 8) 64,
        Field ''cgrp'' struct_cgroup,
        Field ''cgrp_ancestor_storage'' (CPtr ''struct cgroup''),
        Field ''nr_cgrps'' atomic_t,
        Field ''flags'' (CInt Unsigned 4),
        Field ''release_agent_path'' (CArr (CInt Signed 1) 4096),
        Field ''name'' (CArr (CInt Signed 1) 64),
        Bits '''' (CInt Signed 8) 64,
        Bits '''' (CInt Signed 8) 64,
        Bits '''' (CInt Signed 8) 64,
        Bits '''' (CInt Signed 8) 64,
        Bits '''' (CInt Signed 8) 64,
        Bits '''' (CInt Signed 8) 64]"

lemma struct_cgroup_root_lay [simp]: "c_lay struct_cgroup_root = (6272, 8)"
  by (simp add: struct_cgroup_root_def lay_defs)

definition gfp_t :: ctype where
  "gfp_t =
     CInt Unsigned 4"

lemma gfp_t_lay [simp]: "c_lay gfp_t = (4, 4)"
  by (simp add: gfp_t_def lay_defs)

definition struct_xarray :: ctype where
  "struct_xarray =
     CStruct
       [Field ''xa_lock'' spinlock_t,
        Field ''xa_flags'' gfp_t,
        Field ''xa_head'' (CPtr ''void'')]"

lemma struct_xarray_lay [simp]: "c_lay struct_xarray = (16, 8)"
  by (simp add: struct_xarray_def lay_defs)

definition struct_idr :: ctype where
  "struct_idr =
     CStruct
       [Field ''idr_rt'' struct_xarray,
        Field ''idr_base'' (CInt Unsigned 4),
        Field ''idr_next'' (CInt Unsigned 4)]"

lemma struct_idr_lay [simp]: "c_lay struct_idr = (24, 8)"
  by (simp add: struct_idr_def lay_defs)

definition struct_cgroup_subsys :: ctype where
  "struct_cgroup_subsys =
     CStruct
       [Field ''css_alloc'' CFnPtr,
        Field ''css_online'' CFnPtr,
        Field ''css_offline'' CFnPtr,
        Field ''css_released'' CFnPtr,
        Field ''css_free'' CFnPtr,
        Field ''css_reset'' CFnPtr,
        Field ''css_killed'' CFnPtr,
        Field ''css_rstat_flush'' CFnPtr,
        Field ''css_extra_stat_show'' CFnPtr,
        Field ''css_local_stat_show'' CFnPtr,
        Field ''can_attach'' CFnPtr,
        Field ''cancel_attach'' CFnPtr,
        Field ''attach'' CFnPtr,
        Field ''post_attach'' CFnPtr,
        Field ''can_fork'' CFnPtr,
        Field ''cancel_fork'' CFnPtr,
        Field ''fork'' CFnPtr,
        Field ''exit'' CFnPtr,
        Field ''release'' CFnPtr,
        Field ''bind'' CFnPtr,
        Bits ''early_init'' t_bool 1,
        Bits ''implicit_on_dfl'' t_bool 1,
        Bits ''threaded'' t_bool 1,
        Field ''id'' (CInt Signed 4),
        Field ''name'' (CPtr ''char''),
        Field ''legacy_name'' (CPtr ''char''),
        Field ''root'' (CPtr ''struct cgroup_root''),
        Field ''css_idr'' struct_idr,
        Field ''cfts'' struct_list_head,
        Field ''dfl_cftypes'' (CPtr ''struct cftype''),
        Field ''legacy_cftypes'' (CPtr ''struct cftype''),
        Field ''depends_on'' (CInt Unsigned 4)]"

lemma struct_cgroup_subsys_lay [simp]: "c_lay struct_cgroup_subsys = (256, 8)"
  by (simp add: struct_cgroup_subsys_def lay_defs)

definition umode_t :: ctype where
  "umode_t =
     CInt Unsigned 2"

lemma umode_t_lay [simp]: "c_lay umode_t = (2, 2)"
  by (simp add: umode_t_def lay_defs)

definition struct_kernfs_elem_dir :: ctype where
  "struct_kernfs_elem_dir =
     CStruct
       [Field ''subdirs'' (CInt Unsigned 8),
        Field ''children'' struct_rb_root,
        Field ''root'' (CPtr ''struct kernfs_root''),
        Field ''rev'' (CInt Unsigned 8)]"

lemma struct_kernfs_elem_dir_lay [simp]: "c_lay struct_kernfs_elem_dir = (32, 8)"
  by (simp add: struct_kernfs_elem_dir_def lay_defs)

definition struct_kernfs_elem_symlink :: ctype where
  "struct_kernfs_elem_symlink =
     CStruct
       [Field ''target_kn'' (CPtr ''struct kernfs_node'')]"

lemma struct_kernfs_elem_symlink_lay [simp]: "c_lay struct_kernfs_elem_symlink = (8, 8)"
  by (simp add: struct_kernfs_elem_symlink_def lay_defs)

definition struct_kernfs_elem_attr :: ctype where
  "struct_kernfs_elem_attr =
     CStruct
       [Field ''ops'' (CPtr ''struct kernfs_ops''),
        Field ''open'' (CPtr ''struct kernfs_open_node''),
        Field ''size'' loff_t,
        Field ''notify_next'' (CPtr ''struct kernfs_node'')]"

lemma struct_kernfs_elem_attr_lay [simp]: "c_lay struct_kernfs_elem_attr = (32, 8)"
  by (simp add: struct_kernfs_elem_attr_def lay_defs)

definition struct_kernfs_node :: ctype where
  "struct_kernfs_node =
     CStruct
       [Field ''count'' atomic_t,
        Field ''active'' atomic_t,
        Field ''parent'' (CPtr ''struct kernfs_node''),
        Field ''name'' (CPtr ''char''),
        Field ''rb'' struct_rb_node,
        Field ''ns'' (CPtr ''void''),
        Field ''hash'' (CInt Unsigned 4),
        Field ''flags'' (CInt Unsigned 2),
        Field ''mode'' umode_t,
        Field '''' (CUnion
         [Field ''dir'' struct_kernfs_elem_dir,
          Field ''symlink'' struct_kernfs_elem_symlink,
          Field ''attr'' struct_kernfs_elem_attr]),
        Field ''id'' t_u64,
        Field ''priv'' (CPtr ''void''),
        Field ''iattr'' (CPtr ''struct kernfs_iattrs''),
        Field ''rcu'' struct_callback_head]"

lemma struct_kernfs_node_lay [simp]: "c_lay struct_kernfs_node = (136, 8)"
  by (simp add: struct_kernfs_node_def lay_defs)

definition struct_mem_cgroup_id :: ctype where
  "struct_mem_cgroup_id =
     CStruct
       [Field ''id'' (CInt Signed 4),
        Field ''ref'' refcount_t]"

lemma struct_mem_cgroup_id_lay [simp]: "c_lay struct_mem_cgroup_id = (8, 4)"
  by (simp add: struct_mem_cgroup_id_def lay_defs)

definition struct_page_counter :: ctype where
  "struct_page_counter =
     CStruct
       [Field ''usage'' atomic_long_t,
        Bits '''' (CInt Signed 8) 64,
        Bits '''' (CInt Signed 8) 64,
        Bits '''' (CInt Signed 8) 64,
        Bits '''' (CInt Signed 8) 64,
        Bits '''' (CInt Signed 8) 64,
        Bits '''' (CInt Signed 8) 64,
        Bits '''' (CInt Signed 8) 64,
        Field ''_pad1_'' struct_cacheline_padding,
        Field ''emin'' (CInt Unsigned 8),
        Field ''min_usage'' atomic_long_t,
        Field ''children_min_usage'' atomic_long_t,
        Field ''elow'' (CInt Unsigned 8),
        Field ''low_usage'' atomic_long_t,
        Field ''children_low_usage'' atomic_long_t,
        Field ''watermark'' (CInt Unsigned 8),
        Field ''local_watermark'' (CInt Unsigned 8),
        Field ''failcnt'' (CInt Unsigned 8),
        Bits '''' (CInt Signed 8) 64,
        Bits '''' (CInt Signed 8) 64,
        Bits '''' (CInt Signed 8) 64,
        Bits '''' (CInt Signed 8) 64,
        Bits '''' (CInt Signed 8) 64,
        Bits '''' (CInt Signed 8) 64,
        Bits '''' (CInt Signed 8) 64,
        Field ''_pad2_'' struct_cacheline_padding,
        Field ''protection_support'' t_bool,
        Field ''min'' (CInt Unsigned 8),
        Field ''low'' (CInt Unsigned 8),
        Field ''high'' (CInt Unsigned 8),
        Field ''max'' (CInt Unsigned 8),
        Field ''parent'' (CPtr ''struct page_counter''),
        Bits '''' (CInt Signed 8) 64,
        Bits '''' (CInt Signed 8) 64]"

lemma struct_page_counter_lay [simp]: "c_lay struct_page_counter = (256, 8)"
  by (simp add: struct_page_counter_def lay_defs)

definition struct_vmpressure :: ctype where
  "struct_vmpressure =
     CStruct
       [Field ''scanned'' (CInt Unsigned 8),
        Field ''reclaimed'' (CInt Unsigned 8),
        Field ''tree_scanned'' (CInt Unsigned 8),
        Field ''tree_reclaimed'' (CInt Unsigned 8),
        Field ''sr_lock'' spinlock_t,
        Field ''events'' struct_list_head,
        Field ''events_lock'' struct_mutex,
        Field ''work'' struct_work_struct]"

lemma struct_vmpressure_lay [simp]: "c_lay struct_vmpressure = (120, 8)"
  by (simp add: struct_vmpressure_def lay_defs)

definition struct_fprop_global :: ctype where
  "struct_fprop_global =
     CStruct
       [Field ''events'' struct_percpu_counter,
        Field ''period'' (CInt Unsigned 4),
        Field ''sequence'' seqcount_t]"

lemma struct_fprop_global_lay [simp]: "c_lay struct_fprop_global = (48, 8)"
  by (simp add: struct_fprop_global_def lay_defs)

definition struct_wb_domain :: ctype where
  "struct_wb_domain =
     CStruct
       [Field ''lock'' spinlock_t,
        Field ''completions'' struct_fprop_global,
        Field ''period_timer'' struct_timer_list,
        Field ''period_time'' (CInt Unsigned 8),
        Field ''dirty_limit_tstamp'' (CInt Unsigned 8),
        Field ''dirty_limit'' (CInt Unsigned 8)]"

lemma struct_wb_domain_lay [simp]: "c_lay struct_wb_domain = (120, 8)"
  by (simp add: struct_wb_domain_def lay_defs)

definition struct_wb_completion :: ctype where
  "struct_wb_completion =
     CStruct
       [Field ''cnt'' atomic_t,
        Field ''waitq'' (CPtr ''wait_queue_head_t'')]"

lemma struct_wb_completion_lay [simp]: "c_lay struct_wb_completion = (16, 8)"
  by (simp add: struct_wb_completion_def lay_defs)

definition struct_memcg_cgwb_frn :: ctype where
  "struct_memcg_cgwb_frn =
     CStruct
       [Field ''bdi_id'' t_u64,
        Field ''memcg_id'' (CInt Signed 4),
        Field ''at'' t_u64,
        Field ''done'' struct_wb_completion]"

lemma struct_memcg_cgwb_frn_lay [simp]: "c_lay struct_memcg_cgwb_frn = (40, 8)"
  by (simp add: struct_memcg_cgwb_frn_def lay_defs)

definition struct_deferred_split :: ctype where
  "struct_deferred_split =
     CStruct
       [Field ''split_queue_lock'' spinlock_t,
        Field ''split_queue'' struct_list_head,
        Field ''split_queue_len'' (CInt Unsigned 8)]"

lemma struct_deferred_split_lay [simp]: "c_lay struct_deferred_split = (32, 8)"
  by (simp add: struct_deferred_split_def lay_defs)

definition struct_lru_gen_mm_list :: ctype where
  "struct_lru_gen_mm_list =
     CStruct
       [Field ''fifo'' struct_list_head,
        Field ''lock'' spinlock_t]"

lemma struct_lru_gen_mm_list_lay [simp]: "c_lay struct_lru_gen_mm_list = (24, 8)"
  by (simp add: struct_lru_gen_mm_list_def lay_defs)

definition struct_mem_cgroup :: ctype where
  "struct_mem_cgroup =
     CStruct
       [Field ''css'' struct_cgroup_subsys_state,
        Field ''id'' struct_mem_cgroup_id,
        Bits '''' (CInt Signed 8) 64,
        Bits '''' (CInt Signed 8) 64,
        Bits '''' (CInt Signed 8) 64,
        Bits '''' (CInt Signed 8) 64,
        Bits '''' (CInt Signed 8) 64,
        Field ''memory'' struct_page_counter,
        Field '''' (CUnion
         [Field ''swap'' struct_page_counter,
          Field ''memsw'' struct_page_counter]),
        Field ''memory_peaks'' struct_list_head,
        Field ''swap_peaks'' struct_list_head,
        Field ''peaks_lock'' spinlock_t,
        Field ''high_work'' struct_work_struct,
        Field ''vmpressure'' struct_vmpressure,
        Field ''oom_group'' t_bool,
        Field ''swappiness'' (CInt Signed 4),
        Field ''events_file'' struct_cgroup_file,
        Field ''events_local_file'' struct_cgroup_file,
        Field ''swap_events_file'' struct_cgroup_file,
        Field ''vmstats'' (CPtr ''struct memcg_vmstats''),
        Field ''memory_events'' (CArr (atomic_long_t) 9),
        Field ''memory_events_local'' (CArr (atomic_long_t) 9),
        Field ''socket_pressure'' (CInt Unsigned 8),
        Field ''kmemcg_id'' (CInt Signed 4),
        Field ''objcg'' (CPtr ''struct obj_cgroup''),
        Field ''orig_objcg'' (CPtr ''struct obj_cgroup''),
        Field ''objcg_list'' struct_list_head,
        Field ''vmstats_percpu'' (CPtr ''struct memcg_vmstats_percpu''),
        Field ''cgwb_list'' struct_list_head,
        Field ''cgwb_domain'' struct_wb_domain,
        Field ''cgwb_frn'' (CArr (struct_memcg_cgwb_frn) 4),
        Field ''deferred_split_queue'' struct_deferred_split,
        Field ''mm_list'' struct_lru_gen_mm_list,
        Field ''nodeinfo'' (CArr (CPtr ''struct mem_cgroup_per_node'') 0),
        Bits '''' (CInt Signed 8) 64,
        Bits '''' (CInt Signed 8) 64,
        Bits '''' (CInt Signed 8) 64,
        Bits '''' (CInt Signed 8) 64]"

lemma struct_mem_cgroup_lay [simp]: "c_lay struct_mem_cgroup = (1728, 8)"
  by (simp add: struct_mem_cgroup_def lay_defs)

definition struct_workqueue_struct :: ctype where
  "struct_workqueue_struct =
     CStruct
       [Field ''pwqs'' struct_list_head,
        Field ''list'' struct_list_head,
        Field ''mutex'' struct_mutex,
        Field ''work_color'' (CInt Signed 4),
        Field ''flush_color'' (CInt Signed 4),
        Field ''nr_pwqs_to_flush'' atomic_t,
        Field ''first_flusher'' (CPtr ''struct wq_flusher''),
        Field ''flusher_queue'' struct_list_head,
        Field ''flusher_overflow'' struct_list_head,
        Field ''maydays'' struct_list_head,
        Field ''rescuer'' (CPtr ''struct worker''),
        Field ''nr_drainers'' (CInt Signed 4),
        Field ''max_active'' (CInt Signed 4),
        Field ''min_active'' (CInt Signed 4),
        Field ''saved_max_active'' (CInt Signed 4),
        Field ''saved_min_active'' (CInt Signed 4),
        Field ''unbound_attrs'' (CPtr ''struct workqueue_attrs''),
        Field ''dfl_pwq'' (CPtr ''struct pool_workqueue''),
        Field ''wq_dev'' (CPtr ''struct wq_device''),
        Field ''name'' (CArr (CInt Signed 1) 32),
        Field ''rcu'' struct_callback_head,
        Bits '''' (CInt Signed 8) 64,
        Bits '''' (CInt Signed 8) 64,
        Field ''flags'' (CInt Unsigned 4),
        Field ''cpu_pwq'' (CPtr ''struct pool_workqueue *''),
        Field ''node_nr_active'' (CArr (CPtr ''struct wq_node_nr_active'') 0),
        Bits '''' (CInt Signed 8) 64,
        Bits '''' (CInt Signed 8) 64,
        Bits '''' (CInt Signed 8) 64,
        Bits '''' (CInt Signed 8) 64,
        Bits '''' (CInt Signed 8) 64,
        Bits '''' (CInt Signed 8) 64]"

lemma struct_workqueue_struct_lay [simp]: "c_lay struct_workqueue_struct = (320, 8)"
  by (simp add: struct_workqueue_struct_def lay_defs)

end
