(* ===== verification/Vm_Vfs.thy ===== *)
theory Vm_Vfs
  imports Vm_Cgroup
begin

text \<open>
  The file system objects a \<^verbatim>\<open>struct file\<close> points to: inode, directory
  entry, super block and their operations.
  Each is the declaration of \<^verbatim>\<open>ebpf/src/vmlinux.h\<close> as a value of type \<open>ctype\<close>, with its
  size and alignment.
\<close>

definition t___kernel_dev_t :: ctype where
  "t___kernel_dev_t =
     t_u32"

lemma t___kernel_dev_t_lay [simp]: "c_lay t___kernel_dev_t = (4, 4)"
  by (simp add: t___kernel_dev_t_def lay_defs)

definition dev_t :: ctype where
  "dev_t =
     t___kernel_dev_t"

lemma dev_t_lay [simp]: "c_lay dev_t = (4, 4)"
  by (simp add: dev_t_def lay_defs)

definition time64_t :: ctype where
  "time64_t =
     t___s64"

lemma time64_t_lay [simp]: "c_lay time64_t = (8, 8)"
  by (simp add: time64_t_def lay_defs)

definition enum_rw_hint :: ctype where
  "enum_rw_hint =
     CEnum
       [(''WRITE_LIFE_NOT_SET'', 0),
        (''WRITE_LIFE_NONE'', 1),
        (''WRITE_LIFE_SHORT'', 2),
        (''WRITE_LIFE_MEDIUM'', 3),
        (''WRITE_LIFE_LONG'', 4),
        (''WRITE_LIFE_EXTREME'', 5)]"

lemma enum_rw_hint_lay [simp]: "c_lay enum_rw_hint = (4, 4)"
  by (simp add: enum_rw_hint_def lay_defs)

definition blkcnt_t :: ctype where
  "blkcnt_t =
     t_u64"

lemma blkcnt_t_lay [simp]: "c_lay blkcnt_t = (8, 8)"
  by (simp add: blkcnt_t_def lay_defs)

definition struct_address_space :: ctype where
  "struct_address_space =
     CStruct
       [Field ''host'' (CPtr ''struct inode''),
        Field ''i_pages'' struct_xarray,
        Field ''invalidate_lock'' struct_rw_semaphore,
        Field ''gfp_mask'' gfp_t,
        Field ''i_mmap_writable'' atomic_t,
        Field ''i_mmap'' struct_rb_root_cached,
        Field ''nrpages'' (CInt Unsigned 8),
        Field ''writeback_index'' (CInt Unsigned 8),
        Field ''a_ops'' (CPtr ''struct address_space_operations''),
        Field ''flags'' (CInt Unsigned 8),
        Field ''wb_err'' errseq_t,
        Field ''i_private_lock'' spinlock_t,
        Field ''i_private_list'' struct_list_head,
        Field ''i_mmap_rwsem'' struct_rw_semaphore,
        Field ''i_private_data'' (CPtr ''void'')]"

lemma struct_address_space_lay [simp]: "c_lay struct_address_space = (192, 8)"
  by (simp add: struct_address_space_def lay_defs)

definition struct_inode :: ctype where
  "struct_inode =
     CStruct
       [Field ''i_mode'' umode_t,
        Field ''i_opflags'' (CInt Unsigned 2),
        Field ''i_uid'' kuid_t,
        Field ''i_gid'' kgid_t,
        Field ''i_flags'' (CInt Unsigned 4),
        Field ''i_acl'' (CPtr ''struct posix_acl''),
        Field ''i_default_acl'' (CPtr ''struct posix_acl''),
        Field ''i_op'' (CPtr ''struct inode_operations''),
        Field ''i_sb'' (CPtr ''struct super_block''),
        Field ''i_mapping'' (CPtr ''struct address_space''),
        Field ''i_security'' (CPtr ''void''),
        Field ''i_ino'' (CInt Unsigned 8),
        Field '''' (CUnion
         [Field ''i_nlink'' (CInt Unsigned 4),
          Field ''__i_nlink'' (CInt Unsigned 4)]),
        Field ''i_rdev'' dev_t,
        Field ''i_size'' loff_t,
        Field ''i_atime_sec'' time64_t,
        Field ''i_mtime_sec'' time64_t,
        Field ''i_ctime_sec'' time64_t,
        Field ''i_atime_nsec'' t_u32,
        Field ''i_mtime_nsec'' t_u32,
        Field ''i_ctime_nsec'' t_u32,
        Field ''i_generation'' t_u32,
        Field ''i_lock'' spinlock_t,
        Field ''i_bytes'' (CInt Unsigned 2),
        Field ''i_blkbits'' t_u8,
        Field ''i_write_hint'' enum_rw_hint,
        Field ''i_blocks'' blkcnt_t,
        Field ''i_state'' t_u32,
        Field ''i_rwsem'' struct_rw_semaphore,
        Field ''dirtied_when'' (CInt Unsigned 8),
        Field ''dirtied_time_when'' (CInt Unsigned 8),
        Field ''i_hash'' struct_hlist_node,
        Field ''i_io_list'' struct_list_head,
        Field ''i_wb'' (CPtr ''struct bdi_writeback''),
        Field ''i_wb_frn_winner'' (CInt Signed 4),
        Field ''i_wb_frn_avg_time'' t_u16,
        Field ''i_wb_frn_history'' t_u16,
        Field ''i_lru'' struct_list_head,
        Field ''i_sb_list'' struct_list_head,
        Field ''i_wb_list'' struct_list_head,
        Field '''' (CUnion
         [Field ''i_dentry'' struct_hlist_head,
          Field ''i_rcu'' struct_callback_head]),
        Field ''i_version'' atomic64_t,
        Field ''i_sequence'' atomic64_t,
        Field ''i_count'' atomic_t,
        Field ''i_dio_count'' atomic_t,
        Field ''i_writecount'' atomic_t,
        Field ''i_readcount'' atomic_t,
        Field '''' (CUnion
         [Field ''i_fop'' (CPtr ''struct file_operations''),
          Field ''free_inode'' CFnPtr]),
        Field ''i_flctx'' (CPtr ''struct file_lock_context''),
        Field ''i_data'' struct_address_space,
        Field ''i_devices'' struct_list_head,
        Field '''' (CUnion
         [Field ''i_pipe'' (CPtr ''struct pipe_inode_info''),
          Field ''i_cdev'' (CPtr ''struct cdev''),
          Field ''i_link'' (CPtr ''char''),
          Field ''i_dir_seq'' (CInt Unsigned 4)]),
        Field ''i_fsnotify_mask'' t___u32,
        Field ''i_fsnotify_marks'' (CPtr ''struct fsnotify_mark_connector''),
        Field ''i_crypt_info'' (CPtr ''struct fscrypt_inode_info''),
        Field ''i_verity_info'' (CPtr ''struct fsverity_info''),
        Field ''i_private'' (CPtr ''void'')]"

lemma struct_inode_lay [simp]: "c_lay struct_inode = (632, 8)"
  by (simp add: struct_inode_def lay_defs)

definition struct_inode_operations :: ctype where
  "struct_inode_operations =
     CStruct
       [Field ''lookup'' CFnPtr,
        Field ''get_link'' CFnPtr,
        Field ''permission'' CFnPtr,
        Field ''get_inode_acl'' CFnPtr,
        Field ''readlink'' CFnPtr,
        Field ''create'' CFnPtr,
        Field ''link'' CFnPtr,
        Field ''unlink'' CFnPtr,
        Field ''symlink'' CFnPtr,
        Field ''mkdir'' CFnPtr,
        Field ''rmdir'' CFnPtr,
        Field ''mknod'' CFnPtr,
        Field ''rename'' CFnPtr,
        Field ''setattr'' CFnPtr,
        Field ''getattr'' CFnPtr,
        Field ''listxattr'' CFnPtr,
        Field ''fiemap'' CFnPtr,
        Field ''update_time'' CFnPtr,
        Field ''atomic_open'' CFnPtr,
        Field ''tmpfile'' CFnPtr,
        Field ''get_acl'' CFnPtr,
        Field ''set_acl'' CFnPtr,
        Field ''fileattr_set'' CFnPtr,
        Field ''fileattr_get'' CFnPtr,
        Field ''get_offset_ctx'' CFnPtr,
        Bits '''' (CInt Signed 8) 64,
        Bits '''' (CInt Signed 8) 64,
        Bits '''' (CInt Signed 8) 64,
        Bits '''' (CInt Signed 8) 64,
        Bits '''' (CInt Signed 8) 64,
        Bits '''' (CInt Signed 8) 64,
        Bits '''' (CInt Signed 8) 64]"

lemma struct_inode_operations_lay [simp]: "c_lay struct_inode_operations = (256, 8)"
  by (simp add: struct_inode_operations_def lay_defs)

definition struct_hlist_bl_node :: ctype where
  "struct_hlist_bl_node =
     CStruct
       [Field ''next'' (CPtr ''struct hlist_bl_node''),
        Field ''pprev'' (CPtr ''struct hlist_bl_node *'')]"

lemma struct_hlist_bl_node_lay [simp]: "c_lay struct_hlist_bl_node = (16, 8)"
  by (simp add: struct_hlist_bl_node_def lay_defs)

definition struct_qstr :: ctype where
  "struct_qstr =
     CStruct
       [Field '''' (CUnion
         [Field '''' (CStruct
           [Field ''hash'' t_u32,
            Field ''len'' t_u32]),
          Field ''hash_len'' t_u64]),
        Field ''name'' (CPtr ''unsigned char'')]"

lemma struct_qstr_lay [simp]: "c_lay struct_qstr = (16, 8)"
  by (simp add: struct_qstr_def lay_defs)

definition struct_lockref :: ctype where
  "struct_lockref =
     CStruct
       [Field '''' (CUnion
         [Field ''lock_count'' t___u64,
          Field '''' (CStruct
           [Field ''lock'' spinlock_t,
            Field ''count'' (CInt Signed 4)])])]"

lemma struct_lockref_lay [simp]: "c_lay struct_lockref = (8, 8)"
  by (simp add: struct_lockref_def lay_defs)

definition struct_dentry :: ctype where
  "struct_dentry =
     CStruct
       [Field ''d_flags'' (CInt Unsigned 4),
        Field ''d_seq'' seqcount_spinlock_t,
        Field ''d_hash'' struct_hlist_bl_node,
        Field ''d_parent'' (CPtr ''struct dentry''),
        Field ''d_name'' struct_qstr,
        Field ''d_inode'' (CPtr ''struct inode''),
        Field ''d_iname'' (CArr (CInt Unsigned 1) 40),
        Field ''d_op'' (CPtr ''struct dentry_operations''),
        Field ''d_sb'' (CPtr ''struct super_block''),
        Field ''d_time'' (CInt Unsigned 8),
        Field ''d_fsdata'' (CPtr ''void''),
        Field ''d_lockref'' struct_lockref,
        Field '''' (CUnion
         [Field ''d_lru'' struct_list_head,
          Field ''d_wait'' (CPtr ''wait_queue_head_t'')]),
        Field ''d_sib'' struct_hlist_node,
        Field ''d_children'' struct_hlist_head,
        Field ''d_u'' (CUnion
         [Field ''d_alias'' struct_hlist_node,
          Field ''d_in_lookup_hash'' struct_hlist_bl_node,
          Field ''d_rcu'' struct_callback_head])]"

lemma struct_dentry_lay [simp]: "c_lay struct_dentry = (192, 8)"
  by (simp add: struct_dentry_def lay_defs)

definition struct_dentry_operations :: ctype where
  "struct_dentry_operations =
     CStruct
       [Field ''d_revalidate'' CFnPtr,
        Field ''d_weak_revalidate'' CFnPtr,
        Field ''d_hash'' CFnPtr,
        Field ''d_compare'' CFnPtr,
        Field ''d_delete'' CFnPtr,
        Field ''d_init'' CFnPtr,
        Field ''d_release'' CFnPtr,
        Field ''d_prune'' CFnPtr,
        Field ''d_iput'' CFnPtr,
        Field ''d_dname'' CFnPtr,
        Field ''d_automount'' CFnPtr,
        Field ''d_manage'' CFnPtr,
        Field ''d_real'' CFnPtr,
        Bits '''' (CInt Signed 8) 64,
        Bits '''' (CInt Signed 8) 64,
        Bits '''' (CInt Signed 8) 64]"

lemma struct_dentry_operations_lay [simp]: "c_lay struct_dentry_operations = (128, 8)"
  by (simp add: struct_dentry_operations_def lay_defs)

definition struct_hlist_bl_head :: ctype where
  "struct_hlist_bl_head =
     CStruct
       [Field ''first'' (CPtr ''struct hlist_bl_node'')]"

lemma struct_hlist_bl_head_lay [simp]: "c_lay struct_hlist_bl_head = (8, 8)"
  by (simp add: struct_hlist_bl_head_def lay_defs)

definition qsize_t :: ctype where
  "qsize_t =
     CInt Signed 8"

lemma qsize_t_lay [simp]: "c_lay qsize_t = (8, 8)"
  by (simp add: qsize_t_def lay_defs)

definition struct_mem_dqinfo :: ctype where
  "struct_mem_dqinfo =
     CStruct
       [Field ''dqi_format'' (CPtr ''struct quota_format_type''),
        Field ''dqi_fmt_id'' (CInt Signed 4),
        Field ''dqi_dirty_list'' struct_list_head,
        Field ''dqi_flags'' (CInt Unsigned 8),
        Field ''dqi_bgrace'' (CInt Unsigned 4),
        Field ''dqi_igrace'' (CInt Unsigned 4),
        Field ''dqi_max_spc_limit'' qsize_t,
        Field ''dqi_max_ino_limit'' qsize_t,
        Field ''dqi_priv'' (CPtr ''void'')]"

lemma struct_mem_dqinfo_lay [simp]: "c_lay struct_mem_dqinfo = (72, 8)"
  by (simp add: struct_mem_dqinfo_def lay_defs)

definition struct_quota_info :: ctype where
  "struct_quota_info =
     CStruct
       [Field ''flags'' (CInt Unsigned 4),
        Field ''dqio_sem'' struct_rw_semaphore,
        Field ''files'' (CArr (CPtr ''struct inode'') 3),
        Field ''info'' (CArr (struct_mem_dqinfo) 3),
        Field ''ops'' (CArr (CPtr ''struct quota_format_ops'') 3)]"

lemma struct_quota_info_lay [simp]: "c_lay struct_quota_info = (312, 8)"
  by (simp add: struct_quota_info_def lay_defs)

definition struct_rcu_sync :: ctype where
  "struct_rcu_sync =
     CStruct
       [Field ''gp_state'' (CInt Signed 4),
        Field ''gp_count'' (CInt Signed 4),
        Field ''gp_wait'' wait_queue_head_t,
        Field ''cb_head'' struct_callback_head]"

lemma struct_rcu_sync_lay [simp]: "c_lay struct_rcu_sync = (48, 8)"
  by (simp add: struct_rcu_sync_def lay_defs)

definition struct_rcuwait :: ctype where
  "struct_rcuwait =
     CStruct
       [Field ''task'' (CPtr ''struct task_struct'')]"

lemma struct_rcuwait_lay [simp]: "c_lay struct_rcuwait = (8, 8)"
  by (simp add: struct_rcuwait_def lay_defs)

definition struct_percpu_rw_semaphore :: ctype where
  "struct_percpu_rw_semaphore =
     CStruct
       [Field ''rss'' struct_rcu_sync,
        Field ''read_count'' (CPtr ''unsigned int''),
        Field ''writer'' struct_rcuwait,
        Field ''waiters'' wait_queue_head_t,
        Field ''block'' atomic_t]"

lemma struct_percpu_rw_semaphore_lay [simp]: "c_lay struct_percpu_rw_semaphore = (96, 8)"
  by (simp add: struct_percpu_rw_semaphore_def lay_defs)

definition struct_sb_writers :: ctype where
  "struct_sb_writers =
     CStruct
       [Field ''frozen'' (CInt Unsigned 2),
        Field ''freeze_kcount'' (CInt Signed 4),
        Field ''freeze_ucount'' (CInt Signed 4),
        Field ''rw_sem'' (CArr (struct_percpu_rw_semaphore) 3)]"

lemma struct_sb_writers_lay [simp]: "c_lay struct_sb_writers = (304, 8)"
  by (simp add: struct_sb_writers_def lay_defs)

definition uuid_t :: ctype where
  "uuid_t =
     CStruct
       [Field ''b'' (CArr (t___u8) 16)]"

lemma uuid_t_lay [simp]: "c_lay uuid_t = (16, 1)"
  by (simp add: uuid_t_def lay_defs)

definition struct_list_lru :: ctype where
  "struct_list_lru =
     CStruct
       [Field ''node'' (CPtr ''struct list_lru_node''),
        Field ''list'' struct_list_head,
        Field ''shrinker_id'' (CInt Signed 4),
        Field ''memcg_aware'' t_bool,
        Field ''xa'' struct_xarray]"

lemma struct_list_lru_lay [simp]: "c_lay struct_list_lru = (48, 8)"
  by (simp add: struct_list_lru_def lay_defs)

definition struct_super_block :: ctype where
  "struct_super_block =
     CStruct
       [Field ''s_list'' struct_list_head,
        Field ''s_dev'' dev_t,
        Field ''s_blocksize_bits'' (CInt Unsigned 1),
        Field ''s_blocksize'' (CInt Unsigned 8),
        Field ''s_maxbytes'' loff_t,
        Field ''s_type'' (CPtr ''struct file_system_type''),
        Field ''s_op'' (CPtr ''struct super_operations''),
        Field ''dq_op'' (CPtr ''struct dquot_operations''),
        Field ''s_qcop'' (CPtr ''struct quotactl_ops''),
        Field ''s_export_op'' (CPtr ''struct export_operations''),
        Field ''s_flags'' (CInt Unsigned 8),
        Field ''s_iflags'' (CInt Unsigned 8),
        Field ''s_magic'' (CInt Unsigned 8),
        Field ''s_root'' (CPtr ''struct dentry''),
        Field ''s_umount'' struct_rw_semaphore,
        Field ''s_count'' (CInt Signed 4),
        Field ''s_active'' atomic_t,
        Field ''s_security'' (CPtr ''void''),
        Field ''s_xattr'' (CPtr ''struct xattr_handler *''),
        Field ''s_cop'' (CPtr ''struct fscrypt_operations''),
        Field ''s_master_keys'' (CPtr ''struct fscrypt_keyring''),
        Field ''s_vop'' (CPtr ''struct fsverity_operations''),
        Field ''s_encoding'' (CPtr ''struct unicode_map''),
        Field ''s_encoding_flags'' t___u16,
        Field ''s_roots'' struct_hlist_bl_head,
        Field ''s_mounts'' struct_list_head,
        Field ''s_bdev'' (CPtr ''struct block_device''),
        Field ''s_bdev_file'' (CPtr ''struct file''),
        Field ''s_bdi'' (CPtr ''struct backing_dev_info''),
        Field ''s_mtd'' (CPtr ''struct mtd_info''),
        Field ''s_instances'' struct_hlist_node,
        Field ''s_quota_types'' (CInt Unsigned 4),
        Field ''s_dquot'' struct_quota_info,
        Field ''s_writers'' struct_sb_writers,
        Field ''s_fs_info'' (CPtr ''void''),
        Field ''s_time_gran'' t_u32,
        Field ''s_time_min'' time64_t,
        Field ''s_time_max'' time64_t,
        Field ''s_fsnotify_mask'' t_u32,
        Field ''s_fsnotify_info'' (CPtr ''struct fsnotify_sb_info''),
        Field ''s_id'' (CArr (CInt Signed 1) 32),
        Field ''s_uuid'' uuid_t,
        Field ''s_uuid_len'' t_u8,
        Field ''s_sysfs_name'' (CArr (CInt Signed 1) 37),
        Field ''s_max_links'' (CInt Unsigned 4),
        Field ''s_vfs_rename_mutex'' struct_mutex,
        Field ''s_subtype'' (CPtr ''char''),
        Field ''s_d_op'' (CPtr ''struct dentry_operations''),
        Field ''s_shrink'' (CPtr ''struct shrinker''),
        Field ''s_remove_count'' atomic_long_t,
        Field ''s_readonly_remount'' (CInt Signed 4),
        Field ''s_wb_err'' errseq_t,
        Field ''s_dio_done_wq'' (CPtr ''struct workqueue_struct''),
        Field ''s_pins'' struct_hlist_head,
        Field ''s_user_ns'' (CPtr ''struct user_namespace''),
        Field ''s_dentry_lru'' struct_list_lru,
        Field ''s_inode_lru'' struct_list_lru,
        Field ''rcu'' struct_callback_head,
        Field ''destroy_work'' struct_work_struct,
        Field ''s_sync_lock'' struct_mutex,
        Field ''s_stack_depth'' (CInt Signed 4),
        Bits '''' (CInt Signed 8) 64,
        Field ''s_inode_list_lock'' spinlock_t,
        Field ''s_inodes'' struct_list_head,
        Field ''s_inode_wblist_lock'' spinlock_t,
        Field ''s_inodes_wb'' struct_list_head,
        Bits '''' (CInt Signed 8) 64,
        Bits '''' (CInt Signed 8) 64]"

lemma struct_super_block_lay [simp]: "c_lay struct_super_block = (1408, 8)"
  by (simp add: struct_super_block_def lay_defs)

definition struct_super_operations :: ctype where
  "struct_super_operations =
     CStruct
       [Field ''alloc_inode'' CFnPtr,
        Field ''destroy_inode'' CFnPtr,
        Field ''free_inode'' CFnPtr,
        Field ''dirty_inode'' CFnPtr,
        Field ''write_inode'' CFnPtr,
        Field ''drop_inode'' CFnPtr,
        Field ''evict_inode'' CFnPtr,
        Field ''put_super'' CFnPtr,
        Field ''sync_fs'' CFnPtr,
        Field ''freeze_super'' CFnPtr,
        Field ''freeze_fs'' CFnPtr,
        Field ''thaw_super'' CFnPtr,
        Field ''unfreeze_fs'' CFnPtr,
        Field ''statfs'' CFnPtr,
        Field ''remount_fs'' CFnPtr,
        Field ''umount_begin'' CFnPtr,
        Field ''show_options'' CFnPtr,
        Field ''show_devname'' CFnPtr,
        Field ''show_path'' CFnPtr,
        Field ''show_stats'' CFnPtr,
        Field ''quota_read'' CFnPtr,
        Field ''quota_write'' CFnPtr,
        Field ''get_dquots'' CFnPtr,
        Field ''nr_cached_objects'' CFnPtr,
        Field ''free_cached_objects'' CFnPtr,
        Field ''shutdown'' CFnPtr]"

lemma struct_super_operations_lay [simp]: "c_lay struct_super_operations = (208, 8)"
  by (simp add: struct_super_operations_def lay_defs)

definition struct_address_space_operations :: ctype where
  "struct_address_space_operations =
     CStruct
       [Field ''writepage'' CFnPtr,
        Field ''read_folio'' CFnPtr,
        Field ''writepages'' CFnPtr,
        Field ''dirty_folio'' CFnPtr,
        Field ''readahead'' CFnPtr,
        Field ''write_begin'' CFnPtr,
        Field ''write_end'' CFnPtr,
        Field ''bmap'' CFnPtr,
        Field ''invalidate_folio'' CFnPtr,
        Field ''release_folio'' CFnPtr,
        Field ''free_folio'' CFnPtr,
        Field ''direct_IO'' CFnPtr,
        Field ''migrate_folio'' CFnPtr,
        Field ''launder_folio'' CFnPtr,
        Field ''is_partially_uptodate'' CFnPtr,
        Field ''is_dirty_writeback'' CFnPtr,
        Field ''error_remove_folio'' CFnPtr,
        Field ''swap_activate'' CFnPtr,
        Field ''swap_deactivate'' CFnPtr,
        Field ''swap_rw'' CFnPtr]"

lemma struct_address_space_operations_lay [simp]: "c_lay struct_address_space_operations = (160, 8)"
  by (simp add: struct_address_space_operations_def lay_defs)

end
