(* ===== verification/Vm_Ns.thy ===== *)
theory Vm_Ns
  imports Vm_Vfs
begin

text \<open>
  The namespaces of a task: \<^verbatim>\<open>struct nsproxy\<close>, the pid and user
  namespaces and the others it points to.
  Each is the declaration of \<^verbatim>\<open>ebpf/src/vmlinux.h\<close> as a value of type \<open>ctype\<close>, with its
  size and alignment.
\<close>

definition struct_uid_gid_extent :: ctype where
  "struct_uid_gid_extent =
     CStruct
       [Field ''first'' t_u32,
        Field ''lower_first'' t_u32,
        Field ''count'' t_u32]"

lemma struct_uid_gid_extent_lay [simp]: "c_lay struct_uid_gid_extent = (12, 4)"
  by (simp add: struct_uid_gid_extent_def lay_defs)

definition struct_uid_gid_map :: ctype where
  "struct_uid_gid_map =
     CStruct
       [Field '''' (CUnion
         [Field '''' (CStruct
           [Field ''extent'' (CArr (struct_uid_gid_extent) 5),
            Field ''nr_extents'' t_u32]),
          Field '''' (CStruct
           [Field ''forward'' (CPtr ''struct uid_gid_extent''),
            Field ''reverse'' (CPtr ''struct uid_gid_extent'')])])]"

lemma struct_uid_gid_map_lay [simp]: "c_lay struct_uid_gid_map = (64, 8)"
  by (simp add: struct_uid_gid_map_def lay_defs)

definition struct_ns_common :: ctype where
  "struct_ns_common =
     CStruct
       [Field ''stashed'' (CPtr ''struct dentry''),
        Field ''ops'' (CPtr ''struct proc_ns_operations''),
        Field ''inum'' (CInt Unsigned 4),
        Field ''count'' refcount_t]"

lemma struct_ns_common_lay [simp]: "c_lay struct_ns_common = (24, 8)"
  by (simp add: struct_ns_common_def lay_defs)

definition struct_ctl_table_header :: ctype where
  "struct_ctl_table_header =
     CStruct
       [Field '''' (CUnion
         [Field '''' (CStruct
           [Field ''ctl_table'' (CPtr ''struct ctl_table''),
            Field ''ctl_table_size'' (CInt Signed 4),
            Field ''used'' (CInt Signed 4),
            Field ''count'' (CInt Signed 4),
            Field ''nreg'' (CInt Signed 4)]),
          Field ''rcu'' struct_callback_head]),
        Field ''unregistering'' (CPtr ''struct completion''),
        Field ''ctl_table_arg'' (CPtr ''struct ctl_table''),
        Field ''root'' (CPtr ''struct ctl_table_root''),
        Field ''set'' (CPtr ''struct ctl_table_set''),
        Field ''parent'' (CPtr ''struct ctl_dir''),
        Field ''node'' (CPtr ''struct ctl_node''),
        Field ''inodes'' struct_hlist_head,
        Field ''type'' (CEnum
         [(''SYSCTL_TABLE_TYPE_DEFAULT'', 0),
          (''SYSCTL_TABLE_TYPE_PERMANENTLY_EMPTY'', 1)])]"

lemma struct_ctl_table_header_lay [simp]: "c_lay struct_ctl_table_header = (88, 8)"
  by (simp add: struct_ctl_table_header_def lay_defs)

definition struct_ctl_dir :: ctype where
  "struct_ctl_dir =
     CStruct
       [Field ''header'' struct_ctl_table_header,
        Field ''root'' struct_rb_root]"

lemma struct_ctl_dir_lay [simp]: "c_lay struct_ctl_dir = (96, 8)"
  by (simp add: struct_ctl_dir_def lay_defs)

definition struct_ctl_table_set :: ctype where
  "struct_ctl_table_set =
     CStruct
       [Field ''is_seen'' CFnPtr,
        Field ''dir'' struct_ctl_dir]"

lemma struct_ctl_table_set_lay [simp]: "c_lay struct_ctl_table_set = (104, 8)"
  by (simp add: struct_ctl_table_set_def lay_defs)

definition struct_user_namespace :: ctype where
  "struct_user_namespace =
     CStruct
       [Field ''uid_map'' struct_uid_gid_map,
        Field ''gid_map'' struct_uid_gid_map,
        Field ''projid_map'' struct_uid_gid_map,
        Field ''parent'' (CPtr ''struct user_namespace''),
        Field ''level'' (CInt Signed 4),
        Field ''owner'' kuid_t,
        Field ''group'' kgid_t,
        Field ''ns'' struct_ns_common,
        Field ''flags'' (CInt Unsigned 8),
        Field ''parent_could_setfcap'' t_bool,
        Field ''keyring_name_list'' struct_list_head,
        Field ''user_keyring_register'' (CPtr ''struct key''),
        Field ''keyring_sem'' struct_rw_semaphore,
        Field ''persistent_keyring_register'' (CPtr ''struct key''),
        Field ''work'' struct_work_struct,
        Field ''set'' struct_ctl_table_set,
        Field ''sysctls'' (CPtr ''struct ctl_table_header''),
        Field ''ucounts'' (CPtr ''struct ucounts''),
        Field ''ucount_max'' (CArr (CInt Signed 8) 12),
        Field ''rlimit_max'' (CArr (CInt Signed 8) 4),
        Field ''binfmt_misc'' (CPtr ''struct binfmt_misc'')]"

lemma struct_user_namespace_lay [simp]: "c_lay struct_user_namespace = (616, 8)"
  by (simp add: struct_user_namespace_def lay_defs)

definition struct_nsproxy :: ctype where
  "struct_nsproxy =
     CStruct
       [Field ''count'' refcount_t,
        Field ''uts_ns'' (CPtr ''struct uts_namespace''),
        Field ''ipc_ns'' (CPtr ''struct ipc_namespace''),
        Field ''mnt_ns'' (CPtr ''struct mnt_namespace''),
        Field ''pid_ns_for_children'' (CPtr ''struct pid_namespace''),
        Field ''net_ns'' (CPtr ''struct net''),
        Field ''time_ns'' (CPtr ''struct time_namespace''),
        Field ''time_ns_for_children'' (CPtr ''struct time_namespace''),
        Field ''cgroup_ns'' (CPtr ''struct cgroup_namespace'')]"

lemma struct_nsproxy_lay [simp]: "c_lay struct_nsproxy = (72, 8)"
  by (simp add: struct_nsproxy_def lay_defs)

definition struct_upid :: ctype where
  "struct_upid =
     CStruct
       [Field ''nr'' (CInt Signed 4),
        Field ''ns'' (CPtr ''struct pid_namespace'')]"

lemma struct_upid_lay [simp]: "c_lay struct_upid = (16, 8)"
  by (simp add: struct_upid_def lay_defs)

definition struct_pid :: ctype where
  "struct_pid =
     CStruct
       [Field ''count'' refcount_t,
        Field ''level'' (CInt Unsigned 4),
        Field ''lock'' spinlock_t,
        Field ''stashed'' (CPtr ''struct dentry''),
        Field ''ino'' t_u64,
        Field ''tasks'' (CArr (struct_hlist_head) 4),
        Field ''inodes'' struct_hlist_head,
        Field ''wait_pidfd'' wait_queue_head_t,
        Field ''rcu'' struct_callback_head,
        Field ''numbers'' (CArr (struct_upid) 0)]"

lemma struct_pid_lay [simp]: "c_lay struct_pid = (112, 8)"
  by (simp add: struct_pid_def lay_defs)

definition struct_pid_namespace :: ctype where
  "struct_pid_namespace =
     CStruct
       [Field ''idr'' struct_idr,
        Field ''rcu'' struct_callback_head,
        Field ''pid_allocated'' (CInt Unsigned 4),
        Field ''child_reaper'' (CPtr ''struct task_struct''),
        Field ''pid_cachep'' (CPtr ''struct kmem_cache''),
        Field ''level'' (CInt Unsigned 4),
        Field ''parent'' (CPtr ''struct pid_namespace''),
        Field ''bacct'' (CPtr ''struct fs_pin''),
        Field ''user_ns'' (CPtr ''struct user_namespace''),
        Field ''ucounts'' (CPtr ''struct ucounts''),
        Field ''reboot'' (CInt Signed 4),
        Field ''ns'' struct_ns_common,
        Field ''memfd_noexec_scope'' (CInt Signed 4)]"

lemma struct_pid_namespace_lay [simp]: "c_lay struct_pid_namespace = (144, 8)"
  by (simp add: struct_pid_namespace_def lay_defs)

definition struct_new_utsname :: ctype where
  "struct_new_utsname =
     CStruct
       [Field ''sysname'' (CArr (CInt Signed 1) 65),
        Field ''nodename'' (CArr (CInt Signed 1) 65),
        Field ''release'' (CArr (CInt Signed 1) 65),
        Field ''version'' (CArr (CInt Signed 1) 65),
        Field ''machine'' (CArr (CInt Signed 1) 65),
        Field ''domainname'' (CArr (CInt Signed 1) 65)]"

lemma struct_new_utsname_lay [simp]: "c_lay struct_new_utsname = (390, 1)"
  by (simp add: struct_new_utsname_def lay_defs)

definition struct_uts_namespace :: ctype where
  "struct_uts_namespace =
     CStruct
       [Field ''name'' struct_new_utsname,
        Field ''user_ns'' (CPtr ''struct user_namespace''),
        Field ''ucounts'' (CPtr ''struct ucounts''),
        Field ''ns'' struct_ns_common]"

lemma struct_uts_namespace_lay [simp]: "c_lay struct_uts_namespace = (432, 8)"
  by (simp add: struct_uts_namespace_def lay_defs)

definition rht_hashfn_t :: ctype where
  "rht_hashfn_t =
     CFnPtr"

lemma rht_hashfn_t_lay [simp]: "c_lay rht_hashfn_t = (8, 8)"
  by (simp add: rht_hashfn_t_def lay_defs)

definition rht_obj_hashfn_t :: ctype where
  "rht_obj_hashfn_t =
     CFnPtr"

lemma rht_obj_hashfn_t_lay [simp]: "c_lay rht_obj_hashfn_t = (8, 8)"
  by (simp add: rht_obj_hashfn_t_def lay_defs)

definition rht_obj_cmpfn_t :: ctype where
  "rht_obj_cmpfn_t =
     CFnPtr"

lemma rht_obj_cmpfn_t_lay [simp]: "c_lay rht_obj_cmpfn_t = (8, 8)"
  by (simp add: rht_obj_cmpfn_t_def lay_defs)

definition struct_rhashtable_params :: ctype where
  "struct_rhashtable_params =
     CStruct
       [Field ''nelem_hint'' t_u16,
        Field ''key_len'' t_u16,
        Field ''key_offset'' t_u16,
        Field ''head_offset'' t_u16,
        Field ''max_size'' (CInt Unsigned 4),
        Field ''min_size'' t_u16,
        Field ''automatic_shrinking'' t_bool,
        Field ''hashfn'' rht_hashfn_t,
        Field ''obj_hashfn'' rht_obj_hashfn_t,
        Field ''obj_cmpfn'' rht_obj_cmpfn_t]"

lemma struct_rhashtable_params_lay [simp]: "c_lay struct_rhashtable_params = (40, 8)"
  by (simp add: struct_rhashtable_params_def lay_defs)

definition struct_rhashtable :: ctype where
  "struct_rhashtable =
     CStruct
       [Field ''tbl'' (CPtr ''struct bucket_table''),
        Field ''key_len'' (CInt Unsigned 4),
        Field ''max_elems'' (CInt Unsigned 4),
        Field ''p'' struct_rhashtable_params,
        Field ''rhlist'' t_bool,
        Field ''run_work'' struct_work_struct,
        Field ''mutex'' struct_mutex,
        Field ''lock'' spinlock_t,
        Field ''nelems'' atomic_t]"

lemma struct_rhashtable_lay [simp]: "c_lay struct_rhashtable = (136, 8)"
  by (simp add: struct_rhashtable_def lay_defs)

definition struct_ipc_ids :: ctype where
  "struct_ipc_ids =
     CStruct
       [Field ''in_use'' (CInt Signed 4),
        Field ''seq'' (CInt Unsigned 2),
        Field ''rwsem'' struct_rw_semaphore,
        Field ''ipcs_idr'' struct_idr,
        Field ''max_idx'' (CInt Signed 4),
        Field ''last_idx'' (CInt Signed 4),
        Field ''next_id'' (CInt Signed 4),
        Field ''key_ht'' struct_rhashtable]"

lemma struct_ipc_ids_lay [simp]: "c_lay struct_ipc_ids = (224, 8)"
  by (simp add: struct_ipc_ids_def lay_defs)

definition notifier_fn_t :: ctype where
  "notifier_fn_t =
     CFnPtr"

lemma notifier_fn_t_lay [simp]: "c_lay notifier_fn_t = (8, 8)"
  by (simp add: notifier_fn_t_def lay_defs)

definition struct_notifier_block :: ctype where
  "struct_notifier_block =
     CStruct
       [Field ''notifier_call'' notifier_fn_t,
        Field ''next'' (CPtr ''struct notifier_block''),
        Field ''priority'' (CInt Signed 4)]"

lemma struct_notifier_block_lay [simp]: "c_lay struct_notifier_block = (24, 8)"
  by (simp add: struct_notifier_block_def lay_defs)

definition struct_ipc_namespace :: ctype where
  "struct_ipc_namespace =
     CStruct
       [Field ''ids'' (CArr (struct_ipc_ids) 3),
        Field ''sem_ctls'' (CArr (CInt Signed 4) 4),
        Field ''used_sems'' (CInt Signed 4),
        Field ''msg_ctlmax'' (CInt Unsigned 4),
        Field ''msg_ctlmnb'' (CInt Unsigned 4),
        Field ''msg_ctlmni'' (CInt Unsigned 4),
        Field ''percpu_msg_bytes'' struct_percpu_counter,
        Field ''percpu_msg_hdrs'' struct_percpu_counter,
        Field ''shm_ctlmax'' size_t,
        Field ''shm_ctlall'' size_t,
        Field ''shm_tot'' (CInt Unsigned 8),
        Field ''shm_ctlmni'' (CInt Signed 4),
        Field ''shm_rmid_forced'' (CInt Signed 4),
        Field ''ipcns_nb'' struct_notifier_block,
        Field ''mq_mnt'' (CPtr ''struct vfsmount''),
        Field ''mq_queues_count'' (CInt Unsigned 4),
        Field ''mq_queues_max'' (CInt Unsigned 4),
        Field ''mq_msg_max'' (CInt Unsigned 4),
        Field ''mq_msgsize_max'' (CInt Unsigned 4),
        Field ''mq_msg_default'' (CInt Unsigned 4),
        Field ''mq_msgsize_default'' (CInt Unsigned 4),
        Field ''mq_set'' struct_ctl_table_set,
        Field ''mq_sysctls'' (CPtr ''struct ctl_table_header''),
        Field ''ipc_set'' struct_ctl_table_set,
        Field ''ipc_sysctls'' (CPtr ''struct ctl_table_header''),
        Field ''user_ns'' (CPtr ''struct user_namespace''),
        Field ''ucounts'' (CPtr ''struct ucounts''),
        Field ''mnt_llist'' struct_llist_node,
        Field ''ns'' struct_ns_common]"

lemma struct_ipc_namespace_lay [simp]: "c_lay struct_ipc_namespace = (1144, 8)"
  by (simp add: struct_ipc_namespace_def lay_defs)

definition struct_cgroup_namespace :: ctype where
  "struct_cgroup_namespace =
     CStruct
       [Field ''ns'' struct_ns_common,
        Field ''user_ns'' (CPtr ''struct user_namespace''),
        Field ''ucounts'' (CPtr ''struct ucounts''),
        Field ''root_cset'' (CPtr ''struct css_set'')]"

lemma struct_cgroup_namespace_lay [simp]: "c_lay struct_cgroup_namespace = (48, 8)"
  by (simp add: struct_cgroup_namespace_def lay_defs)

definition struct_mnt_namespace :: ctype where
  "struct_mnt_namespace =
     CStruct
       [Field ''ns'' struct_ns_common,
        Field ''root'' (CPtr ''struct mount''),
        Field ''mounts'' struct_rb_root,
        Field ''user_ns'' (CPtr ''struct user_namespace''),
        Field ''ucounts'' (CPtr ''struct ucounts''),
        Field ''seq'' t_u64,
        Field ''poll'' wait_queue_head_t,
        Field ''event'' t_u64,
        Field ''nr_mounts'' (CInt Unsigned 4),
        Field ''pending_mounts'' (CInt Unsigned 4),
        Field ''mnt_ns_tree_node'' struct_rb_node,
        Field ''passive'' refcount_t]"

lemma struct_mnt_namespace_lay [simp]: "c_lay struct_mnt_namespace = (136, 8)"
  by (simp add: struct_mnt_namespace_def lay_defs)

definition struct_timespec64 :: ctype where
  "struct_timespec64 =
     CStruct
       [Field ''tv_sec'' time64_t,
        Field ''tv_nsec'' (CInt Signed 8)]"

lemma struct_timespec64_lay [simp]: "c_lay struct_timespec64 = (16, 8)"
  by (simp add: struct_timespec64_def lay_defs)

definition struct_timens_offsets :: ctype where
  "struct_timens_offsets =
     CStruct
       [Field ''monotonic'' struct_timespec64,
        Field ''boottime'' struct_timespec64]"

lemma struct_timens_offsets_lay [simp]: "c_lay struct_timens_offsets = (32, 8)"
  by (simp add: struct_timens_offsets_def lay_defs)

definition struct_time_namespace :: ctype where
  "struct_time_namespace =
     CStruct
       [Field ''user_ns'' (CPtr ''struct user_namespace''),
        Field ''ucounts'' (CPtr ''struct ucounts''),
        Field ''ns'' struct_ns_common,
        Field ''offsets'' struct_timens_offsets,
        Field ''vvar_page'' (CPtr ''struct page''),
        Field ''frozen_offsets'' t_bool]"

lemma struct_time_namespace_lay [simp]: "c_lay struct_time_namespace = (88, 8)"
  by (simp add: struct_time_namespace_def lay_defs)

end
