(* ===== verification/Vm_Sched.thy ===== *)
theory Vm_Sched
  imports Vm_Ns
begin

text \<open>
  The scheduler objects the process limit guards: task groups, run queues and scheduling
  classes.
  Each is the declaration of \<^verbatim>\<open>ebpf/src/vmlinux.h\<close> as a value of type \<open>ctype\<close>, with its
  size and alignment.
\<close>

definition struct_cfs_bandwidth :: ctype where
  "struct_cfs_bandwidth =
     CStruct
       [Field ''lock'' raw_spinlock_t,
        Field ''period'' ktime_t,
        Field ''quota'' t_u64,
        Field ''runtime'' t_u64,
        Field ''burst'' t_u64,
        Field ''runtime_snap'' t_u64,
        Field ''hierarchical_quota'' t_s64,
        Field ''idle'' t_u8,
        Field ''period_active'' t_u8,
        Field ''slack_started'' t_u8,
        Field ''period_timer'' struct_hrtimer,
        Field ''slack_timer'' struct_hrtimer,
        Field ''throttled_cfs_rq'' struct_list_head,
        Field ''nr_periods'' (CInt Signed 4),
        Field ''nr_throttled'' (CInt Signed 4),
        Field ''nr_burst'' (CInt Signed 4),
        Field ''throttled_time'' t_u64,
        Field ''burst_time'' t_u64]"

lemma struct_cfs_bandwidth_lay [simp]: "c_lay struct_cfs_bandwidth = (240, 8)"
  by (simp add: struct_cfs_bandwidth_def lay_defs)

definition struct_task_group :: ctype where
  "struct_task_group =
     CStruct
       [Field ''css'' struct_cgroup_subsys_state,
        Field ''idle'' (CInt Signed 4),
        Field ''se'' (CPtr ''struct sched_entity *''),
        Field ''cfs_rq'' (CPtr ''struct cfs_rq *''),
        Field ''shares'' (CInt Unsigned 8),
        Bits '''' (CInt Signed 8) 64,
        Bits '''' (CInt Signed 8) 64,
        Field ''load_avg'' atomic_long_t,
        Field ''rcu'' struct_callback_head,
        Field ''list'' struct_list_head,
        Field ''parent'' (CPtr ''struct task_group''),
        Field ''siblings'' struct_list_head,
        Field ''children'' struct_list_head,
        Field ''autogroup'' (CPtr ''struct autogroup''),
        Field ''cfs_bandwidth'' struct_cfs_bandwidth,
        Bits '''' (CInt Signed 8) 64,
        Bits '''' (CInt Signed 8) 64,
        Bits '''' (CInt Signed 8) 64,
        Bits '''' (CInt Signed 8) 64,
        Bits '''' (CInt Signed 8) 64,
        Bits '''' (CInt Signed 8) 64,
        Bits '''' (CInt Signed 8) 64]"

lemma struct_task_group_lay [simp]: "c_lay struct_task_group = (640, 8)"
  by (simp add: struct_task_group_def lay_defs)

definition struct_cfs_rq :: ctype where
  "struct_cfs_rq =
     CStruct
       [Field ''load'' struct_load_weight,
        Field ''nr_running'' (CInt Unsigned 4),
        Field ''h_nr_queued'' (CInt Unsigned 4),
        Field ''h_nr_runnable'' (CInt Unsigned 4),
        Field ''idle_nr_running'' (CInt Unsigned 4),
        Field ''idle_h_nr_running'' (CInt Unsigned 4),
        Field ''h_nr_delayed'' (CInt Unsigned 4),
        Field ''avg_vruntime'' t_s64,
        Field ''avg_load'' t_u64,
        Field ''zero_vruntime'' t_u64,
        Field ''tasks_timeline'' struct_rb_root_cached,
        Field ''curr'' (CPtr ''struct sched_entity''),
        Field ''next'' (CPtr ''struct sched_entity''),
        Bits '''' (CInt Signed 8) 64,
        Bits '''' (CInt Signed 8) 64,
        Bits '''' (CInt Signed 8) 64,
        Bits '''' (CInt Signed 8) 64,
        Field ''avg'' struct_sched_avg,
        Field ''removed'' (CStruct
         [Field ''lock'' raw_spinlock_t,
          Field ''nr'' (CInt Signed 4),
          Field ''load_avg'' (CInt Unsigned 8),
          Field ''util_avg'' (CInt Unsigned 8),
          Field ''runnable_avg'' (CInt Unsigned 8),
          Bits '''' (CInt Signed 8) 64,
          Bits '''' (CInt Signed 8) 64,
          Bits '''' (CInt Signed 8) 64,
          Bits '''' (CInt Signed 8) 64]),
        Field ''last_update_tg_load_avg'' t_u64,
        Field ''tg_load_avg_contrib'' (CInt Unsigned 8),
        Field ''propagate'' (CInt Signed 8),
        Field ''prop_runnable_sum'' (CInt Signed 8),
        Field ''h_load'' (CInt Unsigned 8),
        Field ''last_h_load_update'' t_u64,
        Field ''h_load_next'' (CPtr ''struct sched_entity''),
        Field ''rq'' (CPtr ''struct rq''),
        Field ''on_list'' (CInt Signed 4),
        Field ''leaf_cfs_rq_list'' struct_list_head,
        Field ''tg'' (CPtr ''struct task_group''),
        Field ''idle'' (CInt Signed 4),
        Field ''runtime_enabled'' (CInt Signed 4),
        Field ''runtime_remaining'' t_s64,
        Field ''throttled_pelt_idle'' t_u64,
        Field ''throttled_clock'' t_u64,
        Field ''throttled_clock_pelt'' t_u64,
        Field ''throttled_clock_pelt_time'' t_u64,
        Field ''throttled_clock_self'' t_u64,
        Field ''throttled_clock_self_time'' t_u64,
        Field ''throttled'' (CInt Signed 4),
        Field ''throttle_count'' (CInt Signed 4),
        Field ''throttled_list'' struct_list_head,
        Field ''throttled_csd_list'' struct_list_head,
        Bits '''' (CInt Signed 8) 64,
        Bits '''' (CInt Signed 8) 64,
        Bits '''' (CInt Signed 8) 64,
        Bits '''' (CInt Signed 8) 64,
        Bits '''' (CInt Signed 8) 64,
        Bits '''' (CInt Signed 8) 64,
        Bits '''' (CInt Signed 8) 64]"

lemma struct_cfs_rq_lay [simp]: "c_lay struct_cfs_rq = (512, 8)"
  by (simp add: struct_cfs_rq_def lay_defs)

definition struct_rt_prio_array :: ctype where
  "struct_rt_prio_array =
     CStruct
       [Field ''bitmap'' (CArr (CInt Unsigned 8) 2),
        Field ''queue'' (CArr (struct_list_head) 100)]"

lemma struct_rt_prio_array_lay [simp]: "c_lay struct_rt_prio_array = (1616, 8)"
  by (simp add: struct_rt_prio_array_def lay_defs)

definition struct_plist_head :: ctype where
  "struct_plist_head =
     CStruct
       [Field ''node_list'' struct_list_head]"

lemma struct_plist_head_lay [simp]: "c_lay struct_plist_head = (16, 8)"
  by (simp add: struct_plist_head_def lay_defs)

definition struct_rt_rq :: ctype where
  "struct_rt_rq =
     CStruct
       [Field ''active'' struct_rt_prio_array,
        Field ''rt_nr_running'' (CInt Unsigned 4),
        Field ''rr_nr_running'' (CInt Unsigned 4),
        Field ''highest_prio'' (CStruct
         [Field ''curr'' (CInt Signed 4),
          Field ''next'' (CInt Signed 4)]),
        Field ''overloaded'' t_bool,
        Field ''pushable_tasks'' struct_plist_head,
        Field ''rt_queued'' (CInt Signed 4)]"

lemma struct_rt_rq_lay [simp]: "c_lay struct_rt_rq = (1664, 8)"
  by (simp add: struct_rt_rq_def lay_defs)

definition smp_call_func_t :: ctype where
  "smp_call_func_t =
     CFnPtr"

lemma smp_call_func_t_lay [simp]: "c_lay smp_call_func_t = (8, 8)"
  by (simp add: smp_call_func_t_def lay_defs)

definition struct___call_single_data :: ctype where
  "struct___call_single_data =
     CStruct
       [Field ''node'' struct___call_single_node,
        Field ''func'' smp_call_func_t,
        Field ''info'' (CPtr ''void'')]"

lemma struct___call_single_data_lay [simp]: "c_lay struct___call_single_data = (32, 8)"
  by (simp add: struct___call_single_data_def lay_defs)

definition call_single_data_t :: ctype where
  "call_single_data_t =
     struct___call_single_data"

lemma call_single_data_t_lay [simp]: "c_lay call_single_data_t = (32, 8)"
  by (simp add: call_single_data_t_def lay_defs)

definition struct_dl_rq :: ctype where
  "struct_dl_rq =
     CStruct
       [Field ''root'' struct_rb_root_cached,
        Field ''dl_nr_running'' (CInt Unsigned 4),
        Field ''earliest_dl'' (CStruct
         [Field ''curr'' t_u64,
          Field ''next'' t_u64]),
        Field ''overloaded'' t_bool,
        Field ''pushable_dl_tasks_root'' struct_rb_root_cached,
        Field ''running_bw'' t_u64,
        Field ''this_bw'' t_u64,
        Field ''extra_bw'' t_u64,
        Field ''max_bw'' t_u64,
        Field ''bw_ratio'' t_u64]"

lemma struct_dl_rq_lay [simp]: "c_lay struct_dl_rq = (104, 8)"
  by (simp add: struct_dl_rq_def lay_defs)

definition cpu_stop_fn_t :: ctype where
  "cpu_stop_fn_t =
     CFnPtr"

lemma cpu_stop_fn_t_lay [simp]: "c_lay cpu_stop_fn_t = (8, 8)"
  by (simp add: cpu_stop_fn_t_def lay_defs)

definition struct_cpu_stop_work :: ctype where
  "struct_cpu_stop_work =
     CStruct
       [Field ''list'' struct_list_head,
        Field ''fn'' cpu_stop_fn_t,
        Field ''caller'' (CInt Unsigned 8),
        Field ''arg'' (CPtr ''void''),
        Field ''done'' (CPtr ''struct cpu_stop_done'')]"

lemma struct_cpu_stop_work_lay [simp]: "c_lay struct_cpu_stop_work = (48, 8)"
  by (simp add: struct_cpu_stop_work_def lay_defs)

definition cpumask_var_t :: ctype where
  "cpumask_var_t =
     CPtr ''struct cpumask''"

lemma cpumask_var_t_lay [simp]: "c_lay cpumask_var_t = (8, 8)"
  by (simp add: cpumask_var_t_def lay_defs)

definition struct_rq :: ctype where
  "struct_rq =
     CStruct
       [Field ''__lock'' raw_spinlock_t,
        Field ''nr_running'' (CInt Unsigned 4),
        Field ''nr_numa_running'' (CInt Unsigned 4),
        Field ''nr_preferred_running'' (CInt Unsigned 4),
        Field ''numa_migrate_on'' (CInt Unsigned 4),
        Field ''last_blocked_load_update_tick'' (CInt Unsigned 8),
        Field ''has_blocked_load'' (CInt Unsigned 4),
        Bits '''' (CInt Signed 8) 64,
        Bits '''' (CInt Signed 8) 64,
        Bits '''' (CInt Signed 8) 64,
        Field ''nohz_csd'' call_single_data_t,
        Field ''nohz_tick_stopped'' (CInt Unsigned 4),
        Field ''nohz_flags'' atomic_t,
        Field ''ttwu_pending'' (CInt Unsigned 4),
        Field ''nr_switches'' t_u64,
        Bits '''' (CInt Signed 8) 64,
        Field ''cfs'' struct_cfs_rq,
        Field ''rt'' struct_rt_rq,
        Field ''dl'' struct_dl_rq,
        Field ''fair_server'' struct_sched_dl_entity,
        Field ''leaf_cfs_rq_list'' struct_list_head,
        Field ''tmp_alone_branch'' (CPtr ''struct list_head''),
        Field ''nr_uninterruptible'' (CInt Unsigned 8),
        Field ''curr'' (CPtr ''struct task_struct''),
        Field ''dl_server'' (CPtr ''struct sched_dl_entity''),
        Field ''idle'' (CPtr ''struct task_struct''),
        Field ''stop'' (CPtr ''struct task_struct''),
        Field ''next_balance'' (CInt Unsigned 8),
        Field ''prev_mm'' (CPtr ''struct mm_struct''),
        Field ''clock_update_flags'' (CInt Unsigned 4),
        Field ''clock'' t_u64,
        Bits '''' (CInt Signed 8) 64,
        Field ''clock_task'' t_u64,
        Field ''clock_pelt'' t_u64,
        Field ''lost_idle_time'' (CInt Unsigned 8),
        Field ''clock_pelt_idle'' t_u64,
        Field ''clock_idle'' t_u64,
        Field ''nr_iowait'' atomic_t,
        Field ''last_seen_need_resched_ns'' t_u64,
        Field ''ticks_without_resched'' (CInt Signed 4),
        Field ''membarrier_state'' (CInt Signed 4),
        Field ''rd'' (CPtr ''struct root_domain''),
        Field ''sd'' (CPtr ''struct sched_domain''),
        Field ''cpu_capacity'' (CInt Unsigned 8),
        Field ''balance_callback'' (CPtr ''struct balance_callback''),
        Field ''nohz_idle_balance'' (CInt Unsigned 1),
        Field ''idle_balance'' (CInt Unsigned 1),
        Field ''misfit_task_load'' (CInt Unsigned 8),
        Field ''active_balance'' (CInt Signed 4),
        Field ''push_cpu'' (CInt Signed 4),
        Field ''active_balance_work'' struct_cpu_stop_work,
        Field ''cpu'' (CInt Signed 4),
        Field ''online'' (CInt Signed 4),
        Field ''cfs_tasks'' struct_list_head,
        Field ''avg_rt'' struct_sched_avg,
        Field ''avg_dl'' struct_sched_avg,
        Field ''idle_stamp'' t_u64,
        Field ''avg_idle'' t_u64,
        Field ''max_idle_balance_cost'' t_u64,
        Field ''hotplug_wait'' struct_rcuwait,
        Field ''prev_steal_time'' t_u64,
        Field ''calc_load_update'' (CInt Unsigned 8),
        Field ''calc_load_active'' (CInt Signed 8),
        Bits '''' (CInt Signed 8) 64,
        Field ''hrtick_csd'' call_single_data_t,
        Field ''hrtick_timer'' struct_hrtimer,
        Field ''hrtick_time'' ktime_t,
        Field ''rq_sched_info'' struct_sched_info,
        Field ''rq_cpu_time'' (CInt Unsigned 8),
        Field ''yld_count'' (CInt Unsigned 4),
        Field ''sched_count'' (CInt Unsigned 4),
        Field ''sched_goidle'' (CInt Unsigned 4),
        Field ''ttwu_count'' (CInt Unsigned 4),
        Field ''ttwu_local'' (CInt Unsigned 4),
        Field ''idle_state'' (CPtr ''struct cpuidle_state''),
        Field ''nr_pinned'' (CInt Unsigned 4),
        Field ''push_busy'' (CInt Unsigned 4),
        Field ''push_work'' struct_cpu_stop_work,
        Field ''scratch_mask'' cpumask_var_t,
        Bits '''' (CInt Signed 8) 64,
        Bits '''' (CInt Signed 8) 64,
        Field ''cfsb_csd'' call_single_data_t,
        Field ''cfsb_csd_list'' struct_list_head,
        Bits '''' (CInt Signed 8) 64,
        Bits '''' (CInt Signed 8) 64]"

lemma struct_rq_lay [simp]: "c_lay struct_rq = (3456, 8)"
  by (simp add: struct_rq_def lay_defs)

definition struct_sched_class :: ctype where
  "struct_sched_class =
     CStruct
       [Field ''enqueue_task'' CFnPtr,
        Field ''dequeue_task'' CFnPtr,
        Field ''yield_task'' CFnPtr,
        Field ''yield_to_task'' CFnPtr,
        Field ''wakeup_preempt'' CFnPtr,
        Field ''balance'' CFnPtr,
        Field ''pick_task'' CFnPtr,
        Field ''pick_next_task'' CFnPtr,
        Field ''put_prev_task'' CFnPtr,
        Field ''set_next_task'' CFnPtr,
        Field ''select_task_rq'' CFnPtr,
        Field ''migrate_task_rq'' CFnPtr,
        Field ''task_woken'' CFnPtr,
        Field ''set_cpus_allowed'' CFnPtr,
        Field ''rq_online'' CFnPtr,
        Field ''rq_offline'' CFnPtr,
        Field ''find_lock_rq'' CFnPtr,
        Field ''task_tick'' CFnPtr,
        Field ''task_fork'' CFnPtr,
        Field ''task_dead'' CFnPtr,
        Field ''switching_to'' CFnPtr,
        Field ''switched_from'' CFnPtr,
        Field ''switched_to'' CFnPtr,
        Field ''reweight_task'' CFnPtr,
        Field ''prio_changed'' CFnPtr,
        Field ''get_rr_interval'' CFnPtr,
        Field ''update_curr'' CFnPtr,
        Field ''task_change_group'' CFnPtr]"

lemma struct_sched_class_lay [simp]: "c_lay struct_sched_class = (224, 8)"
  by (simp add: struct_sched_class_def lay_defs)

end
