(* ===== verification/Vm_Bpf.thy ===== *)
theory Vm_Bpf
  imports Vm_Sched
begin

text \<open>
  The kernel side of the BPF object: maps, hash tables, ring buffers, programs, trampolines and
  links, the argument of the \<^verbatim>\<open>bpf\<close> system call and the numbers of
  helpers, map types and attach points.
  Each is the declaration of \<^verbatim>\<open>ebpf/src/vmlinux.h\<close> as a value of type \<open>ctype\<close>, with its
  size and alignment.
\<close>

definition enum_bpf_map_type :: ctype where
  "enum_bpf_map_type =
     CEnum
       [(''BPF_MAP_TYPE_UNSPEC'', 0),
        (''BPF_MAP_TYPE_HASH'', 1),
        (''BPF_MAP_TYPE_ARRAY'', 2),
        (''BPF_MAP_TYPE_PROG_ARRAY'', 3),
        (''BPF_MAP_TYPE_PERF_EVENT_ARRAY'', 4),
        (''BPF_MAP_TYPE_PERCPU_HASH'', 5),
        (''BPF_MAP_TYPE_PERCPU_ARRAY'', 6),
        (''BPF_MAP_TYPE_STACK_TRACE'', 7),
        (''BPF_MAP_TYPE_CGROUP_ARRAY'', 8),
        (''BPF_MAP_TYPE_LRU_HASH'', 9),
        (''BPF_MAP_TYPE_LRU_PERCPU_HASH'', 10),
        (''BPF_MAP_TYPE_LPM_TRIE'', 11),
        (''BPF_MAP_TYPE_ARRAY_OF_MAPS'', 12),
        (''BPF_MAP_TYPE_HASH_OF_MAPS'', 13),
        (''BPF_MAP_TYPE_DEVMAP'', 14),
        (''BPF_MAP_TYPE_SOCKMAP'', 15),
        (''BPF_MAP_TYPE_CPUMAP'', 16),
        (''BPF_MAP_TYPE_XSKMAP'', 17),
        (''BPF_MAP_TYPE_SOCKHASH'', 18),
        (''BPF_MAP_TYPE_CGROUP_STORAGE_DEPRECATED'', 19),
        (''BPF_MAP_TYPE_CGROUP_STORAGE'', 19),
        (''BPF_MAP_TYPE_REUSEPORT_SOCKARRAY'', 20),
        (''BPF_MAP_TYPE_PERCPU_CGROUP_STORAGE_DEPRECATED'', 21),
        (''BPF_MAP_TYPE_PERCPU_CGROUP_STORAGE'', 21),
        (''BPF_MAP_TYPE_QUEUE'', 22),
        (''BPF_MAP_TYPE_STACK'', 23),
        (''BPF_MAP_TYPE_SK_STORAGE'', 24),
        (''BPF_MAP_TYPE_DEVMAP_HASH'', 25),
        (''BPF_MAP_TYPE_STRUCT_OPS'', 26),
        (''BPF_MAP_TYPE_RINGBUF'', 27),
        (''BPF_MAP_TYPE_INODE_STORAGE'', 28),
        (''BPF_MAP_TYPE_TASK_STORAGE'', 29),
        (''BPF_MAP_TYPE_BLOOM_FILTER'', 30),
        (''BPF_MAP_TYPE_USER_RINGBUF'', 31),
        (''BPF_MAP_TYPE_CGRP_STORAGE'', 32),
        (''BPF_MAP_TYPE_ARENA'', 33),
        (''__MAX_BPF_MAP_TYPE'', 34)]"

lemma enum_bpf_map_type_lay [simp]: "c_lay enum_bpf_map_type = (4, 4)"
  by (simp add: enum_bpf_map_type_def lay_defs)

definition struct_bpf_map :: ctype where
  "struct_bpf_map =
     CStruct
       [Field ''ops'' (CPtr ''struct bpf_map_ops''),
        Field ''inner_map_meta'' (CPtr ''struct bpf_map''),
        Field ''security'' (CPtr ''void''),
        Field ''map_type'' enum_bpf_map_type,
        Field ''key_size'' t_u32,
        Field ''value_size'' t_u32,
        Field ''max_entries'' t_u32,
        Field ''map_extra'' t_u64,
        Field ''map_flags'' t_u32,
        Field ''id'' t_u32,
        Field ''record'' (CPtr ''struct btf_record''),
        Field ''numa_node'' (CInt Signed 4),
        Field ''btf_key_type_id'' t_u32,
        Field ''btf_value_type_id'' t_u32,
        Field ''btf_vmlinux_value_type_id'' t_u32,
        Field ''btf'' (CPtr ''struct btf''),
        Field ''objcg'' (CPtr ''struct obj_cgroup''),
        Field ''name'' (CArr (CInt Signed 1) 16),
        Field ''freeze_mutex'' struct_mutex,
        Field ''refcnt'' atomic64_t,
        Field ''usercnt'' atomic64_t,
        Field '''' (CUnion
         [Field ''work'' struct_work_struct,
          Field ''rcu'' struct_callback_head]),
        Field ''writecnt'' atomic64_t,
        Field ''owner_lock'' spinlock_t,
        Field ''owner'' (CPtr ''struct bpf_map_owner''),
        Field ''bypass_spec_v1'' t_bool,
        Field ''frozen'' t_bool,
        Field ''free_after_mult_rcu_gp'' t_bool,
        Field ''free_after_rcu_gp'' t_bool,
        Field ''sleepable_refcnt'' atomic64_t,
        Field ''elem_count'' (CPtr ''s64''),
        Field ''cookie'' t_u64]"

lemma struct_bpf_map_lay [simp]: "c_lay struct_bpf_map = (248, 8)"
  by (simp add: struct_bpf_map_def lay_defs)

definition struct_bpf_map_ops :: ctype where
  "struct_bpf_map_ops =
     CStruct
       [Field ''map_alloc_check'' CFnPtr,
        Field ''map_alloc'' CFnPtr,
        Field ''map_release'' CFnPtr,
        Field ''map_free'' CFnPtr,
        Field ''map_get_next_key'' CFnPtr,
        Field ''map_release_uref'' CFnPtr,
        Field ''map_lookup_elem_sys_only'' CFnPtr,
        Field ''map_lookup_batch'' CFnPtr,
        Field ''map_lookup_and_delete_elem'' CFnPtr,
        Field ''map_lookup_and_delete_batch'' CFnPtr,
        Field ''map_update_batch'' CFnPtr,
        Field ''map_delete_batch'' CFnPtr,
        Field ''map_lookup_elem'' CFnPtr,
        Field ''map_update_elem'' CFnPtr,
        Field ''map_delete_elem'' CFnPtr,
        Field ''map_push_elem'' CFnPtr,
        Field ''map_pop_elem'' CFnPtr,
        Field ''map_peek_elem'' CFnPtr,
        Field ''map_lookup_percpu_elem'' CFnPtr,
        Field ''map_fd_get_ptr'' CFnPtr,
        Field ''map_fd_put_ptr'' CFnPtr,
        Field ''map_gen_lookup'' CFnPtr,
        Field ''map_fd_sys_lookup_elem'' CFnPtr,
        Field ''map_seq_show_elem'' CFnPtr,
        Field ''map_check_btf'' CFnPtr,
        Field ''map_poke_track'' CFnPtr,
        Field ''map_poke_untrack'' CFnPtr,
        Field ''map_poke_run'' CFnPtr,
        Field ''map_direct_value_addr'' CFnPtr,
        Field ''map_direct_value_meta'' CFnPtr,
        Field ''map_mmap'' CFnPtr,
        Field ''map_poll'' CFnPtr,
        Field ''map_get_unmapped_area'' CFnPtr,
        Field ''map_local_storage_charge'' CFnPtr,
        Field ''map_local_storage_uncharge'' CFnPtr,
        Field ''map_owner_storage_ptr'' CFnPtr,
        Field ''map_redirect'' CFnPtr,
        Field ''map_meta_equal'' CFnPtr,
        Field ''map_set_for_each_callback_args'' CFnPtr,
        Field ''map_for_each_callback'' CFnPtr,
        Field ''map_mem_usage'' CFnPtr,
        Field ''map_btf_id'' (CPtr ''int''),
        Field ''iter_seq_info'' (CPtr ''struct bpf_iter_seq_info'')]"

lemma struct_bpf_map_ops_lay [simp]: "c_lay struct_bpf_map_ops = (344, 8)"
  by (simp add: struct_bpf_map_ops_def lay_defs)

definition struct_bpf_mem_alloc :: ctype where
  "struct_bpf_mem_alloc =
     CStruct
       [Field ''caches'' (CPtr ''struct bpf_mem_caches''),
        Field ''cache'' (CPtr ''struct bpf_mem_cache''),
        Field ''objcg'' (CPtr ''struct obj_cgroup''),
        Field ''percpu'' t_bool,
        Field ''work'' struct_work_struct]"

lemma struct_bpf_mem_alloc_lay [simp]: "c_lay struct_bpf_mem_alloc = (64, 8)"
  by (simp add: struct_bpf_mem_alloc_def lay_defs)

definition struct_pcpu_freelist_head :: ctype where
  "struct_pcpu_freelist_head =
     CStruct
       [Field ''first'' (CPtr ''struct pcpu_freelist_node''),
        Field ''lock'' raw_spinlock_t]"

lemma struct_pcpu_freelist_head_lay [simp]: "c_lay struct_pcpu_freelist_head = (16, 8)"
  by (simp add: struct_pcpu_freelist_head_def lay_defs)

definition struct_pcpu_freelist :: ctype where
  "struct_pcpu_freelist =
     CStruct
       [Field ''freelist'' (CPtr ''struct pcpu_freelist_head''),
        Field ''extralist'' struct_pcpu_freelist_head]"

lemma struct_pcpu_freelist_lay [simp]: "c_lay struct_pcpu_freelist = (24, 8)"
  by (simp add: struct_pcpu_freelist_def lay_defs)

definition struct_bpf_lru_list :: ctype where
  "struct_bpf_lru_list =
     CStruct
       [Field ''lists'' (CArr (struct_list_head) 3),
        Field ''counts'' (CArr (CInt Unsigned 4) 2),
        Field ''next_inactive_rotation'' (CPtr ''struct list_head''),
        Field ''lock'' raw_spinlock_t,
        Bits '''' (CInt Signed 8) 64,
        Bits '''' (CInt Signed 8) 64,
        Bits '''' (CInt Signed 8) 64,
        Bits '''' (CInt Signed 8) 64,
        Bits '''' (CInt Signed 8) 64,
        Bits '''' (CInt Signed 8) 64,
        Bits '''' (CInt Signed 8) 64]"

lemma struct_bpf_lru_list_lay [simp]: "c_lay struct_bpf_lru_list = (128, 8)"
  by (simp add: struct_bpf_lru_list_def lay_defs)

definition struct_bpf_common_lru :: ctype where
  "struct_bpf_common_lru =
     CStruct
       [Field ''lru_list'' struct_bpf_lru_list,
        Field ''local_list'' (CPtr ''struct bpf_lru_locallist''),
        Bits '''' (CInt Signed 8) 64,
        Bits '''' (CInt Signed 8) 64,
        Bits '''' (CInt Signed 8) 64,
        Bits '''' (CInt Signed 8) 64,
        Bits '''' (CInt Signed 8) 64,
        Bits '''' (CInt Signed 8) 64,
        Bits '''' (CInt Signed 8) 64]"

lemma struct_bpf_common_lru_lay [simp]: "c_lay struct_bpf_common_lru = (192, 8)"
  by (simp add: struct_bpf_common_lru_def lay_defs)

definition t_del_from_htab_func :: ctype where
  "t_del_from_htab_func =
     CFnPtr"

lemma t_del_from_htab_func_lay [simp]: "c_lay t_del_from_htab_func = (8, 8)"
  by (simp add: t_del_from_htab_func_def lay_defs)

definition struct_bpf_lru :: ctype where
  "struct_bpf_lru =
     CStruct
       [Field '''' (CUnion
         [Field ''common_lru'' struct_bpf_common_lru,
          Field ''percpu_lru'' (CPtr ''struct bpf_lru_list'')]),
        Field ''del_from_htab'' t_del_from_htab_func,
        Field ''del_arg'' (CPtr ''void''),
        Field ''hash_offset'' (CInt Unsigned 4),
        Field ''target_free'' (CInt Unsigned 4),
        Field ''nr_scans'' (CInt Unsigned 4),
        Field ''percpu'' t_bool,
        Bits '''' (CInt Signed 8) 64,
        Bits '''' (CInt Signed 8) 64,
        Bits '''' (CInt Signed 8) 64,
        Bits '''' (CInt Signed 8) 64]"

lemma struct_bpf_lru_lay [simp]: "c_lay struct_bpf_lru = (256, 8)"
  by (simp add: struct_bpf_lru_def lay_defs)

definition struct_lock_class_key :: ctype where
  "struct_lock_class_key =
     CStruct []"

lemma struct_lock_class_key_lay [simp]: "c_lay struct_lock_class_key = (0, 1)"
  by (simp add: struct_lock_class_key_def lay_defs)

definition struct_bpf_htab :: ctype where
  "struct_bpf_htab =
     CStruct
       [Field ''map'' struct_bpf_map,
        Field ''ma'' struct_bpf_mem_alloc,
        Field ''pcpu_ma'' struct_bpf_mem_alloc,
        Field ''buckets'' (CPtr ''struct bucket''),
        Field ''elems'' (CPtr ''void''),
        Bits '''' (CInt Signed 8) 64,
        Bits '''' (CInt Signed 8) 64,
        Bits '''' (CInt Signed 8) 64,
        Bits '''' (CInt Signed 8) 64,
        Bits '''' (CInt Signed 8) 64,
        Bits '''' (CInt Signed 8) 64,
        Bits '''' (CInt Signed 8) 64,
        Field '''' (CUnion
         [Field ''freelist'' struct_pcpu_freelist,
          Field ''lru'' struct_bpf_lru]),
        Field ''extra_elems'' (CPtr ''struct htab_elem *''),
        Field ''pcount'' struct_percpu_counter,
        Field ''count'' atomic_t,
        Field ''use_percpu_counter'' t_bool,
        Field ''n_buckets'' t_u32,
        Field ''elem_size'' t_u32,
        Field ''hashrnd'' t_u32,
        Field ''lockdep_key'' struct_lock_class_key,
        Field ''map_locked'' (CArr (CPtr ''int'') 8),
        Bits '''' (CInt Signed 8) 64,
        Bits '''' (CInt Signed 8) 64,
        Bits '''' (CInt Signed 8) 64,
        Bits '''' (CInt Signed 8) 64,
        Bits '''' (CInt Signed 8) 64,
        Bits '''' (CInt Signed 8) 64,
        Bits '''' (CInt Signed 8) 64]"

lemma struct_bpf_htab_lay [simp]: "c_lay struct_bpf_htab = (896, 8)"
  by (simp add: struct_bpf_htab_def lay_defs)

definition struct_hlist_nulls_node :: ctype where
  "struct_hlist_nulls_node =
     CStruct
       [Field ''next'' (CPtr ''struct hlist_nulls_node''),
        Field ''pprev'' (CPtr ''struct hlist_nulls_node *'')]"

lemma struct_hlist_nulls_node_lay [simp]: "c_lay struct_hlist_nulls_node = (16, 8)"
  by (simp add: struct_hlist_nulls_node_def lay_defs)

definition struct_pcpu_freelist_node :: ctype where
  "struct_pcpu_freelist_node =
     CStruct
       [Field ''next'' (CPtr ''struct pcpu_freelist_node'')]"

lemma struct_pcpu_freelist_node_lay [simp]: "c_lay struct_pcpu_freelist_node = (8, 8)"
  by (simp add: struct_pcpu_freelist_node_def lay_defs)

definition struct_bpf_lru_node :: ctype where
  "struct_bpf_lru_node =
     CStruct
       [Field ''list'' struct_list_head,
        Field ''cpu'' t_u16,
        Field ''type'' t_u8,
        Field ''ref'' t_u8]"

lemma struct_bpf_lru_node_lay [simp]: "c_lay struct_bpf_lru_node = (24, 8)"
  by (simp add: struct_bpf_lru_node_def lay_defs)

definition struct_htab_elem :: ctype where
  "struct_htab_elem =
     CStruct
       [Field '''' (CUnion
         [Field ''hash_node'' struct_hlist_nulls_node,
          Field '''' (CStruct
           [Field ''padding'' (CPtr ''void''),
            Field '''' (CUnion
             [Field ''fnode'' struct_pcpu_freelist_node,
              Field ''batch_flink'' (CPtr ''struct htab_elem'')])])]),
        Field '''' (CUnion
         [Field ''ptr_to_pptr'' (CPtr ''void''),
          Field ''lru_node'' struct_bpf_lru_node]),
        Field ''hash'' t_u32,
        Bits '''' (CInt Signed 8) 0,
        Field ''key'' (CArr (CInt Signed 1) 0)]"

lemma struct_htab_elem_lay [simp]: "c_lay struct_htab_elem = (48, 8)"
  by (simp add: struct_htab_elem_def lay_defs)

definition struct_bpf_ringbuf_map :: ctype where
  "struct_bpf_ringbuf_map =
     CStruct
       [Field ''map'' struct_bpf_map,
        Field ''rb'' (CPtr ''struct bpf_ringbuf'')]"

lemma struct_bpf_ringbuf_map_lay [simp]: "c_lay struct_bpf_ringbuf_map = (256, 8)"
  by (simp add: struct_bpf_ringbuf_map_def lay_defs)

definition enum_bpf_prog_type :: ctype where
  "enum_bpf_prog_type =
     CEnum
       [(''BPF_PROG_TYPE_UNSPEC'', 0),
        (''BPF_PROG_TYPE_SOCKET_FILTER'', 1),
        (''BPF_PROG_TYPE_KPROBE'', 2),
        (''BPF_PROG_TYPE_SCHED_CLS'', 3),
        (''BPF_PROG_TYPE_SCHED_ACT'', 4),
        (''BPF_PROG_TYPE_TRACEPOINT'', 5),
        (''BPF_PROG_TYPE_XDP'', 6),
        (''BPF_PROG_TYPE_PERF_EVENT'', 7),
        (''BPF_PROG_TYPE_CGROUP_SKB'', 8),
        (''BPF_PROG_TYPE_CGROUP_SOCK'', 9),
        (''BPF_PROG_TYPE_LWT_IN'', 10),
        (''BPF_PROG_TYPE_LWT_OUT'', 11),
        (''BPF_PROG_TYPE_LWT_XMIT'', 12),
        (''BPF_PROG_TYPE_SOCK_OPS'', 13),
        (''BPF_PROG_TYPE_SK_SKB'', 14),
        (''BPF_PROG_TYPE_CGROUP_DEVICE'', 15),
        (''BPF_PROG_TYPE_SK_MSG'', 16),
        (''BPF_PROG_TYPE_RAW_TRACEPOINT'', 17),
        (''BPF_PROG_TYPE_CGROUP_SOCK_ADDR'', 18),
        (''BPF_PROG_TYPE_LWT_SEG6LOCAL'', 19),
        (''BPF_PROG_TYPE_LIRC_MODE2'', 20),
        (''BPF_PROG_TYPE_SK_REUSEPORT'', 21),
        (''BPF_PROG_TYPE_FLOW_DISSECTOR'', 22),
        (''BPF_PROG_TYPE_CGROUP_SYSCTL'', 23),
        (''BPF_PROG_TYPE_RAW_TRACEPOINT_WRITABLE'', 24),
        (''BPF_PROG_TYPE_CGROUP_SOCKOPT'', 25),
        (''BPF_PROG_TYPE_TRACING'', 26),
        (''BPF_PROG_TYPE_STRUCT_OPS'', 27),
        (''BPF_PROG_TYPE_EXT'', 28),
        (''BPF_PROG_TYPE_LSM'', 29),
        (''BPF_PROG_TYPE_SK_LOOKUP'', 30),
        (''BPF_PROG_TYPE_SYSCALL'', 31),
        (''BPF_PROG_TYPE_NETFILTER'', 32),
        (''__MAX_BPF_PROG_TYPE'', 33)]"

lemma enum_bpf_prog_type_lay [simp]: "c_lay enum_bpf_prog_type = (4, 4)"
  by (simp add: enum_bpf_prog_type_def lay_defs)

definition enum_bpf_attach_type :: ctype where
  "enum_bpf_attach_type =
     CEnum
       [(''BPF_CGROUP_INET_INGRESS'', 0),
        (''BPF_CGROUP_INET_EGRESS'', 1),
        (''BPF_CGROUP_INET_SOCK_CREATE'', 2),
        (''BPF_CGROUP_SOCK_OPS'', 3),
        (''BPF_SK_SKB_STREAM_PARSER'', 4),
        (''BPF_SK_SKB_STREAM_VERDICT'', 5),
        (''BPF_CGROUP_DEVICE'', 6),
        (''BPF_SK_MSG_VERDICT'', 7),
        (''BPF_CGROUP_INET4_BIND'', 8),
        (''BPF_CGROUP_INET6_BIND'', 9),
        (''BPF_CGROUP_INET4_CONNECT'', 10),
        (''BPF_CGROUP_INET6_CONNECT'', 11),
        (''BPF_CGROUP_INET4_POST_BIND'', 12),
        (''BPF_CGROUP_INET6_POST_BIND'', 13),
        (''BPF_CGROUP_UDP4_SENDMSG'', 14),
        (''BPF_CGROUP_UDP6_SENDMSG'', 15),
        (''BPF_LIRC_MODE2'', 16),
        (''BPF_FLOW_DISSECTOR'', 17),
        (''BPF_CGROUP_SYSCTL'', 18),
        (''BPF_CGROUP_UDP4_RECVMSG'', 19),
        (''BPF_CGROUP_UDP6_RECVMSG'', 20),
        (''BPF_CGROUP_GETSOCKOPT'', 21),
        (''BPF_CGROUP_SETSOCKOPT'', 22),
        (''BPF_TRACE_RAW_TP'', 23),
        (''BPF_TRACE_FENTRY'', 24),
        (''BPF_TRACE_FEXIT'', 25),
        (''BPF_MODIFY_RETURN'', 26),
        (''BPF_LSM_MAC'', 27),
        (''BPF_TRACE_ITER'', 28),
        (''BPF_CGROUP_INET4_GETPEERNAME'', 29),
        (''BPF_CGROUP_INET6_GETPEERNAME'', 30),
        (''BPF_CGROUP_INET4_GETSOCKNAME'', 31),
        (''BPF_CGROUP_INET6_GETSOCKNAME'', 32),
        (''BPF_XDP_DEVMAP'', 33),
        (''BPF_CGROUP_INET_SOCK_RELEASE'', 34),
        (''BPF_XDP_CPUMAP'', 35),
        (''BPF_SK_LOOKUP'', 36),
        (''BPF_XDP'', 37),
        (''BPF_SK_SKB_VERDICT'', 38),
        (''BPF_SK_REUSEPORT_SELECT'', 39),
        (''BPF_SK_REUSEPORT_SELECT_OR_MIGRATE'', 40),
        (''BPF_PERF_EVENT'', 41),
        (''BPF_TRACE_KPROBE_MULTI'', 42),
        (''BPF_LSM_CGROUP'', 43),
        (''BPF_STRUCT_OPS'', 44),
        (''BPF_NETFILTER'', 45),
        (''BPF_TCX_INGRESS'', 46),
        (''BPF_TCX_EGRESS'', 47),
        (''BPF_TRACE_UPROBE_MULTI'', 48),
        (''BPF_CGROUP_UNIX_CONNECT'', 49),
        (''BPF_CGROUP_UNIX_SENDMSG'', 50),
        (''BPF_CGROUP_UNIX_RECVMSG'', 51),
        (''BPF_CGROUP_UNIX_GETPEERNAME'', 52),
        (''BPF_CGROUP_UNIX_GETSOCKNAME'', 53),
        (''BPF_NETKIT_PRIMARY'', 54),
        (''BPF_NETKIT_PEER'', 55),
        (''BPF_TRACE_KPROBE_SESSION'', 56),
        (''__MAX_BPF_ATTACH_TYPE'', 57)]"

lemma enum_bpf_attach_type_lay [simp]: "c_lay enum_bpf_attach_type = (4, 4)"
  by (simp add: enum_bpf_attach_type_def lay_defs)

definition struct_sock_filter :: ctype where
  "struct_sock_filter =
     CStruct
       [Field ''code'' t___u16,
        Field ''jt'' t___u8,
        Field ''jf'' t___u8,
        Field ''k'' t___u32]"

lemma struct_sock_filter_lay [simp]: "c_lay struct_sock_filter = (8, 4)"
  by (simp add: struct_sock_filter_def lay_defs)

definition t___s16 :: ctype where
  "t___s16 =
     CInt Signed 2"

lemma t___s16_lay [simp]: "c_lay t___s16 = (2, 2)"
  by (simp add: t___s16_def lay_defs)

definition struct_bpf_insn :: ctype where
  "struct_bpf_insn =
     CStruct
       [Field ''code'' t___u8,
        Bits ''dst_reg'' t___u8 4,
        Bits ''src_reg'' t___u8 4,
        Field ''off'' t___s16,
        Field ''imm'' t___s32]"

lemma struct_bpf_insn_lay [simp]: "c_lay struct_bpf_insn = (8, 4)"
  by (simp add: struct_bpf_insn_def lay_defs)

definition struct_bpf_prog :: ctype where
  "struct_bpf_prog =
     CStruct
       [Field ''pages'' t_u16,
        Bits ''jited'' t_u16 1,
        Bits ''jit_requested'' t_u16 1,
        Bits ''gpl_compatible'' t_u16 1,
        Bits ''cb_access'' t_u16 1,
        Bits ''dst_needed'' t_u16 1,
        Bits ''blinding_requested'' t_u16 1,
        Bits ''blinded'' t_u16 1,
        Bits ''is_func'' t_u16 1,
        Bits ''kprobe_override'' t_u16 1,
        Bits ''has_callchain_buf'' t_u16 1,
        Bits ''enforce_expected_attach_type'' t_u16 1,
        Bits ''call_get_stack'' t_u16 1,
        Bits ''call_get_func_ip'' t_u16 1,
        Bits ''tstamp_type_access'' t_u16 1,
        Bits ''sleepable'' t_u16 1,
        Field ''type'' enum_bpf_prog_type,
        Field ''expected_attach_type'' enum_bpf_attach_type,
        Field ''len'' t_u32,
        Field ''jited_len'' t_u32,
        Field ''tag'' (CArr (t_u8) 8),
        Field ''stats'' (CPtr ''struct bpf_prog_stats''),
        Field ''active'' (CPtr ''int''),
        Field ''bpf_func'' CFnPtr,
        Field ''aux'' (CPtr ''struct bpf_prog_aux''),
        Field ''orig_prog'' (CPtr ''struct sock_fprog_kern''),
        Field '''' (CUnion
         [Field '''' (CStruct
           [Field ''__empty_insns'' (CStruct []),
            Field ''insns'' (CArr (struct_sock_filter) 0)]),
          Field '''' (CStruct
           [Field ''__empty_insnsi'' (CStruct []),
            Field ''insnsi'' (CArr (struct_bpf_insn) 0)])])]"

lemma struct_bpf_prog_lay [simp]: "c_lay struct_bpf_prog = (72, 8)"
  by (simp add: struct_bpf_prog_def lay_defs)

definition struct_latch_tree_node :: ctype where
  "struct_latch_tree_node =
     CStruct
       [Field ''node'' (CArr (struct_rb_node) 2)]"

lemma struct_latch_tree_node_lay [simp]: "c_lay struct_latch_tree_node = (48, 8)"
  by (simp add: struct_latch_tree_node_def lay_defs)

definition struct_bpf_ksym :: ctype where
  "struct_bpf_ksym =
     CStruct
       [Field ''start'' (CInt Unsigned 8),
        Field ''end'' (CInt Unsigned 8),
        Field ''name'' (CArr (CInt Signed 1) 512),
        Field ''lnode'' struct_list_head,
        Field ''tnode'' struct_latch_tree_node,
        Field ''prog'' t_bool]"

lemma struct_bpf_ksym_lay [simp]: "c_lay struct_bpf_ksym = (600, 8)"
  by (simp add: struct_bpf_ksym_def lay_defs)

definition struct_bpf_prog_aux :: ctype where
  "struct_bpf_prog_aux =
     CStruct
       [Field ''refcnt'' atomic64_t,
        Field ''used_map_cnt'' t_u32,
        Field ''used_btf_cnt'' t_u32,
        Field ''max_ctx_offset'' t_u32,
        Field ''max_pkt_offset'' t_u32,
        Field ''max_tp_access'' t_u32,
        Field ''stack_depth'' t_u32,
        Field ''id'' t_u32,
        Field ''func_cnt'' t_u32,
        Field ''real_func_cnt'' t_u32,
        Field ''func_idx'' t_u32,
        Field ''attach_btf_id'' t_u32,
        Field ''ctx_arg_info_size'' t_u32,
        Field ''max_rdonly_access'' t_u32,
        Field ''max_rdwr_access'' t_u32,
        Field ''attach_btf'' (CPtr ''struct btf''),
        Field ''ctx_arg_info'' (CPtr ''struct bpf_ctx_arg_aux''),
        Field ''dst_mutex'' struct_mutex,
        Field ''dst_prog'' (CPtr ''struct bpf_prog''),
        Field ''dst_trampoline'' (CPtr ''struct bpf_trampoline''),
        Field ''saved_dst_prog_type'' enum_bpf_prog_type,
        Field ''saved_dst_attach_type'' enum_bpf_attach_type,
        Field ''verifier_zext'' t_bool,
        Field ''dev_bound'' t_bool,
        Field ''offload_requested'' t_bool,
        Field ''attach_btf_trace'' t_bool,
        Field ''attach_tracing_prog'' t_bool,
        Field ''func_proto_unreliable'' t_bool,
        Field ''tail_call_reachable'' t_bool,
        Field ''xdp_has_frags'' t_bool,
        Field ''exception_cb'' t_bool,
        Field ''exception_boundary'' t_bool,
        Field ''is_extended'' t_bool,
        Field ''changes_pkt_data'' t_bool,
        Field ''prog_array_member_cnt'' t_u64,
        Field ''ext_mutex'' struct_mutex,
        Field ''arena'' (CPtr ''struct bpf_arena''),
        Field ''attach_func_proto'' (CPtr ''struct btf_type''),
        Field ''attach_func_name'' (CPtr ''char''),
        Field ''func'' (CPtr ''struct bpf_prog *''),
        Field ''jit_data'' (CPtr ''void''),
        Field ''poke_tab'' (CPtr ''struct bpf_jit_poke_descriptor''),
        Field ''kfunc_tab'' (CPtr ''struct bpf_kfunc_desc_tab''),
        Field ''kfunc_btf_tab'' (CPtr ''struct bpf_kfunc_btf_tab''),
        Field ''size_poke_tab'' t_u32,
        Field ''ksym'' struct_bpf_ksym,
        Field ''ops'' (CPtr ''struct bpf_prog_ops''),
        Field ''used_maps'' (CPtr ''struct bpf_map *''),
        Field ''used_maps_mutex'' struct_mutex,
        Field ''used_btfs'' (CPtr ''struct btf_mod_pair''),
        Field ''prog'' (CPtr ''struct bpf_prog''),
        Field ''user'' (CPtr ''struct user_struct''),
        Field ''load_time'' t_u64,
        Field ''verified_insns'' t_u32,
        Field ''cgroup_atype'' (CInt Signed 4),
        Field ''cgroup_storage'' (CArr (CPtr ''struct bpf_map'') 2),
        Field ''name'' (CArr (CInt Signed 1) 16),
        Field ''bpf_exception_cb'' CFnPtr,
        Field ''security'' (CPtr ''void''),
        Field ''token'' (CPtr ''struct bpf_token''),
        Field ''offload'' (CPtr ''struct bpf_prog_offload''),
        Field ''btf'' (CPtr ''struct btf''),
        Field ''func_info'' (CPtr ''struct bpf_func_info''),
        Field ''func_info_aux'' (CPtr ''struct bpf_func_info_aux''),
        Field ''linfo'' (CPtr ''struct bpf_line_info''),
        Field ''jited_linfo'' (CPtr ''void *''),
        Field ''func_info_cnt'' t_u32,
        Field ''nr_linfo'' t_u32,
        Field ''linfo_idx'' t_u32,
        Field ''mod'' (CPtr ''struct module''),
        Field ''num_exentries'' t_u32,
        Field ''extable'' (CPtr ''struct exception_table_entry''),
        Field '''' (CUnion
         [Field ''work'' struct_work_struct,
          Field ''rcu'' struct_callback_head])]"

lemma struct_bpf_prog_aux_lay [simp]: "c_lay struct_bpf_prog_aux = (1128, 8)"
  by (simp add: struct_bpf_prog_aux_def lay_defs)

definition struct_bpf_prog_ops :: ctype where
  "struct_bpf_prog_ops =
     CStruct
       [Field ''test_run'' CFnPtr]"

lemma struct_bpf_prog_ops_lay [simp]: "c_lay struct_bpf_prog_ops = (8, 8)"
  by (simp add: struct_bpf_prog_ops_def lay_defs)

definition struct_bpf_verifier_ops :: ctype where
  "struct_bpf_verifier_ops =
     CStruct
       [Field ''get_func_proto'' CFnPtr,
        Field ''is_valid_access'' CFnPtr,
        Field ''gen_prologue'' CFnPtr,
        Field ''gen_epilogue'' CFnPtr,
        Field ''gen_ld_abs'' CFnPtr,
        Field ''convert_ctx_access'' CFnPtr,
        Field ''btf_struct_access'' CFnPtr]"

lemma struct_bpf_verifier_ops_lay [simp]: "c_lay struct_bpf_verifier_ops = (56, 8)"
  by (simp add: struct_bpf_verifier_ops_def lay_defs)

definition enum_bpf_return_type :: ctype where
  "enum_bpf_return_type =
     CEnum
       [(''RET_INTEGER'', 0),
        (''RET_VOID'', 1),
        (''RET_PTR_TO_MAP_VALUE'', 2),
        (''RET_PTR_TO_SOCKET'', 3),
        (''RET_PTR_TO_TCP_SOCK'', 4),
        (''RET_PTR_TO_SOCK_COMMON'', 5),
        (''RET_PTR_TO_MEM'', 6),
        (''RET_PTR_TO_MEM_OR_BTF_ID'', 7),
        (''RET_PTR_TO_BTF_ID'', 8),
        (''__BPF_RET_TYPE_MAX'', 9),
        (''RET_PTR_TO_MAP_VALUE_OR_NULL'', 258),
        (''RET_PTR_TO_SOCKET_OR_NULL'', 259),
        (''RET_PTR_TO_TCP_SOCK_OR_NULL'', 260),
        (''RET_PTR_TO_SOCK_COMMON_OR_NULL'', 261),
        (''RET_PTR_TO_RINGBUF_MEM_OR_NULL'', 1286),
        (''RET_PTR_TO_DYNPTR_MEM_OR_NULL'', 262),
        (''RET_PTR_TO_BTF_ID_OR_NULL'', 264),
        (''RET_PTR_TO_BTF_ID_TRUSTED'', 1048584),
        (''__BPF_RET_TYPE_LIMIT'', 134217727)]"

lemma enum_bpf_return_type_lay [simp]: "c_lay enum_bpf_return_type = (4, 4)"
  by (simp add: enum_bpf_return_type_def lay_defs)

definition enum_bpf_arg_type :: ctype where
  "enum_bpf_arg_type =
     CEnum
       [(''ARG_DONTCARE'', 0),
        (''ARG_CONST_MAP_PTR'', 1),
        (''ARG_PTR_TO_MAP_KEY'', 2),
        (''ARG_PTR_TO_MAP_VALUE'', 3),
        (''ARG_PTR_TO_MEM'', 4),
        (''ARG_PTR_TO_ARENA'', 5),
        (''ARG_CONST_SIZE'', 6),
        (''ARG_CONST_SIZE_OR_ZERO'', 7),
        (''ARG_PTR_TO_CTX'', 8),
        (''ARG_ANYTHING'', 9),
        (''ARG_PTR_TO_SPIN_LOCK'', 10),
        (''ARG_PTR_TO_SOCK_COMMON'', 11),
        (''ARG_PTR_TO_SOCKET'', 12),
        (''ARG_PTR_TO_BTF_ID'', 13),
        (''ARG_PTR_TO_RINGBUF_MEM'', 14),
        (''ARG_CONST_ALLOC_SIZE_OR_ZERO'', 15),
        (''ARG_PTR_TO_BTF_ID_SOCK_COMMON'', 16),
        (''ARG_PTR_TO_PERCPU_BTF_ID'', 17),
        (''ARG_PTR_TO_FUNC'', 18),
        (''ARG_PTR_TO_STACK'', 19),
        (''ARG_PTR_TO_CONST_STR'', 20),
        (''ARG_PTR_TO_TIMER'', 21),
        (''ARG_KPTR_XCHG_DEST'', 22),
        (''ARG_PTR_TO_DYNPTR'', 23),
        (''__BPF_ARG_TYPE_MAX'', 24),
        (''ARG_PTR_TO_MAP_VALUE_OR_NULL'', 259),
        (''ARG_PTR_TO_MEM_OR_NULL'', 260),
        (''ARG_PTR_TO_CTX_OR_NULL'', 264),
        (''ARG_PTR_TO_SOCKET_OR_NULL'', 268),
        (''ARG_PTR_TO_STACK_OR_NULL'', 275),
        (''ARG_PTR_TO_BTF_ID_OR_NULL'', 269),
        (''ARG_PTR_TO_UNINIT_MEM'', 67141636),
        (''ARG_PTR_TO_FIXED_SIZE_MEM'', 262148),
        (''__BPF_ARG_TYPE_LIMIT'', 134217727)]"

lemma enum_bpf_arg_type_lay [simp]: "c_lay enum_bpf_arg_type = (4, 4)"
  by (simp add: enum_bpf_arg_type_def lay_defs)

definition struct_bpf_func_proto :: ctype where
  "struct_bpf_func_proto =
     CStruct
       [Field ''func'' CFnPtr,
        Field ''gpl_only'' t_bool,
        Field ''pkt_access'' t_bool,
        Field ''might_sleep'' t_bool,
        Field ''allow_fastcall'' t_bool,
        Field ''ret_type'' enum_bpf_return_type,
        Field '''' (CUnion
         [Field '''' (CStruct
           [Field ''arg1_type'' enum_bpf_arg_type,
            Field ''arg2_type'' enum_bpf_arg_type,
            Field ''arg3_type'' enum_bpf_arg_type,
            Field ''arg4_type'' enum_bpf_arg_type,
            Field ''arg5_type'' enum_bpf_arg_type]),
          Field ''arg_type'' (CArr (enum_bpf_arg_type) 5)]),
        Field '''' (CUnion
         [Field '''' (CStruct
           [Field ''arg1_btf_id'' (CPtr ''u32''),
            Field ''arg2_btf_id'' (CPtr ''u32''),
            Field ''arg3_btf_id'' (CPtr ''u32''),
            Field ''arg4_btf_id'' (CPtr ''u32''),
            Field ''arg5_btf_id'' (CPtr ''u32'')]),
          Field ''arg_btf_id'' (CArr (CPtr ''u32'') 5),
          Field '''' (CStruct
           [Field ''arg1_size'' size_t,
            Field ''arg2_size'' size_t,
            Field ''arg3_size'' size_t,
            Field ''arg4_size'' size_t,
            Field ''arg5_size'' size_t]),
          Field ''arg_size'' (CArr (size_t) 5)]),
        Field ''ret_btf_id'' (CPtr ''int''),
        Field ''allowed'' CFnPtr]"

lemma struct_bpf_func_proto_lay [simp]: "c_lay struct_bpf_func_proto = (96, 8)"
  by (simp add: struct_bpf_func_proto_def lay_defs)

definition struct_btf_func_model :: ctype where
  "struct_btf_func_model =
     CStruct
       [Field ''ret_size'' t_u8,
        Field ''ret_flags'' t_u8,
        Field ''nr_args'' t_u8,
        Field ''arg_size'' (CArr (t_u8) 12),
        Field ''arg_flags'' (CArr (t_u8) 12)]"

lemma struct_btf_func_model_lay [simp]: "c_lay struct_btf_func_model = (27, 1)"
  by (simp add: struct_btf_func_model_def lay_defs)

definition struct_bpf_trampoline :: ctype where
  "struct_bpf_trampoline =
     CStruct
       [Field ''hlist'' struct_hlist_node,
        Field ''fops'' (CPtr ''struct ftrace_ops''),
        Field ''mutex'' struct_mutex,
        Field ''refcnt'' refcount_t,
        Field ''flags'' t_u32,
        Field ''key'' t_u64,
        Field ''func'' (CStruct
         [Field ''model'' struct_btf_func_model,
          Field ''addr'' (CPtr ''void''),
          Field ''ftrace_managed'' t_bool]),
        Field ''extension_prog'' (CPtr ''struct bpf_prog''),
        Field ''progs_hlist'' (CArr (struct_hlist_head) 3),
        Field ''progs_cnt'' (CArr (CInt Signed 4) 3),
        Field ''cur_image'' (CPtr ''struct bpf_tramp_image'')]"

lemma struct_bpf_trampoline_lay [simp]: "c_lay struct_bpf_trampoline = (176, 8)"
  by (simp add: struct_bpf_trampoline_def lay_defs)

definition struct_bpf_tramp_image :: ctype where
  "struct_bpf_tramp_image =
     CStruct
       [Field ''image'' (CPtr ''void''),
        Field ''size'' (CInt Signed 4),
        Field ''ksym'' struct_bpf_ksym,
        Field ''pcref'' struct_percpu_ref,
        Field ''ip_after_call'' (CPtr ''void''),
        Field ''ip_epilogue'' (CPtr ''void''),
        Field '''' (CUnion
         [Field ''rcu'' struct_callback_head,
          Field ''work'' struct_work_struct])]"

lemma struct_bpf_tramp_image_lay [simp]: "c_lay struct_bpf_tramp_image = (680, 8)"
  by (simp add: struct_bpf_tramp_image_def lay_defs)

definition enum_bpf_link_type :: ctype where
  "enum_bpf_link_type =
     CEnum
       [(''BPF_LINK_TYPE_UNSPEC'', 0),
        (''BPF_LINK_TYPE_RAW_TRACEPOINT'', 1),
        (''BPF_LINK_TYPE_TRACING'', 2),
        (''BPF_LINK_TYPE_CGROUP'', 3),
        (''BPF_LINK_TYPE_ITER'', 4),
        (''BPF_LINK_TYPE_NETNS'', 5),
        (''BPF_LINK_TYPE_XDP'', 6),
        (''BPF_LINK_TYPE_PERF_EVENT'', 7),
        (''BPF_LINK_TYPE_KPROBE_MULTI'', 8),
        (''BPF_LINK_TYPE_STRUCT_OPS'', 9),
        (''BPF_LINK_TYPE_NETFILTER'', 10),
        (''BPF_LINK_TYPE_TCX'', 11),
        (''BPF_LINK_TYPE_UPROBE_MULTI'', 12),
        (''BPF_LINK_TYPE_NETKIT'', 13),
        (''BPF_LINK_TYPE_SOCKMAP'', 14),
        (''__MAX_BPF_LINK_TYPE'', 15)]"

lemma enum_bpf_link_type_lay [simp]: "c_lay enum_bpf_link_type = (4, 4)"
  by (simp add: enum_bpf_link_type_def lay_defs)

definition struct_bpf_link :: ctype where
  "struct_bpf_link =
     CStruct
       [Field ''refcnt'' atomic64_t,
        Field ''id'' t_u32,
        Field ''type'' enum_bpf_link_type,
        Field ''ops'' (CPtr ''struct bpf_link_ops''),
        Field ''prog'' (CPtr ''struct bpf_prog''),
        Field '''' (CUnion
         [Field ''rcu'' struct_callback_head,
          Field ''work'' struct_work_struct])]"

lemma struct_bpf_link_lay [simp]: "c_lay struct_bpf_link = (64, 8)"
  by (simp add: struct_bpf_link_def lay_defs)

definition struct_bpf_link_ops :: ctype where
  "struct_bpf_link_ops =
     CStruct
       [Field ''release'' CFnPtr,
        Field ''dealloc'' CFnPtr,
        Field ''dealloc_deferred'' CFnPtr,
        Field ''detach'' CFnPtr,
        Field ''update_prog'' CFnPtr,
        Field ''show_fdinfo'' CFnPtr,
        Field ''fill_link_info'' CFnPtr,
        Field ''update_map'' CFnPtr,
        Field ''poll'' CFnPtr]"

lemma struct_bpf_link_ops_lay [simp]: "c_lay struct_bpf_link_ops = (72, 8)"
  by (simp add: struct_bpf_link_ops_def lay_defs)

definition struct_bpf_array :: ctype where
  "struct_bpf_array =
     CStruct
       [Field ''map'' struct_bpf_map,
        Field ''elem_size'' t_u32,
        Field ''index_mask'' t_u32,
        Field ''aux'' (CPtr ''struct bpf_array_aux''),
        Field '''' (CUnion
         [Field '''' (CStruct
           [Field ''__empty_value'' (CStruct []),
            Field ''value'' (CArr (CInt Signed 1) 0)]),
          Field '''' (CStruct
           [Field ''__empty_ptrs'' (CStruct []),
            Field ''ptrs'' (CArr (CPtr ''void'') 0)]),
          Field '''' (CStruct
           [Field ''__empty_pptrs'' (CStruct []),
            Field ''pptrs'' (CArr (CPtr ''void'') 0)])])]"

lemma struct_bpf_array_lay [simp]: "c_lay struct_bpf_array = (264, 8)"
  by (simp add: struct_bpf_array_def lay_defs)

definition enum_bpf_func_id :: ctype where
  "enum_bpf_func_id =
     CEnum
       [(''BPF_FUNC_unspec'', 0),
        (''BPF_FUNC_map_lookup_elem'', 1),
        (''BPF_FUNC_map_update_elem'', 2),
        (''BPF_FUNC_map_delete_elem'', 3),
        (''BPF_FUNC_probe_read'', 4),
        (''BPF_FUNC_ktime_get_ns'', 5),
        (''BPF_FUNC_trace_printk'', 6),
        (''BPF_FUNC_get_prandom_u32'', 7),
        (''BPF_FUNC_get_smp_processor_id'', 8),
        (''BPF_FUNC_skb_store_bytes'', 9),
        (''BPF_FUNC_l3_csum_replace'', 10),
        (''BPF_FUNC_l4_csum_replace'', 11),
        (''BPF_FUNC_tail_call'', 12),
        (''BPF_FUNC_clone_redirect'', 13),
        (''BPF_FUNC_get_current_pid_tgid'', 14),
        (''BPF_FUNC_get_current_uid_gid'', 15),
        (''BPF_FUNC_get_current_comm'', 16),
        (''BPF_FUNC_get_cgroup_classid'', 17),
        (''BPF_FUNC_skb_vlan_push'', 18),
        (''BPF_FUNC_skb_vlan_pop'', 19),
        (''BPF_FUNC_skb_get_tunnel_key'', 20),
        (''BPF_FUNC_skb_set_tunnel_key'', 21),
        (''BPF_FUNC_perf_event_read'', 22),
        (''BPF_FUNC_redirect'', 23),
        (''BPF_FUNC_get_route_realm'', 24),
        (''BPF_FUNC_perf_event_output'', 25),
        (''BPF_FUNC_skb_load_bytes'', 26),
        (''BPF_FUNC_get_stackid'', 27),
        (''BPF_FUNC_csum_diff'', 28),
        (''BPF_FUNC_skb_get_tunnel_opt'', 29),
        (''BPF_FUNC_skb_set_tunnel_opt'', 30),
        (''BPF_FUNC_skb_change_proto'', 31),
        (''BPF_FUNC_skb_change_type'', 32),
        (''BPF_FUNC_skb_under_cgroup'', 33),
        (''BPF_FUNC_get_hash_recalc'', 34),
        (''BPF_FUNC_get_current_task'', 35),
        (''BPF_FUNC_probe_write_user'', 36),
        (''BPF_FUNC_current_task_under_cgroup'', 37),
        (''BPF_FUNC_skb_change_tail'', 38),
        (''BPF_FUNC_skb_pull_data'', 39),
        (''BPF_FUNC_csum_update'', 40),
        (''BPF_FUNC_set_hash_invalid'', 41),
        (''BPF_FUNC_get_numa_node_id'', 42),
        (''BPF_FUNC_skb_change_head'', 43),
        (''BPF_FUNC_xdp_adjust_head'', 44),
        (''BPF_FUNC_probe_read_str'', 45),
        (''BPF_FUNC_get_socket_cookie'', 46),
        (''BPF_FUNC_get_socket_uid'', 47),
        (''BPF_FUNC_set_hash'', 48),
        (''BPF_FUNC_setsockopt'', 49),
        (''BPF_FUNC_skb_adjust_room'', 50),
        (''BPF_FUNC_redirect_map'', 51),
        (''BPF_FUNC_sk_redirect_map'', 52),
        (''BPF_FUNC_sock_map_update'', 53),
        (''BPF_FUNC_xdp_adjust_meta'', 54),
        (''BPF_FUNC_perf_event_read_value'', 55),
        (''BPF_FUNC_perf_prog_read_value'', 56),
        (''BPF_FUNC_getsockopt'', 57),
        (''BPF_FUNC_override_return'', 58),
        (''BPF_FUNC_sock_ops_cb_flags_set'', 59),
        (''BPF_FUNC_msg_redirect_map'', 60),
        (''BPF_FUNC_msg_apply_bytes'', 61),
        (''BPF_FUNC_msg_cork_bytes'', 62),
        (''BPF_FUNC_msg_pull_data'', 63),
        (''BPF_FUNC_bind'', 64),
        (''BPF_FUNC_xdp_adjust_tail'', 65),
        (''BPF_FUNC_skb_get_xfrm_state'', 66),
        (''BPF_FUNC_get_stack'', 67),
        (''BPF_FUNC_skb_load_bytes_relative'', 68),
        (''BPF_FUNC_fib_lookup'', 69),
        (''BPF_FUNC_sock_hash_update'', 70),
        (''BPF_FUNC_msg_redirect_hash'', 71),
        (''BPF_FUNC_sk_redirect_hash'', 72),
        (''BPF_FUNC_lwt_push_encap'', 73),
        (''BPF_FUNC_lwt_seg6_store_bytes'', 74),
        (''BPF_FUNC_lwt_seg6_adjust_srh'', 75),
        (''BPF_FUNC_lwt_seg6_action'', 76),
        (''BPF_FUNC_rc_repeat'', 77),
        (''BPF_FUNC_rc_keydown'', 78),
        (''BPF_FUNC_skb_cgroup_id'', 79),
        (''BPF_FUNC_get_current_cgroup_id'', 80),
        (''BPF_FUNC_get_local_storage'', 81),
        (''BPF_FUNC_sk_select_reuseport'', 82),
        (''BPF_FUNC_skb_ancestor_cgroup_id'', 83),
        (''BPF_FUNC_sk_lookup_tcp'', 84),
        (''BPF_FUNC_sk_lookup_udp'', 85),
        (''BPF_FUNC_sk_release'', 86),
        (''BPF_FUNC_map_push_elem'', 87),
        (''BPF_FUNC_map_pop_elem'', 88),
        (''BPF_FUNC_map_peek_elem'', 89),
        (''BPF_FUNC_msg_push_data'', 90),
        (''BPF_FUNC_msg_pop_data'', 91),
        (''BPF_FUNC_rc_pointer_rel'', 92),
        (''BPF_FUNC_spin_lock'', 93),
        (''BPF_FUNC_spin_unlock'', 94),
        (''BPF_FUNC_sk_fullsock'', 95),
        (''BPF_FUNC_tcp_sock'', 96),
        (''BPF_FUNC_skb_ecn_set_ce'', 97),
        (''BPF_FUNC_get_listener_sock'', 98),
        (''BPF_FUNC_skc_lookup_tcp'', 99),
        (''BPF_FUNC_tcp_check_syncookie'', 100),
        (''BPF_FUNC_sysctl_get_name'', 101),
        (''BPF_FUNC_sysctl_get_current_value'', 102),
        (''BPF_FUNC_sysctl_get_new_value'', 103),
        (''BPF_FUNC_sysctl_set_new_value'', 104),
        (''BPF_FUNC_strtol'', 105),
        (''BPF_FUNC_strtoul'', 106),
        (''BPF_FUNC_sk_storage_get'', 107),
        (''BPF_FUNC_sk_storage_delete'', 108),
        (''BPF_FUNC_send_signal'', 109),
        (''BPF_FUNC_tcp_gen_syncookie'', 110),
        (''BPF_FUNC_skb_output'', 111),
        (''BPF_FUNC_probe_read_user'', 112),
        (''BPF_FUNC_probe_read_kernel'', 113),
        (''BPF_FUNC_probe_read_user_str'', 114),
        (''BPF_FUNC_probe_read_kernel_str'', 115),
        (''BPF_FUNC_tcp_send_ack'', 116),
        (''BPF_FUNC_send_signal_thread'', 117),
        (''BPF_FUNC_jiffies64'', 118),
        (''BPF_FUNC_read_branch_records'', 119),
        (''BPF_FUNC_get_ns_current_pid_tgid'', 120),
        (''BPF_FUNC_xdp_output'', 121),
        (''BPF_FUNC_get_netns_cookie'', 122),
        (''BPF_FUNC_get_current_ancestor_cgroup_id'', 123),
        (''BPF_FUNC_sk_assign'', 124),
        (''BPF_FUNC_ktime_get_boot_ns'', 125),
        (''BPF_FUNC_seq_printf'', 126),
        (''BPF_FUNC_seq_write'', 127),
        (''BPF_FUNC_sk_cgroup_id'', 128),
        (''BPF_FUNC_sk_ancestor_cgroup_id'', 129),
        (''BPF_FUNC_ringbuf_output'', 130),
        (''BPF_FUNC_ringbuf_reserve'', 131),
        (''BPF_FUNC_ringbuf_submit'', 132),
        (''BPF_FUNC_ringbuf_discard'', 133),
        (''BPF_FUNC_ringbuf_query'', 134),
        (''BPF_FUNC_csum_level'', 135),
        (''BPF_FUNC_skc_to_tcp6_sock'', 136),
        (''BPF_FUNC_skc_to_tcp_sock'', 137),
        (''BPF_FUNC_skc_to_tcp_timewait_sock'', 138),
        (''BPF_FUNC_skc_to_tcp_request_sock'', 139),
        (''BPF_FUNC_skc_to_udp6_sock'', 140),
        (''BPF_FUNC_get_task_stack'', 141),
        (''BPF_FUNC_load_hdr_opt'', 142),
        (''BPF_FUNC_store_hdr_opt'', 143),
        (''BPF_FUNC_reserve_hdr_opt'', 144),
        (''BPF_FUNC_inode_storage_get'', 145),
        (''BPF_FUNC_inode_storage_delete'', 146),
        (''BPF_FUNC_d_path'', 147),
        (''BPF_FUNC_copy_from_user'', 148),
        (''BPF_FUNC_snprintf_btf'', 149),
        (''BPF_FUNC_seq_printf_btf'', 150),
        (''BPF_FUNC_skb_cgroup_classid'', 151),
        (''BPF_FUNC_redirect_neigh'', 152),
        (''BPF_FUNC_per_cpu_ptr'', 153),
        (''BPF_FUNC_this_cpu_ptr'', 154),
        (''BPF_FUNC_redirect_peer'', 155),
        (''BPF_FUNC_task_storage_get'', 156),
        (''BPF_FUNC_task_storage_delete'', 157),
        (''BPF_FUNC_get_current_task_btf'', 158),
        (''BPF_FUNC_bprm_opts_set'', 159),
        (''BPF_FUNC_ktime_get_coarse_ns'', 160),
        (''BPF_FUNC_ima_inode_hash'', 161),
        (''BPF_FUNC_sock_from_file'', 162),
        (''BPF_FUNC_check_mtu'', 163),
        (''BPF_FUNC_for_each_map_elem'', 164),
        (''BPF_FUNC_snprintf'', 165),
        (''BPF_FUNC_sys_bpf'', 166),
        (''BPF_FUNC_btf_find_by_name_kind'', 167),
        (''BPF_FUNC_sys_close'', 168),
        (''BPF_FUNC_timer_init'', 169),
        (''BPF_FUNC_timer_set_callback'', 170),
        (''BPF_FUNC_timer_start'', 171),
        (''BPF_FUNC_timer_cancel'', 172),
        (''BPF_FUNC_get_func_ip'', 173),
        (''BPF_FUNC_get_attach_cookie'', 174),
        (''BPF_FUNC_task_pt_regs'', 175),
        (''BPF_FUNC_get_branch_snapshot'', 176),
        (''BPF_FUNC_trace_vprintk'', 177),
        (''BPF_FUNC_skc_to_unix_sock'', 178),
        (''BPF_FUNC_kallsyms_lookup_name'', 179),
        (''BPF_FUNC_find_vma'', 180),
        (''BPF_FUNC_loop'', 181),
        (''BPF_FUNC_strncmp'', 182),
        (''BPF_FUNC_get_func_arg'', 183),
        (''BPF_FUNC_get_func_ret'', 184),
        (''BPF_FUNC_get_func_arg_cnt'', 185),
        (''BPF_FUNC_get_retval'', 186),
        (''BPF_FUNC_set_retval'', 187),
        (''BPF_FUNC_xdp_get_buff_len'', 188),
        (''BPF_FUNC_xdp_load_bytes'', 189),
        (''BPF_FUNC_xdp_store_bytes'', 190),
        (''BPF_FUNC_copy_from_user_task'', 191),
        (''BPF_FUNC_skb_set_tstamp'', 192),
        (''BPF_FUNC_ima_file_hash'', 193),
        (''BPF_FUNC_kptr_xchg'', 194),
        (''BPF_FUNC_map_lookup_percpu_elem'', 195),
        (''BPF_FUNC_skc_to_mptcp_sock'', 196),
        (''BPF_FUNC_dynptr_from_mem'', 197),
        (''BPF_FUNC_ringbuf_reserve_dynptr'', 198),
        (''BPF_FUNC_ringbuf_submit_dynptr'', 199),
        (''BPF_FUNC_ringbuf_discard_dynptr'', 200),
        (''BPF_FUNC_dynptr_read'', 201),
        (''BPF_FUNC_dynptr_write'', 202),
        (''BPF_FUNC_dynptr_data'', 203),
        (''BPF_FUNC_tcp_raw_gen_syncookie_ipv4'', 204),
        (''BPF_FUNC_tcp_raw_gen_syncookie_ipv6'', 205),
        (''BPF_FUNC_tcp_raw_check_syncookie_ipv4'', 206),
        (''BPF_FUNC_tcp_raw_check_syncookie_ipv6'', 207),
        (''BPF_FUNC_ktime_get_tai_ns'', 208),
        (''BPF_FUNC_user_ringbuf_drain'', 209),
        (''BPF_FUNC_cgrp_storage_get'', 210),
        (''BPF_FUNC_cgrp_storage_delete'', 211),
        (''__BPF_FUNC_MAX_ID'', 212)]"

lemma enum_bpf_func_id_lay [simp]: "c_lay enum_bpf_func_id = (4, 4)"
  by (simp add: enum_bpf_func_id_def lay_defs)

definition enum_bpf_cmd :: ctype where
  "enum_bpf_cmd =
     CEnum
       [(''BPF_MAP_CREATE'', 0),
        (''BPF_MAP_LOOKUP_ELEM'', 1),
        (''BPF_MAP_UPDATE_ELEM'', 2),
        (''BPF_MAP_DELETE_ELEM'', 3),
        (''BPF_MAP_GET_NEXT_KEY'', 4),
        (''BPF_PROG_LOAD'', 5),
        (''BPF_OBJ_PIN'', 6),
        (''BPF_OBJ_GET'', 7),
        (''BPF_PROG_ATTACH'', 8),
        (''BPF_PROG_DETACH'', 9),
        (''BPF_PROG_TEST_RUN'', 10),
        (''BPF_PROG_RUN'', 10),
        (''BPF_PROG_GET_NEXT_ID'', 11),
        (''BPF_MAP_GET_NEXT_ID'', 12),
        (''BPF_PROG_GET_FD_BY_ID'', 13),
        (''BPF_MAP_GET_FD_BY_ID'', 14),
        (''BPF_OBJ_GET_INFO_BY_FD'', 15),
        (''BPF_PROG_QUERY'', 16),
        (''BPF_RAW_TRACEPOINT_OPEN'', 17),
        (''BPF_BTF_LOAD'', 18),
        (''BPF_BTF_GET_FD_BY_ID'', 19),
        (''BPF_TASK_FD_QUERY'', 20),
        (''BPF_MAP_LOOKUP_AND_DELETE_ELEM'', 21),
        (''BPF_MAP_FREEZE'', 22),
        (''BPF_BTF_GET_NEXT_ID'', 23),
        (''BPF_MAP_LOOKUP_BATCH'', 24),
        (''BPF_MAP_LOOKUP_AND_DELETE_BATCH'', 25),
        (''BPF_MAP_UPDATE_BATCH'', 26),
        (''BPF_MAP_DELETE_BATCH'', 27),
        (''BPF_LINK_CREATE'', 28),
        (''BPF_LINK_UPDATE'', 29),
        (''BPF_LINK_GET_FD_BY_ID'', 30),
        (''BPF_LINK_GET_NEXT_ID'', 31),
        (''BPF_ENABLE_STATS'', 32),
        (''BPF_ITER_CREATE'', 33),
        (''BPF_LINK_DETACH'', 34),
        (''BPF_PROG_BIND_MAP'', 35),
        (''BPF_TOKEN_CREATE'', 36),
        (''__MAX_BPF_CMD'', 37)]"

lemma enum_bpf_cmd_lay [simp]: "c_lay enum_bpf_cmd = (4, 4)"
  by (simp add: enum_bpf_cmd_def lay_defs)

definition union_bpf_attr :: ctype where
  "union_bpf_attr =
     CUnion
       [Field '''' (CStruct
         [Field ''map_type'' t___u32,
          Field ''key_size'' t___u32,
          Field ''value_size'' t___u32,
          Field ''max_entries'' t___u32,
          Field ''map_flags'' t___u32,
          Field ''inner_map_fd'' t___u32,
          Field ''numa_node'' t___u32,
          Field ''map_name'' (CArr (CInt Signed 1) 16),
          Field ''map_ifindex'' t___u32,
          Field ''btf_fd'' t___u32,
          Field ''btf_key_type_id'' t___u32,
          Field ''btf_value_type_id'' t___u32,
          Field ''btf_vmlinux_value_type_id'' t___u32,
          Field ''map_extra'' t___u64,
          Field ''value_type_btf_obj_fd'' t___s32,
          Field ''map_token_fd'' t___s32]),
        Field '''' (CStruct
         [Field ''map_fd'' t___u32,
          Field ''key'' t___u64,
          Field '''' (CUnion
           [Field ''value'' t___u64,
            Field ''next_key'' t___u64]),
          Field ''flags'' t___u64]),
        Field ''batch'' (CStruct
         [Field ''in_batch'' t___u64,
          Field ''out_batch'' t___u64,
          Field ''keys'' t___u64,
          Field ''values'' t___u64,
          Field ''count'' t___u32,
          Field ''map_fd'' t___u32,
          Field ''elem_flags'' t___u64,
          Field ''flags'' t___u64]),
        Field '''' (CStruct
         [Field ''prog_type'' t___u32,
          Field ''insn_cnt'' t___u32,
          Field ''insns'' t___u64,
          Field ''license'' t___u64,
          Field ''log_level'' t___u32,
          Field ''log_size'' t___u32,
          Field ''log_buf'' t___u64,
          Field ''kern_version'' t___u32,
          Field ''prog_flags'' t___u32,
          Field ''prog_name'' (CArr (CInt Signed 1) 16),
          Field ''prog_ifindex'' t___u32,
          Field ''expected_attach_type'' t___u32,
          Field ''prog_btf_fd'' t___u32,
          Field ''func_info_rec_size'' t___u32,
          Field ''func_info'' t___u64,
          Field ''func_info_cnt'' t___u32,
          Field ''line_info_rec_size'' t___u32,
          Field ''line_info'' t___u64,
          Field ''line_info_cnt'' t___u32,
          Field ''attach_btf_id'' t___u32,
          Field '''' (CUnion
           [Field ''attach_prog_fd'' t___u32,
            Field ''attach_btf_obj_fd'' t___u32]),
          Field ''core_relo_cnt'' t___u32,
          Field ''fd_array'' t___u64,
          Field ''core_relos'' t___u64,
          Field ''core_relo_rec_size'' t___u32,
          Field ''log_true_size'' t___u32,
          Field ''prog_token_fd'' t___s32]),
        Field '''' (CStruct
         [Field ''pathname'' t___u64,
          Field ''bpf_fd'' t___u32,
          Field ''file_flags'' t___u32,
          Field ''path_fd'' t___s32]),
        Field '''' (CStruct
         [Field '''' (CUnion
           [Field ''target_fd'' t___u32,
            Field ''target_ifindex'' t___u32]),
          Field ''attach_bpf_fd'' t___u32,
          Field ''attach_type'' t___u32,
          Field ''attach_flags'' t___u32,
          Field ''replace_bpf_fd'' t___u32,
          Field '''' (CUnion
           [Field ''relative_fd'' t___u32,
            Field ''relative_id'' t___u32]),
          Field ''expected_revision'' t___u64]),
        Field ''test'' (CStruct
         [Field ''prog_fd'' t___u32,
          Field ''retval'' t___u32,
          Field ''data_size_in'' t___u32,
          Field ''data_size_out'' t___u32,
          Field ''data_in'' t___u64,
          Field ''data_out'' t___u64,
          Field ''repeat'' t___u32,
          Field ''duration'' t___u32,
          Field ''ctx_size_in'' t___u32,
          Field ''ctx_size_out'' t___u32,
          Field ''ctx_in'' t___u64,
          Field ''ctx_out'' t___u64,
          Field ''flags'' t___u32,
          Field ''cpu'' t___u32,
          Field ''batch_size'' t___u32]),
        Field '''' (CStruct
         [Field '''' (CUnion
           [Field ''start_id'' t___u32,
            Field ''prog_id'' t___u32,
            Field ''map_id'' t___u32,
            Field ''btf_id'' t___u32,
            Field ''link_id'' t___u32]),
          Field ''next_id'' t___u32,
          Field ''open_flags'' t___u32]),
        Field ''info'' (CStruct
         [Field ''bpf_fd'' t___u32,
          Field ''info_len'' t___u32,
          Field ''info'' t___u64]),
        Field ''query'' (CStruct
         [Field '''' (CUnion
           [Field ''target_fd'' t___u32,
            Field ''target_ifindex'' t___u32]),
          Field ''attach_type'' t___u32,
          Field ''query_flags'' t___u32,
          Field ''attach_flags'' t___u32,
          Field ''prog_ids'' t___u64,
          Field '''' (CUnion
           [Field ''prog_cnt'' t___u32,
            Field ''count'' t___u32]),
          Field ''prog_attach_flags'' t___u64,
          Field ''link_ids'' t___u64,
          Field ''link_attach_flags'' t___u64,
          Field ''revision'' t___u64]),
        Field ''raw_tracepoint'' (CStruct
         [Field ''name'' t___u64,
          Field ''prog_fd'' t___u32,
          Field ''cookie'' t___u64]),
        Field '''' (CStruct
         [Field ''btf'' t___u64,
          Field ''btf_log_buf'' t___u64,
          Field ''btf_size'' t___u32,
          Field ''btf_log_size'' t___u32,
          Field ''btf_log_level'' t___u32,
          Field ''btf_log_true_size'' t___u32,
          Field ''btf_flags'' t___u32,
          Field ''btf_token_fd'' t___s32]),
        Field ''task_fd_query'' (CStruct
         [Field ''pid'' t___u32,
          Field ''fd'' t___u32,
          Field ''flags'' t___u32,
          Field ''buf_len'' t___u32,
          Field ''buf'' t___u64,
          Field ''prog_id'' t___u32,
          Field ''fd_type'' t___u32,
          Field ''probe_offset'' t___u64,
          Field ''probe_addr'' t___u64]),
        Field ''link_create'' (CStruct
         [Field '''' (CUnion
           [Field ''prog_fd'' t___u32,
            Field ''map_fd'' t___u32]),
          Field '''' (CUnion
           [Field ''target_fd'' t___u32,
            Field ''target_ifindex'' t___u32]),
          Field ''attach_type'' t___u32,
          Field ''flags'' t___u32,
          Field '''' (CUnion
           [Field ''target_btf_id'' t___u32,
            Field '''' (CStruct
             [Field ''iter_info'' t___u64,
              Field ''iter_info_len'' t___u32]),
            Field ''perf_event'' (CStruct
             [Field ''bpf_cookie'' t___u64]),
            Field ''kprobe_multi'' (CStruct
             [Field ''flags'' t___u32,
              Field ''cnt'' t___u32,
              Field ''syms'' t___u64,
              Field ''addrs'' t___u64,
              Field ''cookies'' t___u64]),
            Field ''tracing'' (CStruct
             [Field ''target_btf_id'' t___u32,
              Field ''cookie'' t___u64]),
            Field ''netfilter'' (CStruct
             [Field ''pf'' t___u32,
              Field ''hooknum'' t___u32,
              Field ''priority'' t___s32,
              Field ''flags'' t___u32]),
            Field ''tcx'' (CStruct
             [Field '''' (CUnion
               [Field ''relative_fd'' t___u32,
                Field ''relative_id'' t___u32]),
              Field ''expected_revision'' t___u64]),
            Field ''uprobe_multi'' (CStruct
             [Field ''path'' t___u64,
              Field ''offsets'' t___u64,
              Field ''ref_ctr_offsets'' t___u64,
              Field ''cookies'' t___u64,
              Field ''cnt'' t___u32,
              Field ''flags'' t___u32,
              Field ''pid'' t___u32]),
            Field ''netkit'' (CStruct
             [Field '''' (CUnion
               [Field ''relative_fd'' t___u32,
                Field ''relative_id'' t___u32]),
              Field ''expected_revision'' t___u64])])]),
        Field ''link_update'' (CStruct
         [Field ''link_fd'' t___u32,
          Field '''' (CUnion
           [Field ''new_prog_fd'' t___u32,
            Field ''new_map_fd'' t___u32]),
          Field ''flags'' t___u32,
          Field '''' (CUnion
           [Field ''old_prog_fd'' t___u32,
            Field ''old_map_fd'' t___u32])]),
        Field ''link_detach'' (CStruct
         [Field ''link_fd'' t___u32]),
        Field ''enable_stats'' (CStruct
         [Field ''type'' t___u32]),
        Field ''iter_create'' (CStruct
         [Field ''link_fd'' t___u32,
          Field ''flags'' t___u32]),
        Field ''prog_bind_map'' (CStruct
         [Field ''prog_fd'' t___u32,
          Field ''map_fd'' t___u32,
          Field ''flags'' t___u32]),
        Field ''token_create'' (CStruct
         [Field ''flags'' t___u32,
          Field ''bpffs_fd'' t___u32])]"

lemma union_bpf_attr_lay [simp]: "c_lay union_bpf_attr = (152, 8)"
  by (simp add: union_bpf_attr_def lay_defs)

end
