(* ===== verification/Hook_Objects.thy ===== *)
theory Hook_Objects
  imports Kern_Fd C_Memory Vm_Bpf
begin

text \<open>
  Where the enforcer meets memory: the reference count \<^verbatim>\<open>track_close_fd\<close> reads through its
  \<^verbatim>\<open>struct file\<close> argument, and the two value structs that cross between the C program and the
  Go manager, \<^verbatim>\<open>struct cpu_lease\<close> in the maps and \<^verbatim>\<open>struct breach_event\<close> in the ring buffer.
\<close>

section \<open>The reference count of a file\<close>

text \<open>
  The access \<^verbatim>\<open>file->f_count.counter\<close> is relocated when the object is loaded
  (\<^verbatim>\<open>preserve_access_index\<close>), so the type of the running kernel is an argument. A null
  pointer is address 0.
\<close>

definition file_refs :: "ctype \<Rightarrow> mem \<Rightarrow> nat \<Rightarrow> u64 option" where
  "file_refs ft m filp =
     (if filp = 0 then None
      else map_option word_of_nat (load_member ft [''f_count'', ''counter''] m filp))"

definition track_close_fd_at :: "ctype \<Rightarrow> helpers \<Rightarrow> mem \<Rightarrow> nat \<Rightarrow> kstate \<Rightarrow> kstate" where
  "track_close_fd_at ft h m filp s = track_close_fd h (file_refs ft m filp) s"

lemma file_refs_at:
  assumes "member_at ft [''f_count'', ''counter''] = Some (off, 8)" and "filp \<noteq> 0"
  shows "file_refs ft (store m (filp + off) 8 (unat v)) filp = Some v"
  using assms by (simp add: file_refs_def load_member_def)

section \<open>The value structs of the program\<close>

definition struct_cpu_lease :: ctype where
  "struct_cpu_lease =
     CStruct
       [Field ''count'' t___u64,
        Field ''lease_budget'' t___u64,
        Field ''last_used_ns'' t___u64,
        Field ''top_cgid'' t___u64,
        Field ''top_count'' t___u64]"

definition struct_breach_event :: ctype where
  "struct_breach_event =
     CStruct
       [Field ''ns_key'' t___u64,
        Field ''cgid'' t___u64,
        Field ''pid'' t___u32,
        Field ''reason'' t___u32,
        Field ''timestamp'' t___u64,
        Field ''top_cgid'' t___u64]"

text \<open>The assignments of \<^verbatim>\<open>emit_breach_event\<close> to the record it reserved at address \<open>a\<close>.\<close>

definition write_event :: "breach_event \<Rightarrow> nat \<Rightarrow> mem \<Rightarrow> mem" where
  "write_event e a m =
     (let put = store_member struct_breach_event;
          m = put [''ns_key''] a (unat (be_ns_key e)) m;
          m = put [''cgid''] a (unat (be_cgid e)) m;
          m = put [''pid''] a (unat (be_pid e)) m;
          m = put [''reason''] a (unat (be_reason e)) m;
          m = put [''timestamp''] a (unat (be_timestamp e)) m
      in put [''top_cgid''] a (unat (be_top_cgid e)) m)"

text \<open>The lease at address \<open>a\<close> as the C program reads it, member by member.\<close>

definition lease_at :: "mem \<Rightarrow> nat \<Rightarrow> cpu_lease option" where
  "lease_at m a =
     (case map (\<lambda>x. load_member struct_cpu_lease [x] m a)
             [''count'', ''lease_budget'', ''last_used_ns'', ''top_cgid'', ''top_count''] of
        [Some c, Some b, Some u, Some t, Some n] \<Rightarrow>
          Some \<lparr>cl_count = word_of_nat c, cl_lease_budget = word_of_nat b,
                cl_last_used_ns = word_of_nat u, cl_top_cgid = word_of_nat t,
                cl_top_count = word_of_nat n\<rparr>
      | _ \<Rightarrow> None)"

section \<open>The Go side\<close>

text \<open>
  \<^verbatim>\<open>binary.Read\<close> and \<^verbatim>\<open>binary.Write\<close> on a Go struct take its fields in order, little-endian,
  without padding (\<^verbatim>\<open>bpfBreachEvent\<close> and \<^verbatim>\<open>bpfCpuLease\<close> of \<^verbatim>\<open>ebpf/bpf_bpfel.go\<close>);
  \<^verbatim>\<open>binary.Read\<close> fails when the input is shorter than the struct.
\<close>

fun read_fields :: "nat list \<Rightarrow> byte list \<Rightarrow> nat list option" where
  "read_fields [] bs = Some []"
| "read_fields (n # ns) bs =
     (if length bs < n then None
      else map_option ((#) (le_val (take n bs))) (read_fields ns (drop n bs)))"

definition bpfBreachEvent :: "byte list \<Rightarrow> breach_event option" where
  "bpfBreachEvent bs =
     (case read_fields [8, 8, 4, 4, 8, 8] bs of
        Some [k, g, p, r, t, u] \<Rightarrow>
          Some \<lparr>be_ns_key = word_of_nat k, be_cgid = word_of_nat g, be_pid = word_of_nat p,
                be_reason = word_of_nat r, be_timestamp = word_of_nat t,
                be_top_cgid = word_of_nat u\<rparr>
      | _ \<Rightarrow> None)"

text \<open>What \<^verbatim>\<open>StartBreachWatcher\<close> hands on of one ring buffer record.\<close>

definition watch_record :: "byte list \<Rightarrow> breach_event option" where
  "watch_record raw = (if length raw < 32 then None else bpfBreachEvent raw)"

definition bpfCpuLease :: "cpu_lease \<Rightarrow> byte list" where
  "bpfCpuLease l =
     concat (map (le_bytes 8 \<circ> unat)
       [cl_count l, cl_lease_budget l, cl_last_used_ns l, cl_top_cgid l, cl_top_count l])"

section \<open>Layout of the value structs\<close>

lemma struct_cpu_lease_lay [simp]: "c_lay struct_cpu_lease = (40, 8)"
  by (simp add: struct_cpu_lease_def lay_defs)

lemma struct_breach_event_lay [simp]: "c_lay struct_breach_event = (40, 8)"
  by (simp add: struct_breach_event_def lay_defs)

lemma event_members:
  "map (\<lambda>x. member_at struct_breach_event [x])
     [''ns_key'', ''cgid'', ''pid'', ''reason'', ''timestamp'', ''top_cgid''] =
   [Some (0, 8), Some (8, 8), Some (16, 4), Some (20, 4), Some (24, 8), Some (32, 8)]"
  by code_simp

lemma lease_members:
  "map (\<lambda>x. member_at struct_cpu_lease [x])
     [''count'', ''lease_budget'', ''last_used_ns'', ''top_cgid'', ''top_count''] =
   [Some (0, 8), Some (8, 8), Some (16, 8), Some (24, 8), Some (32, 8)]"
  by code_simp

lemma f_count_member: "member_at struct_file [''f_count'', ''counter''] = Some (0, 8)"
  by (simp add: member_at_def struct_file_def atomic_long_t_def atomic64_t_def lay_defs)

end
