(* ===== verification/Hook_Props.thy ===== *)
theory Hook_Props
  imports Hook_Objects
begin

text \<open>The properties of the data that crosses between kernel, BPF program and Go manager.\<close>

section \<open>The close hook reads the reference count\<close>

lemma file_refs_stored:
  assumes off: "member_at ft [''f_count'', ''counter''] = Some (off, 8)"
    and "filp \<noteq> 0"
    and apart: "other + c_size t \<le> filp \<or> filp + c_size ft \<le> other"
  shows "file_refs ft (store_member t xs other w
           (store_member ft [''f_count'', ''counter''] filp (unat v) m)) filp = Some v"
proof (cases "member_at t xs")
  case None
  with assms show ?thesis by (simp add: store_member_def file_refs_at)
next
  case (Some p)
  obtain o2 n2 where p: "p = (o2, n2)" by fastforce
  have "filp + off + 8 \<le> other + o2 \<or> other + o2 + n2 \<le> filp + off"
    using apart member_at_within [OF off] member_at_within [OF Some [unfolded p]] by linarith
  with assms Some p show ?thesis
    by (simp add: store_member_def file_refs_def load_member_def)
qed



section \<open>Events\<close>

lemma event_member_at:
  "member_at struct_breach_event [''ns_key''] = Some (0, 8)"
  "member_at struct_breach_event [''cgid''] = Some (8, 8)"
  "member_at struct_breach_event [''pid''] = Some (16, 4)"
  "member_at struct_breach_event [''reason''] = Some (20, 4)"
  "member_at struct_breach_event [''timestamp''] = Some (24, 8)"
  "member_at struct_breach_event [''top_cgid''] = Some (32, 8)"
  using event_members by simp_all

lemma event_word: "k + n \<le> 40 \<Longrightarrow>
    le_val (take n (drop k (map m [a..<a + 40]))) = load m (a + k) n"
  by (simp add: load_def drop_map take_map min_def)

lemma watch_written:
  "watch_record (map (write_event e a m) [a..<a + c_size struct_breach_event]) = Some e"
proof -
  let ?m = "write_event e a m"
  have "load ?m (a + 0) 8 = unat (be_ns_key e)" "load ?m (a + 8) 8 = unat (be_cgid e)"
    "load ?m (a + 16) 4 = unat (be_pid e)" "load ?m (a + 20) 4 = unat (be_reason e)"
    "load ?m (a + 24) 8 = unat (be_timestamp e)" "load ?m (a + 32) 8 = unat (be_top_cgid e)"
    by (simp_all add: write_event_def Let_def store_member_def event_member_at)
  then show ?thesis
    using event_word [of 0 8 ?m a] event_word [of 8 8 ?m a] event_word [of 16 4 ?m a]
      event_word [of 20 4 ?m a] event_word [of 24 8 ?m a] event_word [of 32 8 ?m a]
    by (simp add: watch_record_def bpfBreachEvent_def c_size_def)
qed


lemma read_fields_None: "read_fields ns bs = None \<longleftrightarrow> length bs < sum_list ns"
  by (induction ns bs rule: read_fields.induct) auto

lemma read_fields_length: "read_fields ns bs = Some vs \<Longrightarrow> length vs = length ns"
  by (induction ns bs arbitrary: vs rule: read_fields.induct) (auto split: if_splits)

text \<open>A record is dropped exactly when it is shorter than the C struct, 40 bytes: the guard of 32
  in the watcher decides nothing.
\<close>

lemma short_records_are_skipped:
  "watch_record raw = None \<longleftrightarrow> length raw < c_size struct_breach_event"
proof (cases "read_fields [8, 8, 4, 4, 8, 8] raw")
  case None
  then show ?thesis
    using read_fields_None [of "[8, 8, 4, 4, 8, 8]" raw]
    by (simp add: watch_record_def bpfBreachEvent_def c_size_def)
next
  case (Some vs)
  then obtain k g p r t u where "vs = [k, g, p, r, t, u]"
    using read_fields_length [OF Some] by (auto simp: length_Suc_conv eval_nat_numeral)
  with Some show ?thesis
    using read_fields_None [of "[8, 8, 4, 4, 8, 8]" raw]
    by (simp add: watch_record_def bpfBreachEvent_def c_size_def)
qed

section \<open>Leases\<close>

lemma lease_member_at:
  "member_at struct_cpu_lease [''count''] = Some (0, 8)"
  "member_at struct_cpu_lease [''lease_budget''] = Some (8, 8)"
  "member_at struct_cpu_lease [''last_used_ns''] = Some (16, 8)"
  "member_at struct_cpu_lease [''top_cgid''] = Some (24, 8)"
  "member_at struct_cpu_lease [''top_count''] = Some (32, 8)"
  using lease_members by simp_all

lemma load_field:
  fixes v :: u64
  assumes "\<forall>i<n. m (a + i) = bs ! i" and "bs = xs @ le_bytes 8 (unat v) @ ys" and "length bs = n"
  shows "load m (a + length xs) 8 = unat v"
proof -
  have "m (a + length xs + i) = le_bytes 8 (unat v) ! i" if "i < 8" for i
    using assms(1) [rule_format, of "length xs + i"] assms(2,3) that
    by (simp add: nth_append add.assoc)
  then have "map m [a + length xs..<a + length xs + 8] = le_bytes 8 (unat v)"
    by (intro nth_equalityI) auto
  then show ?thesis by (simp add: load_def)
qed

text \<open>The bytes the manager writes into the counter map for a lease are read back by the C program
  as the same lease, member by member.
\<close>

lemma lease_roundtrip:
  assumes "\<forall>i<c_size struct_cpu_lease. m (a + i) = bpfCpuLease l ! i"
  shows "lease_at m a = Some l"
proof -
  let ?b = "\<lambda>x :: u64. le_bytes 8 (unat x)"
  have bs: "bpfCpuLease l = ?b (cl_count l) @ ?b (cl_lease_budget l) @ ?b (cl_last_used_ns l)
              @ ?b (cl_top_cgid l) @ ?b (cl_top_count l)"
    by (simp add: bpfCpuLease_def)
  have "load m (a + 0) 8 = unat (cl_count l)"
    using load_field [OF assms, of "[]"] bs by (simp add: c_size_def)
  moreover have "load m (a + 8) 8 = unat (cl_lease_budget l)"
    using load_field [OF assms, of "?b (cl_count l)"] bs by (simp add: c_size_def)
  moreover have "load m (a + 16) 8 = unat (cl_last_used_ns l)"
    using load_field [OF assms, of "?b (cl_count l) @ ?b (cl_lease_budget l)"] bs
    by (simp add: c_size_def)
  moreover have "load m (a + 24) 8 = unat (cl_top_cgid l)"
    using load_field
      [OF assms, of "?b (cl_count l) @ ?b (cl_lease_budget l) @ ?b (cl_last_used_ns l)"] bs
    by (simp add: c_size_def)
  moreover have "load m (a + 32) 8 = unat (cl_top_count l)"
    using load_field [OF assms, of "?b (cl_count l) @ ?b (cl_lease_budget l)
        @ ?b (cl_last_used_ns l) @ ?b (cl_top_cgid l)" "cl_top_count l" "[]"] bs
    by (simp add: c_size_def)
  ultimately show ?thesis
    by (simp add: lease_at_def load_member_def lease_member_at)
qed

text \<open>A lease of 1, 2, 3, 4, 5 as the 40 bytes at address 0.\<close>

lemma lease_roundtrip_witness:
  "lease_at (\<lambda>i. if i mod 8 = 0 \<and> i < 40 then word_of_nat (i div 8 + 1) else 0) 0
   = Some \<lparr>cl_count = 1, cl_lease_budget = 2, cl_last_used_ns = 3, cl_top_cgid = 4,
           cl_top_count = 5\<rparr>"
  by (rule lease_roundtrip) code_simp

section \<open>The objects at the hooks\<close>

definition hook_objects :: "ctype list" where
  "hook_objects =
     [struct_file, struct_task_struct, struct_cgroup, struct_css_set, struct_inode,
      struct_super_block, struct_mm_struct, struct_signal_struct, struct_pid_namespace,
      struct_rq, struct_mem_cgroup, struct_bpf_map, struct_bpf_htab, struct_bpf_ringbuf_map,
      struct_bpf_prog_aux, struct_bpf_trampoline, union_bpf_attr]"



end
