(* ===== verification/Go_Base.thy ===== *)
theory Go_Base
  imports Prelude "HOL-Library.AList"
begin

text \<open>
  What the Go sources use of their language: \<^verbatim>\<open>int64\<close> with its wrap-around, and maps with
  string keys as association lists with distinct keys, in an order the program must not depend
  on.
\<close>

section \<open>int64\<close>

definition i64 :: "int \<Rightarrow> int" where
  "i64 x = (x + 2 ^ 63) mod 2 ^ 64 - 2 ^ 63"

definition in_i64 :: "int \<Rightarrow> bool" where
  "in_i64 x \<longleftrightarrow> - (2 ^ 63) \<le> x \<and> x < 2 ^ 63"

lemma i64_id [simp]: "in_i64 x \<Longrightarrow> i64 x = x"
  by (simp add: i64_def in_i64_def)

lemma in_i64_i64 [simp]: "in_i64 (i64 x)"
proof -
  have "0 \<le> (x + 2 ^ 63) mod 2 ^ 64" "(x + 2 ^ 63) mod 2 ^ 64 < 2 ^ 64" by simp_all
  then show ?thesis unfolding in_i64_def i64_def by simp
qed

lemma in_i64_between: "in_i64 a \<Longrightarrow> in_i64 b \<Longrightarrow> a \<le> x \<Longrightarrow> x \<le> b \<Longrightarrow> in_i64 x"
  by (simp add: in_i64_def)

lemma in_i64_0 [simp]: "in_i64 0"
  by (simp add: in_i64_def)

text \<open>Division truncates towards zero.\<close>

definition go_div :: "int \<Rightarrow> int \<Rightarrow> int" where
  "go_div a b = sgn a * sgn b * (\<bar>a\<bar> div \<bar>b\<bar>)"

lemma go_div_nonneg: "0 \<le> a \<Longrightarrow> 0 < b \<Longrightarrow> go_div a b = a div b"
  by (cases "a = 0") (simp_all add: go_div_def sgn_if)

section \<open>Maps\<close>

type_synonym credits = "(string \<times> int) list"

definition keys_distinct :: "credits \<Rightarrow> bool" where
  "keys_distinct c \<longleftrightarrow> distinct (map fst c)"

text \<open>\<^verbatim>\<open>m[k]\<close>, with the zero value for a missing key.\<close>

definition credit_of :: "credits \<Rightarrow> string \<Rightarrow> int" where
  "credit_of c k = (case map_of c k of None \<Rightarrow> 0 | Some v \<Rightarrow> v)"

text \<open>The loop \<^verbatim>\<open>for _, v := range m { total += v }\<close>.\<close>

fun add_up :: "int \<Rightarrow> credits \<Rightarrow> int" where
  "add_up t [] = t"
| "add_up t ((k, v) # c) = add_up (i64 (t + v)) c"

text \<open>The sum of the credits, without wrap-around.\<close>

definition credit_sum :: "credits \<Rightarrow> int" where
  "credit_sum c = sum_list (map snd c)"

definition nonneg :: "credits \<Rightarrow> bool" where
  "nonneg c \<longleftrightarrow> (\<forall>(k, v)\<in>set c. 0 \<le> v)"

lemma total_simps [simp]: "credit_sum [] = 0" "credit_sum ((k, v) # c) = v + credit_sum c"
  by (simp_all add: credit_sum_def)

lemma nonneg_simps [simp]: "nonneg []" "nonneg ((k, v) # c) \<longleftrightarrow> 0 \<le> v \<and> nonneg c"
  by (auto simp: nonneg_def)

lemma total_nonneg: "nonneg c \<Longrightarrow> 0 \<le> credit_sum c"
  by (induction c) auto

lemma credit_nonneg: "nonneg c \<Longrightarrow> 0 \<le> credit_of c k"
  by (auto simp: nonneg_def credit_of_def dest: map_of_SomeD split: option.split)

lemma i64_add: "i64 (i64 a + b) = i64 (a + b)"
proof -
  have "(a + 2 ^ 63) mod 2 ^ 64 - 2 ^ 63 + b + 2 ^ 63 = (a + 2 ^ 63) mod 2 ^ 64 + b" by simp
  then have "i64 (i64 a + b) = ((a + 2 ^ 63) mod 2 ^ 64 + b) mod 2 ^ 64 - 2 ^ 63"
    by (simp only: i64_def)
  also have "\<dots> = (a + 2 ^ 63 + b) mod 2 ^ 64 - 2 ^ 63"
    by (simp only: mod_add_left_eq)
  also have "\<dots> = i64 (a + b)"
    unfolding i64_def by (simp only: ac_simps)
  finally show ?thesis .
qed

text \<open>The loop computes the sum modulo wrap-around, whatever the order of the keys.\<close>

lemma add_up_total: "i64 t = t \<Longrightarrow> add_up t c = i64 (t + credit_sum c)"
proof (induction t c rule: add_up.induct)
  case (2 t k v c)
  have "i64 (i64 (t + v)) = i64 (t + v)" by simp
  with 2 show ?case by (simp add: i64_add add.assoc)
qed simp

lemma add_up_exact: "in_i64 (credit_sum c) \<Longrightarrow> add_up 0 c = credit_sum c"
  by (simp add: add_up_total)

section \<open>Updates and deletions\<close>

lemma map_of_Some_in: "keys_distinct c \<Longrightarrow> map_of c k = Some v \<longleftrightarrow> (k, v) \<in> set c"
  unfolding keys_distinct_def by (rule map_of_eq_Some_iff)

lemma total_update:
  "keys_distinct c \<Longrightarrow> credit_sum (AList.update k v c) = credit_sum c - credit_of c k + v"
proof (induction c)
  case (Cons p c)
  obtain k' v' where p: "p = (k', v')" by fastforce
  show ?case
  proof (cases "k' = k")
    case True
    with p show ?thesis by (simp add: credit_of_def)
  next
    case False
    with p Cons show ?thesis by (simp add: credit_of_def keys_distinct_def)
  qed
qed (simp add: credit_of_def)

lemma credit_absent: "k \<notin> fst ` set c \<Longrightarrow> credit_of c k = 0"
  by (simp add: credit_of_def map_of_eq_None_iff [THEN iffD2])

lemma delete_absent: "k \<notin> fst ` set c \<Longrightarrow> AList.delete k c = c"
  by (simp add: AList.delete_eq filter_id_conv) force

lemma total_delete: "keys_distinct c \<Longrightarrow> credit_sum (AList.delete k c) = credit_sum c - credit_of c k"
proof (induction c)
  case (Cons p c)
  obtain k' v' where p: "p = (k', v')" by fastforce
  show ?case
  proof (cases "k' = k")
    case True
    with p Cons.prems have "AList.delete k c = c"
      by (intro delete_absent) (simp add: keys_distinct_def)
    with True p show ?thesis by (simp add: credit_of_def)
  next
    case False
    with p Cons show ?thesis by (simp add: credit_of_def keys_distinct_def)
  qed
qed (simp add: credit_of_def)

lemma keys_distinct_update: "keys_distinct c \<Longrightarrow> keys_distinct (AList.update k v c)"
  unfolding keys_distinct_def by (rule distinct_update)

lemma keys_distinct_delete: "keys_distinct c \<Longrightarrow> keys_distinct (AList.delete k c)"
  unfolding keys_distinct_def by (rule distinct_delete)

lemma keys_distinct_filter: "keys_distinct c \<Longrightarrow> keys_distinct (filter P c)"
  unfolding keys_distinct_def by (rule distinct_map_filter)

lemma nonneg_filter: "nonneg c \<Longrightarrow> nonneg (filter P c)"
  by (auto simp: nonneg_def)

lemma nonneg_delete: "nonneg c \<Longrightarrow> nonneg (AList.delete k c)"
  by (auto simp: nonneg_def AList.delete_eq)

lemma nonneg_update: "nonneg c \<Longrightarrow> 0 \<le> v \<Longrightarrow> nonneg (AList.update k v c)"
  by (induction c) auto

lemma total_filter_le: "nonneg c \<Longrightarrow> credit_sum (filter P c) \<le> credit_sum c"
  by (induction c) auto

lemma credit_le_total: "nonneg c \<Longrightarrow> credit_of c k \<le> credit_sum c"
  by (induction c) (auto simp: credit_of_def split: option.splits intro: add_increasing total_nonneg)

lemma credit_update [simp]: "credit_of (AList.update k v c) k = v"
  by (simp add: credit_of_def update_conv')

lemma credit_update_other [simp]: "k' \<noteq> k \<Longrightarrow> credit_of (AList.update k v c) k' = credit_of c k'"
  by (simp add: credit_of_def update_conv')

lemma delete_update_absent: "k \<notin> fst ` set c \<Longrightarrow> AList.delete k (AList.update k v c) = c"
  by (induction c) (auto simp: delete_absent)

lemma credit_filter:
  "credit_of (filter (\<lambda>(k, v). P k) c) k = (if P k then credit_of c k else 0)"
proof -
  have "map_of (filter (\<lambda>(k, v). P k) c) k = (if P k then map_of c k else None)"
    by (induction c) auto
  then show ?thesis by (simp add: credit_of_def)
qed

end
