(* ===== verification/Quota_Api.thy ===== *)
theory Quota_Api
  imports Go_Base
begin

text \<open>
  The objects of \<^verbatim>\<open>types.go\<close> and what the manager asks of the Kubernetes API server, which is
  not part of the sources: an argument of the operations, with its documented behaviour as the
  predicate \<open>api_ok\<close>.
\<close>

section \<open>Objects\<close>

record ObjectQuotaSpec =
  FileDescriptors :: "int option"
  Processes :: "int option"
  LeaseBatchSize :: "int option"

record ObjectQuotaStatus =
  FDAllocations :: "credits option"
  ProcAllocations :: "credits option"
  AvailableFD :: int
  Version :: "int option"

record ObjectQuota =
  oq_namespace :: string
  oq_name :: string
  oq_resource_version :: nat
  Spec :: ObjectQuotaSpec
  Status :: ObjectQuotaStatus

text \<open>The heartbeat of one node in one namespace; times in nanoseconds.\<close>

record Lease =
  ls_namespace :: string
  ls_name :: string
  HolderIdentity :: "string option"
  RenewTime :: "int option"

record LeaseStatus =
  TotalLimit :: int
  AllocatedCredits :: int
  NodeLeases :: credits

section \<open>The API server\<close>

text \<open>
  \<open>'w\<close> is the state of the world: the server, the client's cache, what the other nodes did. A
  read gives the object or an error; a write gives the world after it and whether the client
  was told of success.
\<close>

record 'w api =
  get_quota :: "'w \<Rightarrow> string \<Rightarrow> string \<Rightarrow> ObjectQuota option"
  status_update :: "'w \<Rightarrow> ObjectQuota \<Rightarrow> 'w \<times> bool"
  list_quotas :: "'w \<Rightarrow> ObjectQuota list option"
  get_lease :: "'w \<Rightarrow> string \<Rightarrow> string \<Rightarrow> Lease option"
  list_leases :: "'w \<Rightarrow> string \<Rightarrow> Lease list option"
  create_lease :: "'w \<Rightarrow> Lease \<Rightarrow> 'w \<times> bool"
  update_lease :: "'w \<Rightarrow> Lease \<Rightarrow> 'w \<times> bool"
  remove_lease :: "'w \<Rightarrow> string \<Rightarrow> string \<Rightarrow> 'w \<times> bool"

type_synonym 'w store = "'w \<Rightarrow> string \<Rightarrow> string \<Rightarrow> ObjectQuota option"

text \<open>
  The update applied: \<open>q\<close> names the stored object \<open>c\<close> at its current version, and \<open>c\<close> gets the
  status of \<open>q\<close> and a new version.
\<close>

definition applied :: "'w store \<Rightarrow> ('w \<Rightarrow> ObjectQuota set) \<Rightarrow> ObjectQuota \<Rightarrow> 'w \<Rightarrow> 'w \<Rightarrow> bool" where
  "applied stored versions q w w' \<longleftrightarrow>
     (\<exists>c rv. let new = c\<lparr>Status := Status q, oq_resource_version := rv\<rparr> in
        stored w (oq_namespace q) (oq_name q) = Some c \<and>
        oq_resource_version c = oq_resource_version q \<and>
        stored w' = (stored w)(oq_namespace q :=
          (stored w (oq_namespace q))(oq_name q \<mapsto> new)) \<and>
        versions w' \<subseteq> insert new (versions w))"

definition unchanged :: "'w store \<Rightarrow> ('w \<Rightarrow> ObjectQuota set) \<Rightarrow> 'w \<Rightarrow> 'w \<Rightarrow> bool" where
  "unchanged stored versions w w' \<longleftrightarrow> stored w' = stored w \<and> versions w' = versions w"

text \<open>
  What Kubernetes documents. \<open>stored\<close> are the objects the server holds and \<open>versions\<close> all
  versions a read may still return: a read may give an old version; a resource version names
  one version of an object; a status update is refused when the object was changed since it was
  read; a refused or failed update changes nothing, or was applied and only its answer lost;
  Lease objects are other objects.
\<close>

definition reads_ok :: "'w api \<Rightarrow> 'w store \<Rightarrow> ('w \<Rightarrow> ObjectQuota set) \<Rightarrow> bool" where
  "reads_ok api stored versions \<longleftrightarrow>
     (\<forall>w ns n q. get_quota api w ns n = Some q \<or> stored w ns n = Some q \<longrightarrow>
        q \<in> versions w \<and> oq_namespace q = ns \<and> oq_name q = n)"

definition same_version :: "ObjectQuota \<Rightarrow> ObjectQuota \<Rightarrow> bool" where
  "same_version a b \<longleftrightarrow>
     oq_namespace a = oq_namespace b \<and> oq_name a = oq_name b \<and>
     oq_resource_version a = oq_resource_version b"

definition versions_ok :: "('w \<Rightarrow> ObjectQuota set) \<Rightarrow> bool" where
  "versions_ok versions \<longleftrightarrow>
     (\<forall>w. \<forall>a\<in>versions w. \<forall>b\<in>versions w. same_version a b \<longrightarrow> a = b)"

definition updates_ok :: "'w api \<Rightarrow> 'w store \<Rightarrow> ('w \<Rightarrow> ObjectQuota set) \<Rightarrow> bool" where
  "updates_ok api stored versions \<longleftrightarrow>
     (\<forall>w q w' ok. status_update api w q = (w', ok) \<longrightarrow>
        applied stored versions q w w' \<or> \<not> ok \<and> unchanged stored versions w w')"

definition leases_ok :: "'w api \<Rightarrow> 'w store \<Rightarrow> ('w \<Rightarrow> ObjectQuota set) \<Rightarrow> bool" where
  "leases_ok api stored versions \<longleftrightarrow>
     (\<forall>w l. unchanged stored versions w (fst (create_lease api w l))) \<and>
     (\<forall>w l. unchanged stored versions w (fst (update_lease api w l))) \<and>
     (\<forall>w ns n. unchanged stored versions w (fst (remove_lease api w ns n)))"

definition api_ok :: "'w api \<Rightarrow> 'w store \<Rightarrow> ('w \<Rightarrow> ObjectQuota set) \<Rightarrow> bool" where
  "api_ok api stored versions \<longleftrightarrow>
     reads_ok api stored versions \<and> versions_ok versions \<and> updates_ok api stored versions \<and>
     leases_ok api stored versions"

lemma api_ok_get:
  assumes "api_ok api stored versions" "get_quota api w ns n = Some q"
  shows "q \<in> versions w" "oq_namespace q = ns" "oq_name q = n"
  using assms unfolding api_ok_def reads_ok_def by blast+

lemma api_ok_stored:
  assumes "api_ok api stored versions" "stored w ns n = Some c"
  shows "c \<in> versions w" "oq_namespace c = ns" "oq_name c = n"
  using assms unfolding api_ok_def reads_ok_def by blast+

lemma api_ok_version:
  assumes "api_ok api stored versions" "a \<in> versions w" "b \<in> versions w" "same_version a b"
  shows "a = b"
  using assms unfolding api_ok_def versions_ok_def by blast

lemma api_ok_update:
  assumes "api_ok api stored versions" "status_update api w q = (w', ok)"
  shows "applied stored versions q w w' \<or> \<not> ok \<and> unchanged stored versions w w'"
  using assms unfolding api_ok_def updates_ok_def by blast

lemma api_ok_lease:
  assumes "api_ok api stored versions"
  shows "unchanged stored versions w (fst (create_lease api w l))"
    and "unchanged stored versions w (fst (update_lease api w l))"
    and "unchanged stored versions w (fst (remove_lease api w ns n))"
  using assms unfolding api_ok_def leases_ok_def by blast+

text \<open>
  A handler reads \<open>q\<close> and updates it with a new status: if the update was applied, the stored
  object was \<open>q\<close> itself.
\<close>

lemma update_of_read:
  assumes api: "api_ok api stored versions"
    and get: "get_quota api w ns n = Some q"
    and upd: "status_update api w (q\<lparr>Status := st\<rparr>) = (w', ok)"
  shows "(\<exists>rv. let new = q\<lparr>Status := st, oq_resource_version := rv\<rparr> in
            stored w ns n = Some q \<and>
            stored w' = (stored w)(ns := (stored w ns)(n \<mapsto> new)) \<and>
            versions w' \<subseteq> insert new (versions w)) \<or>
         \<not> ok \<and> unchanged stored versions w w'"
  using api_ok_update [OF api upd]
proof
  assume "applied stored versions (q\<lparr>Status := st\<rparr>) w w'"
  then obtain c rv where c: "stored w ns n = Some c"
      "oq_resource_version c = oq_resource_version q"
      "stored w' = (stored w)(ns := (stored w ns)(n \<mapsto>
         c\<lparr>Status := st, oq_resource_version := rv\<rparr>))"
      "versions w' \<subseteq> insert (c\<lparr>Status := st, oq_resource_version := rv\<rparr>) (versions w)"
    using api_ok_get [OF api get] by (auto simp: applied_def Let_def)
  moreover have "c = q"
    using api_ok_version [OF api api_ok_stored(1) [OF api c(1)] api_ok_get(1) [OF api get]]
      api_ok_stored(2,3) [OF api c(1)] api_ok_get(2,3) [OF api get] c(2)
    by (simp add: same_version_def)
  ultimately show ?thesis by (auto simp: Let_def)
qed blast

section \<open>A server\<close>

text \<open>
  A server that keeps its objects in two lists, answers every request and never serves an old
  object: one instance of \<open>api_ok\<close>, on which concrete runs are computed.
\<close>

record server =
  sv_quotas :: "ObjectQuota list"
  sv_leases :: "Lease list"

definition sv_find :: "server \<Rightarrow> string \<Rightarrow> string \<Rightarrow> ObjectQuota option" where
  "sv_find w ns n = find (\<lambda>q. oq_namespace q = ns \<and> oq_name q = n) (sv_quotas w)"

fun sv_replace :: "ObjectQuota \<Rightarrow> ObjectQuota list \<Rightarrow> ObjectQuota list" where
  "sv_replace q [] = []"
| "sv_replace q (c # cs) =
     (if oq_namespace c = oq_namespace q \<and> oq_name c = oq_name q
      then c\<lparr>Status := Status q, oq_resource_version := oq_resource_version c + 1\<rparr> # cs
      else c # sv_replace q cs)"

definition sv_update :: "server \<Rightarrow> ObjectQuota \<Rightarrow> server \<times> bool" where
  "sv_update w q =
     (case sv_find w (oq_namespace q) (oq_name q) of
        None \<Rightarrow> (w, False)
      | Some c \<Rightarrow>
          if oq_resource_version c = oq_resource_version q
          then (w\<lparr>sv_quotas := sv_replace q (sv_quotas w)\<rparr>, True)
          else (w, False))"

definition sv_lease :: "server \<Rightarrow> string \<Rightarrow> string \<Rightarrow> Lease option" where
  "sv_lease w ns n = find (\<lambda>l. ls_namespace l = ns \<and> ls_name l = n) (sv_leases w)"

definition sv_put_lease :: "server \<Rightarrow> Lease \<Rightarrow> server \<times> bool" where
  "sv_put_lease w l =
     (w\<lparr>sv_leases := l # filter (\<lambda>x. \<not> (ls_namespace x = ls_namespace l \<and> ls_name x = ls_name l))
          (sv_leases w)\<rparr>, True)"

definition sv_api :: "server api" where
  "sv_api =
     \<lparr>get_quota = sv_find,
      status_update = sv_update,
      list_quotas = (\<lambda>w. Some (sv_quotas w)),
      get_lease = sv_lease,
      list_leases = (\<lambda>w ns. Some (filter (\<lambda>l. ls_namespace l = ns) (sv_leases w))),
      create_lease = sv_put_lease,
      update_lease = sv_put_lease,
      remove_lease = (\<lambda>w ns n.
        (w\<lparr>sv_leases := filter (\<lambda>x. \<not> (ls_namespace x = ns \<and> ls_name x = n)) (sv_leases w)\<rparr>,
         True))\<rparr>"

lemma sv_find_names: "sv_find w ns n = Some q \<Longrightarrow> oq_namespace q = ns \<and> oq_name q = n"
  by (auto simp: sv_find_def find_Some_iff)

lemma find_replace:
  assumes "find (\<lambda>c. oq_namespace c = oq_namespace q \<and> oq_name c = oq_name q) cs = Some c"
  shows "find (\<lambda>x. oq_namespace x = ns \<and> oq_name x = n) (sv_replace q cs) =
    (if ns = oq_namespace q \<and> n = oq_name q
     then Some (c\<lparr>Status := Status q, oq_resource_version := oq_resource_version c + 1\<rparr>)
     else find (\<lambda>x. oq_namespace x = ns \<and> oq_name x = n) cs)"
  using assms by (induction cs) (auto split: if_splits)

definition sv_versions :: "server \<Rightarrow> ObjectQuota set" where
  "sv_versions w = {q. sv_find w (oq_namespace q) (oq_name q) = Some q}"

lemma sv_update_ok:
  assumes u: "sv_update w q = (w', ok)"
  shows "applied sv_find sv_versions q w w' \<or> \<not> ok \<and> unchanged sv_find sv_versions w w'"
proof (cases "\<exists>c. sv_find w (oq_namespace q) (oq_name q) = Some c \<and>
                 oq_resource_version c = oq_resource_version q")
  case True
  then obtain c where c: "sv_find w (oq_namespace q) (oq_name q) = Some c"
    "oq_resource_version c = oq_resource_version q" by blast
  let ?new = "c\<lparr>Status := Status q, oq_resource_version := oq_resource_version c + 1\<rparr>"
  from c u have "w' = w\<lparr>sv_quotas := sv_replace q (sv_quotas w)\<rparr>" by (simp add: sv_update_def)
  with c have s: "sv_find w' = (sv_find w)(oq_namespace q :=
      (sv_find w (oq_namespace q))(oq_name q \<mapsto> ?new))"
    by (intro ext) (simp add: sv_find_def find_replace)
  moreover have "sv_versions w' \<subseteq> insert ?new (sv_versions w)"
    unfolding sv_versions_def s by auto
  ultimately show ?thesis using c unfolding applied_def Let_def by blast
next
  case False
  with u show ?thesis by (auto simp: sv_update_def unchanged_def split: option.splits if_splits)
qed

lemma sv_leases_unchanged: "unchanged sv_find sv_versions w (w\<lparr>sv_leases := ls\<rparr>)"
  unfolding unchanged_def sv_versions_def sv_find_def by simp

lemma sv_api_ok: "api_ok sv_api sv_find sv_versions"
proof -
  have "reads_ok sv_api sv_find sv_versions"
    unfolding reads_ok_def sv_versions_def sv_api_def by (auto dest: sv_find_names)
  moreover have "versions_ok sv_versions"
    unfolding versions_ok_def
  proof (intro allI ballI impI)
    fix w a b
    assume "a \<in> sv_versions w" "b \<in> sv_versions w" and s: "same_version a b"
    then have "sv_find w (oq_namespace b) (oq_name b) = Some a"
      "sv_find w (oq_namespace b) (oq_name b) = Some b"
      by (simp_all only: sv_versions_def mem_Collect_eq same_version_def)
    then show "a = b" by (simp only: option.inject)
  qed
  moreover have "updates_ok sv_api sv_find sv_versions"
    unfolding updates_ok_def sv_api_def using sv_update_ok by auto
  moreover have "leases_ok sv_api sv_find sv_versions"
    unfolding leases_ok_def by (simp add: sv_api_def sv_put_lease_def sv_leases_unchanged)
  ultimately show ?thesis unfolding api_ok_def by blast
qed

end
