(* ===== verification/Lease_Manager.thy ===== *)
theory Lease_Manager
  imports Quota_Api
begin

text \<open>
  \<^verbatim>\<open>K8sLeaseManager\<close> of \<^verbatim>\<open>lease_k8s.go\<close>, operation by operation. \<open>api\<close> is the API server,
  \<open>w\<close> the state of the world, \<open>now\<close> the clock of the node. Every operation returns the world
  after its calls.
\<close>

section \<open>The manager\<close>

record K8sLeaseManager =
  nodeID :: string
  defaultBatch :: int

definition NewK8sLeaseManager :: "string \<Rightarrow> int \<Rightarrow> K8sLeaseManager" where
  "NewK8sLeaseManager node batch =
     \<lparr>nodeID = node, defaultBatch = (if batch \<le> 0 then 1000 else batch)\<rparr>"

definition lease_duration :: int where
  "lease_duration = 60 * 1000000000"

datatype lease_error = WrongNode | GetFailed | UpdateFailed

definition isProcSuffix :: "string \<Rightarrow> string \<times> bool" where
  "isProcSuffix ns =
     (if 5 < length ns \<and> drop (length ns - 5) ns = ''-proc'' then (take (length ns - 5) ns, True)
      else (ns, False))"

definition leaseName :: "K8sLeaseManager \<Rightarrow> string \<Rightarrow> string" where
  "leaseName m ns = ''object-quota-'' @ ns @ ''-'' @ nodeID m"

definition incrementVersion :: "int option \<Rightarrow> int" where
  "incrementVersion v = (case v of None \<Rightarrow> 1 | Some n \<Rightarrow> i64 (n + 1))"

section \<open>Heartbeats\<close>

definition ensureLease :: "'w api \<Rightarrow> K8sLeaseManager \<Rightarrow> string \<Rightarrow> int \<Rightarrow> 'w \<Rightarrow> 'w" where
  "ensureLease api m ns now w =
     (case get_lease api w ns (leaseName m ns) of
        None \<Rightarrow>
          fst (create_lease api w
            \<lparr>ls_namespace = ns, ls_name = leaseName m ns, HolderIdentity = Some (nodeID m),
             RenewTime = Some now\<rparr>)
      | Some existing \<Rightarrow> fst (update_lease api w (existing\<lparr>RenewTime := Some now\<rparr>)))"

definition deleteLease :: "'w api \<Rightarrow> K8sLeaseManager \<Rightarrow> string \<Rightarrow> 'w \<Rightarrow> 'w" where
  "deleteLease api m ns w = fst (remove_lease api w ns (leaseName m ns))"

section \<open>Requesting credits\<close>

text \<open>The batch when the caller names none.\<close>

definition default_request :: "K8sLeaseManager \<Rightarrow> int \<Rightarrow> int \<Rightarrow> int" where
  "default_request m totalLimit requested =
     (if requested \<le> 0 then
        (let r = go_div totalLimit 10;
             r = (if totalLimit \<le> 100 then totalLimit else r);
             r = max r 10;
             r = min r (defaultBatch m)
         in min r totalLimit)
      else requested)"

definition requestFD ::
  "'w api \<Rightarrow> K8sLeaseManager \<Rightarrow> ObjectQuota \<Rightarrow> string \<Rightarrow> string \<Rightarrow> int \<Rightarrow> int \<Rightarrow> 'w \<Rightarrow>
   (lease_error + int) \<times> 'w" where
  "requestFD api m quota ns node requested now w =
     (let st = Status quota;
          allocs = (case FDAllocations st of None \<Rightarrow> [] | Some a \<Rightarrow> a) in
      if map_of allocs node \<noteq> None \<and> 0 < credit_of allocs node then
        (Inr (credit_of allocs node), ensureLease api m ns now w)
      else
     (let allocated = add_up 0 allocs;
          totalLimit = (case FileDescriptors (Spec quota) of None \<Rightarrow> 0 | Some l \<Rightarrow> l);
          requested = default_request m totalLimit requested;
          available = i64 (totalLimit - allocated) in
      if available \<le> 0 then (Inr (credit_of allocs node), ensureLease api m ns now w)
      else
     (let grant = min requested available;
          allocs' = AList.update node (i64 (credit_of allocs node + grant)) allocs;
          quota' = quota\<lparr>Status := st\<lparr>FDAllocations := Some allocs',
                     AvailableFD := i64 (i64 (totalLimit - allocated) - grant),
                     Version := Some (incrementVersion (Version st))\<rparr>\<rparr> in
      case status_update api w quota' of
        (w', False) \<Rightarrow> (Inl UpdateFailed, w')
      | (w', True) \<Rightarrow> (Inr (credit_of allocs' node), ensureLease api m ns now w'))))"

definition requestProc ::
  "'w api \<Rightarrow> K8sLeaseManager \<Rightarrow> ObjectQuota \<Rightarrow> string \<Rightarrow> string \<Rightarrow> int \<Rightarrow> 'w \<Rightarrow>
   (lease_error + int) \<times> 'w" where
  "requestProc api m quota ns node requested w =
     (let st = Status quota;
          allocs = (case ProcAllocations st of None \<Rightarrow> [] | Some a \<Rightarrow> a) in
      if map_of allocs node \<noteq> None \<and> 0 < credit_of allocs node then
        (Inr (credit_of allocs node), w)
      else
     (let allocated = add_up 0 allocs;
          totalLimit = (case Processes (Spec quota) of None \<Rightarrow> 0 | Some l \<Rightarrow> l);
          requested = default_request m totalLimit requested;
          available = i64 (totalLimit - allocated) in
      if available \<le> 0 then (Inr (credit_of allocs node), w)
      else
     (let grant = min requested available;
          allocs' = AList.update node (i64 (credit_of allocs node + grant)) allocs;
          quota' = quota\<lparr>Status := st\<lparr>ProcAllocations := Some allocs',
                     Version := Some (incrementVersion (Version st))\<rparr>\<rparr> in
      case status_update api w quota' of
        (w', False) \<Rightarrow> (Inl UpdateFailed, w')
      | (w', True) \<Rightarrow> (Inr (credit_of allocs' node), w'))))"

definition RequestLease ::
  "'w api \<Rightarrow> K8sLeaseManager \<Rightarrow> string \<Rightarrow> string \<Rightarrow> int \<Rightarrow> int \<Rightarrow> 'w \<Rightarrow>
   (lease_error + int) \<times> 'w" where
  "RequestLease api m ns node requested now w =
     (case isProcSuffix ns of (baseNS, isProc) \<Rightarrow>
      if node \<noteq> nodeID m then (Inl WrongNode, w)
      else
     (case get_quota api w baseNS baseNS of
        None \<Rightarrow> (Inl GetFailed, w)
      | Some quota \<Rightarrow>
          if isProc then requestProc api m quota baseNS node requested w
          else requestFD api m quota baseNS node requested now w))"

section \<open>Giving credits back\<close>

definition releaseFD ::
  "'w api \<Rightarrow> K8sLeaseManager \<Rightarrow> ObjectQuota \<Rightarrow> string \<Rightarrow> string \<Rightarrow> 'w \<Rightarrow> int \<times> 'w" where
  "releaseFD api m quota ns node w =
     (case FDAllocations (Status quota) of
        None \<Rightarrow> (0, w)
      | Some allocs \<Rightarrow>
     (case map_of allocs node of
        None \<Rightarrow> (0, w)
      | Some leased \<Rightarrow>
     (let st = Status quota;
          allocs' = AList.delete node allocs;
          totalUsed = add_up 0 allocs';
          totalLimit = (case FileDescriptors (Spec quota) of None \<Rightarrow> 0 | Some l \<Rightarrow> l);
          quota' = quota\<lparr>Status := st\<lparr>FDAllocations := Some allocs',
                     AvailableFD := i64 (totalLimit - totalUsed),
                     Version := Some (incrementVersion (Version st))\<rparr>\<rparr> in
      case status_update api w quota' of
        (w', False) \<Rightarrow> (0, w')
      | (w', True) \<Rightarrow> (leased, deleteLease api m ns w'))))"

definition releaseProc ::
  "'w api \<Rightarrow> K8sLeaseManager \<Rightarrow> ObjectQuota \<Rightarrow> string \<Rightarrow> string \<Rightarrow> 'w \<Rightarrow> int \<times> 'w" where
  "releaseProc api m quota ns node w =
     (case ProcAllocations (Status quota) of
        None \<Rightarrow> (0, w)
      | Some allocs \<Rightarrow>
     (case map_of allocs node of
        None \<Rightarrow> (0, w)
      | Some leased \<Rightarrow>
     (let st = Status quota;
          quota' = quota\<lparr>Status := st\<lparr>ProcAllocations := Some (AList.delete node allocs),
                     Version := Some (incrementVersion (Version st))\<rparr>\<rparr> in
      case status_update api w quota' of
        (w', False) \<Rightarrow> (0, w')
      | (w', True) \<Rightarrow> (leased, w'))))"

definition ReleaseLease ::
  "'w api \<Rightarrow> K8sLeaseManager \<Rightarrow> string \<Rightarrow> string \<Rightarrow> 'w \<Rightarrow> int \<times> 'w" where
  "ReleaseLease api m ns node w =
     (case isProcSuffix ns of (baseNS, isProc) \<Rightarrow>
      case get_quota api w baseNS baseNS of
        None \<Rightarrow> (0, w)
      | Some quota \<Rightarrow>
          if isProc then releaseProc api m quota baseNS node w
          else releaseFD api m quota baseNS node w)"

definition RemoveLease :: "'w api \<Rightarrow> K8sLeaseManager \<Rightarrow> string \<Rightarrow> 'w \<Rightarrow> 'w" where
  "RemoveLease api m ns w = deleteLease api m ns w"

section \<open>Reading the allocation\<close>

definition GetStatus :: "'w api \<Rightarrow> string \<Rightarrow> 'w \<Rightarrow> LeaseStatus option" where
  "GetStatus api ns w =
     (case get_quota api w ns ns of
        None \<Rightarrow> None
      | Some quota \<Rightarrow>
          (let allocs = (case FDAllocations (Status quota) of None \<Rightarrow> [] | Some a \<Rightarrow> a) in
           Some \<lparr>TotalLimit = (case FileDescriptors (Spec quota) of None \<Rightarrow> 0 | Some l \<Rightarrow> l),
                 AllocatedCredits = add_up 0 allocs,
                 NodeLeases = allocs\<rparr>))"

section \<open>Reclaiming the credits of dead nodes\<close>

definition lease_active :: "int \<Rightarrow> Lease \<Rightarrow> bool" where
  "lease_active now l =
     (case RenewTime l of None \<Rightarrow> False | Some t \<Rightarrow> now - t < lease_duration)"

definition active_nodes :: "int \<Rightarrow> Lease list \<Rightarrow> string list" where
  "active_nodes now ls = List.map_filter HolderIdentity (filter (lease_active now) ls)"

definition keep_active :: "K8sLeaseManager \<Rightarrow> string list \<Rightarrow> credits \<Rightarrow> credits" where
  "keep_active m active c = filter (\<lambda>(k, v). k = nodeID m \<or> k \<in> set active) c"

definition ReclaimExpiredLeases ::
  "'w api \<Rightarrow> K8sLeaseManager \<Rightarrow> string \<Rightarrow> int \<Rightarrow> 'w \<Rightarrow> bool \<times> 'w" where
  "ReclaimExpiredLeases api m ns now w =
     (case get_quota api w ns ns of
        None \<Rightarrow> (True, w)
      | Some quota \<Rightarrow>
     (case list_leases api w ns of
        None \<Rightarrow> (True, w)
      | Some ls \<Rightarrow>
     (let st = Status quota;
          active = active_nodes now ls;
          fds = map_option (keep_active m active) (FDAllocations st);
          procs = map_option (keep_active m active) (ProcAllocations st) in
      if fds = FDAllocations st \<and> procs = ProcAllocations st then (True, w)
      else
     (let totalFD = add_up 0 (case fds of None \<Rightarrow> [] | Some a \<Rightarrow> a);
          fdLimit = (case FileDescriptors (Spec quota) of None \<Rightarrow> 0 | Some l \<Rightarrow> l);
          quota' = quota\<lparr>Status := st\<lparr>FDAllocations := fds, ProcAllocations := procs,
                     AvailableFD := i64 (fdLimit - totalFD),
                     Version := Some (incrementVersion (Version st))\<rparr>\<rparr> in
      case status_update api w quota' of (w', ok) \<Rightarrow> (ok, w')))))"

text \<open>One tick of \<^verbatim>\<open>StartLeaseRenewal\<close>.\<close>

fun renew_all :: "'w api \<Rightarrow> K8sLeaseManager \<Rightarrow> int \<Rightarrow> ObjectQuota list \<Rightarrow> 'w \<Rightarrow> 'w" where
  "renew_all api m now [] w = w"
| "renew_all api m now (q # qs) w =
     renew_all api m now qs
       (snd (ReclaimExpiredLeases api m (oq_namespace q) now
          (ensureLease api m (oq_namespace q) now w)))"

definition renewal_tick :: "'w api \<Rightarrow> K8sLeaseManager \<Rightarrow> int \<Rightarrow> 'w \<Rightarrow> 'w" where
  "renewal_tick api m now w =
     (case list_quotas api w of None \<Rightarrow> w | Some qs \<Rightarrow> renew_all api m now qs w)"

end
