(* ===== verification/Credit_Pool.thy ===== *)
theory Credit_Pool
  imports Lease_Manager
begin

text \<open>
  The contract of the lease manager: the credits of a namespace form a pool of the size of its
  quota, shared by the nodes. Every operation keeps every version of every quota within its
  pool.
\<close>

section \<open>Pools\<close>

definition fd_limit :: "ObjectQuota \<Rightarrow> int" where
  "fd_limit q = (case FileDescriptors (Spec q) of None \<Rightarrow> 0 | Some l \<Rightarrow> l)"

definition fd_credits :: "ObjectQuota \<Rightarrow> credits" where
  "fd_credits q = (case FDAllocations (Status q) of None \<Rightarrow> [] | Some c \<Rightarrow> c)"

definition proc_limit :: "ObjectQuota \<Rightarrow> int" where
  "proc_limit q = (case Processes (Spec q) of None \<Rightarrow> 0 | Some l \<Rightarrow> l)"

definition proc_credits :: "ObjectQuota \<Rightarrow> credits" where
  "proc_credits q = (case ProcAllocations (Status q) of None \<Rightarrow> [] | Some c \<Rightarrow> c)"

definition pool_ok :: "int \<Rightarrow> credits \<Rightarrow> bool" where
  "pool_ok limit c \<longleftrightarrow> in_i64 limit \<and> keys_distinct c \<and> nonneg c \<and> credit_sum c \<le> limit"

definition quota_ok :: "ObjectQuota \<Rightarrow> bool" where
  "quota_ok q \<longleftrightarrow> pool_ok (fd_limit q) (fd_credits q) \<and> pool_ok (proc_limit q) (proc_credits q)"

definition manager_ok :: "K8sLeaseManager \<Rightarrow> bool" where
  "manager_ok m \<longleftrightarrow> 0 < defaultBatch m"

lemma manager_ok_new: "manager_ok (NewK8sLeaseManager node batch)"
  by (simp add: manager_ok_def NewK8sLeaseManager_def)

text \<open>What a request for \<open>requested\<close> credits gets from a pool that has some left.\<close>

definition granted :: "K8sLeaseManager \<Rightarrow> int \<Rightarrow> credits \<Rightarrow> int \<Rightarrow> int" where
  "granted m limit c requested = min (default_request m limit requested) (limit - credit_sum c)"

lemma default_request_pos:
  assumes "manager_ok m" "0 < limit" shows "0 < default_request m limit requested"
  using assms by (simp add: default_request_def manager_ok_def Let_def less_max_iff_disj)

lemma default_request_le:
  "requested \<le> 0 \<Longrightarrow> default_request m limit requested \<le> min (defaultBatch m) limit"
  by (simp add: default_request_def Let_def)

lemma pool_total: "pool_ok limit c \<Longrightarrow> 0 \<le> credit_sum c \<and> in_i64 (credit_sum c)"
  unfolding pool_ok_def using total_nonneg [of c] in_i64_between [of 0 limit "credit_sum c"] by auto

lemma pool_available:
  assumes "pool_ok limit c"
  shows "add_up 0 c = credit_sum c" and "i64 (limit - credit_sum c) = limit - credit_sum c"
proof -
  show "add_up 0 c = credit_sum c" using pool_total [OF assms] by (simp add: add_up_exact)
  have "in_i64 (limit - credit_sum c)"
    using assms pool_total [OF assms] in_i64_between [of 0 limit "limit - credit_sum c"]
    by (simp add: pool_ok_def)
  then show "i64 (limit - credit_sum c) = limit - credit_sum c" by simp
qed

lemma pool_credit: "pool_ok limit c \<Longrightarrow> 0 \<le> credit_of c k \<and> credit_of c k \<le> limit"
  unfolding pool_ok_def using credit_nonneg [of c k] credit_le_total [of c k] by auto

lemma granted_bounds:
  assumes "pool_ok limit c" "manager_ok m" "credit_sum c < limit"
  shows "0 < granted m limit c requested" and "granted m limit c requested \<le> limit - credit_sum c"
  using assms default_request_pos [of m limit requested] pool_total [of limit c]
  by (simp_all add: granted_def)

lemma pool_grant:
  assumes "pool_ok limit c" "manager_ok m" "credit_sum c < limit" "credit_of c node = 0"
  shows "i64 (granted m limit c requested) = granted m limit c requested"
    and "credit_sum (AList.update node (granted m limit c requested) c)
         = credit_sum c + granted m limit c requested"
    and "i64 (limit - credit_sum c - granted m limit c requested)
         = limit - credit_sum c - granted m limit c requested"
    and "pool_ok limit (AList.update node (granted m limit c requested) c)"
proof -
  note g = granted_bounds [OF assms(1-3), of requested]
  note p = assms(1) [unfolded pool_ok_def] pool_total [OF assms(1)]
  show t: "credit_sum (AList.update node (granted m limit c requested) c)
           = credit_sum c + granted m limit c requested"
    using p assms(4) by (simp add: total_update)
  show "i64 (granted m limit c requested) = granted m limit c requested"
    using g p in_i64_between [of 0 limit "granted m limit c requested"] by simp
  show "i64 (limit - credit_sum c - granted m limit c requested)
        = limit - credit_sum c - granted m limit c requested"
    using g p in_i64_between [of 0 limit "limit - credit_sum c - granted m limit c requested"] by simp
  show "pool_ok limit (AList.update node (granted m limit c requested) c)"
    using g p t by (simp add: pool_ok_def keys_distinct_update nonneg_update)
qed

lemma pool_delete: "pool_ok limit c \<Longrightarrow> pool_ok limit (AList.delete k c)"
  using credit_nonneg [of c k]
  by (simp add: pool_ok_def keys_distinct_delete nonneg_delete total_delete)

lemma pool_keep: "pool_ok limit c \<Longrightarrow> pool_ok limit (keep_active m active c)"
  unfolding pool_ok_def keep_active_def
  by (auto simp: keys_distinct_filter nonneg_filter intro: order_trans [OF total_filter_le])

section \<open>The operations on a pool\<close>

text \<open>The status a granting request writes.\<close>

definition fd_grant :: "K8sLeaseManager \<Rightarrow> ObjectQuota \<Rightarrow> string \<Rightarrow> int \<Rightarrow> ObjectQuotaStatus" where
  "fd_grant m q node requested =
     (let g = granted m (fd_limit q) (fd_credits q) requested in
      (Status q)\<lparr>FDAllocations := Some (AList.update node g (fd_credits q)),
        AvailableFD := fd_limit q - credit_sum (fd_credits q) - g,
        Version := Some (incrementVersion (Version (Status q)))\<rparr>)"

definition proc_grant :: "K8sLeaseManager \<Rightarrow> ObjectQuota \<Rightarrow> string \<Rightarrow> int \<Rightarrow> ObjectQuotaStatus" where
  "proc_grant m q node requested =
     (Status q)\<lparr>ProcAllocations := Some (AList.update node
         (granted m (proc_limit q) (proc_credits q) requested) (proc_credits q)),
       Version := Some (incrementVersion (Version (Status q)))\<rparr>"

lemma credit_held: "map_of c node \<noteq> None \<and> 0 < credit_of c node \<longleftrightarrow> 0 < credit_of c node"
  by (auto simp: credit_of_def split: option.splits)

lemma requestFD_held:
  "0 < credit_of (fd_credits q) node \<Longrightarrow>
   requestFD api m q ns node requested now w =
     (Inr (credit_of (fd_credits q) node), ensureLease api m ns now w)"
  unfolding requestFD_def Let_def fd_credits_def [symmetric] credit_held by simp

lemma requestProc_held:
  "0 < credit_of (proc_credits q) node \<Longrightarrow>
   requestProc api m q ns node requested w = (Inr (credit_of (proc_credits q) node), w)"
  unfolding requestProc_def Let_def proc_credits_def [symmetric] credit_held by simp

lemma requestFD_pool:
  assumes q: "quota_ok q" and m: "manager_ok m"
  shows "requestFD api m q ns node requested now w =
    (if 0 < credit_of (fd_credits q) node \<or> fd_limit q \<le> credit_sum (fd_credits q)
     then (Inr (credit_of (fd_credits q) node), ensureLease api m ns now w)
     else case status_update api w (q\<lparr>Status := fd_grant m q node requested\<rparr>) of
        (w', False) \<Rightarrow> (Inl UpdateFailed, w')
      | (w', True) \<Rightarrow>
          (Inr (granted m (fd_limit q) (fd_credits q) requested), ensureLease api m ns now w'))"
proof -
  let ?c = "fd_credits q" and ?l = "fd_limit q"
  from q have p: "pool_ok ?l ?c" by (simp add: quota_ok_def)
  have none: "credit_of ?c node = 0" if "\<not> 0 < credit_of ?c node"
    using pool_credit [OF p, of node] that by simp
  show ?thesis
  proof (cases "0 < credit_of ?c node \<or> ?l \<le> credit_sum ?c")
    case True
    then show ?thesis
      unfolding requestFD_def Let_def fd_credits_def [symmetric] fd_limit_def [symmetric]
        credit_held pool_available [OF p] by auto
  next
    case False
    then have c: "credit_of ?c node = 0" and l: "credit_sum ?c < ?l" using none by auto
    show ?thesis
      using False c l pool_grant [OF p m l c, of requested]
      unfolding requestFD_def Let_def fd_credits_def [symmetric] fd_limit_def [symmetric]
        credit_held pool_available [OF p] granted_def [symmetric] fd_grant_def
      by (simp split: prod.split bool.split)
  qed
qed

lemma requestProc_pool:
  assumes q: "quota_ok q" and m: "manager_ok m"
  shows "requestProc api m q ns node requested w =
    (if 0 < credit_of (proc_credits q) node \<or> proc_limit q \<le> credit_sum (proc_credits q)
     then (Inr (credit_of (proc_credits q) node), w)
     else case status_update api w (q\<lparr>Status := proc_grant m q node requested\<rparr>) of
        (w', False) \<Rightarrow> (Inl UpdateFailed, w')
      | (w', True) \<Rightarrow> (Inr (granted m (proc_limit q) (proc_credits q) requested), w'))"
proof -
  let ?c = "proc_credits q" and ?l = "proc_limit q"
  from q have p: "pool_ok ?l ?c" by (simp add: quota_ok_def)
  have none: "credit_of ?c node = 0" if "\<not> 0 < credit_of ?c node"
    using pool_credit [OF p, of node] that by simp
  show ?thesis
  proof (cases "0 < credit_of ?c node \<or> ?l \<le> credit_sum ?c")
    case True
    then show ?thesis
      unfolding requestProc_def Let_def proc_credits_def [symmetric] proc_limit_def [symmetric]
        credit_held pool_available [OF p] by auto
  next
    case False
    then have c: "credit_of ?c node = 0" and l: "credit_sum ?c < ?l" using none by auto
    show ?thesis
      using False c l pool_grant [OF p m l c, of requested]
      unfolding requestProc_def Let_def proc_credits_def [symmetric] proc_limit_def [symmetric]
        credit_held pool_available [OF p] granted_def [symmetric] proc_grant_def
      by (simp split: prod.split bool.split)
  qed
qed

end
