(* ===== verification/Lease_World.thy ===== *)
theory Lease_World
  imports Credit_Pool
begin

text \<open>
  The lease manager in the world: every operation of any node keeps all versions of all quotas
  within their pools, under the API server's optimistic concurrency; the interface of the
  leaser as its client, the syncer, relies on it, and its interpretation by the manager.
\<close>

section \<open>The invariant and the API calls\<close>

definition world_ok :: "('w \<Rightarrow> ObjectQuota set) \<Rightarrow> 'w \<Rightarrow> bool" where
  "world_ok versions w \<longleftrightarrow> (\<forall>q\<in>versions w. quota_ok q)"

lemma quota_ok_version [simp]: "quota_ok (q\<lparr>oq_resource_version := rv\<rparr>) = quota_ok q"
  by (simp add: quota_ok_def fd_limit_def fd_credits_def proc_limit_def proc_credits_def)

lemma world_ok_read:
  "api_ok api stored versions \<Longrightarrow> world_ok versions w \<Longrightarrow> get_quota api w ns n = Some q \<Longrightarrow> quota_ok q"
  using api_ok_get unfolding world_ok_def by metis

lemma world_ok_unchanged:
  "unchanged stored versions w w' \<Longrightarrow> world_ok versions w' = world_ok versions w"
  by (simp add: unchanged_def world_ok_def)

lemma world_ok_update:
  assumes api: "api_ok api stored versions" and w: "world_ok versions w"
    and get: "get_quota api w ns n = Some q" and ok: "quota_ok (q\<lparr>Status := st\<rparr>)"
    and upd: "status_update api w (q\<lparr>Status := st\<rparr>) = (w', b)"
  shows "world_ok versions w'"
  using update_of_read [OF api get upd]
proof
  assume "\<not> b \<and> unchanged stored versions w w'"
  with w show ?thesis using world_ok_unchanged by metis
next
  assume "\<exists>rv. let new = q\<lparr>Status := st, oq_resource_version := rv\<rparr> in
            stored w ns n = Some q \<and>
            stored w' = (stored w)(ns := (stored w ns)(n \<mapsto> new)) \<and>
            versions w' \<subseteq> insert new (versions w)"
  then obtain rv where
    "versions w' \<subseteq> insert (q\<lparr>Status := st, oq_resource_version := rv\<rparr>) (versions w)"
    by (auto simp: Let_def)
  moreover have "quota_ok (q\<lparr>Status := st, oq_resource_version := rv\<rparr>)"
    using ok quota_ok_version [of rv "q\<lparr>Status := st\<rparr>"] by simp
  ultimately show ?thesis using w unfolding world_ok_def by blast
qed

lemma ensureLease_unchanged:
  "api_ok api stored versions \<Longrightarrow> unchanged stored versions w (ensureLease api m ns now w)"
  unfolding ensureLease_def by (simp add: api_ok_lease split: option.split)

lemma deleteLease_unchanged:
  "api_ok api stored versions \<Longrightarrow> unchanged stored versions w (deleteLease api m ns w)"
  unfolding deleteLease_def by (rule api_ok_lease)

lemmas world_ok_lease =
  world_ok_unchanged [OF ensureLease_unchanged] world_ok_unchanged [OF deleteLease_unchanged]

section \<open>Every operation keeps the pools\<close>

lemma fd_grant_ok:
  assumes "quota_ok q" "manager_ok m" "credit_of (fd_credits q) node = 0"
    "credit_sum (fd_credits q) < fd_limit q"
  shows "quota_ok (q\<lparr>Status := fd_grant m q node requested\<rparr>)"
proof -
  have "pool_ok (fd_limit q) (fd_credits q)" using assms(1) by (simp add: quota_ok_def)
  from pool_grant(4) [OF this assms(2,4,3), of requested] assms(1) show ?thesis
    by (simp add: quota_ok_def fd_grant_def Let_def fd_limit_def fd_credits_def proc_limit_def
          proc_credits_def)
qed

lemma proc_grant_ok:
  assumes "quota_ok q" "manager_ok m" "credit_of (proc_credits q) node = 0"
    "credit_sum (proc_credits q) < proc_limit q"
  shows "quota_ok (q\<lparr>Status := proc_grant m q node requested\<rparr>)"
proof -
  have "pool_ok (proc_limit q) (proc_credits q)" using assms(1) by (simp add: quota_ok_def)
  from pool_grant(4) [OF this assms(2,4,3), of requested] assms(1) show ?thesis
    by (simp add: quota_ok_def proc_grant_def fd_limit_def fd_credits_def proc_limit_def
          proc_credits_def)
qed

lemma no_credit:
  "quota_ok q \<Longrightarrow> \<not> 0 < credit_of (fd_credits q) node \<Longrightarrow> credit_of (fd_credits q) node = 0"
  "quota_ok q \<Longrightarrow> \<not> 0 < credit_of (proc_credits q) node \<Longrightarrow> credit_of (proc_credits q) node = 0"
  using pool_credit unfolding quota_ok_def by (metis linorder_less_linear not_le)+

lemma requestFD_world_ok:
  assumes api: "api_ok api stored versions" and w: "world_ok versions w" and m: "manager_ok m"
    and get: "get_quota api w ns ns = Some q"
  shows "world_ok versions (snd (requestFD api m q ns node requested now w))"
proof -
  note q = world_ok_read [OF api w get]
  show ?thesis
  proof (cases "0 < credit_of (fd_credits q) node \<or> fd_limit q \<le> credit_sum (fd_credits q)")
    case True
    with w show ?thesis by (simp add: requestFD_pool [OF q m] world_ok_lease [OF api])
  next
    case False
    obtain w' b where u: "status_update api w (q\<lparr>Status := fd_grant m q node requested\<rparr>) = (w', b)"
      by fastforce
    have "world_ok versions w'"
      using world_ok_update [OF api w get fd_grant_ok [OF q m] u] False no_credit [OF q] by auto
    with False u show ?thesis
      by (cases b) (simp_all add: requestFD_pool [OF q m] world_ok_lease [OF api])
  qed
qed

lemma requestProc_world_ok:
  assumes api: "api_ok api stored versions" and w: "world_ok versions w" and m: "manager_ok m"
    and get: "get_quota api w ns ns = Some q"
  shows "world_ok versions (snd (requestProc api m q ns node requested w))"
proof -
  note q = world_ok_read [OF api w get]
  show ?thesis
  proof (cases "0 < credit_of (proc_credits q) node \<or> proc_limit q \<le> credit_sum (proc_credits q)")
    case True
    with w show ?thesis by (simp add: requestProc_pool [OF q m])
  next
    case False
    obtain w' b where u: "status_update api w (q\<lparr>Status := proc_grant m q node requested\<rparr>) = (w', b)"
      by fastforce
    have "world_ok versions w'"
      using world_ok_update [OF api w get proc_grant_ok [OF q m] u] False no_credit [OF q] by auto
    with False u show ?thesis by (cases b) (simp_all add: requestProc_pool [OF q m])
  qed
qed

lemma RequestLease_world_ok:
  assumes "api_ok api stored versions" "world_ok versions w" "manager_ok m"
  shows "world_ok versions (snd (RequestLease api m ns node requested now w))"
  using assms requestFD_world_ok [OF assms] requestProc_world_ok [OF assms]
  by (auto simp: RequestLease_def split: prod.split option.split)

lemma releaseFD_world_ok:
  assumes api: "api_ok api stored versions" and w: "world_ok versions w"
    and get: "get_quota api w ns ns = Some q"
  shows "world_ok versions (snd (releaseFD api m q ns node w))"
proof -
  note q = world_ok_read [OF api w get]
  have ok: "quota_ok (q\<lparr>Status := (Status q)\<lparr>FDAllocations := Some (AList.delete node c),
      AvailableFD := v, Version := ver\<rparr>\<rparr>)" if "FDAllocations (Status q) = Some c" for c v ver
    using q that pool_delete
    by (simp add: quota_ok_def fd_limit_def fd_credits_def proc_limit_def proc_credits_def)
  show ?thesis
    unfolding releaseFD_def Let_def
    using w world_ok_update [OF api w get ok]
    by (auto simp: world_ok_lease [OF api] split: option.split prod.split bool.split)
qed

lemma releaseProc_world_ok:
  assumes api: "api_ok api stored versions" and w: "world_ok versions w"
    and get: "get_quota api w ns ns = Some q"
  shows "world_ok versions (snd (releaseProc api m q ns node w))"
proof -
  note q = world_ok_read [OF api w get]
  have ok: "quota_ok (q\<lparr>Status := (Status q)\<lparr>ProcAllocations := Some (AList.delete node c),
      Version := ver\<rparr>\<rparr>)" if "ProcAllocations (Status q) = Some c" for c ver
    using q that pool_delete
    by (simp add: quota_ok_def fd_limit_def fd_credits_def proc_limit_def proc_credits_def)
  show ?thesis
    unfolding releaseProc_def Let_def
    using w world_ok_update [OF api w get ok]
    by (auto split: option.split prod.split bool.split)
qed

lemma ReleaseLease_world_ok:
  assumes "api_ok api stored versions" "world_ok versions w"
  shows "world_ok versions (snd (ReleaseLease api m ns node w))"
  using assms releaseFD_world_ok [OF assms] releaseProc_world_ok [OF assms]
  by (auto simp: ReleaseLease_def split: prod.split option.split)

lemma reclaimed_ok:
  assumes "quota_ok q"
  shows "quota_ok (q\<lparr>Status := (Status q)\<lparr>
      FDAllocations := map_option (keep_active m active) (FDAllocations (Status q)),
      ProcAllocations := map_option (keep_active m active) (ProcAllocations (Status q)),
      AvailableFD := v, Version := ver\<rparr>\<rparr>)"
  using assms pool_keep
  by (auto simp: quota_ok_def fd_limit_def fd_credits_def proc_limit_def proc_credits_def
      split: option.splits)

lemma ReclaimExpiredLeases_world_ok:
  assumes api: "api_ok api stored versions" and w: "world_ok versions w"
  shows "world_ok versions (snd (ReclaimExpiredLeases api m ns now w))"
  unfolding ReclaimExpiredLeases_def Let_def
  using w world_ok_update [OF api w _ reclaimed_ok] world_ok_read [OF api w]
  by (auto split: option.split prod.split)

lemma renew_all_world_ok:
  assumes api: "api_ok api stored versions"
  shows "world_ok versions w \<Longrightarrow> world_ok versions (renew_all api m now qs w)"
  by (induction qs arbitrary: w)
    (simp_all add: ReclaimExpiredLeases_world_ok [OF api] world_ok_lease [OF api])

lemma renewal_tick_world_ok:
  "api_ok api stored versions \<Longrightarrow> world_ok versions w \<Longrightarrow>
   world_ok versions (renewal_tick api m now w)"
  by (simp add: renewal_tick_def renew_all_world_ok split: option.split)

end
