(* ===== verification/Leaser.thy ===== *)
theory Leaser
  imports Lease_World
begin

text \<open>
  \<^verbatim>\<open>QuotaLeaser\<close>, the interface between the syncer and the lease manager, and runs of the
  operations of all nodes against one API server.
\<close>

section \<open>The interface\<close>

text \<open>The limit the syncer enforces on its node, given the answer to its request.\<close>

definition effectiveLimit :: "int \<Rightarrow> lease_error + int \<Rightarrow> int" where
  "effectiveLimit limit answer =
     (case answer of Inl e \<Rightarrow> limit | Inr g \<Rightarrow> if 0 < g then g else limit)"

locale quota_leaser =
  fixes request :: "'w \<Rightarrow> string \<Rightarrow> int \<Rightarrow> (lease_error + int) \<times> 'w"
    and release :: "'w \<Rightarrow> string \<Rightarrow> int \<times> 'w"
    and ok :: "'w \<Rightarrow> bool"
    and pool :: "'w \<Rightarrow> string \<Rightarrow> int"
  assumes request_ok: "ok w \<Longrightarrow> ok (snd (request w ns r))"
    and release_ok: "ok w \<Longrightarrow> ok (snd (release w ns))"
    and request_bounds: "ok w \<Longrightarrow> request w ns r = (Inr g, w') \<Longrightarrow> 0 \<le> g \<and> g \<le> max 0 (pool w ns)"
begin

lemma effective_le:
  assumes "ok w" "pool w ns \<le> limit"
  shows "effectiveLimit limit (fst (request w ns r)) \<le> limit"
proof (cases "fst (request w ns r)")
  case (Inr g)
  then have "request w ns r = (Inr g, snd (request w ns r))" by (metis prod.collapse)
  with request_bounds [OF assms(1)] have "g \<le> max 0 (pool w ns)" by blast
  with Inr assms(2) show ?thesis by (auto simp: effectiveLimit_def max_def split: if_splits)
qed (simp add: effectiveLimit_def)

lemma effective_pos: "0 < limit \<Longrightarrow> 0 < effectiveLimit limit (fst (request w ns r))"
  by (auto simp: effectiveLimit_def split: sum.split)

lemma refused_is_unlimited:
  assumes "\<nexists>g. fst (request w ns r) = Inr g \<and> 0 < g"
  shows "effectiveLimit limit (fst (request w ns r)) = limit"
  using assms by (auto simp: effectiveLimit_def split: sum.split)

end

section \<open>The manager provides it\<close>

definition leaser_ok ::
  "'w api \<Rightarrow> 'w store \<Rightarrow> ('w \<Rightarrow> ObjectQuota set) \<Rightarrow> K8sLeaseManager \<Rightarrow> 'w \<Rightarrow> bool" where
  "leaser_ok api stored versions m w \<longleftrightarrow>
     api_ok api stored versions \<and> manager_ok m \<and> world_ok versions w"

text \<open>The pool as this node sees it, of the resource the key names.\<close>

definition visible_pool :: "'w api \<Rightarrow> 'w \<Rightarrow> string \<Rightarrow> int" where
  "visible_pool api w ns =
     (case isProcSuffix ns of (baseNS, isProc) \<Rightarrow>
      case get_quota api w baseNS baseNS of
        None \<Rightarrow> 0
      | Some q \<Rightarrow> if isProc then proc_limit q else fd_limit q)"

lemma requestFD_bounds:
  assumes q: "quota_ok q" and m: "manager_ok m"
    and r: "requestFD api m q ns node requested now w = (Inr g, w')"
  shows "0 \<le> g \<and> g \<le> fd_limit q"
proof -
  have p: "pool_ok (fd_limit q) (fd_credits q)" using q by (simp add: quota_ok_def)
  show ?thesis
    using r pool_credit [OF p, of node] granted_bounds [OF p m, of requested] pool_total [OF p]
    by (auto simp: requestFD_pool [OF q m] split: if_splits prod.splits bool.splits)
qed

lemma requestProc_bounds:
  assumes q: "quota_ok q" and m: "manager_ok m"
    and r: "requestProc api m q ns node requested w = (Inr g, w')"
  shows "0 \<le> g \<and> g \<le> proc_limit q"
proof -
  have p: "pool_ok (proc_limit q) (proc_credits q)" using q by (simp add: quota_ok_def)
  show ?thesis
    using r pool_credit [OF p, of node] granted_bounds [OF p m, of requested] pool_total [OF p]
    by (auto simp: requestProc_pool [OF q m] split: if_splits prod.splits bool.splits)
qed

lemma RequestLease_bounds:
  assumes ok: "leaser_ok api stored versions m w"
    and r: "RequestLease api m ns node requested now w = (Inr g, w')"
  shows "0 \<le> g \<and> g \<le> max 0 (visible_pool api w ns)"
proof -
  obtain b p where s: "isProcSuffix ns = (b, p)" by fastforce
  with r obtain q where get: "get_quota api w b b = Some q"
    by (auto simp: RequestLease_def split: if_splits option.splits)
  have q: "quota_ok q" and m: "manager_ok m"
    using ok get world_ok_read unfolding leaser_ok_def by metis+
  show ?thesis
    using r s get
    by (auto simp: RequestLease_def visible_pool_def split: if_splits
        dest!: requestFD_bounds [OF q m] requestProc_bounds [OF q m])
qed

interpretation k8s: quota_leaser
  "\<lambda>w ns r. RequestLease api m ns (nodeID m) r now w"
  "\<lambda>w ns. ReleaseLease api m ns (nodeID m) w"
  "leaser_ok api stored versions m"
  "visible_pool api"
  for api :: "'w api" and m now stored versions
proof
  show "leaser_ok api stored versions m (snd (RequestLease api m ns (nodeID m) r now w))"
    if "leaser_ok api stored versions m w" for w ns r
    using that by (auto simp: leaser_ok_def intro: RequestLease_world_ok)
  show "leaser_ok api stored versions m (snd (ReleaseLease api m ns (nodeID m) w))"
    if "leaser_ok api stored versions m w" for w ns
    using that by (auto simp: leaser_ok_def intro: ReleaseLease_world_ok)
  show "0 \<le> g \<and> g \<le> max 0 (visible_pool api w ns)"
    if "leaser_ok api stored versions m w"
      "RequestLease api m ns (nodeID m) r now w = (Inr g, w')" for w ns r g w'
    using that by (rule RequestLease_bounds)
qed

section \<open>Runs of many nodes\<close>

datatype node_op =
    Request string int
  | Release string
  | Reclaim string
  | Tick
  | Remove string

text \<open>One operation of the node with manager \<open>m\<close> at its time \<open>now\<close>.\<close>

fun node_step :: "'w api \<Rightarrow> K8sLeaseManager \<times> int \<times> node_op \<Rightarrow> 'w \<Rightarrow> 'w" where
  "node_step api (m, now, Request ns r) w = snd (RequestLease api m ns (nodeID m) r now w)"
| "node_step api (m, now, Release ns) w = snd (ReleaseLease api m ns (nodeID m) w)"
| "node_step api (m, now, Reclaim ns) w = snd (ReclaimExpiredLeases api m ns now w)"
| "node_step api (m, now, Tick) w = renewal_tick api m now w"
| "node_step api (m, now, Remove ns) w = RemoveLease api m ns w"

fun nodes_run :: "'w api \<Rightarrow> (K8sLeaseManager \<times> int \<times> node_op) list \<Rightarrow> 'w \<Rightarrow> 'w" where
  "nodes_run api [] w = w"
| "nodes_run api (op # ops) w = nodes_run api ops (node_step api op w)"

lemma node_step_world_ok:
  assumes "api_ok api stored versions" "world_ok versions w" "manager_ok (fst op)"
  shows "world_ok versions (node_step api op w)"
  using assms
  by (cases "(api, op, w)" rule: node_step.cases)
    (simp_all add: RequestLease_world_ok ReleaseLease_world_ok ReclaimExpiredLeases_world_ok
       renewal_tick_world_ok RemoveLease_def world_ok_lease)

lemma nodes_run_world_ok:
  assumes "api_ok api stored versions"
  shows "world_ok versions w \<Longrightarrow> \<forall>op\<in>set ops. manager_ok (fst op) \<Longrightarrow>
    world_ok versions (nodes_run api ops w)"
  by (induction ops arbitrary: w) (simp_all add: node_step_world_ok [OF assms])

end
