(* ===== verification/Lease_Props.thy ===== *)
theory Lease_Props
  imports Leaser
begin

text \<open>The properties of the credit ledger the nodes share through the quota's status.\<close>

section \<open>Two nodes\<close>

text \<open>A server with one quota, and the managers of two nodes, for the concrete runs.\<close>

definition ex_node :: "string \<Rightarrow> K8sLeaseManager" where
  "ex_node n = NewK8sLeaseManager n 1000"

definition ex_quota :: "int \<Rightarrow> credits option \<Rightarrow> int \<Rightarrow> credits option \<Rightarrow> ObjectQuota" where
  "ex_quota fd fds proc procs =
     \<lparr>oq_namespace = ''team'', oq_name = ''team'', oq_resource_version = 1,
      Spec = \<lparr>FileDescriptors = Some fd, Processes = Some proc, LeaseBatchSize = None\<rparr>,
      Status = \<lparr>FDAllocations = fds, ProcAllocations = procs, AvailableFD = 0, Version = None\<rparr>\<rparr>"

definition ex_server :: "ObjectQuota \<Rightarrow> server" where
  "ex_server q = \<lparr>sv_quotas = [q], sv_leases = []\<rparr>"

lemma ex_versions: "sv_versions (ex_server q) = {q}"
  by (auto simp: sv_versions_def ex_server_def sv_find_def)

lemma ex_find: "get_quota sv_api (ex_server (ex_quota fd fds proc procs)) ''team'' ''team'' =
    Some (ex_quota fd fds proc procs)"
  by (simp add: sv_api_def sv_find_def ex_server_def ex_quota_def)

lemma ex_manager_ok: "manager_ok (ex_node n)"
  by (simp add: ex_node_def manager_ok_new)

lemma ex_world_ok: "quota_ok q \<Longrightarrow> world_ok sv_versions (ex_server q)"
  by (simp add: world_ok_def ex_versions)

section \<open>The ledger\<close>

text \<open>(C8)
  Whatever requests, releases, reclaims, renewal ticks and removals any number of nodes make in
  any order, with reads as old as the API server allows and updates that fail or are applied
  without an answer: the credits of every stored quota are never negative and never add up to
  more than its limit, for descriptors and for processes.
\<close>

theorem credits_within_limit:
  assumes "api_ok api stored versions" and "world_ok versions w"
    and "\<forall>op\<in>set ops. manager_ok (fst op)"
    and "stored (nodes_run api ops w) ns n = Some q"
  shows "credit_sum (fd_credits q) \<le> fd_limit q \<and> credit_sum (proc_credits q) \<le> proc_limit q \<and>
         (\<forall>node. 0 \<le> credit_of (fd_credits q) node \<and> 0 \<le> credit_of (proc_credits q) node)"
proof -
  have "quota_ok q"
    using nodes_run_world_ok [OF assms(1-3)] api_ok_stored(1) [OF assms(1,4)]
    by (simp add: world_ok_def)
  then show ?thesis
    using pool_credit unfolding quota_ok_def pool_ok_def by blast
qed

text \<open>Two nodes that both ask for 70 of 100 descriptors.\<close>

theorem credits_within_limit_witness:
  "\<exists>q. sv_find (nodes_run sv_api
         [(ex_node ''a'', 0, Request ''team'' 70), (ex_node ''b'', 1, Request ''team'' 70)]
         (ex_server (ex_quota 100 None 0 None))) ''team'' ''team'' = Some q \<and>
       credit_sum (fd_credits q) \<le> fd_limit q"
proof -
  let ?w = "nodes_run sv_api
      [(ex_node ''a'', 0, Request ''team'' 70), (ex_node ''b'', 1, Request ''team'' 70)]
      (ex_server (ex_quota 100 None 0 None))"
  have "\<not> Option.is_none (sv_find ?w ''team'' ''team'')" by code_simp
  then obtain q where q: "sv_find ?w ''team'' ''team'' = Some q"
    by (auto simp only: Option.is_none_def not_None_eq)
  have "world_ok sv_versions (ex_server (ex_quota 100 None 0 None))"
    by (rule ex_world_ok) code_simp
  from credits_within_limit [OF sv_api_ok this _ q] have "credit_sum (fd_credits q) \<le> fd_limit q"
    by (simp add: ex_manager_ok)
  with q show ?thesis by blast
qed

section \<open>Requests\<close>

text \<open>
  What a granting request leaves in the server, in one place for both resources.
\<close>

lemma applied_update:
  assumes "api_ok api stored versions" "get_quota api w ns n = Some q"
    and "status_update api w (q\<lparr>Status := st\<rparr>) = (w', True)"
  obtains rv where "stored w' ns n = Some (q\<lparr>Status := st, oq_resource_version := rv\<rparr>)"
  using update_of_read [OF assms] by (auto simp: Let_def)

lemma stored_after_lease:
  assumes "api_ok api stored versions"
  shows "stored (ensureLease api m ns now w) = stored w" "stored (deleteLease api m ns w) = stored w"
  using ensureLease_unchanged [OF assms] deleteLease_unchanged [OF assms]
  by (simp_all add: unchanged_def)

text \<open>(C27)
  A request for descriptors by a node without credits, of a namespace with some left: when it
  succeeds it returns the smaller of the requested batch and what is left, the server holds
  exactly that credit for the node, the credits of the other nodes are unchanged, and
  \<^verbatim>\<open>available\<close> is what remains.
\<close>

theorem request_grants:
  assumes "leaser_ok api stored versions m w" and "isProcSuffix ns = (ns, False)"
    and "get_quota api w ns ns = Some q"
    and "credit_of (fd_credits q) (nodeID m) = 0" and "credit_sum (fd_credits q) < fd_limit q"
    and "RequestLease api m ns (nodeID m) r now w = (Inr g, w')"
  shows "g = min (default_request m (fd_limit q) r) (fd_limit q - credit_sum (fd_credits q)) \<and> 0 < g \<and>
         (\<exists>q'. stored w' ns ns = Some q' \<and> fd_limit q' = fd_limit q \<and>
            credit_of (fd_credits q') (nodeID m) = g \<and>
            (\<forall>k. k \<noteq> nodeID m \<longrightarrow> credit_of (fd_credits q') k = credit_of (fd_credits q) k) \<and>
            AvailableFD (Status q') = fd_limit q' - credit_sum (fd_credits q'))"
proof -
  have api: "api_ok api stored versions" and m: "manager_ok m" and q: "quota_ok q"
    using assms(1,3) world_ok_read by (auto simp: leaser_ok_def)
  have p: "pool_ok (fd_limit q) (fd_credits q)" using q by (simp add: quota_ok_def)
  let ?g = "granted m (fd_limit q) (fd_credits q) r"
  from assms(2-6) obtain w1 where
    u: "status_update api w (q\<lparr>Status := fd_grant m q (nodeID m) r\<rparr>) = (w1, True)"
    and g: "g = ?g" and w': "w' = ensureLease api m ns now w1"
    by (auto simp: RequestLease_def requestFD_pool [OF q m] split: prod.splits bool.splits)
  obtain rv where
    "stored w1 ns ns = Some (q\<lparr>Status := fd_grant m q (nodeID m) r, oq_resource_version := rv\<rparr>)"
    using applied_update [OF api assms(3) u] .
  then have s: "stored w' ns ns =
      Some (q\<lparr>Status := fd_grant m q (nodeID m) r, oq_resource_version := rv\<rparr>)"
    by (simp add: w' stored_after_lease [OF api])
  have "0 < ?g" using granted_bounds(1) [OF p m assms(5)] .
  moreover have "credit_sum (AList.update (nodeID m) ?g (fd_credits q))
      = credit_sum (fd_credits q) + ?g"
    using pool_grant(2) [OF p m assms(5,4)] .
  ultimately show ?thesis
    using s by (simp add: g granted_def [symmetric] fd_grant_def Let_def fd_credits_def
        fd_limit_def)
qed

theorem request_grants_witness:
  "\<exists>w'. RequestLease sv_api (ex_node ''b'') ''team'' ''b'' 70 5
          (ex_server (ex_quota 100 (Some [(''a'', 60)]) 0 None)) = (Inr 40, w') \<and>
        (40 :: int) = min (default_request (ex_node ''b'') 100 70) (100 - 60)"
proof -
  let ?q = "ex_quota 100 (Some [(''a'', 60)]) 0 None"
  have q: "quota_ok ?q" by code_simp
  have ok: "leaser_ok sv_api sv_find sv_versions (ex_node ''b'') (ex_server ?q)"
    by (simp add: leaser_ok_def sv_api_ok ex_manager_ok ex_world_ok q)
  have node: "nodeID (ex_node ''b'') = ''b''" by code_simp
  have "fst (RequestLease sv_api (ex_node ''b'') ''team'' ''b'' 70 5 (ex_server ?q)) = Inr 40"
    by code_simp
  then obtain w' where r: "RequestLease sv_api (ex_node ''b'') ''team'' (nodeID (ex_node ''b'')) 70 5
      (ex_server ?q) = (Inr 40, w')"
    unfolding node by (metis prod.collapse)
  have "(40 :: int) = min (default_request (ex_node ''b'') (fd_limit ?q) 70)
      (fd_limit ?q - credit_sum (fd_credits ?q))"
    by (rule request_grants [OF ok _ ex_find _ _ r, THEN conjunct1]) code_simp+
  moreover have "fd_limit ?q = 100" "credit_sum (fd_credits ?q) = 60" by code_simp+
  ultimately show ?thesis using r unfolding node by auto
qed

text \<open>
  A node that holds credits gets the same number back, whatever it asks for and whatever the
  quota's limit and the other credits are by now, and no quota changes.
\<close>

lemma request_repeats:
  assumes "api_ok api stored versions" and "isProcSuffix key = (ns, proc)"
    and "get_quota api w ns ns = Some q"
    and "0 < credit_of (if proc then proc_credits q else fd_credits q) (nodeID m)"
  shows "fst (RequestLease api m key (nodeID m) r now w)
           = Inr (credit_of (if proc then proc_credits q else fd_credits q) (nodeID m)) \<and>
         stored (snd (RequestLease api m key (nodeID m) r now w)) = stored w"
  using assms
  by (cases proc)
    (simp_all add: RequestLease_def requestFD_held requestProc_held stored_after_lease [OF assms(1)])

text \<open>The limit was lowered from 1000 to 500 while the node held 900.\<close>

lemma request_repeats_witness:
  "effectiveLimit 500 (fst (RequestLease sv_api (ex_node ''a'') ''team'' ''a'' 0 5
     (ex_server (ex_quota 500 (Some [(''a'', 900)]) 0 None)))) = 900"
proof -
  let ?q = "ex_quota 500 (Some [(''a'', 900)]) 0 None"
  have "fst (RequestLease sv_api (ex_node ''a'') ''team'' (nodeID (ex_node ''a'')) 0 5 (ex_server ?q))
        = Inr (credit_of (if False then proc_credits ?q else fd_credits ?q) (nodeID (ex_node ''a'')))"
    by (rule request_repeats [OF sv_api_ok _ ex_find, THEN conjunct1]) code_simp+
  moreover have "nodeID (ex_node ''a'') = ''a''" "credit_of (fd_credits ?q) ''a'' = 900"
    by code_simp+
  ultimately show ?thesis by (simp add: effectiveLimit_def)
qed

section \<open>What a node enforces\<close>

text \<open>
  While the quota a node sees is within its pool and no larger than the limit it was told, the
  limit it enforces is positive and at most that limit.
\<close>

lemma enforced_limit_bounds:
  assumes "leaser_ok api stored versions m w" and "visible_pool api w key \<le> limit" and "0 < limit"
  shows "0 < effectiveLimit limit (fst (RequestLease api m key (nodeID m) r now w)) \<and>
         effectiveLimit limit (fst (RequestLease api m key (nodeID m) r now w)) \<le> limit"
  by (rule conjI [OF k8s.effective_pos [OF assms(3)] k8s.effective_le [OF assms(1,2)]])

lemma enforced_limit_bounds_witness:
  "effectiveLimit 100 (fst (RequestLease sv_api (ex_node ''b'') ''team'' (nodeID (ex_node ''b'')) 70 5
     (ex_server (ex_quota 100 (Some [(''a'', 60)]) 0 None)))) \<le> 100"
proof -
  let ?q = "ex_quota 100 (Some [(''a'', 60)]) 0 None"
  have q: "quota_ok ?q" by code_simp
  have ok: "leaser_ok sv_api sv_find sv_versions (ex_node ''b'') (ex_server ?q)"
    by (simp add: leaser_ok_def sv_api_ok ex_manager_ok ex_world_ok q)
  have "visible_pool sv_api (ex_server ?q) ''team'' \<le> 100" by code_simp
  from enforced_limit_bounds [OF ok this, of 70 5] show ?thesis by simp
qed

text \<open>
  A node that finds the pool exhausted is granted nothing and then enforces the limit of the
  whole cluster: the answer 0 is taken for no answer.
\<close>

lemma exhausted_pool_is_not_enforced:
  assumes "leaser_ok api stored versions m w" and "isProcSuffix ns = (ns, False)"
    and "get_quota api w ns ns = Some q"
    and "credit_of (fd_credits q) (nodeID m) = 0" and "fd_limit q \<le> credit_sum (fd_credits q)"
  shows "fst (RequestLease api m ns (nodeID m) r now w) = Inr 0 \<and>
         effectiveLimit (fd_limit q) (fst (RequestLease api m ns (nodeID m) r now w)) = fd_limit q"
proof -
  have m: "manager_ok m" and q: "quota_ok q"
    using assms(1,3) world_ok_read by (auto simp: leaser_ok_def)
  have "fst (RequestLease api m ns (nodeID m) r now w) = Inr 0"
    using assms(2-5) by (simp add: RequestLease_def requestFD_pool [OF q m])
  then show ?thesis by (simp add: effectiveLimit_def)
qed

text \<open>Node a holds all 100 descriptors; node b enforces 100 more.\<close>

lemma exhausted_pool_is_not_enforced_witness:
  "effectiveLimit 100 (fst (RequestLease sv_api (ex_node ''b'') ''team'' (nodeID (ex_node ''b'')) 0 5
     (ex_server (ex_quota 100 (Some [(''a'', 100)]) 0 None)))) = 100"
proof -
  let ?q = "ex_quota 100 (Some [(''a'', 100)]) 0 None"
  have q: "quota_ok ?q" by code_simp
  have ok: "leaser_ok sv_api sv_find sv_versions (ex_node ''b'') (ex_server ?q)"
    by (simp add: leaser_ok_def sv_api_ok ex_manager_ok ex_world_ok q)
  have "effectiveLimit (fd_limit ?q) (fst (RequestLease sv_api (ex_node ''b'') ''team''
      (nodeID (ex_node ''b'')) 0 5 (ex_server ?q))) = fd_limit ?q"
    by (rule exhausted_pool_is_not_enforced [OF ok _ ex_find, THEN conjunct2]) code_simp+
  moreover have "fd_limit ?q = 100" by code_simp
  ultimately show ?thesis by simp
qed

section \<open>Giving credits back\<close>

text \<open>(C29)
  When a node's credits are released they all go back: the server holds none for the node, the
  sum is lower by exactly the number returned, the others keep theirs, and \<^verbatim>\<open>available\<close> is the
  rest.
\<close>

theorem release_returns_credits:
  assumes "api_ok api stored versions" and "world_ok versions w" and "isProcSuffix ns = (ns, False)"
    and "get_quota api w ns ns = Some q" and "0 < fst (ReleaseLease api m ns node w)"
  shows "fst (ReleaseLease api m ns node w) = credit_of (fd_credits q) node \<and>
         (\<exists>q'. stored (snd (ReleaseLease api m ns node w)) ns ns = Some q' \<and>
            credit_of (fd_credits q') node = 0 \<and>
            (\<forall>k. k \<noteq> node \<longrightarrow> credit_of (fd_credits q') k = credit_of (fd_credits q) k) \<and>
            credit_sum (fd_credits q')
              = credit_sum (fd_credits q) - fst (ReleaseLease api m ns node w) \<and>
            AvailableFD (Status q') = fd_limit q - credit_sum (fd_credits q'))"
proof -
  have q: "quota_ok q" using world_ok_read [OF assms(1,2,4)] .
  obtain c where c: "FDAllocations (Status q) = Some c"
    using assms(3-5) by (auto simp: ReleaseLease_def releaseFD_def split: option.splits)
  then have fd: "fd_credits q = c" by (simp add: fd_credits_def)
  have p: "pool_ok (fd_limit q) c" using q fd by (simp add: quota_ok_def)
  let ?c = "AList.delete node c"
  let ?st = "(Status q)\<lparr>FDAllocations := Some ?c,
      AvailableFD := i64 (fd_limit q - add_up 0 ?c),
      Version := Some (incrementVersion (Version (Status q)))\<rparr>"
  obtain leased where l: "map_of c node = Some leased"
    using assms(3-5) c by (auto simp: ReleaseLease_def releaseFD_def split: option.splits)
  obtain w1 b where u: "status_update api w (q\<lparr>Status := ?st\<rparr>) = (w1, b)" by fastforce
  have r: "ReleaseLease api m ns node w = (if b then (leased, deleteLease api m ns w1) else (0, w1))"
    using assms(3,4) c l u
    by (simp add: ReleaseLease_def releaseFD_def Let_def fd_limit_def)
  with assms(5) have b by (auto split: if_splits)
  obtain rv where "stored w1 ns ns = Some (q\<lparr>Status := ?st, oq_resource_version := rv\<rparr>)"
    using applied_update [OF assms(1,4)] u \<open>b\<close> by auto
  moreover have "credit_of ?c k = (if k = node then 0 else credit_of c k)" for k
    by (simp add: credit_of_def delete_conv')
  moreover have "credit_sum ?c = credit_sum c - leased"
    using p l by (simp add: pool_ok_def total_delete credit_of_def)
  moreover have "i64 (fd_limit q - add_up 0 ?c) = fd_limit q - credit_sum ?c"
    using pool_available [OF pool_delete [OF p], of node] by simp
  ultimately show ?thesis
    using r \<open>b\<close> l
    by (auto simp: stored_after_lease [OF assms(1)] fd_credits_def credit_of_def c)
qed

theorem release_returns_credits_witness:
  "fst (ReleaseLease sv_api (ex_node ''a'') ''team'' ''a''
     (ex_server (ex_quota 100 (Some [(''a'', 60), (''b'', 30)]) 0 None))) = 60"
proof -
  let ?q = "ex_quota 100 (Some [(''a'', 60), (''b'', 30)]) 0 None"
  have q: "quota_ok ?q" by code_simp
  have "fst (ReleaseLease sv_api (ex_node ''a'') ''team'' ''a'' (ex_server ?q))
        = credit_of (fd_credits ?q) ''a''"
    by (rule release_returns_credits [OF sv_api_ok ex_world_ok [OF q] _ ex_find, THEN conjunct1])
      code_simp+
  then show ?thesis by (simp add: ex_quota_def fd_credits_def credit_of_def)
qed

text \<open>A node new to the pool that is granted credits and then releases them, reading its own write,
  gives back what it got and leaves the credits of the quota as they were.
\<close>

lemma request_release_roundtrip:
  assumes "leaser_ok api stored versions m w" and "isProcSuffix ns = (ns, False)"
    and "get_quota api w ns ns = Some q"
    and "nodeID m \<notin> fst ` set (fd_credits q)" and "credit_sum (fd_credits q) < fd_limit q"
    and "RequestLease api m ns (nodeID m) r now w = (Inr g, w1)"
    and "get_quota api w1 ns ns = stored w1 ns ns"
    and "ReleaseLease api m ns (nodeID m) w1 = (n, w2)" and "0 < n"
  shows "n = g \<and> (\<exists>q2. stored w2 ns ns = Some q2 \<and> fd_credits q2 = fd_credits q)"
proof -
  have api: "api_ok api stored versions" and m: "manager_ok m" and q: "quota_ok q"
    using assms(1,3) world_ok_read by (auto simp: leaser_ok_def)
  let ?g = "granted m (fd_limit q) (fd_credits q) r"
  have c0: "credit_of (fd_credits q) (nodeID m) = 0" using assms(4) by (rule credit_absent)
  from assms(2,3,5,6) c0 obtain w0 where
    u: "status_update api w (q\<lparr>Status := fd_grant m q (nodeID m) r\<rparr>) = (w0, True)"
    and g: "g = ?g" and w1: "w1 = ensureLease api m ns now w0"
    by (auto simp: RequestLease_def requestFD_pool [OF q m] split: prod.splits bool.splits)
  obtain rv where
    "stored w0 ns ns = Some (q\<lparr>Status := fd_grant m q (nodeID m) r, oq_resource_version := rv\<rparr>)"
    using applied_update [OF api assms(3) u] .
  then have g1: "get_quota api w1 ns ns
      = Some (q\<lparr>Status := fd_grant m q (nodeID m) r, oq_resource_version := rv\<rparr>)"
    using assms(7) by (simp add: w1 stored_after_lease [OF api])
  let ?c1 = "AList.update (nodeID m) g (fd_credits q)"
  let ?q1 = "q\<lparr>Status := fd_grant m q (nodeID m) r, oq_resource_version := rv\<rparr>"
  have c1: "FDAllocations (Status ?q1) = Some ?c1" by (simp add: fd_grant_def Let_def g)
  have del: "AList.delete (nodeID m) ?c1 = fd_credits q"
    using assms(4) by (rule delete_update_absent)
  have held: "map_of ?c1 (nodeID m) = Some g" by (simp add: update_conv')
  obtain st w3 b where st: "FDAllocations st = Some (fd_credits q)"
    and u2: "status_update api w1 (?q1\<lparr>Status := st\<rparr>) = (w3, b)"
    and r2: "ReleaseLease api m ns (nodeID m) w1
      = (if b then (g, deleteLease api m ns w3) else (0, w3))"
  proof -
    let ?st = "(Status ?q1)\<lparr>FDAllocations := Some (fd_credits q),
        AvailableFD := i64 (fd_limit ?q1 - add_up 0 (fd_credits q)),
        Version := Some (incrementVersion (Version (Status ?q1)))\<rparr>"
    obtain w3 b where u2: "status_update api w1 (?q1\<lparr>Status := ?st\<rparr>) = (w3, b)" by fastforce
    show ?thesis
      using that [OF _ u2] assms(2) g1 c1 held u2
      by (simp add: ReleaseLease_def releaseFD_def Let_def fd_limit_def del)
  qed
  with assms(8,9) have b: b and n: "n = g" and w2: "w2 = deleteLease api m ns w3"
    by (auto split: if_splits)
  obtain rv2 where "stored w3 ns ns = Some (?q1\<lparr>Status := st, oq_resource_version := rv2\<rparr>)"
    using applied_update [OF api g1] u2 b by auto
  with st n show ?thesis
    by (simp add: w2 stored_after_lease [OF api] fd_credits_def)
qed

lemma request_release_roundtrip_witness:
  "\<exists>w1 w2. RequestLease sv_api (ex_node ''b'') ''team'' ''b'' 30 5
      (ex_server (ex_quota 100 (Some [(''a'', 60)]) 0 None)) = (Inr 30, w1) \<and>
    ReleaseLease sv_api (ex_node ''b'') ''team'' ''b'' w1 = (30, w2) \<and>
    (\<exists>q2. sv_find w2 ''team'' ''team'' = Some q2 \<and> fd_credits q2 = [(''a'', 60)])"
proof -
  let ?q = "ex_quota 100 (Some [(''a'', 60)]) 0 None"
  let ?m = "ex_node ''b''"
  have q: "quota_ok ?q" by code_simp
  have ok: "leaser_ok sv_api sv_find sv_versions ?m (ex_server ?q)"
    by (simp add: leaser_ok_def sv_api_ok ex_manager_ok ex_world_ok q)
  have node: "nodeID ?m = ''b''" by code_simp
  have suffix: "isProcSuffix ''team'' = (''team'', False)" by code_simp
  have new: "nodeID ?m \<notin> fst ` set (fd_credits ?q)"
    by (simp add: node ex_quota_def fd_credits_def)
  have left: "credit_sum (fd_credits ?q) < fd_limit ?q" by code_simp
  have fresh: "get_quota sv_api w ''team'' ''team'' = sv_find w ''team'' ''team''" for w
    by (simp add: sv_api_def)
  let ?r = "RequestLease sv_api ?m ''team'' ''b'' 30 5 (ex_server ?q)"
  have "fst ?r = Inr 30" "fst (ReleaseLease sv_api ?m ''team'' ''b'' (snd ?r)) = 30" by code_simp+
  then obtain w1 w2 where r: "?r = (Inr 30, w1)"
    and d: "ReleaseLease sv_api ?m ''team'' ''b'' w1 = (30, w2)"
    by (metis prod.collapse snd_conv)
  have r': "RequestLease sv_api ?m ''team'' (nodeID ?m) 30 5 (ex_server ?q) = (Inr 30, w1)"
    and d': "ReleaseLease sv_api ?m ''team'' (nodeID ?m) w1 = (30, w2)"
    using r d by (simp_all only: node)
  have "\<exists>q2. sv_find w2 ''team'' ''team'' = Some q2 \<and> fd_credits q2 = fd_credits ?q"
    by (rule request_release_roundtrip [OF ok suffix ex_find new left r' fresh d',
          THEN conjunct2]) simp
  with r d show ?thesis by (auto simp: ex_quota_def fd_credits_def)
qed

section \<open>Dead nodes\<close>

text \<open>(C30)
  A reclaim that reports success on a quota the node saw as it is leaves every node that is the
  caller or has a heartbeat younger than a minute its credits, of both kinds, and every other
  node none.
\<close>

theorem reclaim_exact:
  assumes "api_ok api stored versions"
    and "get_quota api w ns ns = Some q" and "stored w ns ns = Some q"
    and "list_leases api w ns = Some ls"
    and "ReclaimExpiredLeases api m ns now w = (True, w')"
  shows "\<exists>q'. stored w' ns ns = Some q' \<and>
    (\<forall>k. let alive = k = nodeID m \<or>
               (\<exists>l\<in>set ls. HolderIdentity l = Some k \<and>
                  (\<exists>t. RenewTime l = Some t \<and> now - t < 60 * 1000000000)) in
       credit_of (fd_credits q') k = (if alive then credit_of (fd_credits q) k else 0) \<and>
       credit_of (proc_credits q') k = (if alive then credit_of (proc_credits q) k else 0))"
proof -
  have act: "k \<in> set (active_nodes now ls) \<longleftrightarrow>
      (\<exists>l\<in>set ls. HolderIdentity l = Some k \<and>
         (\<exists>t. RenewTime l = Some t \<and> now - t < 60 * 1000000000))" for k
    by (auto simp: active_nodes_def map_filter_def lease_active_def lease_duration_def
        image_iff split: option.splits)
  let ?keep = "keep_active m (active_nodes now ls)"
  have keep: "credit_of (?keep c) k
      = (if k = nodeID m \<or> k \<in> set (active_nodes now ls) then credit_of c k else 0)" for c k
    unfolding keep_active_def by (rule credit_filter)
  have fd: "fd_credits x = ?keep (fd_credits q)"
    if "FDAllocations (Status x) = map_option ?keep (FDAllocations (Status q))" for x
    using that by (simp add: fd_credits_def keep_active_def split: option.split)
  have pr: "proc_credits x = ?keep (proc_credits q)"
    if "ProcAllocations (Status x) = map_option ?keep (ProcAllocations (Status q))" for x
    using that by (simp add: proc_credits_def keep_active_def split: option.split)
  have "\<exists>q'. stored w' ns ns = Some q' \<and>
      FDAllocations (Status q') = map_option ?keep (FDAllocations (Status q)) \<and>
      ProcAllocations (Status q') = map_option ?keep (ProcAllocations (Status q))"
  proof (cases "map_option ?keep (FDAllocations (Status q)) = FDAllocations (Status q) \<and>
      map_option ?keep (ProcAllocations (Status q)) = ProcAllocations (Status q)")
    case True
    with assms(2-5) show ?thesis by (simp add: ReclaimExpiredLeases_def Let_def)
  next
    case False
    with assms(2,4,5) obtain v ver where
      u: "status_update api w (q\<lparr>Status := (Status q)\<lparr>
          FDAllocations := map_option ?keep (FDAllocations (Status q)),
          ProcAllocations := map_option ?keep (ProcAllocations (Status q)),
          AvailableFD := v, Version := ver\<rparr>\<rparr>) = (w', True)"
      by (simp add: ReclaimExpiredLeases_def Let_def split: prod.splits)
    show ?thesis using applied_update [OF assms(1,2) u] by fastforce
  qed
  then obtain q' where q': "stored w' ns ns = Some q'"
    "fd_credits q' = ?keep (fd_credits q)" "proc_credits q' = ?keep (proc_credits q)"
    using fd pr by blast
  then show ?thesis
    by (intro exI [of _ q']) (simp only: Let_def keep act [symmetric], simp)
qed

text \<open>Of a, b and c, node b's heartbeat is 61 s old and c has none; a reclaims.\<close>

theorem reclaim_exact_witness:
  "\<exists>w' q'. ReclaimExpiredLeases sv_api (ex_node ''a'') ''team'' 61000000000
      \<lparr>sv_quotas = [ex_quota 100 (Some [(''a'', 10), (''b'', 20), (''c'', 30)]) 0 None],
       sv_leases = [\<lparr>ls_namespace = ''team'', ls_name = ''l'', HolderIdentity = Some ''b'',
                     RenewTime = Some 0\<rparr>]\<rparr> = (True, w') \<and>
    sv_find w' ''team'' ''team'' = Some q' \<and>
    credit_of (fd_credits q') ''a'' = 10 \<and> credit_of (fd_credits q') ''b'' = 0"
proof -
  let ?q = "ex_quota 100 (Some [(''a'', 10), (''b'', 20), (''c'', 30)]) 0 None"
  let ?l = "\<lparr>ls_namespace = ''team'', ls_name = ''l'', HolderIdentity = Some ''b'',
             RenewTime = Some 0\<rparr>"
  let ?w = "\<lparr>sv_quotas = [?q], sv_leases = [?l]\<rparr>"
  let ?r = "ReclaimExpiredLeases sv_api (ex_node ''a'') ''team'' 61000000000 ?w"
  have "fst ?r = True" by code_simp
  then obtain w' where r: "?r = (True, w')" by (cases ?r) (simp only: fst_conv)
  have get: "get_quota sv_api ?w ''team'' ''team'' = Some ?q"
    and st: "sv_find ?w ''team'' ''team'' = Some ?q"
    and ls: "list_leases sv_api ?w ''team'' = Some [?l]"
    by (simp_all add: sv_api_def sv_find_def ex_quota_def)
  have node: "nodeID (ex_node ''a'') = ''a''" by code_simp
  obtain q' where q': "sv_find w' ''team'' ''team'' = Some q'"
    and c: "\<And>k. credit_of (fd_credits q') k =
      (if k = ''a'' \<or> (\<exists>l\<in>set [?l]. HolderIdentity l = Some k \<and>
          (\<exists>t. RenewTime l = Some t \<and> 61000000000 - t < 60 * 1000000000))
       then credit_of (fd_credits ?q) k else 0)"
    using reclaim_exact [OF sv_api_ok get st ls r] unfolding node Let_def by blast
  show ?thesis
    using r q' c [of "''a''"] c [of "''b''"]
    by (intro exI [of _ w'] exI [of _ q']) (simp add: ex_quota_def fd_credits_def credit_of_def)
qed

text \<open>
  A request for processes leaves no heartbeat, so until the node's first renewal tick another
  node reclaims its credits and is granted them again: of a pool of 30 both nodes are told 30.
\<close>

lemma live_process_credits_reclaimed:
  "let a = ex_node ''a''; b = ex_node ''b'';
       (ra, w1) = RequestLease sv_api a ''team-proc'' ''a'' 30 0
                    (ex_server (ex_quota 0 None 30 None));
       (ok, w2) = ReclaimExpiredLeases sv_api b ''team'' 1 w1;
       (rb, w3) = RequestLease sv_api b ''team-proc'' ''b'' 30 2 w2
   in ra = Inr 30 \<and> ok \<and> rb = Inr 30 \<and>
      map_option proc_credits (sv_find w3 ''team'' ''team'') = Some [(''b'', 30)]"
  by code_simp

section \<open>Keys\<close>

text \<open>The suffix that marks a key as one of processes: exactly the keys of a non-empty name with
  \<^verbatim>\<open>-proc\<close> after it are, and they name that name. So the descriptor key of a namespace that
  itself ends in \<^verbatim>\<open>-proc\<close> is taken for the processes of another namespace.
\<close>

lemma proc_key_exact:
  "(isProcSuffix key = (b, True) \<longleftrightarrow> b \<noteq> [] \<and> key = b @ ''-proc'') \<and>
   (isProcSuffix key = (b, False) \<longleftrightarrow> b = key \<and> (\<nexists>c. c \<noteq> [] \<and> key = c @ ''-proc''))"
proof -
  have "5 < length key \<and> drop (length key - 5) key = ''-proc'' \<longleftrightarrow>
      (\<exists>c. c \<noteq> [] \<and> key = c @ ''-proc'')"
  proof
    assume "5 < length key \<and> drop (length key - 5) key = ''-proc''"
    then have "take (length key - 5) key \<noteq> [] \<and> key = take (length key - 5) key @ ''-proc''"
      using append_take_drop_id [of "length key - 5" key] by auto
    then show "\<exists>c. c \<noteq> [] \<and> key = c @ ''-proc''" by blast
  qed auto
  then show ?thesis
    unfolding isProcSuffix_def by auto
qed

end
