(* ===== verification/Cgroup_Fs.thy ===== *)
theory Cgroup_Fs
  imports Go_Strings
begin

text \<open>
  \<^verbatim>\<open>cgroup.go\<close>: how the manager finds the cgroups of a pod in the cgroup file system, recognises
  a pod's directory, and kills what is in a cgroup. The file system is a tree; a path is the
  list of the names below \<^verbatim>\<open>CgroupFsRoot\<close>, so \<^verbatim>\<open>filepath.Join\<close> appends names (which hold
  no slash) and \<^verbatim>\<open>filepath.Base\<close> is the last one.
\<close>

section \<open>The file system\<close>

type_synonym path = "string list"

datatype cgfs =
    CDir u64 "(string \<times> cgfs) list"
  | CFile u64 string

fun cg_lookup :: "path \<Rightarrow> cgfs \<Rightarrow> cgfs option" where
  "cg_lookup [] t = Some t"
| "cg_lookup (n # p) (CDir ino es) = (case map_of es n of None \<Rightarrow> None | Some t \<Rightarrow> cg_lookup p t)"
| "cg_lookup (n # p) (CFile ino s) = None"

fun is_dir :: "cgfs \<Rightarrow> bool" where
  "is_dir (CDir ino es) = True"
| "is_dir (CFile ino s) = False"

lemma cg_lookup_append:
  "cg_lookup (p @ q) t = (case cg_lookup p t of None \<Rightarrow> None | Some u \<Rightarrow> cg_lookup q u)"
  by (induction p t rule: cg_lookup.induct) (auto split: option.split)

definition base :: "path \<Rightarrow> string" where
  "base p = (if p = [] then ''.'' else last p)"

section \<open>Cgroup ids\<close>

record CgroupInfo =
  CgroupID :: u64
  CgroupPath :: path

datatype cgroup_error = NotFound | NotCgroupV2

definition readCgroupID :: "cgfs \<Rightarrow> path \<Rightarrow> cgroup_error + CgroupInfo" where
  "readCgroupID fs p =
     (case cg_lookup p fs of
        None \<Rightarrow> Inl NotFound
      | Some (CFile ino s) \<Rightarrow> Inl NotCgroupV2
      | Some (CDir ino es) \<Rightarrow> Inr \<lparr>CgroupID = ino, CgroupPath = p\<rparr>)"

text \<open>The directories below \<open>p\<close> with their ids, in the order \<^verbatim>\<open>os.ReadDir\<close> gives them.\<close>

definition child_cgroups :: "cgfs \<Rightarrow> path \<Rightarrow> CgroupInfo list" where
  "child_cgroups fs p =
     (case cg_lookup p fs of
        Some (CDir ino es) \<Rightarrow>
          concat (map (\<lambda>(n, t). case t of CFile i s \<Rightarrow> []
                     | CDir i es' \<Rightarrow> (case readCgroupID fs (p @ [n]) of Inl e \<Rightarrow> [] | Inr c \<Rightarrow> [c])) es)
      | _ \<Rightarrow> [])"

section \<open>Finding a pod\<close>

definition qos_classes :: "string list" where
  "qos_classes = [''besteffort'', ''burstable'', ''guaranteed'']"

text \<open>The eight places, in the order \<^verbatim>\<open>PodResolver.Resolve\<close> tries them.\<close>

definition candidates :: "string \<Rightarrow> path list" where
  "candidates podUID =
     (let uid = replace_char CHR ''-'' CHR ''_'' podUID in
      [[''kubepods.slice'', ''kubepods-pod'' @ uid @ ''.slice''],
       [''kubepods.slice'', ''pod'' @ uid]] @
      concat (map (\<lambda>qos.
        [[''kubepods.slice'', ''kubepods-'' @ qos @ ''.slice'',
          ''kubepods-'' @ qos @ ''-pod'' @ uid @ ''.slice''],
         [''kubepods.slice'', ''kubepods-'' @ qos @ ''.slice'', ''pod'' @ uid]]) qos_classes))"

fun resolve_first :: "cgfs \<Rightarrow> path list \<Rightarrow> cgroup_error + CgroupInfo list" where
  "resolve_first fs [] = Inl NotFound"
| "resolve_first fs (p # ps) =
     (case readCgroupID fs p of
        Inl e \<Rightarrow> resolve_first fs ps
      | Inr info \<Rightarrow> Inr (child_cgroups fs p @ [info]))"

definition PodResolver_Resolve :: "cgfs \<Rightarrow> string \<Rightarrow> cgroup_error + CgroupInfo list" where
  "PodResolver_Resolve fs podUID = resolve_first fs (candidates podUID)"

text \<open>The resolver with a cache; errors are not kept.\<close>

type_synonym pod_cache = "string \<rightharpoonup> CgroupInfo list"

definition CachedPodResolver_Resolve ::
  "(string \<Rightarrow> cgroup_error + CgroupInfo list) \<Rightarrow> string \<Rightarrow> pod_cache \<Rightarrow>
   (cgroup_error + CgroupInfo list) \<times> pod_cache" where
  "CachedPodResolver_Resolve underlying podUID cache =
     (case cache podUID of
        Some info \<Rightarrow> (Inr info, cache)
      | None \<Rightarrow>
          (case underlying podUID of
             Inl e \<Rightarrow> (Inl e, cache)
           | Inr info \<Rightarrow> (Inr info, cache(podUID \<mapsto> info))))"

definition Invalidate :: "string \<Rightarrow> pod_cache \<Rightarrow> pod_cache" where
  "Invalidate podUID cache = cache(podUID := None)"

section \<open>Recognising a pod's directory\<close>

definition PodIDFromCgroupPath :: "path \<Rightarrow> string option" where
  "PodIDFromCgroupPath p =
     (case cut ''-pod'' (base p) of
        None \<Rightarrow> None
      | Some (before_pod, rest) \<Rightarrow> Some (trim_suffix ''.slice'' rest))"

lemma size_child: "(n, t) \<in> set es \<Longrightarrow> size t < size (CDir ino es)"
  by (induction es) auto

text \<open>The walk stops at a directory it recognises and does not follow links.\<close>

function find_dirs :: "path \<Rightarrow> cgfs \<Rightarrow> path list" where
  "find_dirs p (CFile ino s) = []"
| "find_dirs p (CDir ino es) =
     concat (map (\<lambda>(n, t).
       if \<not> is_dir t then []
       else if PodIDFromCgroupPath [n] \<noteq> None then [p @ [n]]
       else find_dirs (p @ [n]) t) es)"
  by pat_completeness auto
termination
  by (relation "measure (size \<circ> snd)") (auto dest: size_child simp: less_Suc_eq_le)

definition findPodCgroupDirs :: "cgfs \<Rightarrow> path \<Rightarrow> path list" where
  "findPodCgroupDirs fs root =
     (case cg_lookup root fs of None \<Rightarrow> [] | Some t \<Rightarrow> find_dirs root t)"

section \<open>Killing a cgroup\<close>

text \<open>
  The processes signalled, one per line of \<^verbatim>\<open>cgroup.procs\<close> that is a number; None when the
  file cannot be opened.
\<close>

definition proc_pids :: "string \<Rightarrow> int list" where
  "proc_pids content =
     List.map_filter atoi (filter (\<lambda>l. l \<noteq> []) (map trim_space (scan_lines content)))"

definition KillCgroupProcs :: "cgfs \<Rightarrow> path \<Rightarrow> int list option" where
  "KillCgroupProcs fs cgroupPath =
     (case cg_lookup (cgroupPath @ [''cgroup.procs'']) fs of
        Some (CFile ino content) \<Rightarrow> Some (proc_pids content)
      | _ \<Rightarrow> None)"

end
