(* ===== verification/Cgroup_Props.thy ===== *)
theory Cgroup_Props
  imports Cgroup_Fs
begin

text \<open>The properties of the cgroup file system functions.\<close>

section \<open>The walk\<close>

text \<open>A directory holds a name once.\<close>

fun cgfs_ok :: "cgfs \<Rightarrow> bool" where
  "cgfs_ok (CFile ino s) \<longleftrightarrow> True"
| "cgfs_ok (CDir ino es) \<longleftrightarrow> distinct (map fst es) \<and> (\<forall>(n, t)\<in>set es. cgfs_ok t)"

text \<open>A directory with the name of a pod's, none of those above it having one.\<close>

definition pod_dir :: "cgfs \<Rightarrow> path \<Rightarrow> bool" where
  "pod_dir t q \<longleftrightarrow>
     (\<exists>ino es. cg_lookup q t = Some (CDir ino es)) \<and> q \<noteq> [] \<and> PodIDFromCgroupPath q \<noteq> None \<and>
     (\<forall>k. 0 < k \<and> k < length q \<longrightarrow> PodIDFromCgroupPath (take k q) = None)"

lemma PodID_Cons [simp]: "q \<noteq> [] \<Longrightarrow> PodIDFromCgroupPath (n # q) = PodIDFromCgroupPath q"
  by (simp add: PodIDFromCgroupPath_def base_def)

lemma is_dir_iff: "is_dir t \<longleftrightarrow> (\<exists>ino es. t = CDir ino es)"
  by (cases t) auto

lemma pod_dir_file [simp]: "\<not> pod_dir (CFile ino s) q"
  by (cases q) (auto simp: pod_dir_def)

lemma pod_dir_Nil [simp]: "\<not> pod_dir t []"
  by (simp add: pod_dir_def)

lemma pod_dir_Cons:
  "pod_dir (CDir ino es) (n # q) \<longleftrightarrow>
     (\<exists>t. map_of es n = Some t \<and> is_dir t \<and>
        (if PodIDFromCgroupPath [n] \<noteq> None then q = [] else pod_dir t q))"
proof (cases "q = []")
  case True
  then show ?thesis
    by (auto simp: pod_dir_def is_dir_iff split: option.splits)
next
  case False
  have above: "(\<forall>k. 0 < k \<and> k < length (n # q) \<longrightarrow> PodIDFromCgroupPath (take k (n # q)) = None) \<longleftrightarrow>
      PodIDFromCgroupPath [n] = None \<and>
      (\<forall>k. 0 < k \<and> k < length q \<longrightarrow> PodIDFromCgroupPath (take k q) = None)"
    (is "?l \<longleftrightarrow> ?r")
  proof
    assume l: ?l
    have "PodIDFromCgroupPath (take k q) = None" if "0 < k" "k < length q" for k
      using l [rule_format, of "Suc k"] that False by simp
    moreover have "PodIDFromCgroupPath [n] = None" using l [rule_format, of 1] False by simp
    ultimately show ?r by blast
  next
    assume r: ?r
    show ?l
    proof (intro allI impI)
      fix k assume k: "0 < k \<and> k < length (n # q)"
      show "PodIDFromCgroupPath (take k (n # q)) = None"
      proof (cases "k = 1")
        case False
        with k r \<open>q \<noteq> []\<close> show ?thesis by (cases k) auto
      qed (use r in simp)
    qed
  qed
  have dir: "\<exists>i e. t = CDir i e" if "cg_lookup q t = Some (CDir ino' es')" for t ino' es'
    using that False by (cases t; cases q) auto
  show ?thesis
    unfolding pod_dir_def above using False dir
    by (auto simp: is_dir_iff split: option.splits)
qed

lemma find_dirs_exact: "cgfs_ok t \<Longrightarrow> set (find_dirs r t) = {r @ q |q. pod_dir t q}"
proof (induction r t rule: find_dirs.induct)
  case (2 r ino es)
  have ok: "distinct (map fst es)" using 2(2) by simp
  have IH: "set (find_dirs (r @ [n]) t) = {(r @ [n]) @ q |q. pod_dir t q}"
    if "(n, t) \<in> set es" "is_dir t" "PodIDFromCgroupPath [n] = None" for n t
    using 2(1) [OF that(1) refl] 2(2) that by auto
  have entry: "p \<in> set (if \<not> is_dir t then [] else if PodIDFromCgroupPath [n] \<noteq> None then [r @ [n]]
           else find_dirs (r @ [n]) t) \<longleftrightarrow>
      (\<exists>q. p = r @ n # q \<and> is_dir t \<and>
         (if PodIDFromCgroupPath [n] \<noteq> None then q = [] else pod_dir t q))"
    if "(n, t) \<in> set es" for n t p
    using IH [OF that] by auto
  have "p \<in> set (find_dirs r (CDir ino es)) \<longleftrightarrow>
      (\<exists>n t. (n, t) \<in> set es \<and> (\<exists>q. p = r @ n # q \<and> is_dir t \<and>
         (if PodIDFromCgroupPath [n] \<noteq> None then q = [] else pod_dir t q)))" for p
  proof -
    have "p \<in> set (find_dirs r (CDir ino es)) \<longleftrightarrow>
        (\<exists>n t. (n, t) \<in> set es \<and> p \<in> set (if \<not> is_dir t then []
           else if PodIDFromCgroupPath [n] \<noteq> None then [r @ [n]] else find_dirs (r @ [n]) t))"
      unfolding find_dirs.simps set_concat set_map UN_iff by (force simp only: prod.case)
    then show ?thesis using entry by blast
  qed
  then have "p \<in> set (find_dirs r (CDir ino es)) \<longleftrightarrow>
      (\<exists>n q. p = r @ n # q \<and> pod_dir (CDir ino es) (n # q))" for p
    unfolding pod_dir_Cons map_of_eq_Some_iff [OF ok] by blast
  moreover have "pod_dir (CDir ino es) q \<longleftrightarrow> (\<exists>n q'. q = n # q' \<and> pod_dir (CDir ino es) (n # q'))"
    for q by (cases q) (auto simp: pod_dir_def)
  ultimately show ?case by blast
qed simp

text \<open>
  The scanner's walk finds, of all directories below its root, exactly those with the name of a
  pod's that are not below another such directory.
\<close>

lemma findPodCgroupDirs_exact:
  assumes "cg_lookup root fs = Some t" and "cgfs_ok t"
  shows "set (findPodCgroupDirs fs root) = {root @ q |q. pod_dir t q}"
  using assms by (simp add: findPodCgroupDirs_def find_dirs_exact)

definition ex_fs :: cgfs where
  "ex_fs = CDir 1 [(''kubepods.slice'', CDir 2
     [(''cgroup.procs'', CFile 3 []),
      (''kubepods-pod1_2.slice'', CDir 4 [(''cri-a'', CDir 5 [(''cgroup.procs'', CFile 6 ''71'')])]),
      (''pod3'', CDir 7 []),
      (''kubepods-burstable.slice'', CDir 8 [(''kubepods-burstable-pod4.slice'', CDir 9 [])])])]"

lemma findPodCgroupDirs_exact_witness:
  "[''kubepods.slice'', ''kubepods-burstable.slice'', ''kubepods-burstable-pod4.slice'']
     \<in> set (findPodCgroupDirs ex_fs [''kubepods.slice'']) \<and>
   [''kubepods.slice'', ''pod3''] \<notin> set (findPodCgroupDirs ex_fs [''kubepods.slice''])"
proof -
  let ?t = "the (cg_lookup [''kubepods.slice''] ex_fs)"
  have t: "cg_lookup [''kubepods.slice''] ex_fs = Some ?t" by (simp add: ex_fs_def)
  have ok: "cgfs_ok ?t" by (simp add: ex_fs_def)
  have "pod_dir ?t [''kubepods-burstable.slice'', ''kubepods-burstable-pod4.slice'']"
    "\<not> pod_dir ?t [''pod3'']"
    by (simp_all add: ex_fs_def pod_dir_Cons PodIDFromCgroupPath_def base_def)
  then show ?thesis
    unfolding findPodCgroupDirs_exact [OF t ok] by auto
qed

section \<open>The resolver and the scanner\<close>

lemma no_dash_pod: "CHR ''-'' \<notin> set s \<Longrightarrow> cut ''-pod'' s = None"
  by (auto simp: cut_None sublist_def)

lemma replaced_no_dash: "CHR ''-'' \<notin> set (replace_char CHR ''-'' CHR ''_'' s)"
  by (auto simp: replace_char_def)

text \<open>Of the eight places the resolver looks for a pod, the scanner recognises the four of the
  systemd layout, and reads back the pod's name with dashes as underscores; it never recognises
  the four of the cgroupfs layout.
\<close>

lemma scanner_recognises:
  "map PodIDFromCgroupPath (candidates podUID) =
     (let uid = Some (replace_char CHR ''-'' CHR ''_'' podUID)
      in [uid, None, uid, None, uid, None, uid, None])"
  using replaced_no_dash [of podUID]
  by (simp add: candidates_def qos_classes_def PodIDFromCgroupPath_def base_def Let_def
      no_dash_pod trim_suffix_append [of "''.slice''", simplified])

lemma length_candidates: "length (candidates podUID) = 8"
  by (simp add: candidates_def qos_classes_def Let_def)

text \<open>The name the scanner compares with the pod's, its underscores made dashes, is the pod's own
  name, for a name without underscores.
\<close>

lemma pod_uid_roundtrip:
  assumes "CHR ''_'' \<notin> set podUID" and "i < 8" and "even i"
  shows "map_option (replace_char CHR ''_'' CHR ''-'')
           (PodIDFromCgroupPath (candidates podUID ! i)) = Some podUID"
proof -
  have "PodIDFromCgroupPath (candidates podUID ! i) = map PodIDFromCgroupPath (candidates podUID) ! i"
    using assms(2) by (simp add: length_candidates)
  moreover have "i = 0 \<or> i = 2 \<or> i = 4 \<or> i = 6" using assms(2,3) by presburger
  ultimately have "PodIDFromCgroupPath (candidates podUID ! i)
      = Some (replace_char CHR ''-'' CHR ''_'' podUID)"
    by (auto simp: scanner_recognises Let_def)
  with assms(1) show ?thesis by (simp add: replace_char_back)
qed

lemma pod_uid_roundtrip_witness:
  "map_option (replace_char CHR ''_'' CHR ''-'')
     (PodIDFromCgroupPath (candidates ''1-2'' ! 4)) = Some ''1-2''"
  by (rule pod_uid_roundtrip) simp_all

section \<open>Resolving\<close>

lemma readCgroupID_dir:
  "readCgroupID fs p = Inr c \<longleftrightarrow>
     (\<exists>ino es. cg_lookup p fs = Some (CDir ino es) \<and> c = \<lparr>CgroupID = ino, CgroupPath = p\<rparr>)"
  by (auto simp: readCgroupID_def split: option.splits cgfs.splits)

lemmas readCgroupID_dir_sym = eq_commute [THEN trans, OF readCgroupID_dir]

lemma resolve_first_Inr:
  "resolve_first fs ps = Inr r \<Longrightarrow>
     \<exists>i<length ps. \<exists>info. (\<forall>j<i. \<exists>e. readCgroupID fs (ps ! j) = Inl e) \<and>
       readCgroupID fs (ps ! i) = Inr info \<and> r = child_cgroups fs (ps ! i) @ [info]"
proof (induction ps)
  case (Cons p ps)
  show ?case
  proof (cases "readCgroupID fs p")
    case (Inl e)
    with Cons obtain i info where "i < length ps" "\<forall>j<i. \<exists>e. readCgroupID fs (ps ! j) = Inl e"
      "readCgroupID fs (ps ! i) = Inr info" "r = child_cgroups fs (ps ! i) @ [info]" by auto
    with Inl show ?thesis
      by (intro exI [of _ "Suc i"]) (auto simp: nth_Cons split: nat.split)
  next
    case (Inr info)
    with Cons.prems show ?thesis by (intro exI [of _ 0]) auto
  qed
qed simp

lemma resolve_first_Inl:
  "resolve_first fs ps = Inl e \<Longrightarrow> p \<in> set ps \<Longrightarrow> \<exists>e'. readCgroupID fs p = Inl e'"
  by (induction ps) (auto split: sum.splits)

lemma child_cgroups_dir:
  assumes "c \<in> set (child_cgroups fs p)"
  shows "\<exists>n es. CgroupPath c = p @ [n] \<and> cg_lookup (p @ [n]) fs = Some (CDir (CgroupID c) es)"
  using assms
  by (auto simp: child_cgroups_def readCgroupID_dir_sym split: option.splits cgfs.splits sum.splits)

text \<open>(C26)
  What the resolver returns for a pod: the directory at the first of the eight places that is
  one, last, after the directories in it, each with its own inode as id; it fails only when
  none of the eight is a directory.
\<close>

theorem resolve_spec:
  "case PodResolver_Resolve fs podUID of
     Inr infos \<Rightarrow>
       \<exists>i<8. \<exists>info. infos = child_cgroups fs (candidates podUID ! i) @ [info] \<and>
         CgroupPath info = candidates podUID ! i \<and>
         list_all (\<lambda>p. cg_lookup p fs = None \<or> (\<exists>ino s. cg_lookup p fs = Some (CFile ino s)))
           (take i (candidates podUID)) \<and>
         list_all (\<lambda>c. \<exists>es. cg_lookup (CgroupPath c) fs = Some (CDir (CgroupID c) es)) infos
   | Inl e \<Rightarrow>
       list_all (\<lambda>p. cg_lookup p fs = None \<or> (\<exists>ino s. cg_lookup p fs = Some (CFile ino s)))
         (candidates podUID)"
proof -
  have no_dir: "cg_lookup p fs = None \<or> (\<exists>ino s. cg_lookup p fs = Some (CFile ino s))"
    if "readCgroupID fs p = Inl e" for p e
    using that by (auto simp: readCgroupID_def split: option.splits cgfs.splits)
  show ?thesis
  proof (cases "PodResolver_Resolve fs podUID")
    case (Inl e)
    then show ?thesis
      unfolding PodResolver_Resolve_def using resolve_first_Inl no_dir
      by (fastforce simp: list_all_iff)
  next
    case (Inr infos)
    then obtain i info where i: "i < 8" "readCgroupID fs (candidates podUID ! i) = Inr info"
      "infos = child_cgroups fs (candidates podUID ! i) @ [info]"
      "\<forall>j<i. \<exists>e. readCgroupID fs (candidates podUID ! j) = Inl e"
      unfolding PodResolver_Resolve_def using resolve_first_Inr length_candidates by metis
    have "list_all (\<lambda>p. cg_lookup p fs = None \<or> (\<exists>ino s. cg_lookup p fs = Some (CFile ino s)))
        (take i (candidates podUID))"
      unfolding list_all_length using i(1,4) no_dir by (auto simp: length_candidates)
    moreover have "list_all (\<lambda>c. \<exists>es. cg_lookup (CgroupPath c) fs = Some (CDir (CgroupID c) es)) infos"
      using i(2,3) child_cgroups_dir by (fastforce simp: list_all_iff readCgroupID_dir)
    ultimately show ?thesis
      using i Inr by (auto simp: readCgroupID_dir)
  qed
qed

section \<open>The cache\<close>

text \<open>Once a pod resolved, every later lookup gives the same cgroups, whatever the file system has
  become, until the pod is invalidated; then it is resolved anew.
\<close>

lemma cache_until_invalidated:
  assumes "CachedPodResolver_Resolve old podUID cache = (Inr infos, cache')"
  shows "CachedPodResolver_Resolve new podUID cache' = (Inr infos, cache') \<and>
         fst (CachedPodResolver_Resolve new podUID (Invalidate podUID cache')) = new podUID"
  using assms
  by (auto simp: CachedPodResolver_Resolve_def Invalidate_def split: option.splits sum.splits)

lemma cache_until_invalidated_witness:
  "fst (CachedPodResolver_Resolve (\<lambda>_. Inl NotFound) ''1-2''
     (snd (CachedPodResolver_Resolve (PodResolver_Resolve ex_fs) ''1-2'' Map.empty)))
   = PodResolver_Resolve ex_fs ''1-2''"
proof -
  have "case PodResolver_Resolve ex_fs ''1-2'' of Inr i \<Rightarrow> True | Inl e \<Rightarrow> False" by code_simp
  then obtain infos where i: "PodResolver_Resolve ex_fs ''1-2'' = Inr infos"
    by (auto split: sum.splits)
  then have "CachedPodResolver_Resolve (PodResolver_Resolve ex_fs) ''1-2'' Map.empty
      = (Inr infos, [''1-2'' \<mapsto> infos])"
    by (simp add: CachedPodResolver_Resolve_def)
  from cache_until_invalidated [OF this, of "\<lambda>_. Inl NotFound"] this i show ?thesis by simp
qed

section \<open>Killing\<close>

lemma proc_pids_line:
  "n < 2 ^ 63 \<Longrightarrow> proc_pids (dec n @ newline # s) = int n # proc_pids s"
proof -
  assume n: "n < 2 ^ 63"
  have plain: "\<not> is_space c \<and> c \<noteq> newline \<and> c \<noteq> CHR 0x0D" if c: "c \<in> set (dec n)" for c
  proof -
    obtain d where "d < 10" "c = digit_char d" using dec_digits [OF c] by blast
    then show ?thesis by (simp add: digit_char_plain)
  qed
  have "newline \<notin> set (dec n)" using plain [of newline] by auto
  moreover have "strip_cr (dec n) = dec n"
    using plain [of "last (dec n)"] by (simp add: strip_cr_def)
  ultimately have "scan_lines (dec n @ newline # s) = dec n # scan_lines s"
    by (simp add: scan_lines_line)
  moreover have "trim_space (dec n) = dec n"
    by (rule trim_space_id) (use plain in simp)
  ultimately show ?thesis
    by (simp add: proc_pids_def atoi_dec [OF n] map_filter_simps)
qed

text \<open>
  From the file as the kernel writes it, one decimal number and a newline per process, every
  process of the cgroup is killed, each once, and no other.
\<close>

lemma KillCgroupProcs_written:
  assumes "\<forall>n\<in>set pids. n < 2 ^ 63"
    and "cg_lookup (p @ [''cgroup.procs'']) fs
           = Some (CFile ino (concat (map (\<lambda>n. dec n @ [newline]) pids)))"
  shows "KillCgroupProcs fs p = Some (map int pids)"
proof -
  have "proc_pids (concat (map (\<lambda>n. dec n @ [newline]) pids)) = map int pids"
    using assms(1) by (induction pids) (simp_all add: proc_pids_line proc_pids_def [of "[]"])
  with assms(2) show ?thesis by (simp add: KillCgroupProcs_def)
qed

lemma kill_example:
  "KillCgroupProcs (CDir 1 [(''cgroup.procs'', CFile 2 (''17'' @ [newline] @ ''4'' @ [newline]))]) []
   = Some [17, 4]"
proof -
  let ?s = "concat (map (\<lambda>n. dec n @ [newline]) [17, 4])"
  have "?s = ''17'' @ [newline] @ ''4'' @ [newline]"
    by code_simp
  then have s: "cg_lookup ([] @ [''cgroup.procs''])
      (CDir 1 [(''cgroup.procs'', CFile 2 (''17'' @ [newline] @ ''4'' @ [newline]))])
      = Some (CFile 2 ?s)" by simp
  have "\<forall>n\<in>set [17, 4 :: nat]. n < 2 ^ 63" by simp
  from KillCgroupProcs_written [OF this s] show ?thesis by simp
qed

end
