(* ===== verification/Ns_Key.thy ===== *)
theory Ns_Key
  imports Prelude
begin

text \<open>
  \<^verbatim>\<open>manager.go\<close>: the key of a namespace in the BPF maps, the 64-bit FNV-1a hash of its name
  (\<^verbatim>\<open>hash/fnv\<close>), and the maps user space names.
\<close>

unbundle bit_operations_syntax

datatype MapKind =
    MapFDCgroup
  | MapFDNsLimit
  | MapFDNsCounter
  | MapProcCgroup
  | MapProcNsLimit
  | MapProcNsCounter

definition fnv_prime :: u64 where
  "fnv_prime = 1099511628211"

definition fnv_offset :: u64 where
  "fnv_offset = 14695981039346656037"

definition fnv_step :: "u64 \<Rightarrow> char \<Rightarrow> u64" where
  "fnv_step h c = (h XOR of_nat (of_char c)) * fnv_prime"

definition NamespaceKey :: "string \<Rightarrow> u64" where
  "NamespaceKey ns = foldl fnv_step fnv_offset ns"

section \<open>Collisions\<close>

text \<open>The prime is odd, so multiplying by it can be undone.\<close>

lemma fnv_prime_inverse: "fnv_prime * 14886173955864302971 = 1"
  by (simp add: fnv_prime_def)

lemma fnv_prime_cancel: "x * fnv_prime = y * fnv_prime \<longleftrightarrow> x = y"
proof
  assume "x * fnv_prime = y * fnv_prime"
  then have "x * fnv_prime * 14886173955864302971 = y * fnv_prime * 14886173955864302971"
    by (rule arg_cong)
  then show "x = y" by (simp only: mult.assoc fnv_prime_inverse mult_1_right)
qed simp

lemma xor_cancel_right: "x XOR z = y XOR z \<longleftrightarrow> x = y" for x y z :: "'a::len word"
  by (metis xor.assoc xor.right_neutral xor_self_eq)

lemma xor_cancel_left: "z XOR x = z XOR y \<longleftrightarrow> x = y" for x y z :: "'a::len word"
  by (metis xor.commute xor_cancel_right)

lemma fnv_step_same_char: "fnv_step g c = fnv_step h c \<longleftrightarrow> g = h"
  by (simp add: fnv_step_def fnv_prime_cancel xor_cancel_right)

lemma char_word_inject: "(of_nat (of_char c) :: u64) = of_nat (of_char d) \<longleftrightarrow> c = d"
proof
  assume e: "(of_nat (of_char c) :: u64) = of_nat (of_char d)"
  have "of_char x < (256 :: nat)" for x :: char by simp
  then have "unat (of_nat (of_char x) :: u64) = of_char x" for x :: char
    by (simp add: unat_of_nat less_trans [of _ 256])
  with e have "of_char c = (of_char d :: nat)" by metis
  then show "c = d" by simp
qed simp

lemma fnv_step_same_hash: "fnv_step h c = fnv_step h d \<longleftrightarrow> c = d"
  by (simp add: fnv_step_def fnv_prime_cancel xor_cancel_left char_word_inject)

lemma NamespaceKey_snoc: "NamespaceKey (ns @ [c]) = fnv_step (NamespaceKey ns) c"
  by (simp add: NamespaceKey_def)

lemma NamespaceKey_same_suffix:
  "NamespaceKey (a @ s) = NamespaceKey (b @ s) \<longleftrightarrow> NamespaceKey a = NamespaceKey b"
proof (induction s rule: rev_induct)
  case (snoc c s)
  then show ?case
    by (simp add: NamespaceKey_snoc [of "a @ s" c, simplified]
        NamespaceKey_snoc [of "b @ s" c, simplified] fnv_step_same_char)
qed simp

lemma NamespaceKey_last: "NamespaceKey (a @ [c]) = NamespaceKey (a @ [d]) \<longleftrightarrow> c = d"
  by (simp add: NamespaceKey_snoc fnv_step_same_hash)

lemma NamespaceKey_vectors:
  "NamespaceKey [] = 0xcbf29ce484222325" "NamespaceKey ''a'' = 0xaf63dc4c8601ec8c"
  "NamespaceKey ''foobar'' = 0x85944171f73967e8"
  by code_simp+

end
