(* ===== verification/Syncer.thy ===== *)
theory Syncer
  imports Kern_Fd Ns_Key Cgroup_Fs Leaser
begin

text \<open>
  \<^verbatim>\<open>syncer.go\<close>: the part of the manager that runs on a node, takes the quotas and the pods to
  the BPF maps, and kills for the enforcer. The maps are those of \<open>kstate\<close>, which the programs
  of the enforcer work on between two operations.
\<close>

section \<open>State and surroundings\<close>

datatype PodPhase = PodPending | PodRunning | PodSucceeded | PodFailed | PodUnknown

record Pod =
  pod_uid :: string
  pod_phase :: PodPhase

text \<open>The gauges and counters of \<^verbatim>\<open>metrics.go\<close> the syncer and the reconcilers set.\<close>

record metrics =
  FDLimit :: "string \<rightharpoonup> int"
  FDCurrent :: "string \<rightharpoonup> u64"
  FDRejected :: "string \<Rightarrow> nat"
  ProcLimit :: "string \<rightharpoonup> int"
  ProcCurrent :: "string \<rightharpoonup> u64"
  ProcRejected :: "string \<Rightarrow> nat"
  QuotaReconciles :: "string \<Rightarrow> nat"

text \<open>
  \<open>bpf_loaded\<close> is whether \<^verbatim>\<open>bpfObjs\<close> is set; without it the stub manager accepts and ignores
  every map operation.
\<close>

record 'w syncer =
  world :: 'w
  bpf :: kstate
  bpf_loaded :: bool
  nsCgroups :: "(string \<times> u64 list) list"
  cgroupPaths :: "u64 \<rightharpoonup> path"
  nsNameByKey :: "u64 \<rightharpoonup> string"
  pod_cache :: pod_cache
  gauges :: metrics

text \<open>
  What an operation finds outside: the API server, the leaser if there is one, the node's name
  and clock, the pods the client lists, the cgroup file system, and the BPF system call, which
  may refuse to put a key into a map (a full one) and may evict others from an LRU map.
\<close>

record 'w env =
  en_api :: "'w api"
  en_leaser :: "K8sLeaseManager option"
  en_node :: string
  en_now :: int
  en_pods :: "'w \<Rightarrow> string \<Rightarrow> Pod list option"
  en_fs :: cgfs
  en_put :: "MapKind \<Rightarrow> u64 \<Rightarrow> kstate \<Rightarrow> bool"
  en_lru :: "(u64 \<rightharpoonup> u64) \<Rightarrow> u64 \<Rightarrow> u64 \<Rightarrow> (u64 \<rightharpoonup> u64)"

datatype sync_error = UpdateLimit | ResetCounter | ListPods | MapCgroup u64

named_theorems sync_defs "the map operations of the syncer"

section \<open>Map operations\<close>

definition with_bpf :: "(kstate \<Rightarrow> kstate) \<Rightarrow> 'w syncer \<Rightarrow> 'w syncer" where
  [sync_defs]: "with_bpf f s = s\<lparr>bpf := f (bpf s)\<rparr>"

definition put_map ::
  "'w env \<Rightarrow> MapKind \<Rightarrow> u64 \<Rightarrow> (kstate \<Rightarrow> kstate) \<Rightarrow> 'w syncer \<Rightarrow> bool \<times> 'w syncer" where
  [sync_defs]: "put_map env kind key f s =
     (if \<not> bpf_loaded s then (True, s)
      else if en_put env kind key (bpf s) then (True, with_bpf f s)
      else (False, s))"

definition del_map :: "(kstate \<Rightarrow> kstate) \<Rightarrow> 'w syncer \<Rightarrow> 'w syncer" where
  [sync_defs]: "del_map f s = (if bpf_loaded s then with_bpf f s else s)"

text \<open>The first budget of a lease.\<close>

definition microSlice :: "int \<Rightarrow> u64" where
  "microSlice limit = word_of_int (if 100 < limit then go_div limit 10 else limit)"

definition reset_lease :: "int \<Rightarrow> cpu_lease option \<Rightarrow> cpu_lease" where
  "reset_lease limit existing =
     (case existing of
        Some l \<Rightarrow> l\<lparr>cl_lease_budget := microSlice limit\<rparr>
      | None \<Rightarrow> \<lparr>cl_count = 0, cl_lease_budget = microSlice limit, cl_last_used_ns = 0,
                 cl_top_cgid = 0, cl_top_count = 0\<rparr>)"

definition updateNsLimit :: "'w env \<Rightarrow> u64 \<Rightarrow> int \<Rightarrow> 'w syncer \<Rightarrow> bool \<times> 'w syncer" where
  "updateNsLimit env nsKey limit =
     put_map env MapFDNsLimit nsKey
       (\<lambda>k. k\<lparr>fd_ns_limit := (fd_ns_limit k)(nsKey \<mapsto> word_of_int limit)\<rparr>)"

definition deleteNsLimit :: "u64 \<Rightarrow> 'w syncer \<Rightarrow> 'w syncer" where
  "deleteNsLimit nsKey = del_map (\<lambda>k. k\<lparr>fd_ns_limit := (fd_ns_limit k)(nsKey := None)\<rparr>)"

text \<open>A lookup and then an update: two system calls, with the enforcer running between them.\<close>

definition store_lease :: "'w env \<Rightarrow> u64 \<Rightarrow> cpu_lease \<Rightarrow> 'w syncer \<Rightarrow> bool \<times> 'w syncer" where
  "store_lease env nsKey l =
     put_map env MapFDNsCounter nsKey (\<lambda>k. k\<lparr>fd_ns_counter := (fd_ns_counter k)(nsKey \<mapsto> l)\<rparr>)"

definition resetNsCounter :: "'w env \<Rightarrow> u64 \<Rightarrow> int \<Rightarrow> 'w syncer \<Rightarrow> bool \<times> 'w syncer" where
  "resetNsCounter env nsKey limit s =
     store_lease env nsKey (reset_lease limit (fd_ns_counter (bpf s) nsKey)) s"

definition deleteNsCounter :: "u64 \<Rightarrow> 'w syncer \<Rightarrow> 'w syncer" where
  "deleteNsCounter nsKey = del_map (\<lambda>k. k\<lparr>fd_ns_counter := (fd_ns_counter k)(nsKey := None)\<rparr>)"

definition updateCgroupMapping :: "'w env \<Rightarrow> u64 \<Rightarrow> u64 \<Rightarrow> 'w syncer \<Rightarrow> bool \<times> 'w syncer" where
  "updateCgroupMapping env cgroupID nsKey =
     put_map env MapFDCgroup cgroupID
       (\<lambda>k. k\<lparr>fd_cgroup := en_lru env (fd_cgroup k) cgroupID nsKey\<rparr>)"

definition deleteCgroupMapping :: "u64 \<Rightarrow> 'w syncer \<Rightarrow> 'w syncer" where
  "deleteCgroupMapping cgroupID =
     del_map (\<lambda>k. k\<lparr>fd_cgroup_counter := (fd_cgroup_counter k)(cgroupID := None),
                    fd_cgroup := (fd_cgroup k)(cgroupID := None)\<rparr>)"

definition updateProcNsLimit :: "'w env \<Rightarrow> u64 \<Rightarrow> int \<Rightarrow> 'w syncer \<Rightarrow> bool \<times> 'w syncer" where
  "updateProcNsLimit env nsKey limit =
     put_map env MapProcNsLimit nsKey
       (\<lambda>k. k\<lparr>proc_ns_limit := (proc_ns_limit k)(nsKey \<mapsto> word_of_int limit)\<rparr>)"

definition deleteProcNsLimit :: "u64 \<Rightarrow> 'w syncer \<Rightarrow> 'w syncer" where
  "deleteProcNsLimit nsKey = del_map (\<lambda>k. k\<lparr>proc_ns_limit := (proc_ns_limit k)(nsKey := None)\<rparr>)"

definition store_proc_lease :: "'w env \<Rightarrow> u64 \<Rightarrow> cpu_lease \<Rightarrow> 'w syncer \<Rightarrow> bool \<times> 'w syncer" where
  "store_proc_lease env nsKey l =
     put_map env MapProcNsCounter nsKey
       (\<lambda>k. k\<lparr>proc_ns_counter := (proc_ns_counter k)(nsKey \<mapsto> l)\<rparr>)"

definition resetProcNsCounter :: "'w env \<Rightarrow> u64 \<Rightarrow> int \<Rightarrow> 'w syncer \<Rightarrow> bool \<times> 'w syncer" where
  "resetProcNsCounter env nsKey limit s =
     store_proc_lease env nsKey (reset_lease limit (proc_ns_counter (bpf s) nsKey)) s"

definition deleteProcNsCounter :: "u64 \<Rightarrow> 'w syncer \<Rightarrow> 'w syncer" where
  "deleteProcNsCounter nsKey =
     del_map (\<lambda>k. k\<lparr>proc_ns_counter := (proc_ns_counter k)(nsKey := None)\<rparr>)"

definition updateProcCgroupMapping :: "'w env \<Rightarrow> u64 \<Rightarrow> u64 \<Rightarrow> 'w syncer \<Rightarrow> bool \<times> 'w syncer" where
  "updateProcCgroupMapping env cgroupID nsKey =
     put_map env MapProcCgroup cgroupID
       (\<lambda>k. k\<lparr>proc_cgroup := en_lru env (proc_cgroup k) cgroupID nsKey\<rparr>)"

definition deleteProcCgroupMapping :: "u64 \<Rightarrow> 'w syncer \<Rightarrow> 'w syncer" where
  "deleteProcCgroupMapping cgroupID =
     del_map (\<lambda>k. k\<lparr>proc_cgroup_counter := (proc_cgroup_counter k)(cgroupID := None),
                    proc_cgroup := (proc_cgroup k)(cgroupID := None)\<rparr>)"

section \<open>Mapping the pods of a namespace\<close>

text \<open>
  The loops of \<^verbatim>\<open>SyncNamespace\<close> and \<^verbatim>\<open>SyncProcessNamespace\<close> over the pods and their cgroups,
  with the map update of the one or the other. \<open>known\<close> collects the ids.
\<close>

fun map_infos ::
  "(u64 \<Rightarrow> u64 \<Rightarrow> 'w syncer \<Rightarrow> bool \<times> 'w syncer) \<Rightarrow> u64 \<Rightarrow> CgroupInfo list \<Rightarrow> u64 list \<Rightarrow>
   'w syncer \<Rightarrow> sync_error option \<times> u64 list \<times> 'w syncer" where
  "map_infos upd nsKey [] known s = (None, known, s)"
| "map_infos upd nsKey (c # cs) known s =
     (case upd (CgroupID c) nsKey s of
        (False, s) \<Rightarrow> (Some (MapCgroup (CgroupID c)), known, s)
      | (True, s) \<Rightarrow>
          map_infos upd nsKey cs (List.insert (CgroupID c) known)
            (s\<lparr>cgroupPaths := (cgroupPaths s)(CgroupID c \<mapsto> CgroupPath c)\<rparr>))"

fun map_pods ::
  "'w env \<Rightarrow> (u64 \<Rightarrow> u64 \<Rightarrow> 'w syncer \<Rightarrow> bool \<times> 'w syncer) \<Rightarrow> u64 \<Rightarrow> Pod list \<Rightarrow> u64 list \<Rightarrow>
   'w syncer \<Rightarrow> sync_error option \<times> u64 list \<times> 'w syncer" where
  "map_pods env upd nsKey [] known s = (None, known, s)"
| "map_pods env upd nsKey (pod # pods) known s =
     (if pod_phase pod = PodSucceeded \<or> pod_phase pod = PodFailed
      then map_pods env upd nsKey pods known s
      else case CachedPodResolver_Resolve (PodResolver_Resolve (en_fs env)) (pod_uid pod)
                  (pod_cache s) of (res, cache) \<Rightarrow>
      let s = s\<lparr>pod_cache := cache\<rparr> in
      case res of
        Inl e \<Rightarrow> map_pods env upd nsKey pods known s
      | Inr infos \<Rightarrow>
          (case map_infos upd nsKey infos known s of
             (Some e, known, s) \<Rightarrow> (Some e, known, s)
           | (None, known, s) \<Rightarrow> map_pods env upd nsKey pods known s))"

section \<open>Synchronising a namespace\<close>

text \<open>The request to the leaser and the limit to enforce.\<close>

definition lease_limit :: "'w env \<Rightarrow> string \<Rightarrow> int \<Rightarrow> int \<Rightarrow> 'w syncer \<Rightarrow> int \<times> 'w syncer" where
  "lease_limit env key limit batch s =
     (case en_leaser env of
        None \<Rightarrow> (limit, s)
      | Some m \<Rightarrow>
          (case RequestLease (en_api env) m key (en_node env) batch (en_now env) (world s) of
             (answer, w) \<Rightarrow> (effectiveLimit limit answer, s\<lparr>world := w\<rparr>)))"

definition SyncNamespace ::
  "'w env \<Rightarrow> string \<Rightarrow> int \<Rightarrow> int \<Rightarrow> 'w syncer \<Rightarrow> sync_error option \<times> 'w syncer" where
  "SyncNamespace env ns limit batch s =
     (let nsKey = NamespaceKey ns in
      case lease_limit env ns limit batch s of (effective, s) \<Rightarrow>
      case updateNsLimit env nsKey effective s of
        (False, s) \<Rightarrow> (Some UpdateLimit, s)
      | (True, s) \<Rightarrow>
     (case resetNsCounter env nsKey effective s of
        (False, s) \<Rightarrow> (Some ResetCounter, s)
      | (True, s) \<Rightarrow>
     (case en_pods env (world s) ns of
        None \<Rightarrow> (Some ListPods, s)
      | Some pods \<Rightarrow>
     (let s = s\<lparr>nsNameByKey := (nsNameByKey s)(nsKey \<mapsto> ns)\<rparr> in
      case map_pods env (updateCgroupMapping env) nsKey pods [] s of
        (Some e, known, s) \<Rightarrow> (Some e, s)
      | (None, known, s) \<Rightarrow>
     (let g = gauges s;
          g = g\<lparr>FDLimit := (FDLimit g)(ns \<mapsto> effective)\<rparr>;
          g = (if bpf_loaded s then
                 (case fd_ns_counter (bpf s) nsKey of
                    None \<Rightarrow> g
                  | Some l \<Rightarrow> g\<lparr>FDCurrent := (FDCurrent g)(ns \<mapsto> cl_count l)\<rparr>)
               else g)
      in (None, s\<lparr>nsCgroups := AList.update ns known (nsCgroups s), gauges := g\<rparr>))))))"

definition SyncProcessNamespace ::
  "'w env \<Rightarrow> string \<Rightarrow> int \<Rightarrow> int \<Rightarrow> 'w syncer \<Rightarrow> sync_error option \<times> 'w syncer" where
  "SyncProcessNamespace env ns limit batch s =
     (let nsKey = NamespaceKey ns in
      case lease_limit env (ns @ ''-proc'') limit batch s of (effective, s) \<Rightarrow>
      case updateProcNsLimit env nsKey effective s of
        (False, s) \<Rightarrow> (Some UpdateLimit, s)
      | (True, s) \<Rightarrow>
     (case resetProcNsCounter env nsKey effective s of
        (False, s) \<Rightarrow> (Some ResetCounter, s)
      | (True, s) \<Rightarrow>
     (case en_pods env (world s) ns of
        None \<Rightarrow> (Some ListPods, s)
      | Some pods \<Rightarrow>
     (let s = s\<lparr>nsNameByKey := (nsNameByKey s)(nsKey \<mapsto> ns)\<rparr> in
      case map_pods env (updateProcCgroupMapping env) nsKey pods [] s of
        (Some e, known, s) \<Rightarrow> (Some e, s)
      | (None, known, s) \<Rightarrow>
     (let g = gauges s;
          g = g\<lparr>ProcLimit := (ProcLimit g)(ns \<mapsto> effective)\<rparr>;
          g = (if bpf_loaded s then
                 (case proc_ns_counter (bpf s) nsKey of
                    None \<Rightarrow> g
                  | Some l \<Rightarrow> g\<lparr>ProcCurrent := (ProcCurrent g)(ns \<mapsto> cl_count l)\<rparr>)
               else g)
      in (None, s\<lparr>nsCgroups := AList.update ns known (nsCgroups s), gauges := g\<rparr>))))))"

section \<open>Removing a namespace\<close>

definition release_all :: "'w env \<Rightarrow> string \<Rightarrow> 'w syncer \<Rightarrow> 'w syncer" where
  "release_all env ns s =
     (case en_leaser env of
        None \<Rightarrow> s
      | Some m \<Rightarrow>
          (let w = snd (ReleaseLease (en_api env) m ns (en_node env) (world s));
               w = snd (ReleaseLease (en_api env) m (ns @ ''-proc'') (en_node env) w)
           in s\<lparr>world := w\<rparr>))"

fun unmap_cgroups :: "u64 list \<Rightarrow> 'w syncer \<Rightarrow> 'w syncer" where
  "unmap_cgroups [] s = s"
| "unmap_cgroups (cgid # cs) s =
     (let s = deleteProcCgroupMapping cgid (deleteCgroupMapping cgid s)
      in unmap_cgroups cs (s\<lparr>cgroupPaths := (cgroupPaths s)(cgid := None)\<rparr>))"

definition RemoveNamespace :: "'w env \<Rightarrow> string \<Rightarrow> 'w syncer \<Rightarrow> 'w syncer" where
  "RemoveNamespace env ns s =
     (let nsKey = NamespaceKey ns;
          s = release_all env ns s;
          s = deleteNsLimit nsKey s;
          s = deleteNsCounter nsKey s;
          s = deleteProcNsLimit nsKey s;
          s = deleteProcNsCounter nsKey s;
          s = (case map_of (nsCgroups s) ns of
                 None \<Rightarrow> s
               | Some cgroups \<Rightarrow>
                   (let s = unmap_cgroups cgroups s
                    in s\<lparr>nsCgroups := AList.delete ns (nsCgroups s)\<rparr>))
      in s\<lparr>nsNameByKey := (nsNameByKey s)(nsKey := None),
           gauges := (gauges s)\<lparr>FDLimit := (FDLimit (gauges s))(ns := None),
                                ProcLimit := (ProcLimit (gauges s))(ns := None)\<rparr>\<rparr>)"

section \<open>Quotas\<close>

definition SyncFromQuota :: "'w env \<Rightarrow> ObjectQuota \<Rightarrow> 'w syncer \<Rightarrow> sync_error option \<times> 'w syncer"
  where
  "SyncFromQuota env quota s =
     (let ns = oq_namespace quota;
          batch = (case LeaseBatchSize (Spec quota) of None \<Rightarrow> 0 | Some b \<Rightarrow> b) in
      case (case FileDescriptors (Spec quota) of
              None \<Rightarrow> (None, s)
            | Some limit \<Rightarrow> SyncNamespace env ns limit batch s) of
        (Some e, s) \<Rightarrow> (Some e, s)
      | (None, s) \<Rightarrow>
     (case (case Processes (Spec quota) of
              None \<Rightarrow> (None, s)
            | Some limit \<Rightarrow> SyncProcessNamespace env ns limit batch s) of
        (Some e, s) \<Rightarrow> (Some e, s)
      | (None, s) \<Rightarrow>
          if FileDescriptors (Spec quota) = None \<and> Processes (Spec quota) = None
          then (None, RemoveNamespace env ns s)
          else (None, s)))"

text \<open>False when the quotas cannot be listed; what goes wrong with one of them is ignored.\<close>

definition SyncNamespaceFromQuota :: "'w env \<Rightarrow> string \<Rightarrow> 'w syncer \<Rightarrow> bool \<times> 'w syncer" where
  "SyncNamespaceFromQuota env ns s =
     (case list_quotas (en_api env) (world s) of
        None \<Rightarrow> (False, s)
      | Some qs \<Rightarrow>
          (True, fold (\<lambda>q s. snd (SyncFromQuota env q s)) (filter (\<lambda>q. oq_namespace q = ns) qs) s))"

section \<open>Breaches\<close>

text \<open>The processes killed and the state after.\<close>

definition handleBreachEvent ::
  "'w env \<Rightarrow> breach_event \<Rightarrow> 'w syncer \<Rightarrow> int list \<times> 'w syncer" where
  "handleBreachEvent env evt s =
     (case nsNameByKey s (be_ns_key evt) of
        None \<Rightarrow> ([], s)
      | Some ns \<Rightarrow>
     (let g = gauges s;
          s = s\<lparr>gauges :=
            (if be_reason evt = 0
             then g\<lparr>FDRejected := (FDRejected g)(ns := FDRejected g ns + 1)\<rparr>
             else g\<lparr>ProcRejected := (ProcRejected g)(ns := ProcRejected g ns + 1)\<rparr>)\<rparr> in
      if \<not> bpf_loaded s then ([], s)
      else if be_top_cgid evt = 0 \<or> be_top_cgid evt = be_cgid evt then ([], s)
      else
     (case cgroupPaths s (be_top_cgid evt) of
        None \<Rightarrow> ([], s)
      | Some path \<Rightarrow>
     (case KillCgroupProcs (en_fs env) path of
        None \<Rightarrow> ([], s)
      | Some pids \<Rightarrow> (pids, s)))))"

end
