(* ===== verification/Controller.thy ===== *)
theory Controller
  imports Syncer
begin

text \<open>
  What drives the syncer: the cgroup scanner of \<^verbatim>\<open>syncer.go\<close>, loading and closing the BPF
  object, and the two reconcilers of \<^verbatim>\<open>controller.go\<close>.
\<close>

section \<open>The cgroup scanner\<close>

text \<open>
  The mapping of the cgroups of one recognised directory. \<open>existing\<close> are the ids known for the
  namespace; None stands for the panic of a write to a map that is not there, when the
  namespace is no longer tracked.
\<close>

fun scan_infos ::
  "'w env \<Rightarrow> string \<Rightarrow> CgroupInfo list \<Rightarrow> u64 list \<Rightarrow> 'w syncer \<Rightarrow> (u64 list \<times> 'w syncer) option"
  where
  "scan_infos env ns [] existing s = Some (existing, s)"
| "scan_infos env ns (c # cs) existing s =
     (let cgid = CgroupID c in
      if cgid \<in> set existing then scan_infos env ns cs existing s
      else case updateCgroupMapping env cgid (NamespaceKey ns) s of
        (False, s) \<Rightarrow> scan_infos env ns cs existing s
      | (True, s) \<Rightarrow>
     (case updateProcCgroupMapping env cgid (NamespaceKey ns) s of
        (False, s) \<Rightarrow> scan_infos env ns cs existing s
      | (True, s) \<Rightarrow>
     (case map_of (nsCgroups s) ns of
        None \<Rightarrow> None
      | Some ids \<Rightarrow>
          scan_infos env ns cs (cgid # existing)
            (s\<lparr>nsCgroups := AList.update ns (List.insert cgid ids) (nsCgroups s),
               cgroupPaths := (cgroupPaths s)(cgid \<mapsto> CgroupPath c)\<rparr>))))"

fun scan_dirs ::
  "'w env \<Rightarrow> string \<Rightarrow> path list \<Rightarrow> u64 list \<Rightarrow> 'w syncer \<Rightarrow> 'w syncer option" where
  "scan_dirs env ns [] existing s = Some s"
| "scan_dirs env ns (dir # dirs) existing s =
     (case readCgroupID (en_fs env) dir of
        Inl e \<Rightarrow> scan_dirs env ns dirs existing s
      | Inr podCg \<Rightarrow>
      if CgroupID podCg \<in> set existing then scan_dirs env ns dirs existing s
      else
     (case PodIDFromCgroupPath dir of
        None \<Rightarrow> scan_dirs env ns dirs existing s
      | Some uid \<Rightarrow>
     (case en_pods env (world s) ns of
        None \<Rightarrow> scan_dirs env ns dirs existing s
      | Some pods \<Rightarrow>
      if \<not> list_ex (\<lambda>p. pod_uid p = replace_char CHR ''_'' CHR ''-'' uid) pods
      then scan_dirs env ns dirs existing s
      else
     (case scan_infos env ns (podCg # child_cgroups (en_fs env) dir) existing s of
        None \<Rightarrow> None
      | Some (existing, s) \<Rightarrow> scan_dirs env ns dirs existing s))))"

text \<open>The namespaces tracked when the scan began, one after the other.\<close>

fun scan_tracked ::
  "'w env \<Rightarrow> path list \<Rightarrow> (string \<times> u64 list) list \<Rightarrow> 'w syncer \<Rightarrow> 'w syncer option" where
  "scan_tracked env dirs [] s = Some s"
| "scan_tracked env dirs ((ns, ids) # tracked) s =
     (case scan_dirs env ns dirs ids s of
        None \<Rightarrow> None
      | Some s \<Rightarrow> scan_tracked env dirs tracked s)"

definition scanAndMapCgroups :: "'w env \<Rightarrow> 'w syncer \<Rightarrow> 'w syncer option" where
  "scanAndMapCgroups env s =
     (if \<not> bpf_loaded s then Some s
      else if nsCgroups s = [] then Some s
      else
     (let dirs = findPodCgroupDirs (en_fs env) [''kubepods.slice''] in
      if dirs = [] then Some s else scan_tracked env dirs (nsCgroups s) s))"

section \<open>Loading and closing\<close>

text \<open>
  Which steps of \<^verbatim>\<open>LoadBPF\<close> the kernel lets succeed, and the programs that are attached
  after. A program that fails to attach after the first two is left out silently.
\<close>

record load_outcome =
  lo_rlimit :: bool
  lo_objects :: bool
  lo_install :: bool
  lo_close :: bool
  lo_clone :: bool
  lo_exit :: bool

datatype program = Track_install_fd | Track_close_fd | Track_clone | Track_exit

datatype load_error = RemoveMemlock | LoadObjects | AttachInstall | AttachClose

definition LoadBPF :: "load_outcome \<Rightarrow> 'w syncer \<Rightarrow> (load_error + program list) \<times> 'w syncer" where
  "LoadBPF lo s =
     (if \<not> lo_rlimit lo then (Inl RemoveMemlock, s)
      else if \<not> lo_objects lo then (Inl LoadObjects, s)
      else if \<not> lo_install lo then (Inl AttachInstall, s)
      else if \<not> lo_close lo then (Inl AttachClose, s)
      else (Inr ([Track_install_fd, Track_close_fd]
                 @ (if lo_clone lo then [Track_clone] else [])
                 @ (if lo_exit lo then [Track_exit] else [])),
            s\<lparr>bpf_loaded := True\<rparr>))"

section \<open>Reconcilers\<close>

text \<open>\<open>not_found\<close>: whether the failed read of the quota was answered with "not found".\<close>

definition ObjectQuota_Reconcile ::
  "'w env \<Rightarrow> ('w \<Rightarrow> string \<Rightarrow> string \<Rightarrow> bool) \<Rightarrow> string \<Rightarrow> string \<Rightarrow> 'w syncer \<Rightarrow>
   sync_error option \<times> 'w syncer" where
  "ObjectQuota_Reconcile env not_found ns name s =
     (case get_quota (en_api env) (world s) ns name of
        None \<Rightarrow> (None, if not_found (world s) ns name then RemoveNamespace env ns s else s)
      | Some quota \<Rightarrow>
          (let g = gauges s; ns = oq_namespace quota in
           SyncFromQuota env quota
             (s\<lparr>gauges := g\<lparr>QuotaReconciles := (QuotaReconciles g)(ns := QuotaReconciles g ns + 1)\<rparr>\<rparr>)))"

record PodStatus =
  ps_namespace :: string
  ps_uid :: string
  ps_phase :: PodPhase
  ps_exit_codes :: "int option list"

text \<open>The state after, and whether the event \<^verbatim>\<open>QuotaExceeded\<close> is recorded.\<close>

definition Pod_Reconcile :: "'w env \<Rightarrow> PodStatus option \<Rightarrow> 'w syncer \<Rightarrow> 'w syncer \<times> bool" where
  "Pod_Reconcile env pod s =
     (case pod of
        None \<Rightarrow> (s, False)
      | Some p \<Rightarrow>
          (if ps_phase p = PodRunning \<or> ps_phase p = PodPending
           then snd (SyncNamespaceFromQuota env (ps_namespace p)
                       (s\<lparr>pod_cache := Invalidate (ps_uid p) (pod_cache s)\<rparr>))
           else s,
           ps_phase p = PodFailed \<and> list_ex (\<lambda>c. c = Some 137) (ps_exit_codes p)))"

end
