(* ===== verification/Syncer_Frame.thy ===== *)
theory Syncer_Frame
  imports Controller Enforcer
begin

text \<open>
  What synchronising a namespace does to the maps, proved once for the descriptor maps and the
  process maps: the two synchronisations as one function, the contract of the map operations
  it uses as a locale, the pod loop, and both resources as interpretations.
\<close>

section \<open>One synchronisation\<close>

definition sync_with ::
  "'w env \<Rightarrow> (u64 \<Rightarrow> int \<Rightarrow> 'w syncer \<Rightarrow> bool \<times> 'w syncer) \<Rightarrow>
   (u64 \<Rightarrow> int \<Rightarrow> 'w syncer \<Rightarrow> bool \<times> 'w syncer) \<Rightarrow>
   (u64 \<Rightarrow> u64 \<Rightarrow> 'w syncer \<Rightarrow> bool \<times> 'w syncer) \<Rightarrow>
   (int \<Rightarrow> 'w syncer \<Rightarrow> metrics) \<Rightarrow> string \<Rightarrow> int \<times> 'w syncer \<Rightarrow> sync_error option \<times> 'w syncer" where
  "sync_with env set_limit reset upd gs ns r =
     (case r of (effective, s) \<Rightarrow>
      case set_limit (NamespaceKey ns) effective s of
        (False, s) \<Rightarrow> (Some UpdateLimit, s)
      | (True, s) \<Rightarrow>
     (case reset (NamespaceKey ns) effective s of
        (False, s) \<Rightarrow> (Some ResetCounter, s)
      | (True, s) \<Rightarrow>
     (case en_pods env (world s) ns of
        None \<Rightarrow> (Some ListPods, s)
      | Some pods \<Rightarrow>
     (case map_pods env upd (NamespaceKey ns) pods []
             (s\<lparr>nsNameByKey := (nsNameByKey s)(NamespaceKey ns \<mapsto> ns)\<rparr>) of
        (Some e, known, s) \<Rightarrow> (Some e, s)
      | (None, known, s) \<Rightarrow>
          (None, s\<lparr>nsCgroups := AList.update ns known (nsCgroups s), gauges := gs effective s\<rparr>)))))"

lemma SyncNamespace_with:
  "\<exists>gs. SyncNamespace env ns limit batch s =
     sync_with env (updateNsLimit env) (resetNsCounter env) (updateCgroupMapping env) gs ns
       (lease_limit env ns limit batch s)"
  unfolding SyncNamespace_def sync_with_def Let_def by (rule exI) (rule refl)

lemma SyncProcessNamespace_with:
  "\<exists>gs. SyncProcessNamespace env ns limit batch s =
     sync_with env (updateProcNsLimit env) (resetProcNsCounter env) (updateProcCgroupMapping env) gs ns
       (lease_limit env (ns @ ''-proc'') limit batch s)"
  unfolding SyncProcessNamespace_def sync_with_def Let_def by (rule exI) (rule refl)

lemma lease_limit_bpf [simp]:
  "lease_limit env key limit batch s = (eff, s1) \<Longrightarrow>
     bpf s1 = bpf s \<and> bpf_loaded s1 = bpf_loaded s \<and> nsCgroups s1 = nsCgroups s \<and>
     nsNameByKey s1 = nsNameByKey s \<and> cgroupPaths s1 = cgroupPaths s \<and> pod_cache s1 = pod_cache s \<and>
     gauges s1 = gauges s"
  by (auto simp: lease_limit_def split: option.splits prod.splits)

section \<open>The BPF system call accepts\<close>

definition accepts :: "'w env \<Rightarrow> bool" where
  "accepts env \<longleftrightarrow> (\<forall>kind key k. en_put env kind key k)"

text \<open>It accepts, and its LRU maps have room.\<close>

definition roomy :: "'w env \<Rightarrow> bool" where
  "roomy env \<longleftrightarrow> accepts env \<and> en_lru env = lru_roomy"

lemma put_map_accepts:
  "accepts env \<Longrightarrow> bpf_loaded s \<Longrightarrow> put_map env kind key f s = (True, with_bpf f s)"
  by (simp add: put_map_def accepts_def)

text \<open>An update goes through, as a deletion does, or nothing happens.\<close>

lemma put_map_cases:
  obtains "put_map env kind key f s = (True, del_map f s)" | "put_map env kind key f s = (False, s)"
  using that by (cases "bpf_loaded s"; cases "en_put env kind key (bpf s)")
    (simp_all add: put_map_def del_map_def)

lemma del_map_fields [simp]:
  "world (del_map f s) = world s" "bpf_loaded (del_map f s) = bpf_loaded s"
  "nsCgroups (del_map f s) = nsCgroups s" "nsNameByKey (del_map f s) = nsNameByKey s"
  "cgroupPaths (del_map f s) = cgroupPaths s" "pod_cache (del_map f s) = pod_cache s"
  "gauges (del_map f s) = gauges s"
  by (simp_all add: del_map_def with_bpf_def)

lemma del_map_bpf: "bpf (del_map f s) = (if bpf_loaded s then f (bpf s) else bpf s)"
  by (simp add: del_map_def with_bpf_def)

section \<open>What the pod loop achieves\<close>

text \<open>The state but for one mapping, the paths and the cache.\<close>

definition maps_only ::
  "(kstate \<Rightarrow> quota) \<Rightarrow> (quota \<Rightarrow> kstate \<Rightarrow> kstate) \<Rightarrow> 'w syncer \<Rightarrow> 'w syncer \<Rightarrow> bool" where
  "maps_only view put s s' \<longleftrightarrow>
     (\<exists>m. bpf s' = put ((view (bpf s))\<lparr>q_cgroup := m\<rparr>) (bpf s)) \<and>
     world s' = world s \<and> bpf_loaded s' = bpf_loaded s \<and> nsCgroups s' = nsCgroups s \<and>
     nsNameByKey s' = nsNameByKey s \<and> gauges s' = gauges s"

definition all_mapped :: "(kstate \<Rightarrow> quota) \<Rightarrow> u64 \<Rightarrow> u64 list \<Rightarrow> 'w syncer \<Rightarrow> bool" where
  "all_mapped view key known s \<longleftrightarrow>
     (\<forall>cgid\<in>set known. q_cgroup (view (bpf s)) cgid = Some key \<and> cgroupPaths s cgid \<noteq> None)"

definition live_pod :: "Pod \<Rightarrow> bool" where
  "live_pod p \<longleftrightarrow> pod_phase p \<noteq> PodSucceeded \<and> pod_phase p \<noteq> PodFailed"

definition pod_known :: "pod_cache \<Rightarrow> u64 list \<Rightarrow> Pod \<Rightarrow> bool" where
  "pod_known cache known p \<longleftrightarrow>
     (case cache (pod_uid p) of None \<Rightarrow> True | Some infos \<Rightarrow> CgroupID ` set infos \<subseteq> set known)"

text \<open>
  The pod loop maps every cgroup resolved for a live pod; the cache only grows on the way, and
  by what is mapped.
\<close>

definition pods_done ::
  "(kstate \<Rightarrow> quota) \<Rightarrow> u64 \<Rightarrow> Pod list \<Rightarrow> pod_cache \<Rightarrow> u64 list \<Rightarrow> u64 list \<Rightarrow> 'w syncer \<Rightarrow> bool"
  where
  "pods_done view key pods cache known known' s' \<longleftrightarrow>
     all_mapped view key known' s' \<and> set known \<subseteq> set known' \<and> bpf_loaded s' \<and>
     (\<forall>uid infos. cache uid = Some infos \<longrightarrow> pod_cache s' uid = Some infos) \<and>
     (\<forall>uid infos. cache uid = None \<and> pod_cache s' uid = Some infos \<longrightarrow>
        CgroupID ` set infos \<subseteq> set known') \<and>
     (\<forall>p\<in>set pods. live_pod p \<longrightarrow> pod_known (pod_cache s') known' p)"

text \<open>The two writes before the loop.\<close>

definition put_limit :: "u64 \<Rightarrow> int \<Rightarrow> quota \<Rightarrow> quota" where
  "put_limit key eff q = q\<lparr>q_limit := (q_limit q)(key \<mapsto> word_of_int eff)\<rparr>"

definition put_lease :: "u64 \<Rightarrow> int \<Rightarrow> quota \<Rightarrow> quota" where
  "put_lease key eff q = q\<lparr>q_lease := (q_lease q)(key \<mapsto> reset_lease eff (q_lease q key))\<rparr>"

lemma set_fold_insert: "set (fold (List.insert \<circ> f) cs known) = f ` set cs \<union> set known"
  by (induction cs arbitrary: known) auto

lemma map_infos_error:
  "map_infos upd key cs known s = (Some e, known', s') \<Longrightarrow> \<exists>c. e = MapCgroup c"
  by (induction upd key cs known s rule: map_infos.induct) (auto split: prod.splits bool.splits)

text \<open>The ways through one round of the pod loop.\<close>

lemma map_pods_Cons_cases:
  assumes "map_pods env upd key (pod # pods) known s = (e, known', s')"
  obtains (skipped) cache where "\<not> live_pod pod \<or> cache (pod_uid pod) = None"
      "cache = pod_cache s" "map_pods env upd key pods known s = (e, known', s')"
  | (failed) infos cache x where
      "fst (CachedPodResolver_Resolve (PodResolver_Resolve (en_fs env)) (pod_uid pod) (pod_cache s))
         = Inr infos"
      "cache = (pod_cache s)(pod_uid pod \<mapsto> infos)" "live_pod pod"
      "map_infos upd key infos known (s\<lparr>pod_cache := cache\<rparr>) = (Some x, known', s')" "e = Some x"
  | (mapped) infos cache known1 s1 where
      "fst (CachedPodResolver_Resolve (PodResolver_Resolve (en_fs env)) (pod_uid pod) (pod_cache s))
         = Inr infos"
      "cache = (pod_cache s)(pod_uid pod \<mapsto> infos)" "live_pod pod"
      "map_infos upd key infos known (s\<lparr>pod_cache := cache\<rparr>) = (None, known1, s1)"
      "map_pods env upd key pods known1 s1 = (e, known', s')"
proof -
  let ?r = "CachedPodResolver_Resolve (PodResolver_Resolve (en_fs env)) (pod_uid pod) (pod_cache s)"
  show ?thesis
  proof (cases "live_pod pod")
    case False
    with assms show ?thesis by (intro skipped) (auto simp: live_pod_def)
  next
    case live: True
    show ?thesis
    proof (cases "fst ?r")
      case (Inl x)
      then have "?r = (Inl x, pod_cache s)" "pod_cache s (pod_uid pod) = None"
        by (auto simp: CachedPodResolver_Resolve_def split: option.splits sum.splits)
      with assms live show ?thesis by (intro skipped) (auto simp: live_pod_def)
    next
      case (Inr infos)
      define cache where "cache = (pod_cache s)(pod_uid pod \<mapsto> infos)"
      have r: "?r = (Inr infos, cache)"
        using Inr by (auto simp: CachedPodResolver_Resolve_def cache_def split: option.splits sum.splits)
      obtain x known1 s1 where i: "map_infos upd key infos known (s\<lparr>pod_cache := cache\<rparr>) = (x, known1, s1)"
        by (metis prod_cases3)
      show ?thesis
      proof (cases x)
        case None
        with assms live r i show ?thesis by (intro mapped [OF Inr cache_def live]) (auto simp: live_pod_def)
      next
        case (Some e)
        with assms live r i show ?thesis
          by (intro failed [OF Inr cache_def live, of e]) (auto simp: live_pod_def)
      qed
    qed
  qed
qed

lemma map_pods_error:
  "map_pods env upd key pods known s = (Some e, known', s') \<Longrightarrow> \<exists>c. e = MapCgroup c"
proof (induction pods arbitrary: known s)
  case (Cons pod pods)
  from Cons.prems show ?case
    by (cases rule: map_pods_Cons_cases) (auto dest: Cons.IH map_infos_error)
qed simp

section \<open>The maps of one resource\<close>

text \<open>
  The contract of the three updates a synchronisation makes: each writes one map of its own
  resource, if the kernel lets it.
\<close>

locale resource_maps =
  fixes view :: "kstate \<Rightarrow> quota" and put :: "quota \<Rightarrow> kstate \<Rightarrow> kstate" and other :: "kstate \<Rightarrow> quota"
    and set_limit :: "'w env \<Rightarrow> u64 \<Rightarrow> int \<Rightarrow> 'w syncer \<Rightarrow> bool \<times> 'w syncer"
    and reset :: "'w env \<Rightarrow> u64 \<Rightarrow> int \<Rightarrow> 'w syncer \<Rightarrow> bool \<times> 'w syncer"
    and map_cgroup :: "'w env \<Rightarrow> u64 \<Rightarrow> u64 \<Rightarrow> 'w syncer \<Rightarrow> bool \<times> 'w syncer"
    and limit_map lease_map cgroup_map :: MapKind
  assumes view_put [simp]: "view (put q k) = q"
    and other_put [simp]: "other (put q k) = other k"
    and put_put [simp]: "put q (put r k) = put q k"
    and put_view [simp]: "put (view k) k = k"
    and set_limit_eq: "set_limit env key eff s =
      put_map env limit_map key (\<lambda>k. put (put_limit key eff (view k)) k) s"
    and reset_eq: "reset env key eff s =
      put_map env lease_map key (\<lambda>k. put ((view k)\<lparr>q_lease := (q_lease (view k))
        (key \<mapsto> reset_lease eff (q_lease (view (bpf s)) key))\<rparr>) k) s"
    and map_cgroup_eq: "map_cgroup env c key s =
      put_map env cgroup_map c (\<lambda>k. put ((view k)\<lparr>q_cgroup := en_lru env (q_cgroup (view k)) c key\<rparr>) k) s"
begin

lemma only_refl: "maps_only view put s s"
  unfolding maps_only_def by (auto intro!: exI [of _ "q_cgroup (view (bpf s))"])

lemma only_trans: "maps_only view put s t \<Longrightarrow> maps_only view put t u \<Longrightarrow> maps_only view put s u"
  unfolding maps_only_def by auto

lemma only_fields:
  "maps_only view put s (s\<lparr>cgroupPaths := p\<rparr>)" "maps_only view put s (s\<lparr>pod_cache := c\<rparr>)"
  using only_refl [of s] by (simp_all add: maps_only_def)

lemma only_map_cgroup: "maps_only view put s (snd (map_cgroup env c key s))"
proof -
  have "maps_only view put s (del_map (\<lambda>k. put ((view k)\<lparr>q_cgroup := m k\<rparr>) k) s)" for m
    using only_refl [of s] by (auto simp: maps_only_def del_map_bpf)
  then show ?thesis
    by (cases rule: put_map_cases [of env cgroup_map c
          "\<lambda>k. put ((view k)\<lparr>q_cgroup := en_lru env (q_cgroup (view k)) c key\<rparr>) k" s])
      (simp_all add: map_cgroup_eq only_refl)
qed

lemma map_infos_only:
  "map_infos (map_cgroup env) key cs known s = (e, known', s') \<Longrightarrow> maps_only view put s s'"
proof (induction cs arbitrary: known s)
  case (Cons c cs)
  obtain b s1 where u: "map_cgroup env (CgroupID c) key s = (b, s1)" by fastforce
  then have "maps_only view put s s1" using only_map_cgroup [of s env "CgroupID c" key] by simp
  moreover have "maps_only view put s1 s'"
  proof (cases b)
    case True
    with Cons.prems u Cons.IH have "maps_only view put
        (s1\<lparr>cgroupPaths := (cgroupPaths s1)(CgroupID c \<mapsto> CgroupPath c)\<rparr>) s'" by simp
    then show ?thesis by (rule only_trans [OF only_fields(1)])
  qed (use Cons.prems u in \<open>simp add: only_refl\<close>)
  ultimately show ?case by (rule only_trans)
qed (simp add: only_refl)

lemma map_pods_only:
  "map_pods env (map_cgroup env) key pods known s = (e, known', s') \<Longrightarrow> maps_only view put s s'"
proof (induction pods arbitrary: known s)
  case (Cons pod pods)
  from Cons.prems show ?case
  proof (cases rule: map_pods_Cons_cases)
    case skipped
    with Cons.IH show ?thesis by blast
  next
    case failed
    from map_infos_only [OF failed(4)] show ?thesis by (rule only_trans [OF only_fields(2)])
  next
    case mapped
    from only_trans [OF map_infos_only [OF mapped(4)] Cons.IH [OF mapped(5)]]
    show ?thesis by (rule only_trans [OF only_fields(2)])
  qed
qed (simp add: only_refl)

lemma map_infos_roomy:
  assumes "roomy env"
  shows "bpf_loaded s \<Longrightarrow> all_mapped view key known s \<Longrightarrow>
    \<exists>s'. map_infos (map_cgroup env) key cs known s
           = (None, fold (List.insert \<circ> CgroupID) cs known, s') \<and>
         all_mapped view key (fold (List.insert \<circ> CgroupID) cs known) s' \<and>
         bpf_loaded s' \<and> pod_cache s' = pod_cache s"
proof (induction cs arbitrary: known s)
  case (Cons c cs)
  let ?k = "put ((view (bpf s))\<lparr>q_cgroup := (q_cgroup (view (bpf s)))(CgroupID c \<mapsto> key)\<rparr>) (bpf s)"
  let ?s = "s\<lparr>bpf := ?k, cgroupPaths := (cgroupPaths s)(CgroupID c \<mapsto> CgroupPath c)\<rparr>"
  have u: "map_cgroup env (CgroupID c) key s = (True, s\<lparr>bpf := ?k\<rparr>)"
    using assms Cons.prems(1)
    by (simp add: map_cgroup_eq roomy_def put_map_accepts with_bpf_def lru_roomy_def)
  have "all_mapped view key (List.insert (CgroupID c) known) ?s"
    using Cons.prems(2) by (auto simp: all_mapped_def)
  from Cons.IH [OF _ this] Cons.prems(1) show ?case by (simp add: u)
qed simp

lemma map_pods_roomy:
  assumes "roomy env"
  shows "bpf_loaded s \<Longrightarrow> all_mapped view key known s \<Longrightarrow>
    map_pods env (map_cgroup env) key pods known s = (e, known', s') \<Longrightarrow>
    e = None \<and> pods_done view key pods (pod_cache s) known known' s'"
proof (induction pods arbitrary: known s)
  case Nil
  then show ?case by (auto simp: pods_done_def)
next
  case (Cons pod pods)
  from Cons.prems(3) show ?case
  proof (cases rule: map_pods_Cons_cases)
    case (skipped cache)
    with Cons.IH [OF Cons.prems(1,2)] have d: "e = None \<and> pods_done view key pods (pod_cache s) known known' s'"
      by blast
    have "pod_known (pod_cache s') known' pod" if "live_pod pod"
    proof (cases "pod_cache s' (pod_uid pod)")
      case (Some i)
      with d that skipped(1,2) have "CgroupID ` set i \<subseteq> set known'"
        unfolding pods_done_def by metis
      with Some show ?thesis by (simp add: pod_known_def)
    qed (simp add: pod_known_def)
    with d show ?thesis by (simp add: pods_done_def)
  next
    case (failed infos cache x)
    have "bpf_loaded (s\<lparr>pod_cache := cache\<rparr>)" "all_mapped view key known (s\<lparr>pod_cache := cache\<rparr>)"
      using Cons.prems by (auto simp: all_mapped_def)
    from map_infos_roomy [OF assms this, of infos] failed(4) show ?thesis by simp
  next
    case (mapped infos cache known1 s1)
    have "bpf_loaded (s\<lparr>pod_cache := cache\<rparr>)" "all_mapped view key known (s\<lparr>pod_cache := cache\<rparr>)"
      using Cons.prems by (auto simp: all_mapped_def)
    from map_infos_roomy [OF assms this, of infos] mapped(4)
    have i: "known1 = fold (List.insert \<circ> CgroupID) infos known" "all_mapped view key known1 s1"
      "bpf_loaded s1" "pod_cache s1 = cache" by simp_all
    from Cons.IH [OF i(3,2) mapped(5)]
    have d: "e = None" "pods_done view key pods cache known1 known' s'" using i(4) by simp_all
    have here: "CgroupID ` set infos \<subseteq> set known'" "set known \<subseteq> set known'"
      using d(2) by (auto simp: pods_done_def i(1) set_fold_insert)
    have this_pod: "pod_cache s' (pod_uid pod) = Some infos"
      using d(2) by (simp add: pods_done_def mapped(2))
    have old: "i = infos" if "pod_cache s (pod_uid pod) = Some i" for i
      using mapped(1) that by (simp add: CachedPodResolver_Resolve_def)
    have "pod_cache s' uid = Some i" if "pod_cache s uid = Some i" for uid i
      using d(2) that old by (cases "uid = pod_uid pod") (auto simp: pods_done_def mapped(2))
    then have c1: "\<forall>uid i. pod_cache s uid = Some i \<longrightarrow> pod_cache s' uid = Some i" by blast
    have "CgroupID ` set i \<subseteq> set known'"
      if "pod_cache s uid = None" "pod_cache s' uid = Some i" for uid i
    proof (cases "uid = pod_uid pod")
      case True
      with that this_pod here show ?thesis by simp
    next
      case False
      with that have "cache uid = None" by (simp add: mapped(2))
      with that d(2) show ?thesis unfolding pods_done_def by blast
    qed
    then have c2: "\<forall>uid i. pod_cache s uid = None \<and> pod_cache s' uid = Some i \<longrightarrow>
        CgroupID ` set i \<subseteq> set known'" by blast
    show ?thesis
      using d here this_pod c1 c2 by (simp add: pods_done_def pod_known_def)
  qed
qed

text \<open>Where the loop starts, and every way out of a synchronisation.\<close>

lemma sync_cases:
  assumes "sync_with env (set_limit env) (reset env) (map_cgroup env) gs ns (eff, s) = (x, s')"
  obtains (limit) "x = Some UpdateLimit" "s' = s"
  | (lease) "x = Some ResetCounter"
      "s' = del_map (\<lambda>k. put (put_limit (NamespaceKey ns) eff (view k)) k) s"
  | (pods) "x = Some ListPods"
      "s' = del_map (\<lambda>k. put (put_lease (NamespaceKey ns) eff (put_limit (NamespaceKey ns) eff (view k))) k) s"
  | (loop) pods known t y where "en_pods env (world s) ns = Some pods"
      "map_pods env (map_cgroup env) (NamespaceKey ns) pods []
         ((del_map (\<lambda>k. put (put_lease (NamespaceKey ns) eff (put_limit (NamespaceKey ns) eff (view k))) k) s)
            \<lparr>nsNameByKey := (nsNameByKey s)(NamespaceKey ns \<mapsto> ns)\<rparr>) = (y, known, t)"
      "x = y" "s' = (if y = None then t\<lparr>nsCgroups := AList.update ns known (nsCgroups t), gauges := gs eff t\<rparr>
                     else t)"
proof -
  let ?key = "NamespaceKey ns"
  let ?f = "\<lambda>k. put (put_limit ?key eff (view k)) k"
  let ?g = "\<lambda>k. put (put_lease ?key eff (put_limit ?key eff (view k))) k"
  let ?t = "(del_map ?g s)\<lparr>nsNameByKey := (nsNameByKey s)(?key \<mapsto> ns)\<rparr>"
  consider (refused) "set_limit env ?key eff s = (False, s)"
    | (set) "set_limit env ?key eff s = (True, del_map ?f s)"
    using put_map_cases [of env limit_map ?key ?f s] by (metis set_limit_eq)
  then show ?thesis
  proof cases
    case refused
    with assms show ?thesis by (intro limit) (simp_all add: sync_with_def)
  next
    case set
    have g: "del_map (\<lambda>k. put ((view k)\<lparr>q_lease := (q_lease (view k))
        (?key \<mapsto> reset_lease eff (q_lease (view (bpf (del_map ?f s))) ?key))\<rparr>) k) (del_map ?f s)
        = del_map ?g s"
      by (simp add: del_map_def with_bpf_def put_lease_def put_limit_def)
    consider (refused) "reset env ?key eff (del_map ?f s) = (False, del_map ?f s)"
      | (reset) "reset env ?key eff (del_map ?f s) = (True, del_map ?g s)"
      using put_map_cases [of env lease_map ?key "\<lambda>k. put ((view k)\<lparr>q_lease := (q_lease (view k))
        (?key \<mapsto> reset_lease eff (q_lease (view (bpf (del_map ?f s))) ?key))\<rparr>) k" "del_map ?f s"]
      unfolding g by (metis reset_eq)
    then show ?thesis
    proof cases
      case refused
      with assms set show ?thesis by (intro lease) (simp_all add: sync_with_def)
    next
      case reset
      show ?thesis
      proof (cases "en_pods env (world s) ns")
        case None
        with assms set reset show ?thesis by (intro pods) (simp_all add: sync_with_def)
      next
        case (Some ps)
        obtain y known t where m: "map_pods env (map_cgroup env) ?key ps [] ?t = (y, known, t)"
          by (rule prod_cases3)
        have "sync_with env (set_limit env) (reset env) (map_cgroup env) gs ns (eff, s) =
            (case y of Some e \<Rightarrow> (Some e, t)
             | None \<Rightarrow> (None, t\<lparr>nsCgroups := AList.update ns known (nsCgroups t), gauges := gs eff t\<rparr>))"
          by (simp add: sync_with_def set reset Some m split: option.split)
        with assms show ?thesis by (intro loop [OF Some m]) (cases y; auto)+
      qed
    qed
  qed
qed

text \<open>A synchronisation that succeeds, and one that fails.\<close>

lemma sync_success:
  assumes "sync_with env (set_limit env) (reset env) (map_cgroup env) gs ns (eff, s) = (None, s')"
    and "bpf_loaded s"
  shows "\<exists>m. bpf s' = put ((put_lease (NamespaceKey ns) eff (put_limit (NamespaceKey ns) eff (view (bpf s))))
      \<lparr>q_cgroup := m\<rparr>) (bpf s)"
    and "roomy env \<Longrightarrow> \<exists>known pods. map_of (nsCgroups s') ns = Some known \<and>
       all_mapped view (NamespaceKey ns) known s' \<and> en_pods env (world s) ns = Some pods \<and>
       (\<forall>p\<in>set pods. live_pod p \<longrightarrow> pod_known (pod_cache s') known p)"
proof -
  let ?key = "NamespaceKey ns"
  let ?q = "put_lease ?key eff (put_limit ?key eff (view (bpf s)))"
  define s0 where "s0 = (del_map (\<lambda>k. put (put_lease ?key eff (put_limit ?key eff (view k))) k) s)
      \<lparr>nsNameByKey := (nsNameByKey s)(?key \<mapsto> ns)\<rparr>"
  have s0: "bpf s0 = put ?q (bpf s)" "bpf_loaded s0"
    using assms(2) by (simp_all add: s0_def del_map_bpf)
  from assms(1) obtain pods known t where l: "en_pods env (world s) ns = Some pods"
    "map_pods env (map_cgroup env) ?key pods [] s0 = (None, known, t)"
    "s' = t\<lparr>nsCgroups := AList.update ns known (nsCgroups t), gauges := gs eff t\<rparr>"
    by (cases rule: sync_cases) (auto simp: s0_def)
  from map_pods_only [OF l(2)] s0
  show "\<exists>m. bpf s' = put (?q\<lparr>q_cgroup := m\<rparr>) (bpf s)"
    by (auto simp: maps_only_def l(3))
  assume "roomy env"
  from map_pods_roomy [OF this s0(2) _ l(2)] have "pods_done view ?key pods (pod_cache s0) [] known t"
    by (simp add: all_mapped_def)
  then have "all_mapped view ?key known s'"
    "\<forall>p\<in>set pods. live_pod p \<longrightarrow> pod_known (pod_cache s') known p"
    by (simp_all add: pods_done_def all_mapped_def l(3))
  then show "\<exists>known pods. map_of (nsCgroups s') ns = Some known \<and>
       all_mapped view ?key known s' \<and> en_pods env (world s) ns = Some pods \<and>
       (\<forall>p\<in>set pods. live_pod p \<longrightarrow> pod_known (pod_cache s') known p)"
    using l(1) by (auto simp: l(3) update_conv)
qed

lemma sync_failure:
  assumes "sync_with env (set_limit env) (reset env) (map_cgroup env) gs ns (eff, s) = (Some e, s')"
    and "bpf_loaded s"
  shows "nsCgroups s' = nsCgroups s \<and> gauges s' = gauges s \<and>
    (let key = NamespaceKey ns; q = view (bpf s) in
     case e of
       UpdateLimit \<Rightarrow> bpf s' = bpf s \<and> nsNameByKey s' = nsNameByKey s
     | ResetCounter \<Rightarrow> bpf s' = put (put_limit key eff q) (bpf s) \<and> nsNameByKey s' = nsNameByKey s
     | ListPods \<Rightarrow>
         bpf s' = put (put_lease key eff (put_limit key eff q)) (bpf s) \<and> nsNameByKey s' = nsNameByKey s
     | MapCgroup cgid \<Rightarrow>
         (\<exists>m. bpf s' = put ((put_lease key eff (put_limit key eff q))\<lparr>q_cgroup := m\<rparr>) (bpf s)) \<and>
         nsNameByKey s' = (nsNameByKey s)(key \<mapsto> ns))"
  using assms(1)
proof (cases rule: sync_cases)
  case (loop pods known t y)
  then have m: "map_pods env (map_cgroup env) (NamespaceKey ns) pods []
      ((del_map (\<lambda>k. put (put_lease (NamespaceKey ns) eff (put_limit (NamespaceKey ns) eff (view k))) k) s)
         \<lparr>nsNameByKey := (nsNameByKey s)(NamespaceKey ns \<mapsto> ns)\<rparr>) = (Some e, known, s')" by auto
  from map_pods_error [OF m] obtain c where "e = MapCgroup c" by blast
  then show ?thesis
    using map_pods_only [OF m] assms(2) by (auto simp: maps_only_def del_map_bpf Let_def)
qed (use assms(2) in \<open>simp_all add: del_map_bpf Let_def\<close>)

lemma sync_other:
  "other (bpf (snd (sync_with env (set_limit env) (reset env) (map_cgroup env) gs ns (eff, s))))
     = other (bpf s)"
proof -
  obtain x s' where r: "sync_with env (set_limit env) (reset env) (map_cgroup env) gs ns (eff, s) = (x, s')"
    by fastforce
  then have "other (bpf s') = other (bpf s)"
  proof (cases rule: sync_cases)
    case (loop pods known t y)
    from map_pods_only [OF loop(2)] have "other (bpf t) = other (bpf s)"
      by (auto simp: maps_only_def del_map_bpf)
    with loop(4) show ?thesis by simp
  qed (simp_all add: del_map_bpf)
  with r show ?thesis by simp
qed

text \<open>What a synchronisation never touches.\<close>

lemma sync_same:
  "world (snd (sync_with env (set_limit env) (reset env) (map_cgroup env) gs ns (eff, s))) = world s"
  "bpf_loaded (snd (sync_with env (set_limit env) (reset env) (map_cgroup env) gs ns (eff, s))) =
     bpf_loaded s"
proof -
  obtain x s' where r: "sync_with env (set_limit env) (reset env) (map_cgroup env) gs ns (eff, s) = (x, s')"
    by fastforce
  then have "world s' = world s \<and> bpf_loaded s' = bpf_loaded s"
  proof (cases rule: sync_cases)
    case (loop pods known t y)
    from map_pods_only [OF loop(2)] have "world t = world s \<and> bpf_loaded t = bpf_loaded s"
      by (simp add: maps_only_def)
    with loop(4) show ?thesis by simp
  qed simp_all
  with r show "world (snd (sync_with env (set_limit env) (reset env) (map_cgroup env) gs ns (eff, s))) = world s"
    "bpf_loaded (snd (sync_with env (set_limit env) (reset env) (map_cgroup env) gs ns (eff, s))) =
       bpf_loaded s" by simp_all
qed

text \<open>The limit is in force unless it could not be stored.\<close>

lemma sync_limit:
  assumes "sync_with env (set_limit env) (reset env) (map_cgroup env) gs ns (eff, s) = (x, s')"
    and "bpf_loaded s" "x \<noteq> Some UpdateLimit"
  shows "q_limit (view (bpf s')) = (q_limit (view (bpf s)))(NamespaceKey ns \<mapsto> word_of_int eff)"
  using assms(1)
proof (cases rule: sync_cases)
  case (loop pods known t y)
  from map_pods_only [OF loop(2)] loop(4) assms(2) show ?thesis
    by (auto simp: maps_only_def del_map_bpf put_limit_def put_lease_def)
qed (use assms(2,3) in \<open>simp_all add: del_map_bpf put_limit_def put_lease_def\<close>)

end

section \<open>Descriptors and processes\<close>

interpretation fd_maps: resource_maps fd_view fd_put proc_view
  updateNsLimit resetNsCounter updateCgroupMapping MapFDNsLimit MapFDNsCounter MapFDCgroup
  by unfold_locales
    (simp_all add: view_simps view_defs updateNsLimit_def resetNsCounter_def store_lease_def
      updateCgroupMapping_def put_limit_def)

interpretation proc_maps: resource_maps proc_view proc_put fd_view
  updateProcNsLimit resetProcNsCounter updateProcCgroupMapping
  MapProcNsLimit MapProcNsCounter MapProcCgroup
  by unfold_locales
    (simp_all add: view_simps view_defs updateProcNsLimit_def resetProcNsCounter_def
      store_proc_lease_def updateProcCgroupMapping_def put_limit_def)

end
