(* ===== verification/Syncer_Props.thy ===== *)
theory Syncer_Props
  imports Syncer_Frame Budget_Lag
begin

text \<open>The properties of the syncer, alone and together with the enforcer.\<close>

section \<open>A node without an API server\<close>

text \<open>Surroundings for the concrete runs: no leaser, every map accepts, fixed pods and files.\<close>

definition ex_env :: "Pod list \<Rightarrow> unit env" where
  "ex_env pods =
     \<lparr>en_api = \<lparr>get_quota = (\<lambda>w ns n. None), status_update = (\<lambda>w q. (w, False)),
        list_quotas = (\<lambda>w. None), get_lease = (\<lambda>w ns n. None), list_leases = (\<lambda>w ns. None),
        create_lease = (\<lambda>w l. (w, False)), update_lease = (\<lambda>w l. (w, False)),
        remove_lease = (\<lambda>w ns n. (w, False))\<rparr>,
      en_leaser = None, en_node = ''n'', en_now = 0, en_pods = (\<lambda>w ns. Some pods),
      en_fs = CDir 1 [(''kubepods.slice'', CDir 2 [(''kubepods-pod1.slice'', CDir 4
                [(''cri'', CDir 5 [(''cgroup.procs'', CFile 6 ''71'')])])])],
      en_put = (\<lambda>kind key k. True), en_lru = lru_roomy\<rparr>"

definition ex_pod :: Pod where
  "ex_pod = \<lparr>pod_uid = ''1'', pod_phase = PodRunning\<rparr>"

definition ex_syncer :: "kstate \<Rightarrow> unit syncer" where
  "ex_syncer k =
     \<lparr>world = (), bpf = k, bpf_loaded = True, nsCgroups = [], cgroupPaths = Map.empty,
      nsNameByKey = Map.empty, pod_cache = Map.empty,
      gauges = \<lparr>FDLimit = Map.empty, FDCurrent = Map.empty, FDRejected = (\<lambda>_. 0),
        ProcLimit = Map.empty, ProcCurrent = Map.empty, ProcRejected = (\<lambda>_. 0),
        QuotaReconciles = (\<lambda>_. 0)\<rparr>\<rparr>"

lemma ex_roomy: "roomy (ex_env pods)" "accepts (ex_env pods)"
  by (simp_all add: roomy_def accepts_def ex_env_def)

section \<open>Synchronising\<close>

lemma SyncNamespace_cases:
  obtains gs eff s1 where "lease_limit env ns limit batch s = (eff, s1)"
    "SyncNamespace env ns limit batch s = sync_with env (updateNsLimit env) (resetNsCounter env)
       (updateCgroupMapping env) gs ns (eff, s1)"
  by (metis SyncNamespace_with surj_pair)

lemma SyncProcessNamespace_cases:
  obtains gs eff s1 where "lease_limit env (ns @ ''-proc'') limit batch s = (eff, s1)"
    "SyncProcessNamespace env ns limit batch s = sync_with env (updateProcNsLimit env)
       (resetProcNsCounter env) (updateProcCgroupMapping env) gs ns (eff, s1)"
  by (metis SyncProcessNamespace_with surj_pair)

lemma sync_maps:
  assumes "bpf_loaded s" and "SyncNamespace env ns limit batch s = (None, s')"
  shows "let key = NamespaceKey ns;
             eff = fst (lease_limit env ns limit batch s) in
    fd_ns_limit (bpf s') = (fd_ns_limit (bpf s))(key \<mapsto> word_of_int eff) \<and>
    fd_ns_counter (bpf s') =
      (fd_ns_counter (bpf s))(key \<mapsto> reset_lease eff (fd_ns_counter (bpf s) key)) \<and>
    proc_view (bpf s') = proc_view (bpf s) \<and> fd_cgroup_counter (bpf s') = fd_cgroup_counter (bpf s)"
proof (rule SyncNamespace_cases [of env ns limit batch s])
  fix gs eff s1
  assume e: "lease_limit env ns limit batch s = (eff, s1)"
    and "SyncNamespace env ns limit batch s = sync_with env (updateNsLimit env) (resetNsCounter env)
       (updateCgroupMapping env) gs ns (eff, s1)"
  with fd_maps.sync_success(1) [of env gs ns eff s1 s'] assms lease_limit_bpf [OF e]
  obtain m where "bpf s' = fd_put ((put_lease (NamespaceKey ns) eff
      (put_limit (NamespaceKey ns) eff (fd_view (bpf s))))\<lparr>q_cgroup := m\<rparr>) (bpf s)" by auto
  then show ?thesis
    by (simp add: e put_lease_def put_limit_def view_defs Let_def)
qed



text \<open>
  The same of the process maps, with the limit of the process key of the namespace: descriptors
  and processes of a namespace are synchronised independently.
\<close>

lemma sync_proc_enforces:
  assumes "roomy env" and "bpf_loaded s"
    and "SyncProcessNamespace env ns limit batch s = (None, s')"
  shows "let key = NamespaceKey ns;
             eff = fst (lease_limit env (ns @ ''-proc'') limit batch s) in
    proc_ns_limit (bpf s') = (proc_ns_limit (bpf s))(key \<mapsto> word_of_int eff) \<and>
    proc_ns_counter (bpf s') =
      (proc_ns_counter (bpf s))(key \<mapsto> reset_lease eff (proc_ns_counter (bpf s) key)) \<and>
    fd_view (bpf s') = fd_view (bpf s) \<and> proc_cgroup_counter (bpf s') = proc_cgroup_counter (bpf s) \<and>
    (\<exists>known pods. map_of (nsCgroups s') ns = Some known \<and> all_mapped proc_view key known s' \<and>
       en_pods env (world (snd (lease_limit env (ns @ ''-proc'') limit batch s))) ns = Some pods \<and>
       (\<forall>p\<in>set pods. live_pod p \<longrightarrow> pod_known (pod_cache s') known p))"
proof (rule SyncProcessNamespace_cases [of env ns limit batch s])
  fix gs eff s1
  assume e: "lease_limit env (ns @ ''-proc'') limit batch s = (eff, s1)"
    and w: "SyncProcessNamespace env ns limit batch s = sync_with env (updateProcNsLimit env)
       (resetProcNsCounter env) (updateProcCgroupMapping env) gs ns (eff, s1)"
  note f = lease_limit_bpf [OF e]
  from proc_maps.sync_success(1) [of env gs ns eff s1 s'] assms(2,3) w f
  obtain m where "bpf s' = proc_put ((put_lease (NamespaceKey ns) eff
      (put_limit (NamespaceKey ns) eff (proc_view (bpf s))))\<lparr>q_cgroup := m\<rparr>) (bpf s)" by auto
  with proc_maps.sync_success(2) [OF _ _ assms(1), of gs ns eff s1 s'] assms(2,3) w f
  show ?thesis by (simp add: e put_lease_def put_limit_def view_defs Let_def)
qed

lemma sync_proc_enforces_witness:
  "\<exists>s'. SyncProcessNamespace (ex_env [ex_pod]) ''team'' 20 0 (ex_syncer empty_kstate) = (None, s') \<and>
     proc_ns_limit (bpf s') (NamespaceKey ''team'') = Some 20 \<and>
     (\<exists>known. map_of (nsCgroups s') ''team'' = Some known \<and>
        all_mapped proc_view (NamespaceKey ''team'') known s')"
proof -
  let ?r = "SyncProcessNamespace (ex_env [ex_pod]) ''team'' 20 0 (ex_syncer empty_kstate)"
  have "fst ?r = None" by code_simp
  then obtain s' where r: "?r = (None, s')" by (cases ?r) (simp only: fst_conv)
  have eff: "fst (lease_limit (ex_env [ex_pod]) (''team'' @ ''-proc'') 20 0 (ex_syncer empty_kstate)) = 20"
    by (simp add: lease_limit_def ex_env_def)
  have "bpf_loaded (ex_syncer empty_kstate)" by (simp add: ex_syncer_def)
  from sync_proc_enforces [OF ex_roomy(1) this r] r show ?thesis
    unfolding eff Let_def by auto
qed

section \<open>Synchronising while the namespace is in use\<close>

lemma microSlice_large: "100 < limit \<Longrightarrow> limit < 2 ^ 63 \<Longrightarrow> unat (microSlice limit) = nat limit div 10"
proof -
  assume l: "100 < limit" "limit < 2 ^ 63"
  define n where "n = nat limit div 10"
  have "int n = go_div limit 10" using l by (simp add: n_def go_div_nonneg zdiv_int)
  then have "microSlice limit = of_nat n" using l by (simp add: microSlice_def flip: \<open>int n = _\<close>)
  moreover have "n < 2 ^ LENGTH(64)" using l by (simp add: n_def)
  ultimately show ?thesis by (simp add: unat_of_nat n_def)
qed

lemma unat_limit: "0 \<le> limit \<Longrightarrow> limit < 2 ^ 63 \<Longrightarrow> unat (word_of_int limit :: u64) = nat limit"
proof -
  assume l: "0 \<le> limit" "limit < 2 ^ 63"
  then have "(word_of_int limit :: u64) = of_nat (nat limit)" by (metis int_nat_eq of_int_of_nat_eq)
  moreover have "nat limit < 2 ^ LENGTH(64)" using l by simp
  ultimately show ?thesis by (simp add: unat_of_nat)
qed

lemma over_limit_admits:
  assumes "fd_cgroup k (h_cgid h) = Some key" "fd_ns_limit k key = Some limit" "limit \<noteq> 0"
    and "fd_ns_counter k key = Some lease" "fst (over_limit h k) = 0"
  shows "fst (lease_charge limit (touch h (count_inc h (h_cgid h) (fd_view k)) lease)) = Admit"
proof -
  have "limited (fd_view k) key = Some (limit, lease)" "q_cgroup (fd_view k) (h_cgid h) = Some key"
    using assms(1-4) by (simp_all add: limited_Some_limit fd_view_def)
  with assms(5) show ?thesis
    by (simp add: over_limit_view charge_def Let_def view_simps
        split: prod.splits verdict.splits if_splits)
qed


definition busy :: "u64 \<Rightarrow> kstate" where
  "busy n = empty_kstate\<lparr>fd_ns_counter := [NamespaceKey ''team'' \<mapsto> ex_lease n 600]\<rparr>"


section \<open>Losing updates\<close>



section \<open>Who is killed\<close>

lemma charge_event:
  "charge h reason q = (r, q', [e]) \<Longrightarrow>
     be_cgid e = h_cgid h \<and> r = (if be_top_cgid e = be_cgid e then 1 else 2)"
  by (auto simp: charge_def Let_def breach_events_def
      split: option.splits prod.splits verdict.splits if_splits)

lemma one_side_kills:
  assumes "events (track_install_fd h k) = events k @ [e]"
  shows "(signals (track_install_fd h k) = signals k @ [(h_pid_tgid h, 9)] \<longleftrightarrow>
            be_top_cgid e = be_cgid e) \<and>
         (signals (track_install_fd h k) = signals k \<longleftrightarrow> be_top_cgid e \<noteq> be_cgid e) \<and>
         (be_top_cgid e = be_cgid e \<longrightarrow> fst (handleBreachEvent env e s) = [])"
proof -
  obtain r q es where c: "charge h REASON_FD (fd_view k) = (r, q, es)" by (metis prod_cases3)
  have o: "over_limit h k = (r, log_events es (fd_put q k))" by (simp add: over_limit_view c)
  have es: "es = [e]"
    using assms by (simp add: track_install_fd_def o bpf_send_signal_def view_simps split: if_splits)
  note e = charge_event [OF c [unfolded es]]
  have sig: "signals (track_install_fd h k) =
      signals k @ (if be_top_cgid e = be_cgid e then [(h_pid_tgid h, 9)] else [])"
    using e by (simp add: track_install_fd_def o bpf_send_signal_def view_simps)
  have "fst (handleBreachEvent env e s) = []" if "be_top_cgid e = be_cgid e"
    using that by (simp add: handleBreachEvent_def Let_def split: option.split)
  with sig show ?thesis by simp
qed

end
