(* ===== verification/Node_Run.thy ===== *)
theory Node_Run
  imports Syncer_Props
begin

text \<open>
  A node as a whole: the reconcilers, the scanner, the breach watcher and the programs of the
  enforcer, one operation after the other in any order, each in surroundings of its own.
\<close>

section \<open>Steps\<close>

inductive node_step :: "'w syncer \<Rightarrow> 'w syncer \<Rightarrow> bool" where
  quota: "ObjectQuota_Reconcile env not_found ns name s = (e, s') \<Longrightarrow> node_step s s'"
| pod: "Pod_Reconcile env p s = (s', event) \<Longrightarrow> node_step s s'"
| scan: "scanAndMapCgroups env s = Some s' \<Longrightarrow> node_step s s'"
| breach: "handleBreachEvent env evt s = (pids, s') \<Longrightarrow> node_step s s'"
| load: "LoadBPF lo s = (r, s') \<Longrightarrow> node_step s s'"
| programs: "node_step s (with_bpf (krun cs) s)"

inductive_cases node_stepE: "node_step s s'"

section \<open>The books of the syncer\<close>

text \<open>What the syncer remembers of the namespaces, and when it is consistent.\<close>

definition same_books :: "'w syncer \<Rightarrow> 'w syncer \<Rightarrow> bool" where
  "same_books s s' \<longleftrightarrow> nsCgroups s' = nsCgroups s \<and> nsNameByKey s' = nsNameByKey s"

definition books_ok :: "(string \<times> u64 list) list \<Rightarrow> (u64 \<rightharpoonup> string) \<Rightarrow> bool" where
  "books_ok tracked names \<longleftrightarrow>
     distinct (map fst tracked) \<and> (\<forall>(ns, ids) \<in> set tracked. distinct ids) \<and>
     (\<forall>key ns. names key = Some ns \<longrightarrow> key = NamespaceKey ns)"

definition syncer_ok :: "'w syncer \<Rightarrow> bool" where
  "syncer_ok s \<longleftrightarrow> books_ok (nsCgroups s) (nsNameByKey s)"

named_theorems books "operations that leave the books alone"

lemma same_books_refl [simp]: "same_books s s" by (simp add: same_books_def)

lemma same_books_trans: "same_books s t \<Longrightarrow> same_books t u \<Longrightarrow> same_books s u"
  by (simp add: same_books_def)

lemma same_books_ok: "same_books s s' \<Longrightarrow> syncer_ok s' = syncer_ok s"
  by (simp add: same_books_def syncer_ok_def)

lemma set_update_subset: "set (AList.update k v al) \<subseteq> insert (k, v) (set al)"
  by (induction al) auto

lemma set_delete_subset: "set (AList.delete k al) \<subseteq> set al"
  by (induction al) auto

lemma books_ok_track:
  "books_ok tracked names \<Longrightarrow> distinct ids \<Longrightarrow> books_ok (AList.update ns ids tracked) names"
  using set_update_subset [of ns ids tracked] by (auto simp: books_ok_def distinct_update)

lemma books_ok_name:
  "books_ok tracked names \<Longrightarrow> books_ok tracked (names(NamespaceKey ns \<mapsto> ns))"
  by (auto simp: books_ok_def)

lemma books_ok_forget:
  "books_ok tracked names \<Longrightarrow> books_ok (AList.delete ns tracked) (names(key := None))"
  "books_ok tracked names \<Longrightarrow> books_ok tracked (names(key := None))"
  using set_delete_subset [of ns tracked] by (auto simp: books_ok_def distinct_delete)

lemma put_map_books [books]: "same_books s (snd (put_map env kind key f s))"
  by (simp add: put_map_def with_bpf_def same_books_def)

lemma update_books [books]:
  "same_books s (snd (updateNsLimit env key limit s))"
  "same_books s (snd (resetNsCounter env key limit s))"
  "same_books s (snd (updateProcNsLimit env key limit s))"
  "same_books s (snd (resetProcNsCounter env key limit s))"
  "same_books s (snd (updateCgroupMapping env cgid key s))"
  "same_books s (snd (updateProcCgroupMapping env cgid key s))"
  unfolding updateNsLimit_def resetNsCounter_def store_lease_def updateProcNsLimit_def
    resetProcNsCounter_def store_proc_lease_def updateCgroupMapping_def updateProcCgroupMapping_def
  by (rule put_map_books)+

lemma lease_limit_books [books]: "same_books s (snd (lease_limit env ns limit batch s))"
proof -
  obtain eff t where e: "lease_limit env ns limit batch s = (eff, t)" by fastforce
  show ?thesis using lease_limit_bpf [OF e] by (simp add: e same_books_def)
qed

section \<open>The pod loop\<close>

definition keeps_books :: "(u64 \<Rightarrow> u64 \<Rightarrow> 'w syncer \<Rightarrow> bool \<times> 'w syncer) \<Rightarrow> bool" where
  "keeps_books upd \<longleftrightarrow> (\<forall>cgid key s. same_books s (snd (upd cgid key s)))"

lemma keeps_books_updates [simp]:
  "keeps_books (updateCgroupMapping env)" "keeps_books (updateProcCgroupMapping env)"
  by (simp_all add: keeps_books_def books)

lemma map_infos_books:
  assumes "keeps_books upd"
  shows "map_infos upd key cs known s = (e, known', s') \<Longrightarrow> distinct known \<Longrightarrow>
     distinct known' \<and> same_books s s'"
proof (induction cs arbitrary: known s)
  case (Cons c cs)
  obtain b s1 where u: "upd (CgroupID c) key s = (b, s1)" by fastforce
  then have s1: "same_books s s1" using assms by (metis keeps_books_def snd_conv)
  show ?case
  proof (cases b)
    case True
    let ?s = "s1\<lparr>cgroupPaths := (cgroupPaths s1)(CgroupID c \<mapsto> CgroupPath c)\<rparr>"
    have "distinct known' \<and> same_books ?s s'"
      by (rule Cons.IH [of "List.insert (CgroupID c) known"])
        (use Cons.prems u True in simp_all)
    with s1 show ?thesis by (simp add: same_books_def)
  qed (use Cons.prems u s1 in simp)
qed simp

lemma map_pods_books:
  assumes "keeps_books upd"
  shows "map_pods env upd key pods known s = (e, known', s') \<Longrightarrow> distinct known \<Longrightarrow>
     distinct known' \<and> same_books s s'"
proof (induction pods arbitrary: known s)
  case (Cons pod pods)
  obtain res cache where r: "CachedPodResolver_Resolve (PodResolver_Resolve (en_fs env)) (pod_uid pod)
      (pod_cache s) = (res, cache)" by fastforce
  let ?s = "s\<lparr>pod_cache := cache\<rparr>"
  have s: "same_books s ?s" by (simp add: same_books_def)
  show ?case
  proof (cases "pod_phase pod = PodSucceeded \<or> pod_phase pod = PodFailed")
    case True
    with Cons show ?thesis by simp
  next
    case live: False
    show ?thesis
    proof (cases res)
      case (Inl x)
      with Cons live r show ?thesis using same_books_trans [OF s] by simp
    next
      case (Inr infos)
      obtain e1 known1 s1 where i: "map_infos upd key infos known ?s = (e1, known1, s1)"
        by (metis prod_cases3)
      note m = map_infos_books [OF assms i Cons.prems(2)]
      have "distinct known' \<and> same_books s1 s'"
        using Cons live r Inr i m by (cases e1) auto
      then show ?thesis using m s same_books_trans by blast
    qed
  qed
qed simp

section \<open>Operations\<close>

lemma same_booksD [dest]: "same_books s s' \<Longrightarrow> nsCgroups s' = nsCgroups s"
  "same_books s s' \<Longrightarrow> nsNameByKey s' = nsNameByKey s"
  by (simp_all add: same_books_def)

lemma sync_with_ok:
  assumes "syncer_ok (snd r)" and "keeps_books upd"
    and "\<And>key eff s. same_books s (snd (set_limit key eff s))"
    and "\<And>key eff s. same_books s (snd (reset key eff s))"
  shows "syncer_ok (snd (sync_with env set_limit reset upd gs ns r))"
proof -
  let ?key = "NamespaceKey ns"
  obtain eff s1 where 1: "r = (eff, s1)" by fastforce
  obtain b2 s2 where 2: "set_limit ?key eff s1 = (b2, s2)" by fastforce
  obtain b3 s3 where 3: "reset ?key eff s2 = (b3, s3)" by fastforce
  have "same_books s1 s2" "same_books s2 s3"
    using assms(3) [of s1 ?key eff] assms(4) [of s2 ?key eff] by (simp_all add: 2 3)
  then have oks: "syncer_ok s2" "syncer_ok s3"
    using assms(1) by (simp_all add: 1 same_books_ok)
  have "syncer_ok (snd (sync_with env set_limit reset upd gs ns r))"
    if p: "en_pods env (world s3) ns = Some pods" and b: "b2" "b3" for pods
  proof -
    let ?s = "s3\<lparr>nsNameByKey := (nsNameByKey s3)(?key \<mapsto> ns)\<rparr>"
    obtain x known s4 where m: "map_pods env upd ?key pods [] ?s = (x, known, s4)"
      by (metis prod_cases3)
    have d: "distinct known" and s4: "same_books ?s s4"
      using map_pods_books [OF assms(2) m] by auto
    have ok4: "books_ok (nsCgroups s4) (nsNameByKey s4)"
      using s4 oks(2) books_ok_name by (auto simp: same_books_def syncer_ok_def)
    show ?thesis
      using p b m ok4 books_ok_track [OF ok4 d]
      by (cases x) (simp_all add: sync_with_def 1 2 3 syncer_ok_def)
  qed
  then show ?thesis
    using oks
    by (cases b2; cases b3; cases "en_pods env (world s3) ns")
      (simp_all add: sync_with_def 1 2 3)
qed

lemma lease_limit_ok: "syncer_ok s \<Longrightarrow> syncer_ok (snd (lease_limit env ns limit batch s))"
  using same_books_ok [OF lease_limit_books] by blast

lemma SyncNamespace_ok:
  assumes "syncer_ok s"
  shows "syncer_ok (snd (SyncNamespace env ns limit batch s))"
    "syncer_ok (snd (SyncProcessNamespace env ns limit batch s))"
proof -
  obtain gs where "SyncNamespace env ns limit batch s =
     sync_with env (updateNsLimit env) (resetNsCounter env) (updateCgroupMapping env) gs ns
       (lease_limit env ns limit batch s)" using SyncNamespace_with by blast
  then show "syncer_ok (snd (SyncNamespace env ns limit batch s))"
    by (simp only:) (intro sync_with_ok books keeps_books_updates lease_limit_ok assms)
  obtain gs where "SyncProcessNamespace env ns limit batch s =
     sync_with env (updateProcNsLimit env) (resetProcNsCounter env) (updateProcCgroupMapping env) gs ns
       (lease_limit env (ns @ ''-proc'') limit batch s)" using SyncProcessNamespace_with by blast
  then show "syncer_ok (snd (SyncProcessNamespace env ns limit batch s))"
    by (simp only:) (intro sync_with_ok books keeps_books_updates lease_limit_ok assms)
qed

section \<open>Removing and reconciling\<close>

lemma del_map_books [books]: "same_books s (del_map f s)"
  by (simp add: del_map_def with_bpf_def same_books_def)

lemma delete_books [books]:
  "same_books s (deleteNsLimit key s)" "same_books s (deleteNsCounter key s)"
  "same_books s (deleteProcNsLimit key s)" "same_books s (deleteProcNsCounter key s)"
  "same_books s (deleteCgroupMapping cgid s)" "same_books s (deleteProcCgroupMapping cgid s)"
  by (simp_all add: deleteNsLimit_def deleteNsCounter_def deleteProcNsLimit_def
      deleteProcNsCounter_def deleteCgroupMapping_def deleteProcCgroupMapping_def del_map_books)

lemma release_all_books [books]: "same_books s (release_all env ns s)"
  by (simp add: release_all_def same_books_def Let_def split: option.split)

lemma unmap_cgroups_books [books]: "same_books s (unmap_cgroups cs s)"
proof (induction cs arbitrary: s)
  case (Cons c cs)
  let ?t = "deleteProcCgroupMapping c (deleteCgroupMapping c s)"
  have "same_books s ?t" using delete_books(5,6) same_books_trans by blast
  moreover have "same_books ?t (?t\<lparr>cgroupPaths := (cgroupPaths ?t)(c := None)\<rparr>)"
    by (simp add: same_books_def)
  ultimately show ?case
    using Cons same_books_trans by (simp add: Let_def) blast
qed simp

lemma RemoveNamespace_books:
  "nsCgroups (RemoveNamespace env ns s) = AList.delete ns (nsCgroups s)"
  "nsNameByKey (RemoveNamespace env ns s) = (nsNameByKey s)(NamespaceKey ns := None)"
proof -
  let ?key = "NamespaceKey ns"
  let ?s = "deleteProcNsCounter ?key (deleteProcNsLimit ?key (deleteNsCounter ?key
    (deleteNsLimit ?key (release_all env ns s))))"
  have b: "same_books s ?s"
    using release_all_books delete_books(1-4) same_books_trans by metis
  moreover have "same_books ?s (unmap_cgroups cs ?s)" for cs by (rule unmap_cgroups_books)
  ultimately have "nsCgroups (unmap_cgroups cs ?s) = nsCgroups s"
    "nsNameByKey (unmap_cgroups cs ?s) = nsNameByKey s" for cs
    by (simp_all add: same_books_def)
  moreover have "AList.delete ns (nsCgroups s) = nsCgroups s" if "map_of (nsCgroups s) ns = None"
    using that by (simp add: map_of_eq_None_iff)
  ultimately show "nsCgroups (RemoveNamespace env ns s) = AList.delete ns (nsCgroups s)"
    "nsNameByKey (RemoveNamespace env ns s) = (nsNameByKey s)(?key := None)"
    using b by (simp_all add: RemoveNamespace_def Let_def same_books_def split: option.split)
qed

lemma RemoveNamespace_ok: "syncer_ok s \<Longrightarrow> syncer_ok (RemoveNamespace env ns s)"
  by (simp add: syncer_ok_def RemoveNamespace_books books_ok_forget)

lemma SyncFromQuota_ok: "syncer_ok s \<Longrightarrow> syncer_ok (snd (SyncFromQuota env quota s))"
proof -
  assume ok: "syncer_ok s"
  define batch where "batch = (case LeaseBatchSize (Spec quota) of None \<Rightarrow> 0 | Some b \<Rightarrow> b)"
  obtain e1 s1 where 1: "(case FileDescriptors (Spec quota) of None \<Rightarrow> (None, s)
      | Some limit \<Rightarrow> SyncNamespace env (oq_namespace quota) limit batch s) = (e1, s1)" by fastforce
  obtain e2 s2 where 2: "(case Processes (Spec quota) of None \<Rightarrow> (None, s1)
      | Some limit \<Rightarrow> SyncProcessNamespace env (oq_namespace quota) limit batch s1) = (e2, s2)"
    by fastforce
  have "syncer_ok (snd (e1, s1))"
    unfolding 1 [symmetric] using ok by (simp add: SyncNamespace_ok split: option.split)
  then have ok1: "syncer_ok s1" by simp
  have "syncer_ok (snd (e2, s2))"
    unfolding 2 [symmetric] using ok1 by (simp add: SyncNamespace_ok split: option.split)
  then have ok2: "syncer_ok s2" by simp
  from ok1 ok2 show ?thesis
    using RemoveNamespace_ok [OF ok2]
    by (cases e1; cases e2)
      (simp_all add: SyncFromQuota_def Let_def 1 [unfolded batch_def] 2 [unfolded batch_def])
qed

lemma SyncNamespaceFromQuota_ok: "syncer_ok s \<Longrightarrow> syncer_ok (snd (SyncNamespaceFromQuota env ns s))"
proof -
  assume ok: "syncer_ok s"
  have "syncer_ok (fold (\<lambda>q s. snd (SyncFromQuota env q s)) qs s)" for qs
    using ok by (induction qs arbitrary: s) (simp_all add: SyncFromQuota_ok)
  with ok show ?thesis by (simp add: SyncNamespaceFromQuota_def split: option.split)
qed

lemma handleBreachEvent_books [books]: "same_books s (snd (handleBreachEvent env e s))"
  by (simp add: handleBreachEvent_def same_books_def Let_def split: option.split)

lemma Reconcile_ok:
  assumes "syncer_ok s"
  shows "syncer_ok (snd (ObjectQuota_Reconcile env not_found ns name s))"
    "syncer_ok (fst (Pod_Reconcile env pod s))"
proof -
  have "syncer_ok (s\<lparr>pod_cache := c\<rparr>)" "syncer_ok (s\<lparr>gauges := g\<rparr>)" for c g
    using assms by (simp_all add: syncer_ok_def)
  then show "syncer_ok (fst (Pod_Reconcile env pod s))"
    "syncer_ok (snd (ObjectQuota_Reconcile env not_found ns name s))"
    using assms
    by (simp_all add: Pod_Reconcile_def ObjectQuota_Reconcile_def Let_def SyncNamespaceFromQuota_ok
        SyncFromQuota_ok RemoveNamespace_ok split: option.split)
qed

section \<open>The scanner\<close>

text \<open>A scan leaves the names and the set of tracked namespaces, and never meets the panic.\<close>

definition tracks_more :: "'w syncer \<Rightarrow> 'w syncer \<Rightarrow> bool" where
  "tracks_more s s' \<longleftrightarrow>
     map fst (nsCgroups s') = map fst (nsCgroups s) \<and> (syncer_ok s \<longrightarrow> syncer_ok s') \<and>
     nsNameByKey s' = nsNameByKey s"

lemma tracks_more_refl [simp]: "tracks_more s s" by (simp add: tracks_more_def)

lemma tracks_more_trans: "tracks_more s t \<Longrightarrow> tracks_more t u \<Longrightarrow> tracks_more s u"
  by (simp add: tracks_more_def)

lemma same_books_tracks: "same_books s t \<Longrightarrow> tracks_more s t"
  by (simp add: tracks_more_def same_books_def syncer_ok_def)

lemma tracked_fst: "map_of al k \<noteq> None \<longleftrightarrow> k \<in> set (map fst al)"
  by (simp add: map_of_eq_None_iff)

lemma track_more:
  assumes "map_of (nsCgroups s) ns = Some ids"
  shows "tracks_more s (s\<lparr>nsCgroups := AList.update ns (List.insert c ids) (nsCgroups s), cgroupPaths := p\<rparr>)"
proof -
  have "ns \<in> set (map fst (nsCgroups s))" "(ns, ids) \<in> set (nsCgroups s)"
    using assms tracked_fst [of "nsCgroups s" ns] by (auto dest: map_of_SomeD)
  then show ?thesis
    by (auto simp: tracks_more_def syncer_ok_def update_keys intro!: books_ok_track)
      (auto simp: books_ok_def)
qed

lemma scan_infos_total:
  "map_of (nsCgroups s) ns \<noteq> None \<Longrightarrow>
     \<exists>ids s'. scan_infos env ns cs existing s = Some (ids, s') \<and> tracks_more s s'"
proof (induction cs arbitrary: existing s)
  case (Cons c cs)
  let ?key = "NamespaceKey ns"
  obtain b1 s1 where u1: "updateCgroupMapping env (CgroupID c) ?key s = (b1, s1)" by fastforce
  obtain b2 s2 where u2: "updateProcCgroupMapping env (CgroupID c) ?key s1 = (b2, s2)" by fastforce
  have s: "same_books s s1" "same_books s1 s2"
    using update_books(5) [of s env "CgroupID c" ?key] update_books(6) [of s1 env "CgroupID c" ?key]
    by (simp_all add: u1 u2)
  then have m: "map_of (nsCgroups s1) ns \<noteq> None" "map_of (nsCgroups s2) ns \<noteq> None"
    "tracks_more s s1" "tracks_more s s2"
    using Cons.prems same_books_trans [OF s] by (auto simp: same_books_def intro: same_books_tracks)
  then obtain ids where ids: "map_of (nsCgroups s2) ns = Some ids" by blast
  let ?t = "s2\<lparr>nsCgroups := AList.update ns (List.insert (CgroupID c) ids) (nsCgroups s2),
      cgroupPaths := (cgroupPaths s2)(CgroupID c \<mapsto> CgroupPath c)\<rparr>"
  have t: "tracks_more s ?t" "map_of (nsCgroups ?t) ns \<noteq> None"
    using tracks_more_trans [OF m(4) track_more [OF ids]] by (simp_all add: update_conv)
  consider "CgroupID c \<in> set existing" | "CgroupID c \<notin> set existing" "\<not> b1"
    | "CgroupID c \<notin> set existing" "b1" "\<not> b2" | "CgroupID c \<notin> set existing" "b1" "b2" by blast
  then show ?case
  proof cases
    case 1
    then show ?thesis using Cons by (simp add: Let_def)
  next
    case 2
    from Cons.IH [OF m(1), of existing] obtain ids s' where
      "scan_infos env ns cs existing s1 = Some (ids, s')" "tracks_more s1 s'" by blast
    then show ?thesis using 2 u1 tracks_more_trans [OF m(3)] by (simp add: Let_def)
  next
    case 3
    from Cons.IH [OF m(2), of existing] obtain ids s' where
      "scan_infos env ns cs existing s2 = Some (ids, s')" "tracks_more s2 s'" by blast
    then show ?thesis using 3 u1 u2 tracks_more_trans [OF m(4)] by (simp add: Let_def)
  next
    case 4
    from Cons.IH [OF t(2), of "CgroupID c # existing"] obtain ids' s' where
      "scan_infos env ns cs (CgroupID c # existing) ?t = Some (ids', s')" "tracks_more ?t s'" by blast
    then show ?thesis using 4 u1 u2 ids tracks_more_trans [OF t(1)] by (simp add: Let_def)
  qed
qed auto

lemma scan_dirs_total:
  "map_of (nsCgroups s) ns \<noteq> None \<Longrightarrow>
     \<exists>s'. scan_dirs env ns dirs existing s = Some s' \<and> tracks_more s s'"
proof (induction dirs arbitrary: existing s)
  case (Cons dir dirs)
  note skip = Cons.IH [OF Cons.prems, of existing]
  show ?case
  proof (cases "readCgroupID (en_fs env) dir")
    case (Inl e)
    with skip show ?thesis by simp
  next
    case (Inr podCg)
    obtain existing' t where t: "scan_infos env ns (podCg # child_cgroups (en_fs env) dir) existing s
        = Some (existing', t)" "tracks_more s t"
      using scan_infos_total [OF Cons.prems] by blast
    then have "map_of (nsCgroups t) ns \<noteq> None"
      using Cons.prems unfolding tracked_fst tracks_more_def by simp
    from Cons.IH [OF this, of existing'] t(2) have
      "\<exists>s'. scan_dirs env ns dirs existing' t = Some s' \<and> tracks_more s s'"
      using tracks_more_trans by blast
    then show ?thesis
      using skip Inr t(1) by (simp split: option.split del: scan_infos.simps)
  qed
qed simp

lemma scan_tracked_total:
  "set (map fst tracked) \<subseteq> set (map fst (nsCgroups s)) \<Longrightarrow>
     \<exists>s'. scan_tracked env dirs tracked s = Some s' \<and> tracks_more s s'"
proof (induction tracked arbitrary: s)
  case (Cons entry tracked)
  obtain ns ids where e: "entry = (ns, ids)" by fastforce
  have "map_of (nsCgroups s) ns \<noteq> None"
    using Cons.prems unfolding tracked_fst by (simp add: e)
  then obtain t where t: "scan_dirs env ns dirs ids s = Some t" "tracks_more s t"
    using scan_dirs_total by blast
  then have "set (map fst tracked) \<subseteq> set (map fst (nsCgroups t))"
    using Cons.prems unfolding tracks_more_def by simp
  from Cons.IH [OF this] show ?case
    using t tracks_more_trans [OF t(2)] by (auto simp: e)
qed simp

lemma scan_total: "\<exists>s'. scanAndMapCgroups env s = Some s' \<and> tracks_more s s'"
  using scan_tracked_total [of "nsCgroups s" s] by (simp add: scanAndMapCgroups_def Let_def)

section \<open>Every step\<close>

lemma node_step_ok: "node_step s s' \<Longrightarrow> syncer_ok s \<Longrightarrow> syncer_ok s'"
proof (elim node_stepE)
  assume ok: "syncer_ok s"
  show "syncer_ok s'" if "ObjectQuota_Reconcile env nf ns name s = (e, s')"
    for env :: "'a env" and nf ns name e
    using Reconcile_ok(1) [OF ok, of env nf ns name] by (simp add: that)
  show "syncer_ok s'" if "Pod_Reconcile env p s = (s', event)" for env :: "'a env" and p event
    using Reconcile_ok(2) [OF ok, of env p] by (simp add: that)
  show "syncer_ok s'" if "scanAndMapCgroups env s = Some s'" for env :: "'a env"
    using scan_total [of env s] ok by (simp add: that tracks_more_def)
  show "syncer_ok s'" if "handleBreachEvent env evt s = (pids, s')" for env :: "'a env" and evt pids
    using same_books_ok [OF handleBreachEvent_books [of s env evt]] ok by (simp add: that)
  show "syncer_ok s'" if "LoadBPF lo s = (r, s')" for lo r
    using ok that by (auto simp: LoadBPF_def syncer_ok_def split: if_splits)
  show "syncer_ok s'" if "s' = with_bpf (krun cs) s" for cs
    using ok that by (simp add: syncer_ok_def with_bpf_def)
qed

end
