(* ===== verification/Node_Props.thy ===== *)
theory Node_Props
  imports Node_Run Lease_Props Cgroup_Props
begin

text \<open>
  Properties of a node over its whole life: what the syncer keeps, what it leaves behind when a
  namespace goes or an operation fails, and what the scanner sees and misses.
\<close>

section \<open>What a node keeps\<close>

definition named_quota :: "string \<Rightarrow> ObjectQuota" where
  "named_quota name = \<lparr>oq_namespace = ''team'', oq_name = name, oq_resource_version = 1,
      Spec = \<lparr>FileDescriptors = Some 1000, Processes = None, LeaseBatchSize = None\<rparr>,
      Status = \<lparr>FDAllocations = None, ProcAllocations = None, AvailableFD = 0, Version = None\<rparr>\<rparr>"

text \<open>An API server that holds one quota, under one name.\<close>

definition ex_named :: "string \<Rightarrow> unit env" where
  "ex_named name = (ex_env [ex_pod])\<lparr>en_api := (en_api (ex_env []))
     \<lparr>get_quota := (\<lambda>w ns n. if n = name then Some (named_quota name) else None)\<rparr>\<rparr>"

text \<open>The books stay consistent in every run.\<close>

lemma node_run_ok:
  assumes "node_step\<^sup>*\<^sup>* s s'" and "syncer_ok s"
  shows "syncer_ok s'"
  using assms by (induction rule: rtranclp_induct) (blast intro: node_step_ok)+

section \<open>Removing\<close>

text \<open>A map without some of its keys, as deletions leave it.\<close>

definition without :: "('k \<rightharpoonup> 'v) \<Rightarrow> 'k list \<Rightarrow> 'k \<rightharpoonup> 'v" where
  "without m ks = (\<lambda>k. if k \<in> set ks then None else m k)"

lemma without_simps [simp]:
  "without m [] = m" "without (m(k := None)) ks = without m (k # ks)"
  by (auto simp: without_def fun_eq_iff)

lemma without_single: "without m [k] = m(k := None)"
  by (auto simp: without_def)

text \<open>What one round of deletions does to the maps.\<close>

definition drop_cgroups :: "u64 list \<Rightarrow> kstate \<Rightarrow> kstate" where
  "drop_cgroups cs k = k
     \<lparr>fd_cgroup := without (fd_cgroup k) cs,
      fd_cgroup_counter := without (fd_cgroup_counter k) cs,
      proc_cgroup := without (proc_cgroup k) cs,
      proc_cgroup_counter := without (proc_cgroup_counter k) cs\<rparr>"

definition drop_namespace :: "u64 \<Rightarrow> kstate \<Rightarrow> kstate" where
  "drop_namespace key k = k
     \<lparr>fd_ns_limit := (fd_ns_limit k)(key := None),
      fd_ns_counter := (fd_ns_counter k)(key := None),
      proc_ns_limit := (proc_ns_limit k)(key := None),
      proc_ns_counter := (proc_ns_counter k)(key := None)\<rparr>"

lemmas delete_defs = deleteNsLimit_def deleteNsCounter_def deleteProcNsLimit_def
  deleteProcNsCounter_def deleteCgroupMapping_def deleteProcCgroupMapping_def

lemma drop_cgroups_Cons: "drop_cgroups cs (drop_cgroups [c] k) = drop_cgroups (c # cs) k"
  by (auto simp: drop_cgroups_def without_def fun_eq_iff)

lemma drop_cgroups_Nil: "drop_cgroups [] k = k"
  by (simp add: drop_cgroups_def)

lemma unmap_cgroups_exact:
  "bpf (unmap_cgroups cs s) = (if bpf_loaded s then drop_cgroups cs (bpf s) else bpf s) \<and>
   bpf_loaded (unmap_cgroups cs s) = bpf_loaded s \<and>
   cgroupPaths (unmap_cgroups cs s) = without (cgroupPaths s) cs \<and>
   pod_cache (unmap_cgroups cs s) = pod_cache s \<and> world (unmap_cgroups cs s) = world s"
proof (induction cs arbitrary: s)
  case (Cons c cs)
  let ?t = "deleteProcCgroupMapping c (deleteCgroupMapping c s)"
  let ?t' = "?t\<lparr>cgroupPaths := (cgroupPaths ?t)(c := None)\<rparr>"
  have "bpf ?t' = (if bpf_loaded s then drop_cgroups [c] (bpf s) else bpf s)"
    by (simp add: delete_defs del_map_bpf drop_cgroups_def without_single del: without_simps)
  moreover have "bpf_loaded ?t' = bpf_loaded s" "cgroupPaths ?t' = (cgroupPaths s)(c := None)"
    "pod_cache ?t' = pod_cache s" "world ?t' = world s"
    by (simp_all add: delete_defs del_map_bpf)
  moreover have "unmap_cgroups (c # cs) s = unmap_cgroups cs ?t'"
    by (simp only: unmap_cgroups.simps Let_def)
  ultimately show ?case
    using Cons.IH [of ?t'] by (simp only: drop_cgroups_Cons without_simps split: if_split) simp
qed (simp add: drop_cgroups_Nil)

text \<open>The cgroups tracked for a namespace.\<close>

definition tracked_ids :: "string \<Rightarrow> 'w syncer \<Rightarrow> u64 list" where
  "tracked_ids ns s = (case map_of (nsCgroups s) ns of None \<Rightarrow> [] | Some ids \<Rightarrow> ids)"

lemma RemoveNamespace_maps:
  "let ids = tracked_ids ns s; s' = RemoveNamespace env ns s in
     bpf s' = (if bpf_loaded s then drop_cgroups ids (drop_namespace (NamespaceKey ns) (bpf s))
               else bpf s) \<and>
     cgroupPaths s' = without (cgroupPaths s) ids \<and>
     nsCgroups s' = AList.delete ns (nsCgroups s) \<and>
     nsNameByKey s' = (nsNameByKey s)(NamespaceKey ns := None) \<and>
     bpf_loaded s' = bpf_loaded s \<and> pod_cache s' = pod_cache s"
proof -
  define w where "w = world (release_all env ns s)"
  have r: "release_all env ns s = s\<lparr>world := w\<rparr>"
    by (simp add: w_def release_all_def Let_def split: option.split)
  define t where "t = deleteProcNsCounter (NamespaceKey ns) (deleteProcNsLimit (NamespaceKey ns)
    (deleteNsCounter (NamespaceKey ns) (deleteNsLimit (NamespaceKey ns) (release_all env ns s))))"
  have t: "bpf t = (if bpf_loaded s then drop_namespace (NamespaceKey ns) (bpf s) else bpf s)"
    "bpf_loaded t = bpf_loaded s" "cgroupPaths t = cgroupPaths s" "pod_cache t = pod_cache s"
    by (simp_all add: t_def delete_defs r del_map_bpf drop_namespace_def)
  have "same_books s t"
    unfolding t_def by (meson release_all_books delete_books(1-4) same_books_trans)
  then have books: "nsCgroups t = nsCgroups s" by (simp add: same_books_def)
  have "bpf (RemoveNamespace env ns s) = bpf (unmap_cgroups (tracked_ids ns s) t) \<and>
      bpf_loaded (RemoveNamespace env ns s) = bpf_loaded (unmap_cgroups (tracked_ids ns s) t) \<and>
      cgroupPaths (RemoveNamespace env ns s) = cgroupPaths (unmap_cgroups (tracked_ids ns s) t) \<and>
      pod_cache (RemoveNamespace env ns s) = pod_cache (unmap_cgroups (tracked_ids ns s) t)"
    unfolding RemoveNamespace_def Let_def t_def [symmetric]
    by (cases "map_of (nsCgroups s) ns") (simp_all add: tracked_ids_def books)
  then show ?thesis
    using RemoveNamespace_books [of env ns s] unmap_cgroups_exact [of "tracked_ids ns s" t] t
    by (simp add: Let_def)
qed

text \<open>(C12)
  Removing a namespace deletes its limits and leases of both resources, the mappings, counters
  and paths of exactly the cgroups tracked for it, its entry and its name; every other key of
  every map stays, a cgroup mapped to the namespace but not tracked included.
\<close>

theorem RemoveNamespace_exact:
  "let ids = tracked_ids ns s; s' = RemoveNamespace env ns s in
     bpf s' = (if bpf_loaded s then drop_cgroups ids (drop_namespace (NamespaceKey ns) (bpf s))
               else bpf s) \<and>
     cgroupPaths s' = without (cgroupPaths s) ids \<and>
     nsCgroups s' = AList.delete ns (nsCgroups s) \<and>
     nsNameByKey s' = (nsNameByKey s)(NamespaceKey ns := None) \<and>
     bpf_loaded s' = bpf_loaded s \<and> pod_cache s' = pod_cache s"
  by (rule RemoveNamespace_maps)

text \<open>
  A quota that is deleted and created again starts from zero: whatever was counted for the
  namespace and for its tracked cgroups when it was removed, the next synchronisation begins
  with an empty lease, although the descriptors are still open.
\<close>

lemma requota_forgets:
  assumes "bpf_loaded s"
    and "SyncNamespace env' ns limit batch (RemoveNamespace env ns s) = (None, s')"
  shows "map_option cl_count (fd_ns_counter (bpf s') (NamespaceKey ns)) = Some 0 \<and>
    list_all (\<lambda>c. fd_cgroup_counter (bpf s') c = None) (tracked_ids ns s)"
proof -
  have "bpf_loaded (RemoveNamespace env ns s)"
    "bpf (RemoveNamespace env ns s) =
       drop_cgroups (tracked_ids ns s) (drop_namespace (NamespaceKey ns) (bpf s))"
    using RemoveNamespace_maps [of ns s env] assms(1) by (simp_all add: Let_def)
  then show ?thesis
    using sync_maps [OF _ assms(2)]
    by (simp add: Let_def drop_cgroups_def drop_namespace_def reset_lease_def without_def
        list_all_iff)
qed

lemma requota_forgets_witness:
  "\<exists>s'. SyncNamespace (ex_env []) ''team'' 1000 0
           (RemoveNamespace (ex_env []) ''team'' (ex_syncer (busy 500))) = (None, s') \<and>
     map_option cl_count (fd_ns_counter (bpf s') (NamespaceKey ''team'')) = Some 0"
proof -
  let ?r = "SyncNamespace (ex_env []) ''team'' 1000 0
      (RemoveNamespace (ex_env []) ''team'' (ex_syncer (busy 500)))"
  have "fst ?r = None" by code_simp
  then obtain s' where r: "?r = (None, s')" by (cases ?r) (simp only: fst_conv)
  from requota_forgets [OF _ r] r show ?thesis by (simp add: ex_syncer_def)
qed

section \<open>Dropping one limit\<close>

lemma Sync_keeps_other:
  "proc_view (bpf (snd (SyncNamespace env ns limit batch s))) = proc_view (bpf s)"
  "fd_view (bpf (snd (SyncProcessNamespace env ns limit batch s))) = fd_view (bpf s)"
proof -
  show "proc_view (bpf (snd (SyncNamespace env ns limit batch s))) = proc_view (bpf s)"
    by (rule SyncNamespace_cases [of env ns limit batch s])
      (simp add: fd_maps.sync_other lease_limit_bpf)
  show "fd_view (bpf (snd (SyncProcessNamespace env ns limit batch s))) = fd_view (bpf s)"
    by (rule SyncProcessNamespace_cases [of env ns limit batch s])
      (simp add: proc_maps.sync_other lease_limit_bpf)
qed

text \<open>
  A limit that is taken out of a quota which keeps the other one stays in force: the
  synchronisation touches the maps of the resources the quota names and deletes nothing.
\<close>

lemma dropped_limit_stays:
  assumes "(FileDescriptors (Spec q) = None) \<noteq> (Processes (Spec q) = None)"
  shows "if FileDescriptors (Spec q) = None
    then fd_view (bpf (snd (SyncFromQuota env q s))) = fd_view (bpf s)
    else proc_view (bpf (snd (SyncFromQuota env q s))) = proc_view (bpf s)"
proof -
  define batch where "batch = (case LeaseBatchSize (Spec q) of None \<Rightarrow> 0 | Some b \<Rightarrow> b)"
  consider l where "FileDescriptors (Spec q) = None" "Processes (Spec q) = Some l"
    | l where "FileDescriptors (Spec q) = Some l" "Processes (Spec q) = None"
    using assms by (cases "FileDescriptors (Spec q)"; cases "Processes (Spec q)") auto
  then show ?thesis
  proof cases
    case 1
    obtain e t where r: "SyncProcessNamespace env (oq_namespace q) l batch s = (e, t)" by fastforce
    have "fd_view (bpf t) = fd_view (bpf s)"
      using Sync_keeps_other(2) [of env "oq_namespace q" l batch s] by (simp add: r)
    with 1 show ?thesis
      by (cases e) (simp_all add: SyncFromQuota_def Let_def r flip: batch_def)
  next
    case 2
    obtain e t where r: "SyncNamespace env (oq_namespace q) l batch s = (e, t)" by fastforce
    have "proc_view (bpf t) = proc_view (bpf s)"
      using Sync_keeps_other(1) [of env "oq_namespace q" l batch s] by (simp add: r)
    with 2 show ?thesis
      by (cases e) (simp_all add: SyncFromQuota_def Let_def r flip: batch_def)
  qed
qed

lemma dropped_limit_stays_witness:
  "\<exists>q. Spec q = \<lparr>FileDescriptors = None, Processes = Some 50, LeaseBatchSize = None\<rparr> \<and>
     fd_ns_limit (bpf (snd (SyncFromQuota (ex_env [ex_pod]) q (ex_syncer (ex_state 3 0 3))))) 7 = Some 3"
proof -
  let ?q = "(named_quota ''limits'')
      \<lparr>Spec := \<lparr>FileDescriptors = None, Processes = Some 50, LeaseBatchSize = None\<rparr>\<rparr>"
  let ?k = "bpf (snd (SyncFromQuota (ex_env [ex_pod]) ?q (ex_syncer (ex_state 3 0 3))))"
  have "fd_view ?k = fd_view (ex_state 3 0 3)"
    using dropped_limit_stays [of ?q "ex_env [ex_pod]" "ex_syncer (ex_state 3 0 3)"]
    by (simp add: ex_syncer_def)
  then have "q_limit (fd_view ?k) 7 = q_limit (fd_view (ex_state 3 0 3)) 7" by (rule arg_cong)
  then have "fd_ns_limit ?k 7 = Some 3" by simp
  then show ?thesis by (intro exI [of _ ?q]) simp
qed

section \<open>Failing\<close>

text \<open>(C25)
  What a failed synchronisation leaves: nothing in the maps when the limit cannot be stored; the
  limit alone when the lease cannot; limit and lease but no name for the breach watcher when
  the pods cannot be listed; and the mappings made so far, none of them tracked, when a cgroup
  cannot be mapped. It never tracks a cgroup or sets a gauge.
\<close>

theorem sync_errors:
  assumes "bpf_loaded s" and "SyncNamespace env ns limit batch s = (Some e, s')"
  shows "nsCgroups s' = nsCgroups s \<and> gauges s' = gauges s \<and>
    (let key = NamespaceKey ns; eff = fst (lease_limit env ns limit batch s); q = fd_view (bpf s) in
     case e of
       UpdateLimit \<Rightarrow> bpf s' = bpf s \<and> nsNameByKey s' = nsNameByKey s
     | ResetCounter \<Rightarrow> bpf s' = fd_put (put_limit key eff q) (bpf s) \<and> nsNameByKey s' = nsNameByKey s
     | ListPods \<Rightarrow>
         bpf s' = fd_put (put_lease key eff (put_limit key eff q)) (bpf s) \<and>
         nsNameByKey s' = nsNameByKey s
     | MapCgroup cgid \<Rightarrow>
         (\<exists>m. bpf s' = fd_put ((put_lease key eff (put_limit key eff q))\<lparr>q_cgroup := m\<rparr>) (bpf s)) \<and>
         nsNameByKey s' = (nsNameByKey s)(key \<mapsto> ns))"
proof (rule SyncNamespace_cases [of env ns limit batch s])
  fix gs eff s1
  assume e: "lease_limit env ns limit batch s = (eff, s1)"
    and "SyncNamespace env ns limit batch s = sync_with env (updateNsLimit env) (resetNsCounter env)
       (updateCgroupMapping env) gs ns (eff, s1)"
  with fd_maps.sync_failure [of env gs ns eff s1 e s'] assms lease_limit_bpf [OF e]
  show ?thesis by (cases e) (simp_all add: e Let_def)
qed

theorem sync_errors_witness:
  "\<exists>s'. SyncNamespace ((ex_env [])\<lparr>en_pods := (\<lambda>w ns. None)\<rparr>) ''team'' 1000 0
           (ex_syncer empty_kstate) = (Some ListPods, s') \<and>
     fd_ns_limit (bpf s') (NamespaceKey ''team'') = Some 1000 \<and>
     nsNameByKey s' (NamespaceKey ''team'') = None"
proof -
  let ?env = "(ex_env [])\<lparr>en_pods := (\<lambda>w ns. None)\<rparr>"
  let ?r = "SyncNamespace ?env ''team'' 1000 0 (ex_syncer empty_kstate)"
  have "fst ?r = Some ListPods" by code_simp
  then obtain s' where r: "?r = (Some ListPods, s')" by (cases ?r) (simp only: fst_conv)
  have eff: "fst (lease_limit ?env ''team'' 1000 0 (ex_syncer empty_kstate)) = 1000"
    by (simp add: lease_limit_def ex_env_def)
  have "bpf_loaded (ex_syncer empty_kstate)" by (simp add: ex_syncer_def)
  from sync_errors [OF this r] r show ?thesis
    unfolding eff by (simp add: Let_def put_limit_def put_lease_def view_defs ex_syncer_def)
qed

section \<open>Leasing\<close>

text \<open>(C40)
  The leaser looks for a quota named like its namespace. A quota of another name is synchronised
  with the limit of the whole cluster on every node, and a quota that is already deleted, the
  case in which a namespace is removed, gives no credit back.
\<close>

theorem quota_named_otherwise:
  assumes "get_quota (en_api env) (world s) ns ns = None" "isProcSuffix ns = (ns, False)" "ns \<noteq> []"
  shows "lease_limit env ns limit batch s = (limit, s) \<and>
         world (RemoveNamespace env ns s) = world s"
proof
  show "lease_limit env ns limit batch s = (limit, s)"
    using assms
    by (simp add: lease_limit_def RequestLease_def effectiveLimit_def split: option.split)
  have p: "isProcSuffix (ns @ ''-proc'') = (ns, True)"
    using assms(3) by (simp add: isProcSuffix_def)
  have "release_all env ns s = s"
    using assms p by (simp add: release_all_def ReleaseLease_def Let_def split: option.split)
  moreover have "world (RemoveNamespace env ns s) = world (release_all env ns s)"
    unfolding RemoveNamespace_def Let_def
    by (cases "map_of (nsCgroups s) ns")
      (simp_all add: unmap_cgroups_exact delete_defs del_map_bpf split: option.split)
  ultimately show "world (RemoveNamespace env ns s) = world s" by simp
qed

section \<open>Enforcing what was synchronised\<close>

lemma spec_step_limits:
  "map_option fst (fst (spec_step fds procs c p) k) = map_option fst (fst p k)"
  by (cases c; cases p; cases "snd c")
    (auto simp: acquire_def give_back_def bind_eq_Some_conv split: option.split)

lemma krun_pool_limits:
  "kstate_wf k \<Longrightarrow>
     map_option fst (fst (pools (krun cs k)) key) = map_option fst (fst (pools k) key)"
proof (induction cs arbitrary: k)
  case (Cons c cs)
  then show ?case by (simp add: kstep_wf kstep_refines spec_step_limits)
qed simp

lemma microSlice_le: "0 < eff \<Longrightarrow> eff < 2 ^ 63 \<Longrightarrow> microSlice eff \<le> word_of_int eff"
proof -
  assume e: "0 < eff" "eff < 2 ^ 63"
  show ?thesis
  proof (cases "100 < eff")
    case True
    have "nat eff div 10 \<le> nat eff" by (rule div_le_dividend)
    then show ?thesis
      using e True microSlice_large [of eff] unat_limit [of eff] by (simp add: word_le_nat_alt)
  qed (simp add: microSlice_def)
qed

lemma sync_wf:
  assumes "bpf_loaded s" and "kstate_wf (bpf s)"
    and "SyncNamespace env ns limit batch s = (None, s')"
    and "fst (lease_limit env ns limit batch s) = eff" "0 < eff" "eff < 2 ^ 63"
    and "\<forall>l. fd_ns_counter (bpf s) (NamespaceKey ns) = Some l \<longrightarrow> cl_count l \<le> microSlice eff"
  shows "kstate_wf (bpf s')"
    and "\<exists>n. fst (pools (bpf s')) (NamespaceKey ns) = Some (nat eff, n)"
proof -
  let ?key = "NamespaceKey ns" and ?limit = "word_of_int eff :: u64"
  define l where "l = reset_lease eff (fd_ns_counter (bpf s) ?key)"
  have m: "fd_ns_limit (bpf s') = (fd_ns_limit (bpf s))(?key \<mapsto> ?limit)"
    "fd_ns_counter (bpf s') = (fd_ns_counter (bpf s))(?key \<mapsto> l)"
    "proc_view (bpf s') = proc_view (bpf s)"
    using sync_maps [OF assms(1,3)] assms(4) by (simp_all add: Let_def l_def)
  have lim: "unat ?limit = nat eff" using assms(5,6) by (intro unat_limit) auto
  then have nz: "?limit \<noteq> 0" using assms(5) by auto
  have "cl_count l \<le> microSlice eff \<and> cl_lease_budget l = microSlice eff"
    using assms(7) by (auto simp: l_def reset_lease_def split: option.split)
  moreover have "?limit \<le> max_limit" using lim assms(6) by (simp add: word_le_nat_alt unat_max_limit)
  ultimately have wf: "lease_wf ?limit l"
    using microSlice_le [OF assms(5,6)] by (simp add: lease_wf_def)
  have other: "limited (fd_view (bpf s')) k = limited (fd_view (bpf s)) k" if "k \<noteq> ?key" for k
    using that m by (simp add: limited_def split: option.split)
  have here: "limited (fd_view (bpf s')) ?key = Some (?limit, l)"
    using m nz by (simp add: limited_Some_limit)
  show "kstate_wf (bpf s')"
    using assms(2) m(3) other here wf unfolding kstate_wf_def quota_wf_def
    by (metis option.inject prod.inject)
  show "\<exists>n. fst (pools (bpf s')) ?key = Some (nat eff, n)"
    using lim by (simp add: pools_def abs_pool_def here)
qed

text \<open>(C5)
  From the quota to the kernel: after a synchronisation of a namespace that uses at most its
  first budget, whatever its cgroups do, the enforcer keeps the number of descriptors it counts
  for the namespace at or below the limit the leaser allowed.
\<close>

theorem sync_then_enforced:
  assumes "bpf_loaded s" and "kstate_wf (bpf s)"
    and "SyncNamespace env ns limit batch s = (None, s')"
    and "fst (lease_limit env ns limit batch s) = eff" "0 < eff" "eff < 2 ^ 63"
    and "\<forall>l. fd_ns_counter (bpf s) (NamespaceKey ns) = Some l \<longrightarrow> cl_count l \<le> microSlice eff"
  shows "\<exists>n. fst (pools (krun cs (bpf s'))) (NamespaceKey ns) = Some (nat eff, n) \<and> n \<le> nat eff"
proof -
  note wf = sync_wf [OF assms]
  have "map_option fst (fst (pools (krun cs (bpf s'))) (NamespaceKey ns)) = Some (nat eff)"
    using wf(2) by (auto simp: krun_pool_limits [OF wf(1)])
  then obtain n where n: "fst (pools (krun cs (bpf s'))) (NamespaceKey ns) = Some (nat eff, n)" by auto
  have "within (abs_pool (fd_view (krun cs (bpf s'))))"
    using krun_wf [OF wf(1), of cs] by (simp add: kstate_wf_def quota_wf_within)
  then have "n \<le> nat eff" using n by (simp add: within_def pools_def)
  with n show ?thesis by blast
qed

theorem sync_then_enforced_witness:
  "\<exists>s' n. SyncNamespace (ex_env [ex_pod]) ''team'' 2 0 (ex_syncer empty_kstate) = (None, s') \<and>
     fst (pools (krun [(ex_helpers 5, Fd_install), (ex_helpers 5, Fd_install),
       (ex_helpers 4, Fd_install)] (bpf s'))) (NamespaceKey ''team'') = Some (2, n) \<and> n \<le> 2"
proof -
  let ?r = "SyncNamespace (ex_env [ex_pod]) ''team'' 2 0 (ex_syncer empty_kstate)"
  have "fst ?r = None" by code_simp
  then obtain s' where r: "?r = (None, s')" by (cases ?r) (simp only: fst_conv)
  have s: "bpf_loaded (ex_syncer empty_kstate)" "kstate_wf (bpf (ex_syncer empty_kstate))"
    by (simp_all add: ex_syncer_def kstate_wf_def quota_wf_def limited_def empty_kstate_def)
  have eff: "fst (lease_limit (ex_env [ex_pod]) ''team'' 2 0 (ex_syncer empty_kstate)) = 2"
    by (simp add: lease_limit_def ex_env_def)
  have none: "\<forall>l. fd_ns_counter (bpf (ex_syncer empty_kstate)) (NamespaceKey ''team'') = Some l \<longrightarrow>
      cl_count l \<le> microSlice 2"
    by (simp add: ex_syncer_def empty_kstate_def)
  let ?cs = "[(ex_helpers 5, Fd_install), (ex_helpers 5, Fd_install), (ex_helpers 4, Fd_install)]"
  from sync_then_enforced [OF s r eff _ _ none, of ?cs] r show ?thesis
    by (simp del: krun_simps)
qed

theorem quota_named_otherwise_witness:
  "get_quota (en_api (ex_named ''limits'')) () ''team'' ''limits'' = Some (named_quota ''limits'') \<and>
   lease_limit ((ex_named ''limits'')\<lparr>en_leaser := Some (ex_node ''n'')\<rparr>) ''team'' 1000 100
     (ex_syncer empty_kstate) = (1000, ex_syncer empty_kstate)"
proof -
  let ?env = "(ex_named ''limits'')\<lparr>en_leaser := Some (ex_node ''n'')\<rparr>"
  have "get_quota (en_api ?env) (world (ex_syncer empty_kstate)) ''team'' ''team'' = None"
    by (simp add: ex_named_def)
  moreover have "isProcSuffix ''team'' = (''team'', False)" by code_simp
  ultimately show ?thesis
    using quota_named_otherwise [of ?env "ex_syncer empty_kstate" "''team''" 1000 100]
    by (simp add: ex_named_def)
qed

section \<open>Scanning\<close>

text \<open>
  The scanner passes over every pod whose directory is already tracked, so a container that
  starts in such a pod is not mapped by any number of scans, and its descriptors are counted
  for nobody.
\<close>

lemma scanner_skips_known_pods:
  assumes "\<forall>dir\<in>set dirs. \<forall>info. readCgroupID (en_fs env) dir = Inr info \<longrightarrow>
    CgroupID info \<in> set existing"
  shows "scan_dirs env ns dirs existing s = Some s"
  using assms by (induction dirs) (auto split: sum.splits)

definition late_container :: "unit env" where
  "late_container = (ex_env [ex_pod])\<lparr>en_fs := CDir 1 [(''kubepods.slice'', CDir 2
     [(''kubepods-pod1.slice'', CDir 4 [(''cri'', CDir 5 []), (''late'', CDir 9 [])])])]\<rparr>"

lemma scanner_skips_known_pods_witness:
  "\<exists>s. SyncNamespace (ex_env [ex_pod]) ''team'' 1000 0 (ex_syncer empty_kstate) = (None, s) \<and>
     scan_dirs late_container ''team'' (findPodCgroupDirs (en_fs late_container) [''kubepods.slice''])
       (tracked_ids ''team'' s) s = Some s \<and>
     fd_cgroup (bpf s) 9 = None"
proof -
  let ?r = "SyncNamespace (ex_env [ex_pod]) ''team'' 1000 0 (ex_syncer empty_kstate)"
  let ?dirs = "findPodCgroupDirs (en_fs late_container) [''kubepods.slice'']"
  have "fst ?r = None" by code_simp
  then obtain s where r: "?r = (None, s)" by (cases ?r) (simp only: fst_conv)
  have "tracked_ids ''team'' (snd ?r) = [4, 5]" "fd_cgroup (bpf (snd ?r)) 9 = None" by code_simp+
  then have s: "tracked_ids ''team'' s = [4, 5]" "fd_cgroup (bpf s) 9 = None"
    by (simp_all only: r snd_conv)
  have d: "?dirs = [[''kubepods.slice'', ''kubepods-pod1.slice'']]" by code_simp
  have "readCgroupID (en_fs late_container) [''kubepods.slice'', ''kubepods-pod1.slice'']
      = Inr \<lparr>CgroupID = 4, CgroupPath = [''kubepods.slice'', ''kubepods-pod1.slice'']\<rparr>" by code_simp
  then have "\<forall>dir\<in>set ?dirs. \<forall>info. readCgroupID (en_fs late_container) dir = Inr info \<longrightarrow>
      CgroupID info \<in> set (tracked_ids ''team'' s)"
    by (simp add: d s(1))
  from scanner_skips_known_pods [OF this] r s show ?thesis by blast
qed

end
