(* ===== verification/Breach_Watch.thy ===== *)
theory Breach_Watch
  imports Hook_Props Node_Props
begin

text \<open>
  The breach watcher of \<^verbatim>\<open>syncer.go\<close> over the records of the ring buffer, and the way of a
  breach from the program of the enforcer that reports it to the processes that are killed.
\<close>

section \<open>The watcher\<close>

text \<open>The loop over the records read until the reader is closed: the processes killed.\<close>

fun breach_watch :: "'w env \<Rightarrow> byte list list \<Rightarrow> 'w syncer \<Rightarrow> int list \<times> 'w syncer" where
  "breach_watch env [] s = ([], s)"
| "breach_watch env (raw # records) s =
     (case watch_record raw of
        None \<Rightarrow> breach_watch env records s
      | Some evt \<Rightarrow>
          (case handleBreachEvent env evt s of (pids, s) \<Rightarrow>
           case breach_watch env records s of (others, s) \<Rightarrow> (pids @ others, s)))"

text \<open>\<open>reader\<close> is None when no ring buffer reader can be made.\<close>

definition StartBreachWatcher ::
  "'w env \<Rightarrow> byte list list option \<Rightarrow> 'w syncer \<Rightarrow> (int list \<times> 'w syncer) option" where
  "StartBreachWatcher env reader s =
     (if \<not> bpf_loaded s then Some ([], s)
      else map_option (\<lambda>records. breach_watch env records s) reader)"

section \<open>From the kernel to the kill\<close>

definition event_record :: "breach_event \<Rightarrow> nat \<Rightarrow> mem \<Rightarrow> byte list" where
  "event_record e a m = map (write_event e a m) [a..<a + c_size struct_breach_event]"

definition procs_file :: "nat list \<Rightarrow> string" where
  "procs_file pids = concat (map (\<lambda>n. dec n @ [newline]) pids)"


definition node_with_hog :: "unit syncer" where
  "node_with_hog = (ex_syncer empty_kstate)\<lparr>nsNameByKey := [7 \<mapsto> ''team''],
     cgroupPaths := [2 \<mapsto> [''kubepods.slice'', ''kubepods-pod1.slice'', ''cri'']]\<rparr>"

definition hog_state :: kstate where
  "hog_state = (ex_state 3 3 3)\<lparr>fd_ns_counter := [7 \<mapsto> (ex_lease 3 3)\<lparr>cl_top_cgid := 2, cl_top_count := 9\<rparr>]\<rparr>"

definition hog_env :: "unit env" where
  "hog_env = (ex_env [])\<lparr>en_fs := CDir 1 [(''kubepods.slice'', CDir 2 [(''kubepods-pod1.slice'', CDir 4
     [(''cri'', CDir 5 [(''cgroup.procs'', CFile 6 (procs_file [71, 72]))])])])]\<rparr>"


end
