(* ===== verification/Sync_Steps.thy ===== *)
theory Sync_Steps
  imports Node_Props
begin

text \<open>
  The operations of \<^verbatim>\<open>syncer.go\<close> at the grain at which goroutines interleave. The mutex
  \<^verbatim>\<open>s.mu\<close> covers the tracked cgroups, the paths and the names only; every map operation and
  every request to the leaser outside its sections can be separated from the next by steps of
  other goroutines and of the enforcer. One step is one such operation or one whole section.
\<close>

section \<open>Program points\<close>

datatype resource = Fds | Procs

datatype call =
    S_Lease resource string int int
  | S_Limit resource string int
  | S_Lookup resource string int
  | S_Store resource string int cpu_lease
  | S_List resource string int
  | S_Map resource string int "Pod list"
  | S_Gauge resource string int
  | S_Current resource string
  | R_Release string
  | R_ReleaseProc string
  | R_Limit string
  | R_Counter string
  | R_ProcLimit string
  | R_ProcCounter string
  | R_Unmap string
  | R_Gauges string
  | Returned "sync_error option"

section \<open>The operations of the two resources\<close>

fun lease_key :: "resource \<Rightarrow> string \<Rightarrow> string" where
  "lease_key Fds ns = ns"
| "lease_key Procs ns = ns @ ''-proc''"

fun put_limit_of :: "resource \<Rightarrow> 'w env \<Rightarrow> u64 \<Rightarrow> int \<Rightarrow> 'w syncer \<Rightarrow> bool \<times> 'w syncer" where
  "put_limit_of Fds = updateNsLimit"
| "put_limit_of Procs = updateProcNsLimit"

fun lookup_of :: "resource \<Rightarrow> u64 \<Rightarrow> 'w syncer \<Rightarrow> cpu_lease option" where
  "lookup_of Fds key s = fd_ns_counter (bpf s) key"
| "lookup_of Procs key s = proc_ns_counter (bpf s) key"

fun store_of :: "resource \<Rightarrow> 'w env \<Rightarrow> u64 \<Rightarrow> cpu_lease \<Rightarrow> 'w syncer \<Rightarrow> bool \<times> 'w syncer" where
  "store_of Fds = store_lease"
| "store_of Procs = store_proc_lease"

fun map_cgroup_of :: "resource \<Rightarrow> 'w env \<Rightarrow> u64 \<Rightarrow> u64 \<Rightarrow> 'w syncer \<Rightarrow> bool \<times> 'w syncer" where
  "map_cgroup_of Fds = updateCgroupMapping"
| "map_cgroup_of Procs = updateProcCgroupMapping"

fun gauge_limit :: "resource \<Rightarrow> string \<Rightarrow> int \<Rightarrow> metrics \<Rightarrow> metrics" where
  "gauge_limit Fds ns eff g = g\<lparr>FDLimit := (FDLimit g)(ns \<mapsto> eff)\<rparr>"
| "gauge_limit Procs ns eff g = g\<lparr>ProcLimit := (ProcLimit g)(ns \<mapsto> eff)\<rparr>"

fun gauge_current :: "resource \<Rightarrow> string \<Rightarrow> u64 \<Rightarrow> metrics \<Rightarrow> metrics" where
  "gauge_current Fds ns n g = g\<lparr>FDCurrent := (FDCurrent g)(ns \<mapsto> n)\<rparr>"
| "gauge_current Procs ns n g = g\<lparr>ProcCurrent := (ProcCurrent g)(ns \<mapsto> n)\<rparr>"

definition release_one :: "'w env \<Rightarrow> string \<Rightarrow> 'w syncer \<Rightarrow> 'w syncer" where
  "release_one env key s =
     (case en_leaser env of
        None \<Rightarrow> s
      | Some m \<Rightarrow> s\<lparr>world := snd (ReleaseLease (en_api env) m key (en_node env) (world s))\<rparr>)"

section \<open>One step\<close>

fun call_step :: "'w env \<Rightarrow> call \<Rightarrow> 'w syncer \<Rightarrow> call \<times> 'w syncer" where
  "call_step env (S_Lease r ns limit batch) s =
     (case lease_limit env (lease_key r ns) limit batch s of (eff, s) \<Rightarrow> (S_Limit r ns eff, s))"
| "call_step env (S_Limit r ns eff) s =
     (case put_limit_of r env (NamespaceKey ns) eff s of
        (False, s) \<Rightarrow> (Returned (Some UpdateLimit), s)
      | (True, s) \<Rightarrow> (S_Lookup r ns eff, s))"
| "call_step env (S_Lookup r ns eff) s =
     (S_Store r ns eff (reset_lease eff (lookup_of r (NamespaceKey ns) s)), s)"
| "call_step env (S_Store r ns eff l) s =
     (case store_of r env (NamespaceKey ns) l s of
        (False, s) \<Rightarrow> (Returned (Some ResetCounter), s)
      | (True, s) \<Rightarrow> (S_List r ns eff, s))"
| "call_step env (S_List r ns eff) s =
     (case en_pods env (world s) ns of
        None \<Rightarrow> (Returned (Some ListPods), s)
      | Some pods \<Rightarrow> (S_Map r ns eff pods, s))"
| "call_step env (S_Map r ns eff pods) s =
     (case map_pods env (map_cgroup_of r env) (NamespaceKey ns) pods []
             (s\<lparr>nsNameByKey := (nsNameByKey s)(NamespaceKey ns \<mapsto> ns)\<rparr>) of
        (Some e, known, s) \<Rightarrow> (Returned (Some e), s)
      | (None, known, s) \<Rightarrow>
          (S_Gauge r ns eff, s\<lparr>nsCgroups := AList.update ns known (nsCgroups s)\<rparr>))"
| "call_step env (S_Gauge r ns eff) s =
     (S_Current r ns, s\<lparr>gauges := gauge_limit r ns eff (gauges s)\<rparr>)"
| "call_step env (S_Current r ns) s =
     (Returned None,
      if bpf_loaded s then
        (case lookup_of r (NamespaceKey ns) s of
           None \<Rightarrow> s
         | Some l \<Rightarrow> s\<lparr>gauges := gauge_current r ns (cl_count l) (gauges s)\<rparr>)
      else s)"
| "call_step env (R_Release ns) s = (R_ReleaseProc ns, release_one env ns s)"
| "call_step env (R_ReleaseProc ns) s = (R_Limit ns, release_one env (ns @ ''-proc'') s)"
| "call_step env (R_Limit ns) s = (R_Counter ns, deleteNsLimit (NamespaceKey ns) s)"
| "call_step env (R_Counter ns) s = (R_ProcLimit ns, deleteNsCounter (NamespaceKey ns) s)"
| "call_step env (R_ProcLimit ns) s = (R_ProcCounter ns, deleteProcNsLimit (NamespaceKey ns) s)"
| "call_step env (R_ProcCounter ns) s = (R_Unmap ns, deleteProcNsCounter (NamespaceKey ns) s)"
| "call_step env (R_Unmap ns) s =
     (R_Gauges ns,
      (let s = (case map_of (nsCgroups s) ns of
                  None \<Rightarrow> s
                | Some cgroups \<Rightarrow>
                    (let s = unmap_cgroups cgroups s
                     in s\<lparr>nsCgroups := AList.delete ns (nsCgroups s)\<rparr>))
       in s\<lparr>nsNameByKey := (nsNameByKey s)(NamespaceKey ns := None)\<rparr>))"
| "call_step env (R_Gauges ns) s =
     (Returned None,
      s\<lparr>gauges := (gauges s)\<lparr>FDLimit := (FDLimit (gauges s))(ns := None),
                             ProcLimit := (ProcLimit (gauges s))(ns := None)\<rparr>\<rparr>)"
| "call_step env (Returned e) s = (Returned e, s)"

text \<open>A step of a call does to the world what the whole operation does to it, in its place.\<close>

fun call_run :: "nat \<Rightarrow> 'w env \<Rightarrow> call \<Rightarrow> 'w syncer \<Rightarrow> call \<times> 'w syncer" where
  "call_run 0 env c s = (c, s)"
| "call_run (Suc n) env c s = (case call_step env c s of (c, s) \<Rightarrow> call_run n env c s)"

lemma call_run_returned [simp]: "call_run n env (Returned e) s = (Returned e, s)"
  by (induction n) auto

lemma call_run_unfold:
  "call_run (Suc n) env c s = call_run n env (fst (call_step env c s)) (snd (call_step env c s))"
  by (simp split: prod.split)

lemma call_run_1: "call_run 1 env c s = call_step env c s"
  by (simp split: prod.split)

lemma call_run_2:
  "call_run 2 env c s = call_run 1 env (fst (call_step env c s)) (snd (call_step env c s))"
  using call_run_unfold [of 1] by (simp add: numeral_2_eq_2)

lemmas call_run_8 = call_run_unfold [of 7, simplified] call_run_unfold [of 6, simplified]
  call_run_unfold [of 5, simplified] call_run_unfold [of 4, simplified]
  call_run_unfold [of 3, simplified] call_run_unfold [of 2, simplified]

lemmas reset_defs = resetNsCounter_def resetProcNsCounter_def

lemma sync_alone:
  "call_run 8 env (S_Lease Fds ns limit batch) s =
     (case SyncNamespace env ns limit batch s of (e, s') \<Rightarrow> (Returned e, s'))"
proof -
  let ?key = "NamespaceKey ns"
  obtain eff s1 where 1: "lease_limit env ns limit batch s = (eff, s1)" by fastforce
  obtain b2 s2 where 2: "updateNsLimit env ?key eff s1 = (b2, s2)" by fastforce
  obtain b3 s3 where 3: "store_lease env ?key (reset_lease eff (fd_ns_counter (bpf s2) ?key)) s2 = (b3, s3)"
    by fastforce
  show ?thesis
  proof (cases "b2 \<and> b3 \<and> en_pods env (world s3) ns \<noteq> None")
    case True
    then obtain pods where pods: "b2" "b3" "en_pods env (world s3) ns = Some pods" by blast
    obtain x known s4 where 4: "map_pods env (updateCgroupMapping env) ?key pods []
        (s3\<lparr>nsNameByKey := (nsNameByKey s3)(?key \<mapsto> ns)\<rparr>) = (x, known, s4)"
      by (rule prod_cases3)
    show ?thesis
      by (cases x) (simp_all add: call_run_8 call_run_2 call_run_1 SyncNamespace_def reset_defs Let_def 1 2 3 pods 4
          split: option.split)
  next
    case False
    then show ?thesis
      by (cases b2; cases b3) (simp_all add: call_run_8 call_run_2 call_run_1 SyncNamespace_def reset_defs Let_def 1 2 3)
  qed
qed

lemma sync_proc_alone:
  "call_run 8 env (S_Lease Procs ns limit batch) s =
     (case SyncProcessNamespace env ns limit batch s of (e, s') \<Rightarrow> (Returned e, s'))"
proof -
  let ?key = "NamespaceKey ns"
  obtain eff s1 where 1: "lease_limit env (ns @ ''-proc'') limit batch s = (eff, s1)" by fastforce
  obtain b2 s2 where 2: "updateProcNsLimit env ?key eff s1 = (b2, s2)" by fastforce
  obtain b3 s3 where 3: "store_proc_lease env ?key (reset_lease eff (proc_ns_counter (bpf s2) ?key)) s2 = (b3, s3)"
    by fastforce
  show ?thesis
  proof (cases "b2 \<and> b3 \<and> en_pods env (world s3) ns \<noteq> None")
    case True
    then obtain pods where pods: "b2" "b3" "en_pods env (world s3) ns = Some pods" by blast
    obtain x known s4 where 4: "map_pods env (updateProcCgroupMapping env) ?key pods []
        (s3\<lparr>nsNameByKey := (nsNameByKey s3)(?key \<mapsto> ns)\<rparr>) = (x, known, s4)"
      by (rule prod_cases3)
    show ?thesis
      by (cases x) (simp_all add: call_run_8 call_run_2 call_run_1 SyncProcessNamespace_def reset_defs Let_def 1 2 3 pods 4
          split: option.split)
  next
    case False
    then show ?thesis
      by (cases b2; cases b3) (simp_all add: call_run_8 call_run_2 call_run_1 SyncProcessNamespace_def reset_defs Let_def 1 2 3)
  qed
qed

lemma release_both: "release_all env ns s = release_one env (ns @ ''-proc'') (release_one env ns s)"
  by (simp add: release_all_def release_one_def Let_def split: option.split)

lemma remove_alone:
  "call_run 8 env (R_Release ns) s = (Returned None, RemoveNamespace env ns s)"
proof -
  let ?key = "NamespaceKey ns"
  define u where "u = deleteProcNsCounter ?key (deleteProcNsLimit ?key (deleteNsCounter ?key
    (deleteNsLimit ?key (release_all env ns s))))"
  have "call_run 8 env (R_Release ns) s = call_run 2 env (R_Unmap ns) u"
    by (simp add: call_run_8 u_def release_both)
  also have "\<dots> = (Returned None, RemoveNamespace env ns s)"
    unfolding RemoveNamespace_def Let_def u_def [symmetric]
    by (cases "map_of (nsCgroups u) ns") (simp_all add: call_run_2 call_run_1 Let_def)
  finally show ?thesis .
qed

section \<open>Goroutines\<close>

text \<open>
  What a reconciler has to do: for each quota the calls of \<^verbatim>\<open>SyncFromQuota\<close>, in order, an error
  of one ending those of its quota; \<^verbatim>\<open>SyncNamespaceFromQuota\<close> goes on with the next quota.
\<close>

definition calls_of :: "ObjectQuota \<Rightarrow> call list" where
  "calls_of quota =
     (let ns = oq_namespace quota;
          batch = (case LeaseBatchSize (Spec quota) of None \<Rightarrow> 0 | Some b \<Rightarrow> b) in
      (case FileDescriptors (Spec quota) of None \<Rightarrow> [] | Some limit \<Rightarrow> [S_Lease Fds ns limit batch]) @
      (case Processes (Spec quota) of None \<Rightarrow> [] | Some limit \<Rightarrow> [S_Lease Procs ns limit batch]) @
      (if FileDescriptors (Spec quota) = None \<and> Processes (Spec quota) = None
       then [R_Release ns] else []))"

type_synonym goroutine = "call list list"

fun work_step :: "'w env \<Rightarrow> goroutine \<Rightarrow> 'w syncer \<Rightarrow> goroutine \<times> 'w syncer" where
  "work_step env [] s = ([], s)"
| "work_step env ([] # qs) s = (qs, s)"
| "work_step env ((Returned None # cs) # qs) s = (cs # qs, s)"
| "work_step env ((Returned (Some e) # cs) # qs) s = (qs, s)"
| "work_step env ((c # cs) # qs) s = (case call_step env c s of (c, s) \<Rightarrow> ((c # cs) # qs, s))"

fun work_run :: "nat \<Rightarrow> 'w env \<Rightarrow> goroutine \<Rightarrow> 'w syncer \<Rightarrow> goroutine \<times> 'w syncer" where
  "work_run 0 env w s = (w, s)"
| "work_run (Suc n) env w s = (case work_step env w s of (w, s) \<Rightarrow> work_run n env w s)"

lemma work_run_idle [simp]: "work_run n env [] s = ([], s)"
  by (induction n) auto

lemma work_run_add: "work_run (m + n) env w s = (case work_run m env w s of (w, s) \<Rightarrow> work_run n env w s)"
  by (induction m arbitrary: w s) (auto split: prod.split)

lemma work_step_call:
  "\<nexists>e. c = Returned e \<Longrightarrow> work_step env ((c # cs) # qs) s =
     (case call_step env c s of (c, s) \<Rightarrow> ((c # cs) # qs, s))"
  by (cases c) simp_all

text \<open>A call that returns after \<open>n\<close> steps takes the goroutine to its continuation.\<close>

lemma work_call:
  assumes "call_run n env c s = (Returned e, s')"
  shows "\<exists>k \<le> Suc n. work_run k env ((c # cs) # qs) s = (case e of None \<Rightarrow> cs # qs | Some _ \<Rightarrow> qs, s')"
  using assms
proof (induction n arbitrary: c s)
  case 0
  then show ?case by (intro exI [of _ 1]) (simp split: option.split)
next
  case (Suc n)
  show ?case
  proof (cases "\<exists>e. c = Returned e")
    case True
    with Suc.prems show ?thesis by (intro exI [of _ 1]) (auto split: option.split)
  next
    case False
    obtain c1 s1 where st: "call_step env c s = (c1, s1)" by fastforce
    with Suc.prems have "call_run n env c1 s1 = (Returned e, s')" by simp
    from Suc.IH [OF this] obtain k where k: "k \<le> Suc n"
      "work_run k env ((c1 # cs) # qs) s1 = (case e of None \<Rightarrow> cs # qs | Some _ \<Rightarrow> qs, s')" by blast
    have "work_step env ((c # cs) # qs) s = ((c1 # cs) # qs, s1)"
      using False st by (simp add: work_step_call)
    then show ?thesis using k by (intro exI [of _ "Suc k"]) simp
  qed
qed

definition worked :: "nat \<Rightarrow> 'w env \<Rightarrow> goroutine \<Rightarrow> 'w syncer \<Rightarrow> goroutine \<Rightarrow> 'w syncer \<Rightarrow> bool" where
  "worked n env w s w' s' \<longleftrightarrow> (\<exists>k \<le> n. work_run k env w s = (w', s'))"

lemma worked_trans: "worked m env w s w1 s1 \<Longrightarrow> worked n env w1 s1 w2 s2 \<Longrightarrow> worked (m + n) env w s w2 s2"
  unfolding worked_def by (metis add_mono case_prod_conv work_run_add)

lemma worked_mono: "worked m env w s w' s' \<Longrightarrow> m \<le> n \<Longrightarrow> worked n env w s w' s'"
  unfolding worked_def using order_trans by blast

lemma worked_end: "worked 1 env ([] # qs) s qs s"
  unfolding worked_def by (intro exI [of _ 1]) simp

lemma worked_refl: "worked n env w s w s"
  unfolding worked_def by (intro exI [of _ 0]) simp

lemma worked_sync:
  "SyncNamespace env ns limit batch s = (e, s') \<Longrightarrow>
     worked 9 env ((S_Lease Fds ns limit batch # cs) # qs) s (case e of None \<Rightarrow> cs # qs | Some _ \<Rightarrow> qs) s'"
  "SyncProcessNamespace env ns limit batch s = (e, s') \<Longrightarrow>
     worked 9 env ((S_Lease Procs ns limit batch # cs) # qs) s (case e of None \<Rightarrow> cs # qs | Some _ \<Rightarrow> qs) s'"
  "worked 9 env ((R_Release ns # cs) # qs) s (cs # qs) (RemoveNamespace env ns s)"
  using work_call [of 8 env "S_Lease Fds ns limit batch" s e s' cs qs] sync_alone [of env ns limit batch s]
    work_call [of 8 env "S_Lease Procs ns limit batch" s e s' cs qs] sync_proc_alone [of env ns limit batch s]
    work_call [of 8 env "R_Release ns" s None _ cs qs] remove_alone [of env ns s]
  by (simp_all add: worked_def)

lemma worked_quota:
  "worked 20 env (calls_of q # qs) s qs (snd (SyncFromQuota env q s))"
proof -
  define ns where "ns = oq_namespace q"
  define batch where "batch = (case LeaseBatchSize (Spec q) of None \<Rightarrow> 0 | Some b \<Rightarrow> b)"
  define tail where "tail = (case Processes (Spec q) of None \<Rightarrow> []
      | Some limit \<Rightarrow> [S_Lease Procs ns limit batch]) @
     (if FileDescriptors (Spec q) = None \<and> Processes (Spec q) = None then [R_Release ns] else [])"
  obtain e1 s1 where 1: "(case FileDescriptors (Spec q) of None \<Rightarrow> (None, s)
      | Some limit \<Rightarrow> SyncNamespace env ns limit batch s) = (e1, s1)" by fastforce
  obtain e2 s2 where 2: "(case Processes (Spec q) of None \<Rightarrow> (None, s1)
      | Some limit \<Rightarrow> SyncProcessNamespace env ns limit batch s1) = (e2, s2)" by fastforce
  note seq = 1 [unfolded ns_def batch_def] 2 [unfolded ns_def batch_def]
  have w1: "worked 9 env (calls_of q # qs) s (case e1 of None \<Rightarrow> tail # qs | Some _ \<Rightarrow> qs) s1"
    using 1 worked_sync(1) [of env ns _ batch s e1 s1 tail qs]
    by (cases "FileDescriptors (Spec q)")
      (auto simp: calls_of_def tail_def Let_def worked_refl simp flip: ns_def batch_def)
  show ?thesis
  proof (cases e1)
    case (Some e)
    then show ?thesis
      using worked_trans [OF w1 worked_refl [of 11]] by (simp add: SyncFromQuota_def Let_def seq)
  next
    case e1: None
    have "worked 10 env (tail # qs) s1 qs (snd (SyncFromQuota env q s))"
    proof (cases "Processes (Spec q)")
      case (Some l)
      then have "worked 9 env (tail # qs) s1 (case e2 of None \<Rightarrow> [] # qs | Some _ \<Rightarrow> qs) s2"
        using 2 worked_sync(2) [of env ns l batch s1 e2 s2 "[]" qs] by (simp add: tail_def)
      moreover have "worked 1 env (case e2 of None \<Rightarrow> [] # qs | Some _ \<Rightarrow> qs) s2 qs s2"
        by (cases e2) (simp_all only: option.case worked_end worked_refl)
      ultimately have "worked (9 + 1) env (tail # qs) s1 qs s2" by (rule worked_trans)
      then show ?thesis
        using e1 Some seq(2) by (cases e2) (simp_all add: SyncFromQuota_def Let_def seq(1))
    next
      case None
      show ?thesis
      proof (cases "FileDescriptors (Spec q)")
        case f: None
        have "worked (9 + 1) env (tail # qs) s1 qs (RemoveNamespace env ns s1)"
          by (rule worked_trans [OF _ worked_end])
            (simp add: tail_def None f worked_sync(3))
        then show ?thesis
          using e1 1 None f by (simp add: SyncFromQuota_def Let_def flip: ns_def)
      next
        case (Some l)
        have "worked (1 + 9) env (tail # qs) s1 qs s1"
          by (rule worked_trans [OF _ worked_refl]) (simp add: tail_def None Some worked_end [unfolded One_nat_def])
        then show ?thesis
          using e1 1 None Some by (simp add: SyncFromQuota_def Let_def seq flip: ns_def batch_def)
      qed
    qed
    then have "worked (9 + 10) env (calls_of q # qs) s qs (snd (SyncFromQuota env q s))"
      using w1 e1 by (intro worked_trans [of 9 env _ s "tail # qs" s1 10]) simp_all
    then show ?thesis by (rule worked_mono) simp
  qed
qed

lemma worked_quotas:
  "worked (20 * length qs) env (map calls_of qs) s [] (fold (\<lambda>q s. snd (SyncFromQuota env q s)) qs s)"
proof (induction qs arbitrary: s)
  case (Cons q qs)
  show ?case using worked_trans [OF worked_quota Cons.IH] by simp
qed (simp add: worked_refl)

end
