(* ===== verification/Sync_Race.thy ===== *)
theory Sync_Race
  imports Sync_Steps
begin

text \<open>
  The goroutines of a manager against each other: the worker of the quota controller, the worker
  of the pod controller, the scanner, the breach watcher and the programs of the enforcer take
  turns, a step of \<^verbatim>\<open>Sync_Steps\<close> at a time, each step in surroundings of its own.
\<close>

section \<open>Beginnings\<close>

definition quota_begin ::
  "'w env \<Rightarrow> ('w \<Rightarrow> string \<Rightarrow> string \<Rightarrow> bool) \<Rightarrow> string \<Rightarrow> string \<Rightarrow> 'w syncer \<Rightarrow> goroutine \<times> 'w syncer"
  where
  "quota_begin env not_found ns name s =
     (case get_quota (en_api env) (world s) ns name of
        None \<Rightarrow> (if not_found (world s) ns name then [[R_Release ns]] else [], s)
      | Some quota \<Rightarrow>
          (let g = gauges s; ns = oq_namespace quota in
           ([calls_of quota],
            s\<lparr>gauges := g\<lparr>QuotaReconciles := (QuotaReconciles g)(ns := QuotaReconciles g ns + 1)\<rparr>\<rparr>)))"

definition pod_begin :: "'w env \<Rightarrow> PodStatus option \<Rightarrow> 'w syncer \<Rightarrow> goroutine \<times> 'w syncer" where
  "pod_begin env pod s =
     (case pod of
        None \<Rightarrow> ([], s)
      | Some p \<Rightarrow>
          if ps_phase p = PodRunning \<or> ps_phase p = PodPending
          then (let s = s\<lparr>pod_cache := Invalidate (ps_uid p) (pod_cache s)\<rparr> in
                case list_quotas (en_api env) (world s) of
                  None \<Rightarrow> ([], s)
                | Some qs \<Rightarrow> (map calls_of (filter (\<lambda>q. oq_namespace q = ps_namespace p) qs), s))
          else ([], s))"

text \<open>With nothing in between, a goroutine does what the reconcilers do.\<close>

lemma quota_worked:
  "case quota_begin env not_found ns name s of (w, t) \<Rightarrow>
     worked 20 env w t [] (snd (ObjectQuota_Reconcile env not_found ns name s))"
proof -
  have "worked (9 + 1) env [[R_Release ns]] s [] (RemoveNamespace env ns s)"
    by (rule worked_trans [OF worked_sync(3) worked_end])
  then have "worked 20 env [[R_Release ns]] s [] (RemoveNamespace env ns s)"
    by (rule worked_mono) simp
  then show ?thesis
    by (simp add: quota_begin_def ObjectQuota_Reconcile_def Let_def worked_refl worked_quota
        split: option.split)
qed

lemma pod_worked:
  "case pod_begin env pod s of (w, t) \<Rightarrow>
     worked (20 * length w) env w t [] (fst (Pod_Reconcile env pod s))"
  using worked_quotas
  by (auto simp: pod_begin_def Pod_Reconcile_def SyncNamespaceFromQuota_def Let_def worked_refl
      split: option.split)

section \<open>The scanner, a directory at a time\<close>

definition scan_dir ::
  "'w env \<Rightarrow> string \<Rightarrow> path \<Rightarrow> u64 list \<Rightarrow> 'w syncer \<Rightarrow> (u64 list \<times> 'w syncer) option" where
  "scan_dir env ns dir existing s =
     (case readCgroupID (en_fs env) dir of
        Inl e \<Rightarrow> Some (existing, s)
      | Inr podCg \<Rightarrow>
      if CgroupID podCg \<in> set existing then Some (existing, s)
      else
     (case PodIDFromCgroupPath dir of
        None \<Rightarrow> Some (existing, s)
      | Some uid \<Rightarrow>
     (case en_pods env (world s) ns of
        None \<Rightarrow> Some (existing, s)
      | Some pods \<Rightarrow>
      if \<not> list_ex (\<lambda>p. pod_uid p = replace_char CHR ''_'' CHR ''-'' uid) pods
      then Some (existing, s)
      else scan_infos env ns (podCg # child_cgroups (en_fs env) dir) existing s)))"

lemma scan_dirs_dir:
  "scan_dirs env ns (dir # dirs) existing s =
     (case scan_dir env ns dir existing s of
        None \<Rightarrow> None | Some (existing, s) \<Rightarrow> scan_dirs env ns dirs existing s)"
  by (simp add: scan_dir_def split: sum.split option.split del: scan_infos.simps)

definition scan_begin :: "'w env \<Rightarrow> 'w syncer \<Rightarrow> (string \<times> u64 list \<times> path list) list" where
  "scan_begin env s =
     (if \<not> bpf_loaded s then []
      else map (\<lambda>(ns, ids). (ns, ids, findPodCgroupDirs (en_fs env) [''kubepods.slice'']))
             (nsCgroups s))"

section \<open>The manager\<close>

datatype controller = Quotas | Pods

record 'w manager =
  node :: "'w syncer"
  worker :: "controller \<Rightarrow> goroutine"
  scanner :: "(string \<times> u64 list \<times> path list) list"
  panicked :: bool

datatype 'w act =
    Quota_event "'w env" "'w \<Rightarrow> string \<Rightarrow> string \<Rightarrow> bool" string string
  | Pod_event "'w env" "PodStatus option"
  | Work controller "'w env"
  | Scan_tick "'w env"
  | Scan_dir "'w env"
  | Breach_record "'w env" breach_event
  | Programs "(helpers \<times> hook) list"

text \<open>One turn. A turn that is not possible, or after a panic, changes nothing.\<close>

fun turn :: "'w act \<Rightarrow> 'w manager \<Rightarrow> 'w manager" where
  "turn (Quota_event env not_found ns name) m =
     (if worker m Quotas \<noteq> [] then m
      else case quota_begin env not_found ns name (node m) of
        (w, s) \<Rightarrow> m\<lparr>node := s, worker := (worker m)(Quotas := w)\<rparr>)"
| "turn (Pod_event env pod) m =
     (if worker m Pods \<noteq> [] then m
      else case pod_begin env pod (node m) of
        (w, s) \<Rightarrow> m\<lparr>node := s, worker := (worker m)(Pods := w)\<rparr>)"
| "turn (Work c env) m =
     (case work_step env (worker m c) (node m) of
        (w, s) \<Rightarrow> m\<lparr>node := s, worker := (worker m)(c := w)\<rparr>)"
| "turn (Scan_tick env) m =
     (if scanner m \<noteq> [] then m else m\<lparr>scanner := scan_begin env (node m)\<rparr>)"
| "turn (Scan_dir env) m =
     (case scanner m of
        [] \<Rightarrow> m
      | (ns, ids, []) # todo \<Rightarrow> m\<lparr>scanner := todo\<rparr>
      | (ns, ids, dir # dirs) # todo \<Rightarrow>
          (case scan_dir env ns dir ids (node m) of
             None \<Rightarrow> m\<lparr>panicked := True\<rparr>
           | Some (ids, s) \<Rightarrow> m\<lparr>node := s, scanner := (ns, ids, dirs) # todo\<rparr>))"
| "turn (Breach_record env evt) m = m\<lparr>node := snd (handleBreachEvent env evt (node m))\<rparr>"
| "turn (Programs cs) m = m\<lparr>node := with_bpf (krun cs) (node m)\<rparr>"

fun turns :: "'w act list \<Rightarrow> 'w manager \<Rightarrow> 'w manager" where
  "turns [] m = m"
| "turns (a # as) m = (if panicked m then m else turns as (turn a m))"

definition started :: "'w syncer \<Rightarrow> 'w manager" where
  "started s = \<lparr>node = s, worker = (\<lambda>_. []), scanner = [], panicked = False\<rparr>"

text \<open>What holds of the state and is kept by every turn holds in every run.\<close>

lemma turns_invariant:
  assumes "\<And>a m. I m \<Longrightarrow> I (turn a m)"
  shows "I m \<Longrightarrow> I (turns as m)"
  using assms by (induction as arbitrary: m) auto

lemma turns_append: "turns (as @ bs) m = turns bs (turns as m)"
proof -
  have "panicked m \<Longrightarrow> turns bs m = m" for m :: "'a manager" by (cases bs) auto
  then show ?thesis by (induction as arbitrary: m) auto
qed

section \<open>The books\<close>

lemma resource_books [books]:
  "same_books s (snd (put_limit_of r env key eff s))"
  "same_books s (snd (store_of r env key l s))"
  "keeps_books (map_cgroup_of r env)"
  by (cases r; simp add: books store_lease_def store_proc_lease_def)+

lemma release_one_books [books]: "same_books s (release_one env key s)"
  by (simp add: release_one_def same_books_def split: option.split)

lemma gauges_books [books]: "same_books s (s\<lparr>gauges := g\<rparr>)"
  by (simp add: same_books_def)

lemma map_section_ok:
  assumes "syncer_ok s"
  shows "syncer_ok (snd (call_step env (S_Map r ns eff pods) s))"
proof -
  let ?s = "s\<lparr>nsNameByKey := (nsNameByKey s)(NamespaceKey ns \<mapsto> ns)\<rparr>"
  obtain x known t where m: "map_pods env (map_cgroup_of r env) (NamespaceKey ns) pods [] ?s = (x, known, t)"
    by (rule prod_cases3)
  have d: "distinct known" and t: "same_books ?s t"
    using map_pods_books [OF resource_books(3) m] by auto
  have ok: "books_ok (nsCgroups t) (nsNameByKey t)"
    using t assms books_ok_name by (auto simp: same_books_def syncer_ok_def)
  show ?thesis
    using ok books_ok_track [OF ok d] by (cases x) (simp_all add: m syncer_ok_def)
qed

lemma unmap_section_ok:
  assumes "syncer_ok s"
  shows "syncer_ok (snd (call_step env (R_Unmap ns) s))"
proof -
  have "same_books s (unmap_cgroups cs s)" for cs by (rule unmap_cgroups_books)
  then show ?thesis
    using assms books_ok_forget
    by (simp add: Let_def syncer_ok_def same_books_def split: option.split)
qed

lemma call_step_ok:
  assumes ok: "syncer_ok s"
  shows "syncer_ok (snd (call_step env c s))"
proof -
  have same: "same_books s t \<Longrightarrow> syncer_ok t" for t using ok same_books_ok by blast
  show ?thesis
  proof (cases c)
    case (S_Lease r ns limit batch)
    then show ?thesis
      using same [OF lease_limit_books [of s env "lease_key r ns" limit batch]]
      by (simp add: case_prod_beta)
  next
    case (S_Limit r ns eff)
    then show ?thesis
      using same [OF resource_books(1) [of s r env "NamespaceKey ns" eff]]
      by (cases "put_limit_of r env (NamespaceKey ns) eff s") (simp split: bool.split)
  next
    case (S_Store r ns eff l)
    then show ?thesis
      using same [OF resource_books(2) [of s r env "NamespaceKey ns" l]]
      by (cases "store_of r env (NamespaceKey ns) l s") (simp split: bool.split)
  next
    case (S_Map r ns eff pods)
    with ok show ?thesis by (simp only: map_section_ok)
  next
    case (R_Unmap ns)
    with ok show ?thesis by (simp only: unmap_section_ok)
  qed (use ok in \<open>simp_all add: same books gauges_books split: option.split\<close>)
qed

lemma work_step_ok: "syncer_ok s \<Longrightarrow> syncer_ok (snd (work_step env w s))"
proof (cases "(env, w, s)" rule: work_step.cases)
qed (simp_all add: call_step_ok case_prod_beta del: call_step.simps)

lemma begin_ok:
  "syncer_ok s \<Longrightarrow> syncer_ok (snd (quota_begin env nf ns name s))"
  "syncer_ok s \<Longrightarrow> syncer_ok (snd (pod_begin env pod s))"
  by (simp_all add: quota_begin_def pod_begin_def syncer_ok_def Let_def split: option.split)

text \<open>The locked section of the scanner keeps the books, or it panics.\<close>

lemma scan_infos_ok:
  "syncer_ok s \<Longrightarrow> scan_infos env ns cs existing s = Some (ids, s') \<Longrightarrow> syncer_ok s'"
proof (cases "map_of (nsCgroups s) ns = None")
  case False
  assume "syncer_ok s" "scan_infos env ns cs existing s = Some (ids, s')"
  with scan_infos_total [OF False, of env cs existing] show ?thesis by (auto simp: tracks_more_def)
next
  case True
  assume "syncer_ok s" "scan_infos env ns cs existing s = Some (ids, s')"
  with True show ?thesis
  proof (induction cs arbitrary: existing s)
    case (Cons c cs)
    let ?key = "NamespaceKey ns"
    obtain b1 s1 where 1: "updateCgroupMapping env (CgroupID c) ?key s = (b1, s1)" by fastforce
    obtain b2 s2 where 2: "updateProcCgroupMapping env (CgroupID c) ?key s1 = (b2, s2)" by fastforce
    have s: "same_books s s1" "same_books s1 s2"
      using update_books(5) [of s env "CgroupID c" ?key] update_books(6) [of s1 env "CgroupID c" ?key]
      by (simp_all add: 1 2)
    then have st: "map_of (nsCgroups s1) ns = None \<and> syncer_ok s1"
      "map_of (nsCgroups s2) ns = None \<and> syncer_ok s2"
      using Cons.prems same_books_ok [OF s(1)] same_books_ok [OF s(2)]
      by (simp_all add: same_books_def)
    then show ?case
      using Cons by (auto simp: Let_def 1 2 split: if_splits bool.splits option.splits)
  qed simp
qed

lemma scan_dir_ok:
  "syncer_ok s \<Longrightarrow> scan_dir env ns dir ids s = Some (ids', s') \<Longrightarrow> syncer_ok s'"
  using scan_infos_ok
  by (auto simp: scan_dir_def split: sum.splits if_splits option.splits simp del: scan_infos.simps)

lemma with_bpf_ok: "syncer_ok (with_bpf f s) = syncer_ok s"
  by (simp add: syncer_ok_def with_bpf_def)

lemma turn_ok:
  assumes ok: "syncer_ok (node m)"
  shows "syncer_ok (node (turn a m))"
proof (cases a)
  case (Scan_dir env)
  with ok show ?thesis by (auto split: list.split prod.split option.split dest: scan_dir_ok)
next
  case (Breach_record env evt)
  with ok show ?thesis by (simp add: same_books_ok [OF handleBreachEvent_books])
qed (use ok in \<open>simp_all add: case_prod_beta begin_ok work_step_ok with_bpf_ok\<close>)

lemma turns_ok: "syncer_ok (node m) \<Longrightarrow> syncer_ok (node (turns as m))"
  using turns_invariant [of "\<lambda>m. syncer_ok (node m)"] turn_ok by blast

end
