(* ===== verification/Sync_Company.thy ===== *)
theory Sync_Company
  imports Sync_Race
begin

text \<open>
  What a goroutine of the manager can rely on in company: the steps of the others spare a
  namespace they are not given, and what a synchronisation has achieved stays. And what a scan
  meets when a namespace is removed.
\<close>

section \<open>A synchronisation that is left alone\<close>

fun call_ns :: "call \<Rightarrow> string option" where
  "call_ns (S_Lease r ns limit batch) = Some ns"
| "call_ns (S_Limit r ns eff) = Some ns"
| "call_ns (S_Lookup r ns eff) = Some ns"
| "call_ns (S_Store r ns eff l) = Some ns"
| "call_ns (S_List r ns eff) = Some ns"
| "call_ns (S_Map r ns eff pods) = Some ns"
| "call_ns (S_Gauge r ns eff) = Some ns"
| "call_ns (S_Current r ns) = Some ns"
| "call_ns (R_Release ns) = Some ns"
| "call_ns (R_ReleaseProc ns) = Some ns"
| "call_ns (R_Limit ns) = Some ns"
| "call_ns (R_Counter ns) = Some ns"
| "call_ns (R_ProcLimit ns) = Some ns"
| "call_ns (R_ProcCounter ns) = Some ns"
| "call_ns (R_Unmap ns) = Some ns"
| "call_ns (R_Gauges ns) = Some ns"
| "call_ns (Returned e) = None"

definition concerns :: "u64 \<Rightarrow> call \<Rightarrow> bool" where
  "concerns key c \<longleftrightarrow> (case call_ns c of None \<Rightarrow> False | Some ns \<Rightarrow> NamespaceKey ns = key)"

fun limit_of :: "resource \<Rightarrow> u64 \<Rightarrow> 'w syncer \<Rightarrow> u64 option" where
  "limit_of Fds key s = fd_ns_limit (bpf s) key"
| "limit_of Procs key s = proc_ns_limit (bpf s) key"

text \<open>What a synchronisation has achieved when it reaches a program point.\<close>

definition limit_stored :: "resource \<Rightarrow> string \<Rightarrow> int \<Rightarrow> 'w syncer \<Rightarrow> bool" where
  "limit_stored r ns eff s \<longleftrightarrow> limit_of r (NamespaceKey ns) s = Some (word_of_int eff)"

definition lease_stored :: "resource \<Rightarrow> string \<Rightarrow> 'w syncer \<Rightarrow> bool" where
  "lease_stored r ns s \<longleftrightarrow> lookup_of r (NamespaceKey ns) s \<noteq> None"

definition registered :: "string \<Rightarrow> 'w syncer \<Rightarrow> bool" where
  "registered ns s \<longleftrightarrow>
     nsNameByKey s (NamespaceKey ns) = Some ns \<and> map_of (nsCgroups s) ns \<noteq> None"

fun achieved :: "call \<Rightarrow> 'w syncer \<Rightarrow> bool" where
  "achieved (S_Lookup r ns eff) s = limit_stored r ns eff s"
| "achieved (S_Store r ns eff l) s = limit_stored r ns eff s"
| "achieved (S_List r ns eff) s = (limit_stored r ns eff s \<and> lease_stored r ns s)"
| "achieved (S_Map r ns eff pods) s = (limit_stored r ns eff s \<and> lease_stored r ns s)"
| "achieved (S_Gauge r ns eff) s =
     (limit_stored r ns eff s \<and> lease_stored r ns s \<and> registered ns s)"
| "achieved _ s = True"

text \<open>Nothing of a namespace is taken away or changed.\<close>

definition spares :: "u64 \<Rightarrow> 'w syncer \<Rightarrow> 'w syncer \<Rightarrow> bool" where
  "spares key s s' \<longleftrightarrow>
     (\<forall>r. limit_of r key s' = limit_of r key s) \<and>
     (\<forall>r. lookup_of r key s \<noteq> None \<longrightarrow> lookup_of r key s' \<noteq> None) \<and>
     nsNameByKey s' key = nsNameByKey s key \<and>
     (\<forall>ns. NamespaceKey ns = key \<longrightarrow> map_of (nsCgroups s) ns \<noteq> None \<longrightarrow>
        map_of (nsCgroups s') ns \<noteq> None) \<and>
     bpf_loaded s' = bpf_loaded s"

lemma spares_refl [simp]: "spares key s s" by (simp add: spares_def)

lemma spares_trans: "spares key s t \<Longrightarrow> spares key t u \<Longrightarrow> spares key s u"
  by (simp add: spares_def)

lemma achieved_spared:
  "spares key s s' \<Longrightarrow> concerns key c \<Longrightarrow> achieved c s \<Longrightarrow> achieved c s'"
  by (cases c) (auto simp: spares_def concerns_def limit_stored_def lease_stored_def registered_def)

lemma resource_all: "(\<forall>r. P r) \<longleftrightarrow> P Fds \<and> P Procs"
  by (metis resource.exhaust)

lemma spares_same:
  "bpf s' = bpf s \<Longrightarrow> nsCgroups s' = nsCgroups s \<Longrightarrow> nsNameByKey s' = nsNameByKey s \<Longrightarrow>
   bpf_loaded s' = bpf_loaded s \<Longrightarrow> spares key s s'"
  by (simp add: spares_def resource_all)

lemma spares_put:
  assumes "\<And>k. fd_ns_limit (f k) key = fd_ns_limit k key \<and> proc_ns_limit (f k) key = proc_ns_limit k key \<and>
    (fd_ns_counter k key \<noteq> None \<longrightarrow> fd_ns_counter (f k) key \<noteq> None) \<and>
    (proc_ns_counter k key \<noteq> None \<longrightarrow> proc_ns_counter (f k) key \<noteq> None)"
  shows "spares key s (del_map f s)" "spares key s (snd (put_map env kind k f s))"
proof -
  show "spares key s (del_map f s)"
    using assms by (simp add: spares_def resource_all del_map_bpf)
  then show "spares key s (snd (put_map env kind k f s))"
    by (cases rule: put_map_cases [of env kind k f s]) simp_all
qed

lemma map_section_only:
  assumes "map_pods env (map_cgroup_of r env) key pods known s = (x, known', t)"
  shows "fd_ns_limit (bpf t) = fd_ns_limit (bpf s) \<and> proc_ns_limit (bpf t) = proc_ns_limit (bpf s) \<and>
    fd_ns_counter (bpf t) = fd_ns_counter (bpf s) \<and> proc_ns_counter (bpf t) = proc_ns_counter (bpf s) \<and>
    nsCgroups t = nsCgroups s \<and> nsNameByKey t = nsNameByKey s \<and> bpf_loaded t = bpf_loaded s"
proof (cases r)
  case Fds
  with fd_maps.map_pods_only [of env key pods known s x known' t] assms show ?thesis
    by (auto simp: maps_only_def view_defs)
next
  case Procs
  with proc_maps.map_pods_only [of env key pods known s x known' t] assms show ?thesis
    by (auto simp: maps_only_def view_defs)
qed

lemma unmap_section_only:
  "fd_ns_limit (bpf (unmap_cgroups cs s)) = fd_ns_limit (bpf s) \<and>
   proc_ns_limit (bpf (unmap_cgroups cs s)) = proc_ns_limit (bpf s) \<and>
   fd_ns_counter (bpf (unmap_cgroups cs s)) = fd_ns_counter (bpf s) \<and>
   proc_ns_counter (bpf (unmap_cgroups cs s)) = proc_ns_counter (bpf s) \<and>
   nsCgroups (unmap_cgroups cs s) = nsCgroups s \<and> nsNameByKey (unmap_cgroups cs s) = nsNameByKey s \<and>
   bpf_loaded (unmap_cgroups cs s) = bpf_loaded s"
  using unmap_cgroups_exact [of cs s] unmap_cgroups_books [of s cs]
  by (auto simp: drop_cgroups_def same_books_def)

lemma release_one_same:
  "bpf (release_one env k s) = bpf s" "nsCgroups (release_one env k s) = nsCgroups s"
  "nsNameByKey (release_one env k s) = nsNameByKey s" "bpf_loaded (release_one env k s) = bpf_loaded s"
  by (simp_all add: release_one_def split: option.split)

lemma spares_other_puts:
  assumes "k \<noteq> key"
  shows "spares key s (snd (put_limit_of r env k eff s))" "spares key s (snd (store_of r env k l s))"
    "spares key s (deleteNsLimit k s)" "spares key s (deleteNsCounter k s)"
    "spares key s (deleteProcNsLimit k s)" "spares key s (deleteProcNsCounter k s)"
  using assms
  by (cases r; simp add: updateNsLimit_def updateProcNsLimit_def store_lease_def store_proc_lease_def
      delete_defs spares_put)+

lemma spares_lease: "spares key s (snd (lease_limit env k limit batch s))"
proof -
  obtain eff t where e: "lease_limit env k limit batch s = (eff, t)" by fastforce
  show ?thesis using lease_limit_bpf [OF e] by (simp add: e spares_same)
qed

lemma spares_call_step:
  assumes "\<not> concerns key c"
  shows "spares key s (snd (call_step env c s))"
proof (cases c)
  case (S_Lease r ns limit batch)
  then show ?thesis
    using spares_lease [of key s env "lease_key r ns" limit batch] by (simp add: case_prod_beta)
next
  case (S_Limit r ns eff)
  with assms have "spares key s (snd (put_limit_of r env (NamespaceKey ns) eff s))"
    by (simp add: concerns_def spares_other_puts)
  with S_Limit show ?thesis
    by (cases "put_limit_of r env (NamespaceKey ns) eff s") (simp split: bool.split)
next
  case (S_Store r ns eff l)
  with assms have "spares key s (snd (store_of r env (NamespaceKey ns) l s))"
    by (simp add: concerns_def spares_other_puts)
  with S_Store show ?thesis
    by (cases "store_of r env (NamespaceKey ns) l s") (simp split: bool.split)
next
  case (S_Map r ns eff pods)
  let ?s = "s\<lparr>nsNameByKey := (nsNameByKey s)(NamespaceKey ns \<mapsto> ns)\<rparr>"
  obtain x known t where m:
    "map_pods env (map_cgroup_of r env) (NamespaceKey ns) pods [] ?s = (x, known, t)"
    by (rule prod_cases3)
  from S_Map assms have "NamespaceKey ns \<noteq> key" by (simp add: concerns_def)
  with S_Map map_section_only [OF m] show ?thesis
    by (cases x) (auto simp: m spares_def resource_all update_conv)
next
  case (R_Unmap ns)
  with assms have "NamespaceKey ns \<noteq> key" by (simp add: concerns_def)
  with R_Unmap show ?thesis
    using unmap_section_only [of _ s]
    by (auto simp: spares_def resource_all Let_def delete_conv split: option.split)
qed (use assms in \<open>auto simp: spares_same release_one_same concerns_def
      spares_other_puts split: option.split\<close>)

text \<open>The call's own steps.\<close>

lemma put_limit_stored:
  "bpf_loaded s \<Longrightarrow> put_limit_of r env (NamespaceKey ns) eff s = (True, s') \<Longrightarrow> limit_stored r ns eff s'"
  by (cases r) (auto simp: limit_stored_def updateNsLimit_def updateProcNsLimit_def put_map_def
      with_bpf_def split: if_splits)

lemma store_stored:
  "bpf_loaded s \<Longrightarrow> store_of r env (NamespaceKey ns) l s = (True, s') \<Longrightarrow>
     lease_stored r ns s' \<and> (limit_stored r ns eff s \<longrightarrow> limit_stored r ns eff s')"
  by (cases r) (auto simp: limit_stored_def lease_stored_def store_lease_def store_proc_lease_def
      put_map_def with_bpf_def split: if_splits)

lemma map_section_achieved:
  assumes "limit_stored r ns eff s" "lease_stored r ns s"
    and "call_step env (S_Map r ns eff pods) s = (c', s')"
  shows "achieved c' s'"
proof -
  let ?s = "s\<lparr>nsNameByKey := (nsNameByKey s)(NamespaceKey ns \<mapsto> ns)\<rparr>"
  obtain x known t where m:
    "map_pods env (map_cgroup_of r env) (NamespaceKey ns) pods [] ?s = (x, known, t)"
    by (rule prod_cases3)
  show ?thesis
  proof (cases x)
    case None
    with assms(3) have "c' = S_Gauge r ns eff" "s' = t\<lparr>nsCgroups := AList.update ns known (nsCgroups t)\<rparr>"
      by (simp_all add: m)
    with assms(1,2) map_section_only [OF m] show ?thesis
      by (cases r) (simp_all add: limit_stored_def lease_stored_def registered_def update_conv)
  next
    case (Some e)
    with assms(3) show ?thesis by (auto simp: m)
  qed
qed

lemma call_step_achieved:
  assumes "bpf_loaded s" "achieved c s" "call_step env c s = (c', s')"
  shows "achieved c' s'"
proof (cases c)
  case (S_Limit r ns eff)
  with assms put_limit_stored [of s r env ns eff] show ?thesis
    by (auto split: prod.splits bool.splits)
next
  case (S_Store r ns eff l)
  with assms store_stored [of s r env ns l] show ?thesis
    by (auto split: prod.splits bool.splits)
next
  case (S_Map r ns eff pods)
  with assms map_section_achieved show ?thesis by auto
qed (use assms in \<open>auto split: prod.splits option.splits\<close>)

lemma call_step_loaded: "bpf_loaded (snd (call_step env c s)) = bpf_loaded s"
proof (cases "\<exists>key. \<not> concerns key c")
  case True
  then show ?thesis using spares_call_step spares_def by blast
next
  case False
  then have "concerns 0 c" "concerns 1 c" by blast+
  then show ?thesis by (auto simp: concerns_def split: option.splits)
qed

text \<open>The calls a goroutine has not begun have achieved nothing yet.\<close>

fun fresh :: "call \<Rightarrow> bool" where
  "fresh (S_Lease r ns limit batch) = True"
| "fresh (R_Release ns) = True"
| "fresh _ = False"

fun worker_inv :: "u64 \<Rightarrow> goroutine \<Rightarrow> 'w syncer \<Rightarrow> bool" where
  "worker_inv key [] s = True"
| "worker_inv key ([] # qs) s = list_all (list_all fresh) qs"
| "worker_inv key ((c # cs) # qs) s =
     ((concerns key c \<longrightarrow> achieved c s) \<and> list_all fresh cs \<and> list_all (list_all fresh) qs)"

lemma fresh_achieved: "fresh c \<Longrightarrow> achieved c s"
  by (cases c) auto

lemma worker_inv_fresh: "list_all (list_all fresh) w \<Longrightarrow> worker_inv key w s"
  by (cases "(key, w, s)" rule: worker_inv.cases) (auto simp: fresh_achieved)

lemma worker_inv_spared: "spares key s s' \<Longrightarrow> worker_inv key w s \<Longrightarrow> worker_inv key w s'"
  by (cases "(key, w, s)" rule: worker_inv.cases) (auto intro: achieved_spared)

lemma call_step_ns: "call_step env c s = (c', s') \<Longrightarrow> concerns key c' \<Longrightarrow> concerns key c"
  by (cases c) (auto simp: concerns_def Let_def split: prod.splits bool.splits option.splits)

lemma work_step_inv:
  assumes "bpf_loaded s" "worker_inv key w s" "work_step env w s = (w', s')"
  shows "worker_inv key w' s'"
proof (cases "\<exists>c cs qs. w = (c # cs) # qs \<and> (\<nexists>e. c = Returned e)")
  case True
  then obtain c cs qs where w: "w = (c # cs) # qs" "\<nexists>e. c = Returned e" by blast
  obtain c1 s1 where st: "call_step env c s = (c1, s1)" by fastforce
  with assms(3) w have "w' = (c1 # cs) # qs" "s' = s1" by (simp_all add: work_step_call)
  with assms(1,2) w(1) show ?thesis
    using call_step_achieved [OF assms(1) _ st] call_step_ns [OF st] by auto
next
  case False
  with assms(2,3) show ?thesis
    by (cases "(env, w, s)" rule: work_step.cases)
      (auto intro!: worker_inv_fresh [where w = "_ # _"] worker_inv_fresh)
qed

text \<open>What the others do, unless they are given the same namespace.\<close>

fun rival :: "controller \<Rightarrow> controller" where
  "rival Quotas = Pods"
| "rival Pods = Quotas"

fun undisturbed :: "u64 \<Rightarrow> controller \<Rightarrow> 'w act list \<Rightarrow> 'w manager \<Rightarrow> bool" where
  "undisturbed key c [] m = True"
| "undisturbed key c (a # as) m =
     (list_all (list_all (\<lambda>x. \<not> concerns key x)) (worker m (rival c)) \<and>
      undisturbed key c as (turn a m))"

lemma spares_work_step:
  assumes "list_all (list_all (\<lambda>x. \<not> concerns key x)) w"
  shows "spares key s (snd (work_step env w s))"
  using assms
  by (cases "(env, w, s)" rule: work_step.cases)
    (simp_all add: case_prod_beta spares_call_step del: call_step.simps)

lemma work_step_loaded: "bpf_loaded (snd (work_step env w s)) = bpf_loaded s"
  by (cases "(env, w, s)" rule: work_step.cases)
    (simp_all add: case_prod_beta call_step_loaded del: call_step.simps)

lemma spares_programs: "spares key s (with_bpf (krun cs) s)"
proof -
  have "fd_ns_counter (krun cs (bpf s)) key \<noteq> None \<longleftrightarrow> fd_ns_counter (bpf s) key \<noteq> None"
    "proc_ns_counter (krun cs (bpf s)) key \<noteq> None \<longleftrightarrow> proc_ns_counter (bpf s) key \<noteq> None"
    using krun_leases [of cs "bpf s"] by (auto simp: dom_def)
  then show ?thesis by (simp add: spares_def resource_all with_bpf_def krun_limits)
qed

lemma spares_breach: "spares key s (snd (handleBreachEvent env evt s))"
  by (simp add: handleBreachEvent_def Let_def spares_same split: option.split)

lemma spares_begin:
  "spares key s (snd (quota_begin env nf ns name s))" "spares key s (snd (pod_begin env pod s))"
  by (simp_all add: quota_begin_def pod_begin_def Let_def spares_same split: option.split)

lemma begin_fresh:
  "list_all (list_all fresh) (fst (quota_begin env nf ns name s))"
  "list_all (list_all fresh) (fst (pod_begin env pod s))"
proof -
  have "list_all fresh (calls_of q)" for q
    by (simp add: calls_of_def Let_def split: option.split)
  then show "list_all (list_all fresh) (fst (quota_begin env nf ns name s))"
    "list_all (list_all fresh) (fst (pod_begin env pod s))"
    by (simp_all add: quota_begin_def pod_begin_def Let_def list_all_iff split: option.split)
qed

lemma spares_scan_infos:
  "scan_infos env ns cs existing s = Some (ids, s') \<Longrightarrow> spares key s s'"
proof (induction cs arbitrary: existing s)
  case (Cons c cs)
  obtain b1 s1 where 1: "updateCgroupMapping env (CgroupID c) (NamespaceKey ns) s = (b1, s1)" by fastforce
  obtain b2 s2 where 2: "updateProcCgroupMapping env (CgroupID c) (NamespaceKey ns) s1 = (b2, s2)" by fastforce
  have "spares key s s1" "spares key s1 s2"
    using spares_put(2) [of "\<lambda>k. k\<lparr>fd_cgroup := en_lru env (fd_cgroup k) (CgroupID c) (NamespaceKey ns)\<rparr>"
        key s env MapFDCgroup "CgroupID c"]
      spares_put(2) [of "\<lambda>k. k\<lparr>proc_cgroup := en_lru env (proc_cgroup k) (CgroupID c) (NamespaceKey ns)\<rparr>"
        key s1 env MapProcCgroup "CgroupID c"] 1 2
    by (simp_all add: updateCgroupMapping_def updateProcCgroupMapping_def)
  note s = this spares_trans [OF this]
  have "spares key s2 (s2\<lparr>nsCgroups := AList.update ns l (nsCgroups s2), cgroupPaths := p\<rparr>)" for l p
    by (auto simp: spares_def resource_all update_conv)
  note t = spares_trans [OF s(3) this]
  from Cons.prems show ?case
    by (auto simp: Let_def 1 2 split: if_splits bool.splits option.splits
        dest!: Cons.IH intro: spares_trans s t)
qed simp

lemma spares_scan_dir: "scan_dir env ns dir ids s = Some (ids', s') \<Longrightarrow> spares key s s'"
  using spares_scan_infos
  by (auto simp: scan_dir_def split: sum.splits if_splits option.splits simp del: scan_infos.simps)

lemma rival_neq: "c' \<noteq> c \<Longrightarrow> c' = rival c"
  by (cases c; cases c') simp_all

text \<open>Any turn spares the namespace, except the own ones of the goroutine.\<close>

lemma turn_spares:
  assumes "list_all (list_all (\<lambda>x. \<not> concerns key x)) (worker m (rival c))" "\<nexists>env. a = Work c env"
  shows "spares key (node m) (node (turn a m))"
proof (cases a)
  case (Work c' env)
  with assms rival_neq [of c' c] show ?thesis
    by (simp add: case_prod_beta spares_work_step)
next
  case (Scan_dir env)
  then show ?thesis by (auto split: list.split prod.split option.split dest: spares_scan_dir)
qed (simp_all add: case_prod_beta spares_begin spares_breach spares_programs)

lemma turn_inv:
  assumes "list_all (list_all (\<lambda>x. \<not> concerns key x)) (worker m (rival c))"
    and "bpf_loaded (node m)" "worker_inv key (worker m c) (node m)"
  shows "bpf_loaded (node (turn a m)) \<and> worker_inv key (worker (turn a m) c) (node (turn a m))"
proof (cases "\<exists>env. a = Work c env")
  case True
  then obtain env where a: "a = Work c env" by blast
  obtain w s where st: "work_step env (worker m c) (node m) = (w, s)" by fastforce
  show ?thesis
    using work_step_inv [OF assms(2,3) st] work_step_loaded [of env "worker m c" "node m"] assms(2)
    by (simp add: a st)
next
  case False
  note sp = turn_spares [OF assms(1) False]
  have "worker (turn a m) c = worker m c \<or> list_all (list_all fresh) (worker (turn a m) c)"
    using False
    by (cases a) (simp_all add: case_prod_beta begin_fresh split: list.split option.split)
  then show ?thesis
    using worker_inv_spared [OF sp assms(3)] worker_inv_fresh sp assms(2)
    by (auto simp: spares_def)
qed

lemma turns_inv:
  "undisturbed key c as m \<Longrightarrow> bpf_loaded (node m) \<Longrightarrow> worker_inv key (worker m c) (node m) \<Longrightarrow>
     worker_inv key (worker (turns as m) c) (node (turns as m))"
proof (induction as arbitrary: m)
  case (Cons a as)
  then show ?case using turn_inv [of key m c a] by simp
qed simp

section \<open>A scan and a removal\<close>

lemma scan_infos_untracked:
  assumes "accepts env" "CgroupID c \<notin> set existing" "map_of (nsCgroups s) ns = None"
  shows "scan_infos env ns (c # cs) existing s = None"
proof -
  let ?key = "NamespaceKey ns"
  have accepted: "put_map env kind key f t = (True, if bpf_loaded t then with_bpf f t else t)"
    for kind key f and t :: "'a syncer"
    using assms(1) by (simp add: put_map_def accepts_def)
  obtain s1 where 1: "updateCgroupMapping env (CgroupID c) ?key s = (True, s1)"
    by (simp add: updateCgroupMapping_def accepted)
  obtain s2 where 2: "updateProcCgroupMapping env (CgroupID c) ?key s1 = (True, s2)"
    by (simp add: updateProcCgroupMapping_def accepted)
  have "nsCgroups s2 = nsCgroups s"
    using update_books(5) [of s env "CgroupID c" ?key] update_books(6) [of s1 env "CgroupID c" ?key]
    by (simp add: 1 2 same_books_def)
  then show ?thesis using assms(2,3) by (simp add: Let_def 1 2)
qed

lemma unmap_section_untracks: "map_of (nsCgroups (snd (call_step env (R_Unmap ns) s))) ns = None"
  by (simp add: Let_def delete_conv split: option.split)

text \<open>A directory of a tracked namespace that the scanner would map.\<close>

definition would_map :: "'w env \<Rightarrow> 'w \<Rightarrow> string \<Rightarrow> path \<Rightarrow> u64 list \<Rightarrow> bool" where
  "would_map env w ns dir ids =
     (case (readCgroupID (en_fs env) dir, PodIDFromCgroupPath dir, en_pods env w ns) of
        (Inr podCg, Some uid, Some pods) \<Rightarrow>
          CgroupID podCg \<notin> set ids \<and> list_ex (\<lambda>p. pod_uid p = replace_char CHR ''_'' CHR ''-'' uid) pods
      | _ \<Rightarrow> False)"

lemma scan_dir_untracked:
  assumes "accepts env" "would_map env (world s) ns dir ids" "map_of (nsCgroups s) ns = None"
  shows "scan_dir env ns dir ids s = None"
  using assms scan_infos_untracked [OF assms(1) _ assms(3)]
  by (auto simp: would_map_def scan_dir_def split: sum.splits option.splits simp del: scan_infos.simps)

lemma removal_kills_scan:
  assumes "\<not> panicked m" "worker m Quotas = (R_Unmap ns # cs) # qs" "accepts env"
    and "scanner m = (ns, ids, dir # dirs) # todo" "would_map env (world (node m)) ns dir ids"
  shows "panicked (turns [Work Quotas env', Scan_dir env] m)"
proof -
  let ?s = "snd (call_step env' (R_Unmap ns) (node m))"
  have "world (unmap_cgroups l (node m)) = world (node m)" for l
    using unmap_cgroups_exact [of l "node m"] by blast
  then have "world ?s = world (node m)" by (simp add: Let_def split: option.split)
  then have "scan_dir env ns dir ids ?s = None"
    using assms scan_dir_untracked unmap_section_untracks by metis
  then show ?thesis
    using assms by (simp add: case_prod_beta del: call_step.simps)
qed

end
