(* ===== verification/Sync_Race_Props.thy ===== *)
theory Sync_Race_Props
  imports Sync_Company
begin

text \<open>
  Properties of the goroutines of a manager together: alone they are the reconcilers; in every
  interleaving the books stay consistent and a synchronisation that no other goroutine meets
  on its namespace takes effect; a removal in the middle of one leaves a limit without a quota.
\<close>

text \<open>(C18)
  Run without interference, the step-by-step goroutines end in the states the two reconcilers
  compute: after at most 20 steps for each quota.
\<close>

theorem goroutines_alone:
  "(case quota_begin env not_found ns name s of (w, t) \<Rightarrow>
      \<exists>k \<le> 20. work_run k env w t = ([], snd (ObjectQuota_Reconcile env not_found ns name s))) \<and>
   (case pod_begin env pod s of (w, t) \<Rightarrow>
      \<exists>k \<le> 20 * length w. work_run k env w t = ([], fst (Pod_Reconcile env pod s)))"
  using quota_worked [of env not_found ns name s] pod_worked [of env pod s]
  by (simp add: worked_def case_prod_beta)

definition tight_quota :: ObjectQuota where
  "tight_quota = (named_quota ''limits'')
     \<lparr>Spec := \<lparr>FileDescriptors = Some 1, Processes = None, LeaseBatchSize = None\<rparr>\<rparr>"

definition quota_env :: "ObjectQuota list \<Rightarrow> unit env" where
  "quota_env qs = (ex_env [ex_pod])\<lparr>en_api := (en_api (ex_env []))
     \<lparr>get_quota := (\<lambda>w ns n. List.find (\<lambda>q. oq_name q = n) qs), list_quotas := (\<lambda>w. Some qs)\<rparr>\<rparr>"

definition pod_update :: PodStatus where
  "pod_update = \<lparr>ps_namespace = ''team'', ps_uid = ''1'', ps_phase = PodRunning, ps_exit_codes = []\<rparr>"

definition first_sync :: "unit act list" where
  "first_sync = Quota_event (quota_env [tight_quota]) (\<lambda>w ns n. False) ''team'' ''limits'' #
     replicate 10 (Work Quotas (quota_env [tight_quota]))"



section \<open>A synchronisation in company\<close>


definition busy_sync :: "unit act list" where
  "busy_sync =
     [Quota_event (quota_env [tight_quota]) (\<lambda>w ns n. False) ''team'' ''limits'',
      Pod_event (quota_env []) (Some (pod_update\<lparr>ps_namespace := ''other''\<rparr>))] @
     concat (replicate 6 [Work Quotas (quota_env [tight_quota]), Scan_tick (ex_env []),
       Programs [(ex_helpers 5, Fd_install)], Scan_dir (ex_env []), Work Pods (ex_env [])])"


section \<open>A removal in the middle\<close>

text \<open>
  A pod event begins to synchronise; the quota is deleted and its namespace removed; the pod
  event goes on, and another one follows.
\<close>

definition overtaken :: "unit act list" where
  "overtaken =
     [Pod_event (quota_env [tight_quota]) (Some pod_update), Work Pods (quota_env [tight_quota]),
      Quota_event (quota_env []) (\<lambda>w ns n. True) ''team'' ''limits''] @
     replicate 10 (Work Quotas (quota_env [])) @ replicate 9 (Work Pods (quota_env [])) @
     [Pod_event (quota_env []) (Some pod_update)]"


definition second_pod :: "unit env" where
  "second_pod = (quota_env [])\<lparr>en_pods := (\<lambda>w ns. Some [ex_pod\<lparr>pod_uid := ''2''\<rparr>]),
     en_fs := CDir 1 [(''kubepods.slice'', CDir 2 [(''kubepods-pod2.slice'', CDir 9 [])])]\<rparr>"

definition overtaken_scan :: "unit act list" where
  "overtaken_scan = first_sync @
     [Scan_tick second_pod, Quota_event second_pod (\<lambda>w ns n. True) ''team'' ''limits''] @
     replicate 6 (Work Quotas second_pod)"


end
