(* ===== verification/Cluster.thy ===== *)
theory Cluster
  imports Node_Props
begin

text \<open>
  The nodes of a cluster on one API server, in runs: synchronisations of one namespace by any node,
  in any order and any number of times, with the programs of the enforcer in between.
\<close>

section \<open>The cluster\<close>

text \<open>
  \<open>cl_last\<close> keeps of each node the answer its leaser gave to its last synchronisation of
  descriptors and how that ended.
\<close>

record 'w cluster =
  cl_world :: 'w
  cl_node :: "string \<Rightarrow> 'w syncer"
  cl_last :: "string \<Rightarrow> ((lease_error + int) \<times> sync_error option) option"

datatype 'w cluster_op =
    Sync_fds "'w env" int
  | Sync_procs "'w env" int int
  | Hooks string "(helpers \<times> hook) list"

definition lease_answer :: "'w env \<Rightarrow> string \<Rightarrow> int \<Rightarrow> 'w \<Rightarrow> lease_error + int" where
  "lease_answer env ns batch w =
     (case en_leaser env of
        None \<Rightarrow> Inl GetFailed
      | Some m \<Rightarrow> fst (RequestLease (en_api env) m ns (en_node env) batch (en_now env) w))"

text \<open>
  The environment of a synchronisation names its node. The state of the API server goes from one
  to the next.
\<close>

fun cluster_step :: "string \<Rightarrow> int \<Rightarrow> 'w cluster_op \<Rightarrow> 'w cluster \<Rightarrow> 'w cluster" where
  "cluster_step ns limit (Sync_fds env batch) c =
     (let n = en_node env in
      case SyncNamespace env ns limit batch ((cl_node c n)\<lparr>world := cl_world c\<rparr>) of (e, s) \<Rightarrow>
        c\<lparr>cl_world := world s, cl_node := (cl_node c)(n := s),
          cl_last := (cl_last c)(n \<mapsto> (lease_answer env ns batch (cl_world c), e))\<rparr>)"
| "cluster_step ns limit (Sync_procs env procs batch) c =
     (let n = en_node env in
      case SyncProcessNamespace env ns procs batch ((cl_node c n)\<lparr>world := cl_world c\<rparr>) of (e, s) \<Rightarrow>
        c\<lparr>cl_world := world s, cl_node := (cl_node c)(n := s)\<rparr>)"
| "cluster_step ns limit (Hooks n cs) c =
     c\<lparr>cl_node := (cl_node c)(n := with_bpf (krun cs) (cl_node c n))\<rparr>"

definition cluster_run :: "string \<Rightarrow> int \<Rightarrow> 'w cluster_op list \<Rightarrow> 'w cluster \<Rightarrow> 'w cluster" where
  "cluster_run ns limit ops c = fold (cluster_step ns limit) ops c"

definition enforces :: "u64 \<Rightarrow> 'w syncer \<Rightarrow> int" where
  "enforces key s = (case fd_ns_limit (bpf s) key of None \<Rightarrow> 0 | Some l \<Rightarrow> uint l)"

text \<open>A node holds credits when it was granted some and stored the limit it got.\<close>

definition holds :: "'w cluster \<Rightarrow> string \<Rightarrow> bool" where
  "holds c n =
     (case cl_last c n of Some (Inr g, e) \<Rightarrow> 0 < g \<and> e \<noteq> Some UpdateLimit | _ \<Rightarrow> False)"

definition refused :: "'w cluster \<Rightarrow> string \<Rightarrow> bool" where
  "refused c n =
     (case cl_last c n of None \<Rightarrow> False | Some (a, e) \<Rightarrow> \<not> holds c n \<and> e \<noteq> Some UpdateLimit)"

lemma holds_simps [simp]:
  "holds (c\<lparr>cl_world := w, cl_node := f, cl_last := (cl_last c)(m \<mapsto> (a, e))\<rparr>) n =
     (if n = m then (\<exists>g > 0. a = Inr g) \<and> e \<noteq> Some UpdateLimit else holds c n)"
  "holds (c\<lparr>cl_world := w\<rparr>) n = holds c n"
  "holds (c\<lparr>cl_node := f\<rparr>) n = holds c n"
  by (auto simp: holds_def split: sum.split)

lemma refused_simps [simp]:
  "refused (c\<lparr>cl_world := w, cl_node := f, cl_last := (cl_last c)(m \<mapsto> (a, e))\<rparr>) n =
     (if n = m then \<not> (\<exists>g > 0. a = Inr g) \<and> e \<noteq> Some UpdateLimit else refused c n)"
  "refused (c\<lparr>cl_world := w\<rparr>) n = refused c n"
  "refused (c\<lparr>cl_node := f\<rparr>) n = refused c n"
  by (auto simp: refused_def split: option.split)

section \<open>One synchronisation\<close>

lemma sync_world: "world (snd (SyncNamespace env ns limit batch s)) = world (snd (lease_limit env ns limit batch s))"
proof (rule SyncNamespace_cases [of env ns limit batch s])
  fix gs eff s1
  assume "lease_limit env ns limit batch s = (eff, s1)"
    "SyncNamespace env ns limit batch s = sync_with env (updateNsLimit env) (resetNsCounter env)
       (updateCgroupMapping env) gs ns (eff, s1)"
  then show ?thesis using fd_maps.sync_same [of env gs ns eff s1] by simp
qed

lemma sync_proc_world:
  "world (snd (SyncProcessNamespace env ns limit batch s)) =
   world (snd (lease_limit env (ns @ ''-proc'') limit batch s))"
proof (rule SyncProcessNamespace_cases [of env ns limit batch s])
  fix gs eff s1
  assume "lease_limit env (ns @ ''-proc'') limit batch s = (eff, s1)"
    "SyncProcessNamespace env ns limit batch s = sync_with env (updateProcNsLimit env)
       (resetProcNsCounter env) (updateProcCgroupMapping env) gs ns (eff, s1)"
  then show ?thesis using proc_maps.sync_same [of env gs ns eff s1] by simp
qed

lemma sync_loaded: "bpf_loaded (snd (SyncNamespace env ns limit batch s)) = bpf_loaded s"
proof (rule SyncNamespace_cases [of env ns limit batch s])
  fix gs eff s1
  assume e: "lease_limit env ns limit batch s = (eff, s1)"
    and "SyncNamespace env ns limit batch s = sync_with env (updateNsLimit env) (resetNsCounter env)
       (updateCgroupMapping env) gs ns (eff, s1)"
  then show ?thesis using fd_maps.sync_same [of env gs ns eff s1] lease_limit_bpf [OF e] by simp
qed

lemma sync_proc_frame:
  "bpf_loaded (snd (SyncProcessNamespace env ns limit batch s)) = bpf_loaded s"
  "fd_ns_limit (bpf (snd (SyncProcessNamespace env ns limit batch s))) = fd_ns_limit (bpf s)"
proof -
  let ?t = "snd (SyncProcessNamespace env ns limit batch s)"
  have "bpf_loaded ?t = bpf_loaded s \<and> fd_view (bpf ?t) = fd_view (bpf s)"
  proof (rule SyncProcessNamespace_cases [of env ns limit batch s])
    fix gs eff s1
    assume e: "lease_limit env (ns @ ''-proc'') limit batch s = (eff, s1)"
      and "SyncProcessNamespace env ns limit batch s = sync_with env (updateProcNsLimit env)
         (resetProcNsCounter env) (updateProcCgroupMapping env) gs ns (eff, s1)"
    then show ?thesis
      using proc_maps.sync_same [of env gs ns eff s1] proc_maps.sync_other [of env gs ns eff s1]
        lease_limit_bpf [OF e] by simp
  qed
  then show "bpf_loaded ?t = bpf_loaded s" "fd_ns_limit (bpf ?t) = fd_ns_limit (bpf s)"
    by (simp, metis view_limit(1))
qed

text \<open>The limit a synchronisation leaves in force.\<close>

lemma sync_enforced:
  assumes "SyncNamespace env ns limit batch s = (e, s')" "bpf_loaded s" "e \<noteq> Some UpdateLimit"
  shows "enforces (NamespaceKey ns) s' =
    uint (word_of_int (effectiveLimit limit (lease_answer env ns batch (world s))) :: u64)"
proof (rule SyncNamespace_cases [of env ns limit batch s])
  fix gs eff s1
  assume l: "lease_limit env ns limit batch s = (eff, s1)"
    and "SyncNamespace env ns limit batch s = sync_with env (updateNsLimit env) (resetNsCounter env)
       (updateCgroupMapping env) gs ns (eff, s1)"
  then have "fd_ns_limit (bpf s') (NamespaceKey ns) = Some (word_of_int eff)"
    using fd_maps.sync_limit [of env gs ns eff s1 e s'] lease_limit_bpf [OF l] assms by simp
  moreover have "eff = effectiveLimit limit (lease_answer env ns batch (world s))"
    using l by (auto simp: lease_limit_def lease_answer_def effectiveLimit_def
        split: option.splits prod.splits)
  ultimately show ?thesis by (simp add: enforces_def)
qed

section \<open>What a node without credits enforces\<close>

definition told :: "string \<Rightarrow> int \<Rightarrow> 'w cluster \<Rightarrow> bool" where
  "told ns limit c \<longleftrightarrow>
     (\<forall>n. bpf_loaded (cl_node c n)) \<and>
     (\<forall>n. refused c n \<longrightarrow> enforces (NamespaceKey ns) (cl_node c n) = limit)"

lemma limit_kept: "0 \<le> limit \<Longrightarrow> in_i64 limit \<Longrightarrow> uint (word_of_int limit :: u64) = limit"
  by (simp add: in_i64_def uint_word_of_int)

lemma step_told:
  assumes "0 \<le> limit" "in_i64 limit" "told ns limit c"
  shows "told ns limit (cluster_step ns limit op c)"
proof (cases op)
  case (Sync_fds env batch)
  obtain e s where sy: "SyncNamespace env ns limit batch
      ((cl_node c (en_node env))\<lparr>world := cl_world c\<rparr>) = (e, s)" by fastforce
  have loaded: "bpf_loaded s"
    using sync_loaded [of env ns limit batch "(cl_node c (en_node env))\<lparr>world := cl_world c\<rparr>"] assms(3)
    by (simp add: sy told_def)
  have "enforces (NamespaceKey ns) s = limit"
    if "e \<noteq> Some UpdateLimit" "\<not> (\<exists>g > 0. lease_answer env ns batch (cl_world c) = Inr g)"
    using sync_enforced [OF sy] that assms
    by (auto simp: told_def effectiveLimit_def limit_kept split: sum.splits)
  with loaded assms(3) show ?thesis
    by (auto simp: told_def Sync_fds sy Let_def)
next
  case (Sync_procs env procs batch)
  obtain e s where sy: "SyncProcessNamespace env ns procs batch
      ((cl_node c (en_node env))\<lparr>world := cl_world c\<rparr>) = (e, s)" by fastforce
  with sync_proc_frame [of env ns procs batch "(cl_node c (en_node env))\<lparr>world := cl_world c\<rparr>"] assms(3)
  show ?thesis
    by (simp add: told_def Sync_procs Let_def enforces_def)
next
  case (Hooks n cs)
  with assms(3) show ?thesis
    by (simp add: told_def enforces_def with_bpf_def krun_limits)
qed

lemma run_told:
  assumes "0 \<le> limit" "in_i64 limit"
  shows "told ns limit c \<Longrightarrow> told ns limit (cluster_run ns limit ops c)"
  by (induction ops arbitrary: c) (simp_all add: cluster_run_def step_told [OF assms])

section \<open>What a request does to the credits\<close>

text \<open>A version of a quota a read may return shows of each node its credit or none.\<close>

definition settled :: "('w \<Rightarrow> ObjectQuota set) \<Rightarrow> 'w \<Rightarrow> string \<Rightarrow> ObjectQuota \<Rightarrow> bool" where
  "settled versions w ns q \<longleftrightarrow>
     (\<forall>p\<in>versions w. oq_namespace p = ns \<and> oq_name p = ns \<longrightarrow>
        (\<forall>k. credit_of (fd_credits p) k \<in> {0, credit_of (fd_credits q) k}))"

definition request_effect ::
  "'w store \<Rightarrow> ('w \<Rightarrow> ObjectQuota set) \<Rightarrow> string \<Rightarrow> string \<Rightarrow> ObjectQuota \<Rightarrow> lease_error + int \<Rightarrow> 'w \<Rightarrow> bool"
  where
  "request_effect stored versions node ns q a w' \<longleftrightarrow>
     (\<exists>q'. stored w' ns ns = Some q' \<and> settled versions w' ns q' \<and> Spec q' = Spec q \<and>
        (\<forall>k. k \<noteq> node \<longrightarrow> credit_of (fd_credits q') k = credit_of (fd_credits q) k) \<and>
        (\<forall>g. a = Inr g \<longrightarrow> 0 < g \<longrightarrow> credit_of (fd_credits q') node = g))"

lemma effect_unchanged:
  assumes "unchanged stored versions w w'" "stored w ns ns = Some q" "settled versions w ns q"
    and "\<And>g. a = Inr g \<Longrightarrow> 0 < g \<Longrightarrow> credit_of (fd_credits q) node = g"
  shows "request_effect stored versions node ns q a w'"
  using assms by (auto simp: request_effect_def unchanged_def settled_def)

text \<open>An update that gives the node its first credit, or changes no credit at all.\<close>

lemma effect_applied:
  assumes "stored w ns ns = Some q" "settled versions w ns q" "oq_namespace q = ns" "oq_name q = ns"
    and "stored w' ns ns = Some q'" "versions w' \<subseteq> insert q' (versions w)" "Spec q' = Spec q"
    and "\<forall>k. k \<noteq> node \<longrightarrow> credit_of (fd_credits q') k = credit_of (fd_credits q) k"
    and "credit_of (fd_credits q) node = 0 \<or>
      credit_of (fd_credits q') node = credit_of (fd_credits q) node"
    and "\<And>g. a = Inr g \<Longrightarrow> 0 < g \<Longrightarrow> credit_of (fd_credits q') node = g"
  shows "request_effect stored versions node ns q a w'"
proof -
  have "credit_of (fd_credits p) k \<in> {0, credit_of (fd_credits q') k}"
    if "p \<in> versions w'" "oq_namespace p = ns" "oq_name p = ns" for p k
  proof (cases "p = q'")
    case False
    with that assms(2,6) have "credit_of (fd_credits p) k \<in> {0, credit_of (fd_credits q) k}"
      by (auto simp: settled_def)
    with assms(8,9) show ?thesis by (cases "k = node") auto
  qed simp
  then have "settled versions w' ns q'" by (simp add: settled_def)
  with assms show ?thesis by (auto simp: request_effect_def)
qed

lemma fd_request:
  assumes ok: "leaser_ok api stored versions m w" and key: "isProcSuffix ns = (ns, False)"
    and st: "stored w ns ns = Some q" and old: "settled versions w ns q"
    and r: "RequestLease api m ns (nodeID m) batch now w = (a, w')"
  shows "request_effect stored versions (nodeID m) ns q a w'"
proof -
  have api: "api_ok api stored versions" and w: "world_ok versions w" and m: "manager_ok m"
    using ok by (simp_all add: leaser_ok_def)
  note same = effect_unchanged [where stored = stored and versions = versions and w = w and ns = ns,
      OF _ st old]
  show ?thesis
  proof (cases "get_quota api w ns ns")
    case None
    with r key show ?thesis by (intro same) (auto simp: RequestLease_def unchanged_def)
  next
    case (Some p)
    let ?n = "nodeID m"
    have p: "quota_ok p" using world_ok_read [OF api w Some] .
    have seen: "credit_of (fd_credits p) ?n \<in> {0, credit_of (fd_credits q) ?n}"
      using old api_ok_get [OF api Some] by (auto simp: settled_def)
    have req: "RequestLease api m ns ?n batch now w = requestFD api m p ns ?n batch now w"
      using key Some by (simp add: RequestLease_def)
    show ?thesis
    proof (cases "0 < credit_of (fd_credits p) ?n \<or> fd_limit p \<le> credit_sum (fd_credits p)")
      case True
      with r seen ensureLease_unchanged [OF api] show ?thesis
        unfolding req requestFD_pool [OF p m] by (intro same) auto
    next
      case False
      have "pool_ok (fd_limit p) (fd_credits p)" using p by (simp add: quota_ok_def)
      from pool_credit [OF this, of ?n] False have zero: "credit_of (fd_credits p) ?n = 0" by simp
      obtain w1 b where u: "status_update api w (p\<lparr>Status := fd_grant m p ?n batch\<rparr>) = (w1, b)" by fastforce
      have res: "a = (if b then Inr (granted m (fd_limit p) (fd_credits p) batch) else Inl UpdateFailed)"
        "w' = (if b then ensureLease api m ns now w1 else w1)"
        using r False unfolding req requestFD_pool [OF p m] u by (auto split: if_splits)
      have w1: "stored w' = stored w1" "versions w' = versions w1"
        using ensureLease_unchanged [OF api, of w1 m ns now] by (auto simp: res(2) unchanged_def)
      from update_of_read [OF api Some u] show ?thesis
      proof
        assume "\<not> b \<and> unchanged stored versions w w1"
        with w1 res(1) show ?thesis by (intro same) (auto simp: unchanged_def)
      next
        assume "\<exists>rv. let new = p\<lparr>Status := fd_grant m p ?n batch, oq_resource_version := rv\<rparr> in
            stored w ns ns = Some p \<and>
            stored w1 = (stored w)(ns := (stored w ns)(ns \<mapsto> new)) \<and>
            versions w1 \<subseteq> insert new (versions w)"
        then obtain rv where n: "stored w ns ns = Some p"
          "stored w' ns ns = Some (p\<lparr>Status := fd_grant m p ?n batch, oq_resource_version := rv\<rparr>)"
          "versions w' \<subseteq> insert (p\<lparr>Status := fd_grant m p ?n batch, oq_resource_version := rv\<rparr>)
             (versions w)"
          by (auto simp: Let_def w1)
        have "q = p" using n(1) st by simp
        then show ?thesis
          by (intro effect_applied [where stored = stored and versions = versions and w = w
                and w' = w' and ns = ns, OF st old _ _ n(2,3)])
            (use api_ok_get [OF api Some] zero res(1) in
              \<open>auto simp: fd_grant_def Let_def fd_credits_def split: if_splits\<close>)
      qed
    qed
  qed
qed

lemma proc_request:
  assumes ok: "leaser_ok api stored versions m w" and key: "isProcSuffix key = (ns, True)"
    and st: "stored w ns ns = Some q" and old: "settled versions w ns q"
    and r: "RequestLease api m key (nodeID m) batch now w = (a, w')"
  shows "request_effect stored versions (nodeID m) ns q (Inr 0) w' \<and>
    (\<exists>q'. stored w' ns ns = Some q' \<and> fd_credits q' = fd_credits q)"
proof -
  have api: "api_ok api stored versions" and w: "world_ok versions w" and m: "manager_ok m"
    using ok by (simp_all add: leaser_ok_def)
  have same: ?thesis if "unchanged stored versions w w'"
    using effect_unchanged [where stored = stored and versions = versions and w = w and ns = ns
        and a = "Inr 0", OF that st old] that st by (simp add: unchanged_def)
  show ?thesis
  proof (cases "get_quota api w ns ns")
    case None
    with r key show ?thesis by (intro same) (auto simp: RequestLease_def unchanged_def)
  next
    case (Some p)
    let ?n = "nodeID m"
    have p: "quota_ok p" using world_ok_read [OF api w Some] .
    have req: "RequestLease api m key ?n batch now w = requestProc api m p ns ?n batch w"
      using key Some by (simp add: RequestLease_def)
    obtain w1 b where u: "status_update api w (p\<lparr>Status := proc_grant m p ?n batch\<rparr>) = (w1, b)" by fastforce
    have "w' = w \<or> w' = w1"
      using r unfolding req requestProc_pool [OF p m] u by (auto split: if_splits bool.splits)
    then show ?thesis
    proof
      assume "w' = w"
      then show ?thesis by (intro same) (simp add: unchanged_def)
    next
      assume w': "w' = w1"
      from update_of_read [OF api Some u] show ?thesis
      proof
        assume "\<not> b \<and> unchanged stored versions w w1"
        with w' show ?thesis by (intro same) simp
      next
        assume "\<exists>rv. let new = p\<lparr>Status := proc_grant m p ?n batch, oq_resource_version := rv\<rparr> in
            stored w ns ns = Some p \<and>
            stored w1 = (stored w)(ns := (stored w ns)(ns \<mapsto> new)) \<and>
            versions w1 \<subseteq> insert new (versions w)"
        then obtain rv where n: "stored w ns ns = Some p"
          "stored w' ns ns = Some (p\<lparr>Status := proc_grant m p ?n batch, oq_resource_version := rv\<rparr>)"
          "versions w' \<subseteq> insert (p\<lparr>Status := proc_grant m p ?n batch, oq_resource_version := rv\<rparr>)
             (versions w)"
          by (auto simp: Let_def w')
        have q: "q = p" using n(1) st by simp
        have credits: "fd_credits (p\<lparr>Status := proc_grant m p ?n batch, oq_resource_version := rv\<rparr>) = fd_credits p"
          by (simp add: fd_credits_def proc_grant_def)
        have "request_effect stored versions ?n ns q (Inr 0) w'"
          by (intro effect_applied [where stored = stored and versions = versions and w = w
                and w' = w' and ns = ns, OF st old _ _ n(2,3)])
            (use api_ok_get [OF api Some] credits q in \<open>auto\<close>)
        with n(2) credits q show ?thesis by simp
      qed
    qed
  qed
qed

section \<open>Runs\<close>

text \<open>What an operation needs: a node with a leaser of its own on the server of the cluster.\<close>

definition node_env :: "'w api \<Rightarrow> 'w env \<Rightarrow> bool" where
  "node_env api env \<longleftrightarrow> en_api env = api \<and>
     (\<exists>m. en_leaser env = Some m \<and> nodeID m = en_node env \<and> manager_ok m)"

fun good_op :: "'w api \<Rightarrow> 'w cluster_op \<Rightarrow> bool" where
  "good_op api (Sync_fds env batch) = node_env api env"
| "good_op api (Sync_procs env procs batch) = node_env api env"
| "good_op api (Hooks n cs) = True"

definition shares ::
  "('w \<Rightarrow> ObjectQuota set) \<Rightarrow> 'w store \<Rightarrow> string \<Rightarrow> ObjectQuota \<Rightarrow> 'w cluster \<Rightarrow> ObjectQuota \<Rightarrow> bool" where
  "shares versions stored ns q0 c q \<longleftrightarrow>
     world_ok versions (cl_world c) \<and> stored (cl_world c) ns ns = Some q \<and> Spec q = Spec q0 \<and>
     settled versions (cl_world c) ns q \<and> (\<forall>n. bpf_loaded (cl_node c n)) \<and>
     (\<forall>n. holds c n \<longrightarrow> enforces (NamespaceKey ns) (cl_node c n) = credit_of (fd_credits q) n)"

lemma request_answer:
  assumes "node_env api env" "api_ok api stored versions" "world_ok versions w"
  obtains m a w' where "en_leaser env = Some m" "nodeID m = en_node env" "manager_ok m"
    "leaser_ok api stored versions m w" "en_api env = api"
    "RequestLease api m key (nodeID m) batch (en_now env) w = (a, w')"
    "lease_answer env key batch w = a" "world_ok versions w'"
    "lease_limit env key limit batch (s\<lparr>world := w\<rparr>) = (effectiveLimit limit a, s\<lparr>world := w'\<rparr>)"
proof -
  from assms(1) obtain m where m: "en_leaser env = Some m" "nodeID m = en_node env" "manager_ok m"
    "en_api env = api" by (auto simp: node_env_def)
  obtain a w' where a: "RequestLease api m key (nodeID m) batch (en_now env) w = (a, w')" by fastforce
  have "world_ok versions w'"
    using RequestLease_world_ok [OF assms(2,3) m(3), of key "nodeID m" batch "en_now env"] by (simp add: a)
  then show thesis
    using that m a assms by (simp add: leaser_ok_def lease_answer_def lease_limit_def)
qed

lemma credit_limit:
  assumes "quota_ok q" "credit_of (fd_credits q) n = g"
  shows "0 \<le> g" "in_i64 g"
proof -
  have p: "pool_ok (fd_limit q) (fd_credits q)" using assms(1) by (simp add: quota_ok_def)
  then have "in_i64 (fd_limit q)" by (simp add: pool_ok_def)
  with pool_credit [OF p, of n] assms(2) in_i64_between [of 0 "fd_limit q" g] show "0 \<le> g" "in_i64 g"
    by auto
qed

lemma step_shares:
  assumes api: "api_ok api stored versions" and key: "isProcSuffix ns = (ns, False)" "ns \<noteq> []"
    and good: "good_op api op" and inv: "shares versions stored ns q0 c q"
  shows "\<exists>q'. shares versions stored ns q0 (cluster_step ns limit op c) q'"
proof (cases op)
  case (Sync_fds env batch)
  let ?s = "(cl_node c (en_node env))\<lparr>world := cl_world c\<rparr>"
  obtain e s where sy: "SyncNamespace env ns limit batch ?s = (e, s)" by fastforce
  have env: "node_env api env" and w: "world_ok versions (cl_world c)"
    and st: "stored (cl_world c) ns ns = Some q" "settled versions (cl_world c) ns q"
    using good inv by (simp_all add: Sync_fds shares_def)
  obtain m a w' where m: "en_leaser env = Some m" "nodeID m = en_node env" "manager_ok m"
    "leaser_ok api stored versions m (cl_world c)" "en_api env = api"
    "RequestLease api m ns (nodeID m) batch (en_now env) (cl_world c) = (a, w')"
    "lease_answer env ns batch (cl_world c) = a" "world_ok versions w'"
    "lease_limit env ns limit batch ?s = (effectiveLimit limit a, (cl_node c (en_node env))\<lparr>world := w'\<rparr>)"
    by (rule request_answer [OF env api w])
  have ws: "world s = w'" using sync_world [of env ns limit batch ?s] by (simp add: sy m(9))
  have loaded: "bpf_loaded s" using sync_loaded [of env ns limit batch ?s] inv by (simp add: sy shares_def)
  from fd_request [OF m(4) key(1) st m(6)] obtain q' where q': "stored w' ns ns = Some q'"
    "settled versions w' ns q'" "Spec q' = Spec q"
    "\<forall>k. k \<noteq> en_node env \<longrightarrow> credit_of (fd_credits q') k = credit_of (fd_credits q) k"
    "\<forall>g. a = Inr g \<longrightarrow> 0 < g \<longrightarrow> credit_of (fd_credits q') (en_node env) = g"
    by (auto simp: request_effect_def m(2))
  have "quota_ok q'" using api_ok_stored(1) [OF api q'(1)] m(8) by (simp add: world_ok_def)
  note small = credit_limit [OF this]
  have "enforces (NamespaceKey ns) s = g" if "a = Inr g" "0 < g" "e \<noteq> Some UpdateLimit" for g
    using sync_enforced [OF sy _ that(3)] inv that q'(5) small [of "en_node env" g]
    by (simp add: shares_def m(7) effectiveLimit_def limit_kept)
  then have "shares versions stored ns q0 (cluster_step ns limit op c) q'"
    using inv q' m(7,8) loaded by (auto simp: shares_def Sync_fds sy ws Let_def)
  then show ?thesis ..
next
  case (Sync_procs env procs batch)
  let ?s = "(cl_node c (en_node env))\<lparr>world := cl_world c\<rparr>" and ?key = "ns @ ''-proc''"
  obtain e s where sy: "SyncProcessNamespace env ns procs batch ?s = (e, s)" by fastforce
  have env: "node_env api env" and w: "world_ok versions (cl_world c)"
    and st: "stored (cl_world c) ns ns = Some q" "settled versions (cl_world c) ns q"
    using good inv by (simp_all add: Sync_procs shares_def)
  have pkey: "isProcSuffix ?key = (ns, True)" using key(2) by (simp add: isProcSuffix_def)
  obtain m a w' where m: "en_leaser env = Some m" "nodeID m = en_node env" "manager_ok m"
    "leaser_ok api stored versions m (cl_world c)" "en_api env = api"
    "RequestLease api m ?key (nodeID m) batch (en_now env) (cl_world c) = (a, w')"
    "lease_answer env ?key batch (cl_world c) = a" "world_ok versions w'"
    "lease_limit env ?key procs batch ?s = (effectiveLimit procs a, (cl_node c (en_node env))\<lparr>world := w'\<rparr>)"
    by (rule request_answer [OF env api w])
  have ws: "world s = w'" using sync_proc_world [of env ns procs batch ?s] by (simp add: sy m(9))
  have frame: "bpf_loaded s" "fd_ns_limit (bpf s) = fd_ns_limit (bpf (cl_node c (en_node env)))"
    using sync_proc_frame [of env ns procs batch ?s] inv by (simp_all add: sy shares_def)
  from proc_request [OF m(4) pkey st m(6)] obtain q' where q': "stored w' ns ns = Some q'"
    "settled versions w' ns q'" "Spec q' = Spec q" "fd_credits q' = fd_credits q"
    by (auto simp: request_effect_def)
  have "shares versions stored ns q0 (cluster_step ns limit op c) q'"
    using inv q' m(8) frame by (auto simp: shares_def Sync_procs sy ws Let_def enforces_def)
  then show ?thesis ..
next
  case (Hooks n cs)
  have "shares versions stored ns q0 (cluster_step ns limit op c) q"
    using inv by (auto simp: shares_def Hooks enforces_def with_bpf_def krun_limits)
  then show ?thesis ..
qed

lemma run_shares:
  assumes "api_ok api stored versions" "isProcSuffix ns = (ns, False)" "ns \<noteq> []"
  shows "list_all (good_op api) ops \<Longrightarrow> shares versions stored ns q0 c q \<Longrightarrow>
    \<exists>q'. shares versions stored ns q0 (cluster_run ns limit ops c) q'"
proof (induction ops arbitrary: c q)
  case (Cons op ops)
  from Cons.prems obtain q1 where "shares versions stored ns q0 (cluster_step ns limit op c) q1"
    using step_shares [OF assms, of op q0 c q limit] by auto
  with Cons.IH Cons.prems(1) show ?case by (simp add: cluster_run_def)
qed (auto simp: cluster_run_def)

lemma credits_of_nodes:
  "keys_distinct c \<Longrightarrow> nonneg c \<Longrightarrow> distinct ks \<Longrightarrow> (\<Sum>k\<leftarrow>ks. credit_of c k) \<le> credit_sum c"
proof (induction ks arbitrary: c)
  case Nil
  then show ?case by (simp add: total_nonneg)
next
  case (Cons k ks)
  have "credit_of (AList.delete k c) j = credit_of c j" if "j \<in> set ks" for j
    using that Cons.prems(3) by (auto simp: credit_of_def delete_conv)
  then have "(\<Sum>j\<leftarrow>ks. credit_of c j) = (\<Sum>j\<leftarrow>ks. credit_of (AList.delete k c) j)"
    by (simp cong: map_cong)
  also have "\<dots> \<le> credit_sum (AList.delete k c)"
    using Cons.prems by (intro Cons.IH) (simp_all add: keys_distinct_delete nonneg_delete)
  finally show ?case using Cons.prems(1) by (simp add: total_delete)
qed

lemma shares_total:
  assumes "api_ok api stored versions" "shares versions stored ns q0 c q" "distinct ks"
  shows "(\<Sum>n\<leftarrow>filter (holds c) ks. enforces (NamespaceKey ns) (cl_node c n)) \<le> fd_limit q0"
proof -
  have "quota_ok q" using api_ok_stored(1) [OF assms(1)] assms(2) by (auto simp: shares_def world_ok_def)
  then have p: "pool_ok (fd_limit q) (fd_credits q)" by (simp add: quota_ok_def)
  have "(\<Sum>n\<leftarrow>filter (holds c) ks. enforces (NamespaceKey ns) (cl_node c n)) =
      (\<Sum>n\<leftarrow>filter (holds c) ks. credit_of (fd_credits q) n)"
    using assms(2) by (intro arg_cong [of _ _ sum_list] map_cong) (auto simp: shares_def)
  also have "\<dots> \<le> credit_sum (fd_credits q)"
    using p assms(3) by (intro credits_of_nodes) (simp_all add: pool_ok_def)
  also have "\<dots> \<le> fd_limit q0" using p assms(2) by (simp add: pool_ok_def shares_def fd_limit_def)
  finally show ?thesis .
qed

definition cluster_start :: "'w \<Rightarrow> (string \<Rightarrow> 'w syncer) \<Rightarrow> 'w cluster" where
  "cluster_start w nodes = \<lparr>cl_world = w, cl_node = nodes, cl_last = Map.empty\<rparr>"

text \<open>(C9)
  The nodes of a cluster together. Whatever the nodes synchronise, in any order and again and
  again, with reads as old as the API server allows and the enforcers running in between, the
  limits enforced by the nodes that hold credits add up to at most the limit of the quota.
  Every node that was refused credits enforces the whole limit by itself.
\<close>

theorem cluster_within_limit:
  assumes "api_ok api stored versions" "isProcSuffix ns = (ns, False)" "ns \<noteq> []"
    and "world_ok versions w" "stored w ns ns = Some q" "settled versions w ns q"
    and "\<forall>n. bpf_loaded (nodes n)" "list_all (good_op api) ops" "distinct ks"
  shows "let c = cluster_run ns (fd_limit q) ops (cluster_start w nodes) in
    (\<Sum>n\<leftarrow>filter (holds c) ks. enforces (NamespaceKey ns) (cl_node c n)) \<le> fd_limit q \<and>
    (\<forall>n. refused c n \<longrightarrow> enforces (NamespaceKey ns) (cl_node c n) = fd_limit q)"
proof -
  let ?c = "cluster_start w nodes"
  have "shares versions stored ns q ?c q"
    using assms(4-7) by (simp add: shares_def cluster_start_def holds_def)
  from run_shares [OF assms(1-3,8) this, of "fd_limit q"] obtain q' where
    q': "shares versions stored ns q (cluster_run ns (fd_limit q) ops ?c) q'" by blast
  have "quota_ok q" using api_ok_stored(1) [OF assms(1,5)] assms(4) by (simp add: world_ok_def)
  then have p: "pool_ok (fd_limit q) (fd_credits q)" by (simp add: quota_ok_def)
  then have l: "0 \<le> fd_limit q" "in_i64 (fd_limit q)" using pool_total [OF p] by (auto simp: pool_ok_def)
  have "told ns (fd_limit q) ?c" using assms(7) by (simp add: told_def cluster_start_def refused_def)
  from run_told [OF l this] show ?thesis
    using shares_total [OF assms(1) q' assms(9)] by (simp add: told_def Let_def)
qed

text \<open>
  Three nodes ask for 70 of 100: the first gets 70, the second 30, the third enforces 100, also
  after the first has synchronised again.
\<close>

definition server_env :: "string \<Rightarrow> server env" where
  "server_env n =
     \<lparr>en_api = sv_api, en_leaser = Some (ex_node n), en_node = n, en_now = 0,
      en_pods = (\<lambda>w ns. Some []), en_fs = CDir 1 [], en_put = (\<lambda>kind key k. True), en_lru = lru_roomy\<rparr>"

definition bare_syncer :: "'w \<Rightarrow> 'w syncer" where
  "bare_syncer w =
     \<lparr>world = w, bpf = empty_kstate, bpf_loaded = True,
      nsCgroups = [], cgroupPaths = Map.empty, nsNameByKey = Map.empty, pod_cache = Map.empty,
      gauges = gauges (ex_syncer empty_kstate)\<rparr>"

definition three_nodes :: "server cluster_op list" where
  "three_nodes = [Sync_fds (server_env ''a'') 70, Sync_fds (server_env ''b'') 70,
     Sync_procs (server_env ''b'') 20 5, Hooks ''a'' [(ex_helpers 1, Fd_install)],
     Sync_fds (server_env ''c'') 70, Sync_fds (server_env ''a'') 70]"

theorem cluster_within_limit_witness:
  "let w = ex_server (ex_quota 100 None 20 None);
       c = cluster_run ''team'' 100 three_nodes (cluster_start w (\<lambda>n. bare_syncer w)) in
     map (\<lambda>n. enforces (NamespaceKey ''team'') (cl_node c n)) [''a'', ''b'', ''c''] = [70, 30, 100] \<and>
     filter (holds c) [''a'', ''b'', ''c''] = [''a'', ''b''] \<and>
     (\<Sum>n\<leftarrow>filter (holds c) [''a'', ''b'', ''c'']. enforces (NamespaceKey ''team'') (cl_node c n)) \<le> 100"
proof -
  let ?q = "ex_quota 100 None 20 None" and ?ks = "[''a'', ''b'', ''c'']"
  let ?w = "ex_server ?q"
  let ?c = "cluster_run ''team'' 100 three_nodes (cluster_start ?w (\<lambda>n. bare_syncer ?w))"
  have v: "map (\<lambda>n. enforces (NamespaceKey ''team'') (cl_node ?c n)) ?ks = [70, 30, 100]"
    "filter (holds ?c) ?ks = [''a'', ''b'']" by code_simp+
  have lim: "fd_limit ?q = 100" by (simp add: fd_limit_def ex_quota_def)
  have "quota_ok ?q" by code_simp
  then have "world_ok sv_versions ?w" by (rule ex_world_ok)
  moreover have "isProcSuffix ''team'' = (''team'', False)" by code_simp
  moreover have "sv_find ?w ''team'' ''team'' = Some ?q" using ex_find [of 100 None 20 None] by (simp add: sv_api_def)
  moreover have "settled sv_versions ?w ''team'' ?q" by (simp add: settled_def ex_versions)
  moreover have "list_all (good_op sv_api) three_nodes"
    by (simp add: three_nodes_def node_env_def server_env_def ex_manager_ok)
      (simp add: ex_node_def NewK8sLeaseManager_def)
  ultimately have "(\<Sum>n\<leftarrow>filter (holds ?c) ?ks. enforces (NamespaceKey ''team'') (cl_node ?c n)) \<le> 100"
    using cluster_within_limit [OF sv_api_ok, of "''team''" ?w ?q "\<lambda>n. bare_syncer ?w" three_nodes ?ks] lim
    by (simp add: Let_def bare_syncer_def)
  with v show ?thesis by (simp only: Let_def)
qed

end
