(* ===== verification/Attach.thy ===== *)
theory Attach
  imports Node_Props
begin

text \<open>
  What a manager attaches and what then runs: \<^verbatim>\<open>LoadBPF\<close> insists on the two descriptor
  programs and ignores a failure to attach one of the two process programs.
\<close>

section \<open>Hooks that have a program\<close>

fun program_of :: "hook \<Rightarrow> program" where
  "program_of Fd_install = Track_install_fd"
| "program_of (Filp_close file) = Track_close_fd"
| "program_of Kernel_clone = Track_clone"
| "program_of Do_exit = Track_exit"

text \<open>Of all that happens in the kernel the enforcer sees the hooks its programs are attached to.\<close>

definition seen :: "program list \<Rightarrow> (helpers \<times> hook) list \<Rightarrow> (helpers \<times> hook) list" where
  "seen ps = filter (\<lambda>c. program_of (snd c) \<in> set ps)"

definition attached_by :: "load_outcome \<Rightarrow> program list" where
  "attached_by lo = [Track_install_fd, Track_close_fd]
     @ (if lo_clone lo then [Track_clone] else []) @ (if lo_exit lo then [Track_exit] else [])"

lemma LoadBPF_attached: "fst (LoadBPF lo s) = Inr ps \<Longrightarrow> ps = attached_by lo"
  by (auto simp: LoadBPF_def attached_by_def split: if_splits)

section \<open>The process count of one namespace\<close>

definition forks_in :: "(u64 \<rightharpoonup> u64) \<Rightarrow> u64 \<Rightarrow> (helpers \<times> hook) list \<Rightarrow> nat" where
  "forks_in procs ns cs = length (filter (\<lambda>(h, k). k = Kernel_clone \<and> procs (h_cgid h) = Some ns) cs)"

lemma forks_in_simps [simp]:
  "forks_in procs ns [] = 0"
  "forks_in procs ns ((h, k) # cs) =
     (if k = Kernel_clone \<and> procs (h_cgid h) = Some ns then 1 else 0) + forks_in procs ns cs"
  by (simp_all add: forks_in_def)

lemma forks_in_seen: "Track_clone \<in> set ps \<Longrightarrow> forks_in procs ns (seen ps cs) = forks_in procs ns cs"
  by (induction cs) (auto simp: seen_def)

lemma spec_step_clone:
  assumes "k \<noteq> Do_exit" "snd p ns = Some (limit, n)" "n \<le> limit"
  shows "snd (spec_step fds procs (h, k) p) ns =
     Some (limit, min limit (n + (if k = Kernel_clone \<and> procs (h_cgid h) = Some ns then 1 else 0)))"
  using assms
  by (cases p; cases k; cases "procs (h_cgid h)")
    (auto simp: acquire_def bind_eq_Some_conv min_def split: option.splits if_splits)

lemma spec_no_exits:
  assumes "\<forall>c\<in>set cs. snd c \<noteq> Do_exit" "snd p ns = Some (limit, n)" "n \<le> limit"
  shows "snd (fold (spec_step fds procs) cs p) ns = Some (limit, min limit (n + forks_in procs ns cs))"
  using assms
proof (induction cs arbitrary: p n)
  case (Cons c cs)
  obtain h k where c: "c = (h, k)" by fastforce
  let ?n = "min limit (n + (if k = Kernel_clone \<and> procs (h_cgid h) = Some ns then 1 else 0))"
  have "snd (spec_step fds procs c p) ns = Some (limit, ?n)"
    unfolding c using Cons.prems by (intro spec_step_clone) (auto simp: c)
  then have "snd (fold (spec_step fds procs) cs (spec_step fds procs c p)) ns =
      Some (limit, min limit (?n + forks_in procs ns cs))"
    using Cons.prems by (intro Cons.IH) auto
  moreover have "min limit (?n + forks_in procs ns cs) = min limit (n + forks_in procs ns (c # cs))"
    by (auto simp: c min_def)
  ultimately show ?case by simp
qed simp

lemma spec_step_exit:
  assumes "k \<noteq> Kernel_clone" "snd p ns = Some (limit, n)"
  shows "\<exists>m \<le> n. snd (spec_step fds procs (h, k) p) ns = Some (limit, m)"
  using assms
  by (cases p; cases k; cases "procs (h_cgid h)")
    (auto simp: give_back_def bind_eq_Some_conv split: option.splits if_splits)

lemma spec_no_clones:
  assumes "\<forall>c\<in>set cs. snd c \<noteq> Kernel_clone" "snd p ns = Some (limit, n)"
  shows "\<exists>m \<le> n. snd (fold (spec_step fds procs) cs p) ns = Some (limit, m)"
  using assms
proof (induction cs arbitrary: p n)
  case (Cons c cs)
  obtain h k where c: "c = (h, k)" by fastforce
  obtain m where m: "m \<le> n" "snd (spec_step fds procs c p) ns = Some (limit, m)"
    using spec_step_exit [of k p ns limit n fds procs h] Cons.prems by (auto simp: c)
  with Cons.IH [of "spec_step fds procs c p" m] Cons.prems obtain l where
    "l \<le> m" "snd (fold (spec_step fds procs) cs (spec_step fds procs c p)) ns = Some (limit, l)"
    by auto
  with m show ?case by (intro exI [of _ l]) simp
qed auto

lemma proc_pool:
  "proc_ns_limit s ns = Some limit \<Longrightarrow> limit \<noteq> 0 \<Longrightarrow> proc_ns_counter s ns = Some lease \<Longrightarrow>
   snd (pools s) ns = Some (unat limit, unat (cl_count lease))"
  by (simp add: pools_def abs_pool_def limited_Some_limit)

lemma proc_pool_count:
  assumes "snd (pools s) ns = Some (l, n)"
  shows "\<exists>lease. proc_ns_counter s ns = Some lease \<and> unat (cl_count lease) = n"
  using assms by (auto simp: pools_def abs_pool_def limited_def split: option.splits if_splits)

section \<open>Property\<close>

text \<open>(C24)
  Loading succeeds although a process program is missing. Without the exit program a process
  count only grows: it is the number of clones, up to the limit, however many processes have
  ended. Without the clone program it only falls: nothing is ever counted.
\<close>

theorem half_attached:
  assumes "fst (LoadBPF lo z) = Inr ps" "kstate_wf s"
    and "proc_ns_limit s ns = Some limit" "limit \<noteq> 0" "proc_ns_counter s ns = Some lease"
  shows "\<exists>lease'. proc_ns_counter (krun (seen ps cs) s) ns = Some lease' \<and>
    (lo_clone lo \<and> \<not> lo_exit lo \<longrightarrow>
       unat (cl_count lease') =
         min (unat limit) (unat (cl_count lease) + forks_in (proc_cgroup s) ns cs)) \<and>
    (\<not> lo_clone lo \<longrightarrow> cl_count lease' \<le> cl_count lease)"
proof -
  have ps: "ps = attached_by lo" using assms(1) by (rule LoadBPF_attached)
  let ?t = "krun (seen ps cs) s" and ?n = "unat (cl_count lease)" and ?l = "unat limit"
  have start: "snd (pools s) ns = Some (?l, ?n)" using assms(3-5) by (rule proc_pool)
  have step: "pools ?t = fold (spec_step (fd_cgroup s) (proc_cgroup s)) (seen ps cs) (pools s)"
    using assms(2) by (rule krun_refines)
  have "limited (proc_view s) ns = Some (limit, lease)" using assms(3-5) by (simp add: limited_Some_limit)
  then have "lease_wf limit lease" using assms(2) by (auto simp: kstate_wf_def intro: quota_wfD)
  then have le: "?n \<le> ?l" by (auto simp: lease_wf_def word_le_nat_alt)
  show ?thesis
  proof (cases "lo_clone lo")
    case False
    then have "\<forall>c\<in>set (seen ps cs). snd c \<noteq> Kernel_clone" by (auto simp: seen_def ps attached_by_def)
    from spec_no_clones [OF this start] obtain m where "m \<le> ?n" "snd (pools ?t) ns = Some (?l, m)"
      unfolding step by blast
    with proc_pool_count [of ?t ns ?l m] False show ?thesis by (auto simp: word_le_nat_alt)
  next
    case clone: True
    obtain l m where t: "snd (pools ?t) ns = Some (l, m)"
      "\<not> lo_exit lo \<Longrightarrow> m = min ?l (?n + forks_in (proc_cgroup s) ns cs)"
    proof (cases "lo_exit lo")
      case True
      have "proc_ns_counter ?t ns \<noteq> None" using krun_leases(2) [of "seen ps cs" s] assms(5) by auto
      then obtain lease' where "proc_ns_counter ?t ns = Some lease'" by blast
      then have "snd (pools ?t) ns = Some (?l, unat (cl_count lease'))"
        using assms(3,4) by (intro proc_pool) (simp_all add: krun_limits)
      with True that show thesis by blast
    next
      case False
      then have "\<forall>c\<in>set (seen ps cs). snd c \<noteq> Do_exit" by (auto simp: seen_def ps attached_by_def)
      from spec_no_exits [OF this start le] have
        "snd (pools ?t) ns = Some (?l, min ?l (?n + forks_in (proc_cgroup s) ns (seen ps cs)))"
        unfolding step .
      then show thesis using that clone by (simp add: forks_in_seen ps attached_by_def)
    qed
    from proc_pool_count [OF t(1)] t(2) clone show ?thesis by auto
  qed
qed

text \<open>Limit 2, no exit program: two processes come and go, and the third clone is killed.\<close>

definition no_exit_program :: load_outcome where
  "no_exit_program = \<lparr>lo_rlimit = True, lo_objects = True, lo_install = True, lo_close = True,
     lo_clone = True, lo_exit = False\<rparr>"

definition come_and_go :: "(helpers \<times> hook) list" where
  "come_and_go = [(ex_helpers 1, Kernel_clone), (ex_helpers 1, Do_exit),
     (ex_helpers 1, Kernel_clone), (ex_helpers 1, Do_exit)]"

theorem half_attached_witness:
  "\<exists>lease ps. fst (LoadBPF no_exit_program (ex_syncer empty_kstate)) = Inr ps \<and>
     proc_ns_counter (krun (seen ps come_and_go) (ex_state 2 0 2)) 7 = Some lease \<and>
     unat (cl_count lease) = 2 \<and>
     signals (krun (seen ps (come_and_go @ [(ex_helpers 1, Kernel_clone)])) (ex_state 2 0 2)) \<noteq> []"
proof -
  let ?ps = "[Track_install_fd, Track_close_fd, Track_clone]"
  have l: "fst (LoadBPF no_exit_program (ex_syncer empty_kstate)) = Inr ?ps"
    by (simp add: LoadBPF_def no_exit_program_def)
  have w: "kstate_wf (ex_state 2 0 2)" by (rule ex_state_wf) (simp_all add: max_limit_def)
  have f: "forks_in (proc_cgroup (ex_state 2 0 2)) 7 come_and_go = 2" by code_simp
  have s: "signals (krun (seen ?ps (come_and_go @ [(ex_helpers 1, Kernel_clone)])) (ex_state 2 0 2)) \<noteq> []"
    by code_simp
  have "proc_ns_limit (ex_state 2 0 2) 7 = Some 2" "proc_ns_counter (ex_state 2 0 2) 7 = Some (ex_lease 0 2)"
    by (simp_all add: ex_state_def)
  from half_attached [OF l w this(1) _ this(2), of come_and_go] f s l show ?thesis
    by (auto simp: no_exit_program_def ex_lease_def)
qed

end
