(* ===== verification/Boot.thy ===== *)
theory Boot
  imports Sync_Race_Props Cluster Attach
begin

text \<open>
  \<^verbatim>\<open>main.go\<close>: what a manager is when its controllers start, and what it is without the
  programs of the enforcer.
\<close>

section \<open>Making a syncer\<close>

definition NewSyncer :: "'w \<Rightarrow> 'w syncer" where
  "NewSyncer w =
     \<lparr>world = w, bpf = empty_kstate, bpf_loaded = False, nsCgroups = [], cgroupPaths = Map.empty,
      nsNameByKey = Map.empty, pod_cache = Map.empty,
      gauges = \<lparr>FDLimit = Map.empty, FDCurrent = Map.empty, FDRejected = (\<lambda>_. 0),
        ProcLimit = Map.empty, ProcCurrent = Map.empty, ProcRejected = (\<lambda>_. 0),
        QuotaReconciles = (\<lambda>_. 0)\<rparr>\<rparr>"

definition open_reader :: "bool \<Rightarrow> 'w syncer \<Rightarrow> bool \<times> bool" where
  "open_reader reader s =
     (if \<not> bpf_loaded s then (True, False) else if reader then (True, True) else (False, False))"

section \<open>main\<close>

text \<open>
  What \<^verbatim>\<open>main\<close> asks of its surroundings: the name of the node, and which calls of the
  controller library, of the kernel and of the ring buffer succeed.
\<close>

record main_env =
  NODE_NAME :: string
  me_manager :: bool
  me_load :: load_outcome
  me_reader :: bool
  me_quota_controller :: bool
  me_pod_controller :: bool
  me_healthz :: bool
  me_readyz :: bool
  me_start :: bool

datatype main_exit = No_manager | No_quota_controller | No_pod_controller | No_healthz | No_readyz
  | No_start

text \<open>The manager that runs: its goroutines, its leaser, the programs it has attached, and whether
  breaches are watched.\<close>

record 'w running =
  rn_manager :: "'w manager"
  rn_leaser :: K8sLeaseManager
  rn_node :: string
  rn_programs :: "program list"
  rn_watching :: bool

definition main :: "main_env \<Rightarrow> 'w \<Rightarrow> main_exit + 'w running" where
  "main me w =
     (if \<not> me_manager me then Inl No_manager
      else
     (let nodeName = (if NODE_NAME me = [] then ''node-local'' else NODE_NAME me);
          leaser = NewK8sLeaseManager nodeName 1000;
          s = NewSyncer w;
          (loaded, s) = LoadBPF (me_load me) s;
          programs = (case loaded of Inl err \<Rightarrow> [] | Inr ps \<Rightarrow> ps);
          watching = snd (open_reader (me_reader me) s)
      in
      if \<not> me_quota_controller me then Inl No_quota_controller
      else if \<not> me_pod_controller me then Inl No_pod_controller
      else if \<not> me_healthz me then Inl No_healthz
      else if \<not> me_readyz me then Inl No_readyz
      else if \<not> me_start me then Inl No_start
      else Inr \<lparr>rn_manager = started s, rn_leaser = leaser, rn_node = nodeName,
                rn_programs = programs, rn_watching = watching\<rparr>))"

definition load_succeeds :: "load_outcome \<Rightarrow> bool" where
  "load_succeeds lo \<longleftrightarrow> lo_rlimit lo \<and> lo_objects lo \<and> lo_install lo \<and> lo_close lo"

lemma LoadBPF_new:
  "snd (LoadBPF lo (NewSyncer w)) = (NewSyncer w)\<lparr>bpf_loaded := load_succeeds lo\<rparr>"
  "(case fst (LoadBPF lo (NewSyncer w)) of Inl err \<Rightarrow> [] | Inr ps \<Rightarrow> ps) =
     (if load_succeeds lo then attached_by lo else [])"
  by (simp_all add: LoadBPF_def load_succeeds_def attached_by_def NewSyncer_def)

lemma main_running:
  assumes "main me w = Inr r"
  shows "rn_manager r = started ((NewSyncer w)\<lparr>bpf_loaded := load_succeeds (me_load me)\<rparr>)"
    and "rn_node r = (if NODE_NAME me = [] then ''node-local'' else NODE_NAME me)"
    and "rn_leaser r = \<lparr>nodeID = rn_node r, defaultBatch = 1000\<rparr>"
    and "rn_watching r = (load_succeeds (me_load me) \<and> me_reader me)"
    and "rn_programs r = (if load_succeeds (me_load me) then attached_by (me_load me) else [])"
  using assms
  by (auto simp: main_def Let_def case_prod_beta LoadBPF_new NewK8sLeaseManager_def open_reader_def
      split: if_splits)

section \<open>A node without the enforcer\<close>

text \<open>
  Nothing of the kernel half changes when the object is not loaded; the stub manager accepts
  everything.
\<close>

definition inert :: "'w syncer \<Rightarrow> 'w syncer \<Rightarrow> bool" where
  "inert s s' \<longleftrightarrow> bpf s' = bpf s \<and> bpf_loaded s' = bpf_loaded s"

lemma inert_refl [simp]: "inert s s" by (simp add: inert_def)

lemma inert_trans: "inert s t \<Longrightarrow> inert t u \<Longrightarrow> inert s u" by (simp add: inert_def)

lemma put_map_unloaded: "\<not> bpf_loaded s \<Longrightarrow> put_map env kind key f s = (True, s)"
  by (simp add: put_map_def)

lemma del_map_unloaded: "\<not> bpf_loaded s \<Longrightarrow> del_map f s = s"
  by (simp add: del_map_def)

lemma updates_unloaded:
  assumes "\<not> bpf_loaded s"
  shows "put_limit_of r env key eff s = (True, s)" "store_of r env key l s = (True, s)"
    "map_cgroup_of r env cgid key s = (True, s)"
  using assms
  by (cases r; simp add: updateNsLimit_def updateProcNsLimit_def store_lease_def store_proc_lease_def
      updateCgroupMapping_def updateProcCgroupMapping_def put_map_unloaded)+

lemma map_infos_inert:
  "\<not> bpf_loaded s \<Longrightarrow> map_infos (map_cgroup_of r env) key cs known s = (e, known', s') \<Longrightarrow> inert s s'"
proof (induction cs arbitrary: known s)
  case (Cons c cs)
  let ?s = "s\<lparr>cgroupPaths := (cgroupPaths s)(CgroupID c \<mapsto> CgroupPath c)\<rparr>"
  have "inert ?s s'"
    by (rule Cons.IH) (use Cons.prems in \<open>simp_all add: updates_unloaded\<close>)
  then show ?case by (simp add: inert_def)
qed simp

lemma map_pods_inert:
  "\<not> bpf_loaded s \<Longrightarrow> map_pods env (map_cgroup_of r env) key pods known s = (e, known', s') \<Longrightarrow> inert s s'"
proof (induction pods arbitrary: known s)
  case (Cons pod pods)
  from Cons.prems(2) show ?case
  proof (cases rule: map_pods_Cons_cases)
    case skipped
    with Cons show ?thesis by (fastforce simp: inert_def)
  next
    case failed
    with map_infos_inert [OF _ failed(4)] Cons.prems(1) show ?thesis by (simp add: inert_def)
  next
    case mapped
    from map_infos_inert [OF _ mapped(4)] Cons.prems(1) Cons.IH [OF _ mapped(5)]
    show ?thesis by (simp add: inert_def)
  qed
qed simp

lemma call_step_inert:
  assumes "\<not> bpf_loaded s"
  shows "inert s (snd (call_step env c s))"
proof (cases c)
  case (S_Lease r ns limit batch)
  obtain eff t where e: "lease_limit env (lease_key r ns) limit batch s = (eff, t)" by fastforce
  with S_Lease lease_limit_bpf [OF e] show ?thesis by (simp add: inert_def)
next
  case (S_Map r ns eff pods)
  let ?s = "s\<lparr>nsNameByKey := (nsNameByKey s)(NamespaceKey ns \<mapsto> ns)\<rparr>"
  obtain x known t where m:
    "map_pods env (map_cgroup_of r env) (NamespaceKey ns) pods [] ?s = (x, known, t)"
    by (rule prod_cases3)
  from map_pods_inert [OF _ m] assms have "inert s t" by (simp add: inert_def)
  with S_Map show ?thesis by (cases x) (simp_all add: m inert_def)
next
  case (R_Unmap ns)
  have "inert s (unmap_cgroups cs s)" for cs
    using unmap_cgroups_exact [of cs s] assms by (simp add: inert_def)
  with R_Unmap show ?thesis by (simp add: inert_def Let_def split: option.split)
qed (use assms in \<open>simp_all add: updates_unloaded del_map_unloaded delete_defs inert_def
      release_one_same split: option.split\<close>)

lemma scan_begin_unloaded: "\<not> bpf_loaded s \<Longrightarrow> scan_begin env s = []"
  by (simp add: scan_begin_def)

definition inert_manager :: "'w manager \<Rightarrow> bool" where
  "inert_manager m \<longleftrightarrow> \<not> bpf_loaded (node m) \<and> scanner m = [] \<and> \<not> panicked m"

text \<open>Only programs that are attached run.\<close>

fun runs_only :: "program list \<Rightarrow> 'w act \<Rightarrow> bool" where
  "runs_only ps (Programs cs) = list_all (\<lambda>c. program_of (snd c) \<in> set ps) cs"
| "runs_only ps _ = True"

lemma begin_inert:
  "inert s (snd (quota_begin env nf ns name s))" "inert s (snd (pod_begin env pod s))"
  by (simp_all add: quota_begin_def pod_begin_def Let_def inert_def split: option.split)

lemma work_step_inert: "\<not> bpf_loaded s \<Longrightarrow> inert s (snd (work_step env w s))"
  by (cases "(env, w, s)" rule: work_step.cases)
    (simp_all add: case_prod_beta call_step_inert del: call_step.simps)

lemma breach_inert:
  "\<not> bpf_loaded s \<Longrightarrow> fst (handleBreachEvent env evt s) = [] \<and> inert s (snd (handleBreachEvent env evt s))"
  by (simp add: handleBreachEvent_def Let_def inert_def split: option.split)

lemma runs_nothing: "runs_only [] (Programs cs) \<longleftrightarrow> cs = []"
  by (cases cs) simp_all

lemma turn_inert:
  assumes "inert_manager m" "runs_only [] a"
  shows "inert_manager (turn a m) \<and> bpf (node (turn a m)) = bpf (node m)"
proof -
  have loaded: "\<not> bpf_loaded (node m)" and idle: "scanner m = []" "\<not> panicked m"
    using assms(1) by (simp_all add: inert_manager_def)
  have "inert s t \<Longrightarrow> s = node m \<Longrightarrow> bpf t = bpf (node m) \<and> \<not> bpf_loaded t" for s t
    using loaded by (simp add: inert_def)
  note keep = this [OF begin_inert(1) refl] this [OF begin_inert(2) refl]
    this [OF work_step_inert [OF loaded] refl]
    this [OF conjunct2 [OF breach_inert [OF loaded]] refl]
  show ?thesis
    using keep loaded idle assms(2)
    by (cases a) (simp_all add: case_prod_beta inert_manager_def scan_begin_unloaded runs_nothing
        with_bpf_def del: runs_only.simps)
qed

lemma turns_inert:
  "inert_manager m \<Longrightarrow> list_all (runs_only []) as \<Longrightarrow>
     inert_manager (turns as m) \<and> bpf (node (turns as m)) = bpf (node m)"
proof (induction as arbitrary: m)
  case (Cons a as)
  then show ?case using turn_inert [of m a] by (auto simp: inert_manager_def)
qed simp

section \<open>Properties\<close>

text \<open>The books are consistent from the start of \<^verbatim>\<open>main\<close> on.\<close>

lemma main_books: "main me w = Inr r \<Longrightarrow> syncer_ok (node (turns as (rn_manager r)))"
  by (rule turns_ok)
    (simp add: main_running(1) started_def NewSyncer_def syncer_ok_def books_ok_def)

lemma sync_world_loaded:
  "world (snd (SyncNamespace env ns limit batch (s\<lparr>bpf_loaded := b\<rparr>))) =
   world (snd (SyncNamespace env ns limit batch (s\<lparr>bpf_loaded := c\<rparr>)))"
  by (simp add: sync_world lease_limit_def case_prod_beta split: option.split)

text \<open>(C23)
  A manager that cannot load or attach the programs of the enforcer runs on without them: in every
  run its maps stay empty, it watches no breaches, kills nobody and never panics. It still asks
  the leaser: its synchronisations take the same credits from the cluster as those of a node that
  enforces.
\<close>

theorem main_without_enforcer:
  assumes "main me w = Inr r" "\<not> load_succeeds (me_load me)" "list_all (runs_only (rn_programs r)) as"
  shows "let m = turns as (rn_manager r); s = node m in
    bpf s = empty_kstate \<and> \<not> panicked m \<and> \<not> rn_watching r \<and>
    fst (handleBreachEvent env evt s) = [] \<and>
    world (snd (SyncNamespace env ns limit batch s)) =
      world (snd (SyncNamespace env ns limit batch (s\<lparr>bpf_loaded := True\<rparr>)))"
proof -
  have "inert_manager (rn_manager r)" "bpf (node (rn_manager r)) = empty_kstate" "rn_programs r = []"
    using assms(2) by (simp_all add: main_running(1,5) [OF assms(1)] inert_manager_def started_def NewSyncer_def)
  with turns_inert [of "rn_manager r" as] assms(3) have m: "inert_manager (turns as (rn_manager r))"
    "bpf (node (turns as (rn_manager r))) = empty_kstate" by auto
  define s where "s = node (turns as (rn_manager r))"
  have s: "\<not> bpf_loaded s" "\<not> panicked (turns as (rn_manager r))" using m(1) by (simp_all add: inert_manager_def s_def)
  have "s = s\<lparr>bpf_loaded := False\<rparr>" using s(1) by simp
  then have "world (snd (SyncNamespace env ns limit batch s)) =
      world (snd (SyncNamespace env ns limit batch (s\<lparr>bpf_loaded := True\<rparr>)))"
    using sync_world_loaded by metis
  then show ?thesis
    using m(2) s breach_inert [OF s(1)] main_running(4) [OF assms(1)] assms(2)
    by (simp add: Let_def s_def [symmetric])
qed

definition bare_node :: main_env where
  "bare_node = \<lparr>NODE_NAME = [], me_manager = True,
     me_load = \<lparr>lo_rlimit = True, lo_objects = False, lo_install = True, lo_close = True,
       lo_clone = True, lo_exit = True\<rparr>,
     me_reader = True, me_quota_controller = True, me_pod_controller = True, me_healthz = True,
     me_readyz = True, me_start = True\<rparr>"

theorem main_without_enforcer_witness:
  "\<exists>r. main bare_node () = Inr r \<and> rn_node r = ''node-local'' \<and>
     bpf (node (turns first_sync (rn_manager r))) = empty_kstate \<and>
     nsCgroups (node (turns first_sync (rn_manager r))) = [(''team'', [4, 5])]"
proof -
  have "\<exists>r. main bare_node () = Inr r" by (simp add: main_def bare_node_def case_prod_beta Let_def)
  then obtain r where r: "main bare_node () = Inr r" by blast
  have l: "\<not> load_succeeds (me_load bare_node)" by (simp add: bare_node_def load_succeeds_def)
  have "list_all (runs_only (rn_programs r)) first_sync" by (simp add: first_sync_def list_all_iff)
  from main_without_enforcer [OF r l this] have "bpf (node (turns first_sync (rn_manager r))) = empty_kstate"
    by (simp add: Let_def)
  moreover have "nsCgroups (node (turns first_sync (started (NewSyncer ())))) = [(''team'', [4, 5])]"
    by code_simp
  moreover have "rn_manager r = started (NewSyncer ())"
    using main_running(1) [OF r] l by (simp add: NewSyncer_def)
  moreover have "rn_node r = ''node-local''" using main_running(2) [OF r] by (simp add: bare_node_def)
  ultimately show ?thesis using r by simp
qed

end
