(* ===== verification/Deep_Copy.thy ===== *)
theory Deep_Copy
  imports Quota_Api
begin

text \<open>
  The deep copies of \<^verbatim>\<open>types.go\<close>, over an explicit heap: an optional integer is a pointer, a Go
  map a reference, a slice a reference to its array. The cache of the API client hands out deep
  copies, which the lease manager then changes in place.
\<close>

section \<open>Heap and objects\<close>

record spec_obj =
  p_FileDescriptors :: "nat option"
  p_Processes :: "nat option"
  p_LeaseBatchSize :: "nat option"

record status_obj =
  p_FDAllocations :: "nat option"
  p_ProcAllocations :: "nat option"
  v_AvailableFD :: int
  p_Version :: "nat option"

record 'm quota_obj =
  o_meta :: 'm
  o_spec :: spec_obj
  o_status :: status_obj

record 'm list_obj =
  l_meta :: 'm
  l_items :: "nat option"

text \<open>Cells below \<open>lim\<close> are in use.\<close>

record 'm heap =
  ints :: "nat \<Rightarrow> int"
  maps :: "nat \<Rightarrow> credits"
  arrays :: "nat \<Rightarrow> 'm quota_obj list"
  lim :: nat

definition new_int :: "'m heap \<Rightarrow> nat \<times> 'm heap" where
  "new_int h = (lim h, h\<lparr>ints := (ints h)(lim h := 0), lim := Suc (lim h)\<rparr>)"

definition make_map :: "'m heap \<Rightarrow> nat \<times> 'm heap" where
  "make_map h = (lim h, h\<lparr>maps := (maps h)(lim h := []), lim := Suc (lim h)\<rparr>)"

definition set_int :: "nat \<Rightarrow> int \<Rightarrow> 'm heap \<Rightarrow> 'm heap" where
  "set_int a v h = h\<lparr>ints := (ints h)(a := v)\<rparr>"

definition set_key :: "nat \<Rightarrow> string \<Rightarrow> int \<Rightarrow> 'm heap \<Rightarrow> 'm heap" where
  "set_key a k v h = h\<lparr>maps := (maps h)(a := AList.update k v (maps h a))\<rparr>"

section \<open>Copying\<close>

text \<open>\<^verbatim>\<open>*out = new(int64); **out = **in\<close>, unless the pointer is nil.\<close>

definition copy_int :: "nat option \<Rightarrow> 'm heap \<Rightarrow> nat option \<times> 'm heap" where
  "copy_int p h =
     (case p of
        None \<Rightarrow> (None, h)
      | Some a \<Rightarrow> (case new_int h of (b, h) \<Rightarrow> (Some b, set_int b (ints h a) h)))"

text \<open>A new map and a loop over the old one, unless that is nil.\<close>

definition copy_map :: "nat option \<Rightarrow> 'm heap \<Rightarrow> nat option \<times> 'm heap" where
  "copy_map p h =
     (case p of
        None \<Rightarrow> (None, h)
      | Some a \<Rightarrow>
          (case make_map h of (b, h) \<Rightarrow> (Some b, fold (\<lambda>(k, v). set_key b k v) (maps h a) h)))"

definition Spec_DeepCopyInto :: "spec_obj \<Rightarrow> 'm heap \<Rightarrow> spec_obj \<times> 'm heap" where
  "Spec_DeepCopyInto s h =
     (let out = s in
      case copy_int (p_FileDescriptors s) h of (p, h) \<Rightarrow>
      let out = out\<lparr>p_FileDescriptors := p\<rparr> in
      case copy_int (p_Processes s) h of (p, h) \<Rightarrow>
      let out = out\<lparr>p_Processes := p\<rparr> in
      case copy_int (p_LeaseBatchSize s) h of (p, h) \<Rightarrow>
      (out\<lparr>p_LeaseBatchSize := p\<rparr>, h))"

definition Status_DeepCopyInto :: "status_obj \<Rightarrow> 'm heap \<Rightarrow> status_obj \<times> 'm heap" where
  "Status_DeepCopyInto s h =
     (let out = s in
      case copy_map (p_FDAllocations s) h of (p, h) \<Rightarrow>
      let out = out\<lparr>p_FDAllocations := p\<rparr> in
      case copy_map (p_ProcAllocations s) h of (p, h) \<Rightarrow>
      let out = out\<lparr>p_ProcAllocations := p\<rparr> in
      case copy_int (p_Version s) h of (p, h) \<Rightarrow>
      (out\<lparr>p_Version := p\<rparr>, h))"

text \<open>\<open>copy_meta\<close> is the deep copy of the object's metadata in the client library.\<close>

definition ObjectQuota_DeepCopyInto ::
  "('m \<Rightarrow> 'm heap \<Rightarrow> 'm \<times> 'm heap) \<Rightarrow> 'm quota_obj \<Rightarrow> 'm heap \<Rightarrow> 'm quota_obj \<times> 'm heap" where
  "ObjectQuota_DeepCopyInto copy_meta q h =
     (let out = q in
      case copy_meta (o_meta q) h of (m, h) \<Rightarrow>
      let out = out\<lparr>o_meta := m\<rparr> in
      case Spec_DeepCopyInto (o_spec q) h of (s, h) \<Rightarrow>
      let out = out\<lparr>o_spec := s\<rparr> in
      case Status_DeepCopyInto (o_status q) h of (t, h) \<Rightarrow>
      (out\<lparr>o_status := t\<rparr>, h))"

fun copy_items ::
  "('m \<Rightarrow> 'm heap \<Rightarrow> 'm \<times> 'm heap) \<Rightarrow> 'm quota_obj list \<Rightarrow> 'm heap \<Rightarrow> 'm quota_obj list \<times> 'm heap"
  where
  "copy_items copy_meta [] h = ([], h)"
| "copy_items copy_meta (q # qs) h =
     (case ObjectQuota_DeepCopyInto copy_meta q h of (q, h) \<Rightarrow>
      case copy_items copy_meta qs h of (qs, h) \<Rightarrow> (q # qs, h))"

definition make_array :: "'m quota_obj list \<Rightarrow> 'm heap \<Rightarrow> nat \<times> 'm heap" where
  "make_array qs h = (lim h, h\<lparr>arrays := (arrays h)(lim h := qs), lim := Suc (lim h)\<rparr>)"

definition ObjectQuotaList_DeepCopyInto ::
  "('m \<Rightarrow> 'm heap \<Rightarrow> 'm \<times> 'm heap) \<Rightarrow> 'm list_obj \<Rightarrow> 'm heap \<Rightarrow> 'm list_obj \<times> 'm heap" where
  "ObjectQuotaList_DeepCopyInto copy_meta l h =
     (case copy_meta (l_meta l) h of (m, h) \<Rightarrow>
      let out = l\<lparr>l_meta := m\<rparr> in
      case l_items l of
        None \<Rightarrow> (out, h)
      | Some a \<Rightarrow>
          (case copy_items copy_meta (arrays h a) h of (qs, h) \<Rightarrow>
           case make_array qs h of (b, h) \<Rightarrow> (out\<lparr>l_items := Some b\<rparr>, h)))"

text \<open>The copies of pointers: nil gives nil.\<close>

definition copy_pointee :: "('a \<Rightarrow> 'm heap \<Rightarrow> 'a \<times> 'm heap) \<Rightarrow> 'a option \<Rightarrow> 'm heap \<Rightarrow> 'a option \<times> 'm heap" where
  "copy_pointee into p h =
     (case p of None \<Rightarrow> (None, h) | Some x \<Rightarrow> (case into x h of (out, h) \<Rightarrow> (Some out, h)))"

definition Spec_DeepCopy :: "spec_obj option \<Rightarrow> 'm heap \<Rightarrow> spec_obj option \<times> 'm heap" where
  "Spec_DeepCopy = copy_pointee Spec_DeepCopyInto"

definition Status_DeepCopy :: "status_obj option \<Rightarrow> 'm heap \<Rightarrow> status_obj option \<times> 'm heap" where
  "Status_DeepCopy = copy_pointee Status_DeepCopyInto"

definition ObjectQuota_DeepCopy ::
  "('m \<Rightarrow> 'm heap \<Rightarrow> 'm \<times> 'm heap) \<Rightarrow> 'm quota_obj option \<Rightarrow> 'm heap \<Rightarrow> 'm quota_obj option \<times> 'm heap" where
  "ObjectQuota_DeepCopy copy_meta = copy_pointee (ObjectQuota_DeepCopyInto copy_meta)"

definition ObjectQuotaList_DeepCopy ::
  "('m \<Rightarrow> 'm heap \<Rightarrow> 'm \<times> 'm heap) \<Rightarrow> 'm list_obj option \<Rightarrow> 'm heap \<Rightarrow> 'm list_obj option \<times> 'm heap" where
  "ObjectQuotaList_DeepCopy copy_meta = copy_pointee (ObjectQuotaList_DeepCopyInto copy_meta)"

section \<open>Values\<close>

text \<open>What an object says: the values behind its pointers.\<close>

definition spec_value :: "'m heap \<Rightarrow> spec_obj \<Rightarrow> ObjectQuotaSpec" where
  "spec_value h s =
     \<lparr>FileDescriptors = map_option (ints h) (p_FileDescriptors s),
      Processes = map_option (ints h) (p_Processes s),
      LeaseBatchSize = map_option (ints h) (p_LeaseBatchSize s)\<rparr>"

definition status_value :: "'m heap \<Rightarrow> status_obj \<Rightarrow> ObjectQuotaStatus" where
  "status_value h s =
     \<lparr>FDAllocations = map_option (maps h) (p_FDAllocations s),
      ProcAllocations = map_option (maps h) (p_ProcAllocations s),
      AvailableFD = v_AvailableFD s,
      Version = map_option (ints h) (p_Version s)\<rparr>"

definition quota_value :: "'m heap \<Rightarrow> 'm quota_obj \<Rightarrow> ObjectQuotaSpec \<times> ObjectQuotaStatus" where
  "quota_value h q = (spec_value h (o_spec q), status_value h (o_status q))"

definition spec_ptrs :: "spec_obj \<Rightarrow> nat set" where
  "spec_ptrs s = set_option (p_FileDescriptors s) \<union> set_option (p_Processes s) \<union>
     set_option (p_LeaseBatchSize s)"

definition map_ptrs :: "status_obj \<Rightarrow> nat set" where
  "map_ptrs s = set_option (p_FDAllocations s) \<union> set_option (p_ProcAllocations s)"

definition status_ptrs :: "status_obj \<Rightarrow> nat set" where
  "status_ptrs s = map_ptrs s \<union> set_option (p_Version s)"

definition quota_ptrs :: "'m quota_obj \<Rightarrow> nat set" where
  "quota_ptrs q = spec_ptrs (o_spec q) \<union> status_ptrs (o_status q)"

text \<open>Every pointer is to a cell in use, and every map has each key once.\<close>

definition quota_in :: "'m heap \<Rightarrow> 'm quota_obj \<Rightarrow> bool" where
  "quota_in h q \<longleftrightarrow> quota_ptrs q \<subseteq> {..<lim h} \<and> (\<forall>a\<in>map_ptrs (o_status q). keys_distinct (maps h a))"

text \<open>A computation that only allocates: the cells in use keep their contents.\<close>

definition allocates :: "'m heap \<Rightarrow> 'm heap \<Rightarrow> bool" where
  "allocates h h' \<longleftrightarrow>
     lim h \<le> lim h' \<and>
     (\<forall>a < lim h. ints h' a = ints h a \<and> maps h' a = maps h a \<and> arrays h' a = arrays h a)"

definition meta_ok :: "('m \<Rightarrow> 'm heap \<Rightarrow> 'm \<times> 'm heap) \<Rightarrow> bool" where
  "meta_ok copy_meta \<longleftrightarrow> (\<forall>m h. allocates h (snd (copy_meta m h)))"

section \<open>Allocation\<close>

lemma allocates_refl [simp]: "allocates h h" by (simp add: allocates_def)

lemma allocates_trans: "allocates h h' \<Longrightarrow> allocates h' h'' \<Longrightarrow> allocates h h''"
  by (simp add: allocates_def)

lemma allocates_lim: "allocates h h' \<Longrightarrow> lim h \<le> lim h'" by (simp add: allocates_def)

text \<open>A copy of a pointer: allocated since \<open>h\<close>, and nil for nil.\<close>

definition new_since :: "'m heap \<Rightarrow> 'm heap \<Rightarrow> nat set \<Rightarrow> bool" where
  "new_since h h' A \<longleftrightarrow> A \<subseteq> {lim h..<lim h'}"

lemma new_since_mono: "new_since h1 h2 A \<Longrightarrow> allocates h h1 \<Longrightarrow> allocates h2 h3 \<Longrightarrow> new_since h h3 A"
  unfolding new_since_def using allocates_lim [of h h1] allocates_lim [of h2 h3] by fastforce

lemma new_since_in: "new_since h h' A \<Longrightarrow> A \<subseteq> {..<lim h'}" by (auto simp: new_since_def)

lemma fold_set_key_other:
  "ints (fold (\<lambda>(k, v). set_key b k v) c h) = ints h \<and> arrays (fold (\<lambda>(k, v). set_key b k v) c h) = arrays h \<and>
   lim (fold (\<lambda>(k, v). set_key b k v) c h) = lim h \<and>
   maps (fold (\<lambda>(k, v). set_key b k v) c h) =
     (maps h)(b := fold (\<lambda>(k, v). AList.update k v) c (maps h b))"
  by (induction c arbitrary: h) (auto simp: set_key_def split_beta)

lemma update_new: "k \<notin> fst ` set d \<Longrightarrow> AList.update k v d = d @ [(k, v)]"
  by (induction d) auto

text \<open>The loop over a map builds the same map, as each key comes once.\<close>

lemma copy_loop:
  "distinct (map fst (d @ c)) \<Longrightarrow> fold (\<lambda>(k, v). AList.update k v) c d = d @ c"
proof (induction c arbitrary: d)
  case (Cons p c)
  obtain k v where p: "p = (k, v)" by fastforce
  with Cons.prems have "k \<notin> fst ` set d" by auto
  with Cons.IH [of "d @ [(k, v)]"] Cons.prems show ?case by (simp add: p update_new)
qed simp

lemma copy_int_ok:
  assumes "set_option p \<subseteq> {..<lim h}" "copy_int p h = (p', h')"
  shows "allocates h h' \<and> new_since h h' (set_option p') \<and>
    map_option (ints h') p' = map_option (ints h) p"
  using assms
  by (cases p) (auto simp: copy_int_def new_int_def set_int_def allocates_def new_since_def)

lemma copy_map_ok:
  assumes "set_option p \<subseteq> {..<lim h}" "\<forall>a\<in>set_option p. keys_distinct (maps h a)"
    and "copy_map p h = (p', h')"
  shows "allocates h h' \<and> new_since h h' (set_option p') \<and>
    map_option (maps h') p' = map_option (maps h) p"
proof (cases p)
  case (Some a)
  have "fold (\<lambda>(k, v). AList.update k v) (maps h a) [] = maps h a"
    using copy_loop [of "[]" "maps h a"] assms(2) Some by (simp add: keys_distinct_def)
  then show ?thesis
    using assms Some
    by (auto simp: copy_map_def make_map_def fold_set_key_other allocates_def new_since_def)
qed (use assms in \<open>simp add: copy_map_def new_since_def\<close>)

section \<open>Values under allocation\<close>

lemma ints_kept:
  "allocates h h' \<Longrightarrow> set_option p \<subseteq> {..<lim h} \<Longrightarrow> map_option (ints h') p = map_option (ints h) p"
  by (cases p) (auto simp: allocates_def)

lemma maps_kept:
  "allocates h h' \<Longrightarrow> set_option p \<subseteq> {..<lim h} \<Longrightarrow> map_option (maps h') p = map_option (maps h) p"
  by (cases p) (auto simp: allocates_def)

lemma spec_kept: "allocates h h' \<Longrightarrow> spec_ptrs s \<subseteq> {..<lim h} \<Longrightarrow> spec_value h' s = spec_value h s"
  by (simp add: spec_value_def spec_ptrs_def ints_kept)

lemma status_kept: "allocates h h' \<Longrightarrow> status_ptrs s \<subseteq> {..<lim h} \<Longrightarrow> status_value h' s = status_value h s"
  by (simp add: status_value_def status_ptrs_def map_ptrs_def ints_kept maps_kept)

lemma quota_kept:
  assumes "allocates h h'" "quota_in h q"
  shows "quota_value h' q = quota_value h q" "quota_in h' q"
proof -
  have "spec_ptrs (o_spec q) \<subseteq> {..<lim h}" "status_ptrs (o_status q) \<subseteq> {..<lim h}"
    using assms(2) by (auto simp: quota_in_def quota_ptrs_def)
  with assms(1) show "quota_value h' q = quota_value h q"
    by (simp add: quota_value_def spec_kept status_kept)
  have "maps h' a = maps h a" if "a \<in> map_ptrs (o_status q)" for a
    using that assms by (auto simp: quota_in_def quota_ptrs_def status_ptrs_def allocates_def)
  then show "quota_in h' q" using assms by (auto simp: quota_in_def allocates_def)
qed

section \<open>The copies\<close>

lemma Spec_copy_ok:
  assumes "spec_ptrs s \<subseteq> {..<lim h}" "Spec_DeepCopyInto s h = (s', h')"
  shows "allocates h h' \<and> new_since h h' (spec_ptrs s') \<and> spec_value h' s' = spec_value h s"
proof -
  obtain p1 h1 where 1: "copy_int (p_FileDescriptors s) h = (p1, h1)" by fastforce
  obtain p2 h2 where 2: "copy_int (p_Processes s) h1 = (p2, h2)" by fastforce
  obtain p3 h3 where 3: "copy_int (p_LeaseBatchSize s) h2 = (p3, h3)" by fastforce
  have s': "s' = s\<lparr>p_FileDescriptors := p1, p_Processes := p2, p_LeaseBatchSize := p3\<rparr>" "h' = h3"
    using assms(2) by (simp_all add: Spec_DeepCopyInto_def 1 2 3)
  have p: "set_option (p_FileDescriptors s) \<subseteq> {..<lim h}" "set_option (p_Processes s) \<subseteq> {..<lim h}"
    "set_option (p_LeaseBatchSize s) \<subseteq> {..<lim h}"
    using assms(1) by (simp_all add: spec_ptrs_def)
  note c1 = copy_int_ok [OF p(1) 1]
  then have "set_option (p_Processes s) \<subseteq> {..<lim h1}" using p(2) by (auto dest: allocates_lim)
  note c2 = copy_int_ok [OF this 2]
  have a2: "allocates h h2" using c1 c2 allocates_trans by blast
  then have "set_option (p_LeaseBatchSize s) \<subseteq> {..<lim h2}" using p(3) by (auto dest: allocates_lim)
  note c3 = copy_int_ok [OF this 3]
  have a3: "allocates h h3" "allocates h1 h3" using a2 c2 c3 allocates_trans by blast+
  have n: "new_since h h3 (set_option p1)" "new_since h h3 (set_option p2)" "new_since h h3 (set_option p3)"
    using c1 c2 c3 a2 a3 new_since_mono allocates_refl by blast+
  have "map_option (ints h3) p1 = map_option (ints h) (p_FileDescriptors s)"
    using c1 ints_kept [OF a3(2)] new_since_in by metis
  moreover have "map_option (ints h3) p2 = map_option (ints h) (p_Processes s)"
    using c2 c3 c1 ints_kept [of h2 h3 p2] ints_kept [of h h1 "p_Processes s"] p(2) new_since_in by metis
  moreover have "map_option (ints h3) p3 = map_option (ints h) (p_LeaseBatchSize s)"
    using c3 ints_kept [OF a2 p(3)] by metis
  ultimately show ?thesis
    using a3 n by (simp add: s' spec_value_def spec_ptrs_def new_since_def)
qed

lemma Status_copy_ok:
  assumes "status_ptrs s \<subseteq> {..<lim h}" "\<forall>a\<in>map_ptrs s. keys_distinct (maps h a)"
    and "Status_DeepCopyInto s h = (s', h')"
  shows "allocates h h' \<and> new_since h h' (status_ptrs s') \<and> status_value h' s' = status_value h s"
proof -
  obtain p1 h1 where 1: "copy_map (p_FDAllocations s) h = (p1, h1)" by fastforce
  obtain p2 h2 where 2: "copy_map (p_ProcAllocations s) h1 = (p2, h2)" by fastforce
  obtain p3 h3 where 3: "copy_int (p_Version s) h2 = (p3, h3)" by fastforce
  have s': "s' = s\<lparr>p_FDAllocations := p1, p_ProcAllocations := p2, p_Version := p3\<rparr>" "h' = h3"
    using assms(3) by (simp_all add: Status_DeepCopyInto_def 1 2 3)
  have p: "set_option (p_FDAllocations s) \<subseteq> {..<lim h}" "set_option (p_ProcAllocations s) \<subseteq> {..<lim h}"
    "set_option (p_Version s) \<subseteq> {..<lim h}"
    "\<forall>a\<in>set_option (p_FDAllocations s). keys_distinct (maps h a)"
    "\<forall>a\<in>set_option (p_ProcAllocations s). keys_distinct (maps h a)"
    using assms(1,2) by (simp_all add: status_ptrs_def map_ptrs_def)
  note c1 = copy_map_ok [OF p(1,4) 1]
  then have "set_option (p_ProcAllocations s) \<subseteq> {..<lim h1}"
    "\<forall>a\<in>set_option (p_ProcAllocations s). keys_distinct (maps h1 a)"
    using p(2,5) by (auto simp: allocates_def)
  note c2 = copy_map_ok [OF this 2]
  have a2: "allocates h h2" using c1 c2 allocates_trans by blast
  then have "set_option (p_Version s) \<subseteq> {..<lim h2}" using p(3) by (auto dest: allocates_lim)
  note c3 = copy_int_ok [OF this 3]
  have a3: "allocates h h3" "allocates h1 h3" using a2 c2 c3 allocates_trans by blast+
  have n: "new_since h h3 (set_option p1)" "new_since h h3 (set_option p2)" "new_since h h3 (set_option p3)"
    using c1 c2 c3 a2 a3 new_since_mono allocates_refl by blast+
  have "map_option (maps h3) p1 = map_option (maps h) (p_FDAllocations s)"
    using c1 maps_kept [OF a3(2)] new_since_in by metis
  moreover have "map_option (maps h3) p2 = map_option (maps h) (p_ProcAllocations s)"
    using c2 c3 c1 maps_kept [of h2 h3 p2] maps_kept [of h h1 "p_ProcAllocations s"] p(2) new_since_in
    by metis
  moreover have "map_option (ints h3) p3 = map_option (ints h) (p_Version s)"
    using c3 ints_kept [OF a2 p(3)] by metis
  ultimately show ?thesis
    using a3 n by (simp add: s' status_value_def status_ptrs_def map_ptrs_def new_since_def)
qed

definition copied :: "'m quota_obj \<Rightarrow> 'm heap \<Rightarrow> 'm quota_obj \<Rightarrow> 'm heap \<Rightarrow> bool" where
  "copied q h q' h' \<longleftrightarrow>
     allocates h h' \<and> new_since h h' (quota_ptrs q') \<and> quota_value h' q' = quota_value h q"

lemma quota_copy_ok:
  assumes m: "meta_ok copy_meta" and q: "quota_in h q"
    and c: "ObjectQuota_DeepCopyInto copy_meta q h = (q', h')"
  shows "copied q h q' h'"
proof -
  obtain m' h1 where 1: "copy_meta (o_meta q) h = (m', h1)" by fastforce
  obtain s' h2 where 2: "Spec_DeepCopyInto (o_spec q) h1 = (s', h2)" by fastforce
  obtain t' h3 where 3: "Status_DeepCopyInto (o_status q) h2 = (t', h3)" by fastforce
  have q': "q' = q\<lparr>o_meta := m', o_spec := s', o_status := t'\<rparr>" "h' = h3"
    using c by (simp_all add: ObjectQuota_DeepCopyInto_def 1 2 3)
  have a1: "allocates h h1" using m 1 unfolding meta_ok_def by (metis snd_conv)
  note k1 = quota_kept [OF a1 q]
  have "spec_ptrs (o_spec q) \<subseteq> {..<lim h1}" using k1(2) by (simp add: quota_in_def quota_ptrs_def)
  note c2 = Spec_copy_ok [OF this 2]
  then have k2: "quota_value h2 q = quota_value h1 q" "quota_in h2 q" using quota_kept k1(2) by blast+
  have "status_ptrs (o_status q) \<subseteq> {..<lim h2}"
    "\<forall>a\<in>map_ptrs (o_status q). keys_distinct (maps h2 a)"
    using k2(2) by (simp_all add: quota_in_def quota_ptrs_def)
  note c3 = Status_copy_ok [OF this 3]
  have a: "allocates h1 h3" "allocates h h2" "allocates h h3" using a1 c2 c3 allocates_trans by blast+
  have n: "new_since h h3 (spec_ptrs s')" "new_since h h3 (status_ptrs t')"
    using c2 c3 a1 a(2) new_since_mono allocates_refl by blast+
  have "spec_ptrs s' \<subseteq> {..<lim h2}" using c2 new_since_in by blast
  then have "spec_value h3 s' = spec_value h2 s'" using c3 spec_kept by blast
  then have "quota_value h3 q' = quota_value h q"
    using c2 c3 k1(1) k2(1) by (simp add: q' quota_value_def)
  with a(3) n show ?thesis by (simp add: copied_def q' quota_ptrs_def new_since_def)
qed

text \<open>A list of quotas: every item is copied, into a new array.\<close>

lemma items_copy_ok:
  assumes "meta_ok copy_meta"
  shows "list_all (quota_in h) qs \<Longrightarrow> copy_items copy_meta qs h = (qs', h') \<Longrightarrow>
    allocates h h' \<and> list_all (\<lambda>q. new_since h h' (quota_ptrs q)) qs' \<and>
    map (quota_value h') qs' = map (quota_value h) qs"
proof (induction qs arbitrary: h qs')
  case (Cons q qs)
  obtain q1 h1 where 1: "ObjectQuota_DeepCopyInto copy_meta q h = (q1, h1)" by fastforce
  obtain qs2 h2 where 2: "copy_items copy_meta qs h1 = (qs2, h2)" by fastforce
  have r: "qs' = q1 # qs2" "h' = h2" using Cons.prems(2) by (simp_all add: 1 2)
  have "quota_in h q" using Cons.prems(1) by simp
  from quota_copy_ok [OF assms this 1] have c: "allocates h h1" "new_since h h1 (quota_ptrs q1)"
    "quota_value h1 q1 = quota_value h q" by (simp_all add: copied_def)
  have "list_all (quota_in h1) qs" using Cons.prems(1) quota_kept(2) [OF c(1)] by (auto simp: list_all_iff)
  from Cons.IH [OF this 2 [folded r(2)]] have i: "allocates h1 h'"
    "list_all (\<lambda>q. new_since h1 h' (quota_ptrs q)) qs2"
    "map (quota_value h') qs2 = map (quota_value h1) qs" by simp_all
  have "map (quota_value h1) qs = map (quota_value h) qs"
    using Cons.prems(1) quota_kept(1) [OF c(1)] by (auto simp: list_all_iff)
  moreover have "spec_ptrs (o_spec q1) \<subseteq> {..<lim h1}" "status_ptrs (o_status q1) \<subseteq> {..<lim h1}"
    using new_since_in [OF c(2)] by (auto simp: quota_ptrs_def)
  then have "quota_value h' q1 = quota_value h1 q1"
    using i(1) by (simp add: quota_value_def spec_kept status_kept)
  moreover have "new_since h h' (quota_ptrs q1)" using new_since_mono [OF c(2) _ i(1)] by simp
  moreover have "list_all (\<lambda>q. new_since h h' (quota_ptrs q)) qs2"
    using i(2) new_since_mono [OF _ c(1)] by (fastforce simp: list_all_iff)
  ultimately show ?case using i c allocates_trans [OF c(1) i(1)] by (simp add: r)
qed simp

lemma list_copy_ok:
  assumes "meta_ok copy_meta" "l_items l = Some a" "a < lim h" "list_all (quota_in h) (arrays h a)"
    and "ObjectQuotaList_DeepCopyInto copy_meta l h = (l', h')"
  shows "\<exists>b. l_items l' = Some b \<and> b \<noteq> a \<and> allocates h h' \<and>
    map (quota_value h') (arrays h' b) = map (quota_value h) (arrays h a) \<and>
    list_all (\<lambda>q. new_since h h' (quota_ptrs q)) (arrays h' b)"
proof -
  obtain m h1 where 1: "copy_meta (l_meta l) h = (m, h1)" by fastforce
  then have a1: "allocates h h1" using assms(1) unfolding meta_ok_def by (metis snd_conv)
  obtain qs h2 where 2: "copy_items copy_meta (arrays h1 a) h1 = (qs, h2)" by fastforce
  have arr: "arrays h1 a = arrays h a" using a1 assms(3) by (simp add: allocates_def)
  have "list_all (quota_in h1) (arrays h1 a)"
    using assms(4) quota_kept(2) [OF a1] by (auto simp: list_all_iff arr)
  from items_copy_ok [OF assms(1) this 2] have c: "allocates h1 h2"
    "list_all (\<lambda>q. new_since h1 h2 (quota_ptrs q)) qs"
    "map (quota_value h2) qs = map (quota_value h1) (arrays h a)" by (simp_all add: arr)
  have l': "l' = l\<lparr>l_meta := m, l_items := Some (lim h2)\<rparr>"
    "h' = h2\<lparr>arrays := (arrays h2)(lim h2 := qs), lim := Suc (lim h2)\<rparr>"
    using assms(2,5) by (simp_all add: ObjectQuotaList_DeepCopyInto_def Let_def 1 2 make_array_def)
  have a2: "allocates h h2" using a1 c(1) by (rule allocates_trans)
  then have a': "allocates h h'" by (auto simp: allocates_def l'(2))
  have "map (quota_value h') qs = map (quota_value h2) qs"
    by (simp add: quota_value_def spec_value_def status_value_def l'(2))
  moreover have "map (quota_value h1) (arrays h a) = map (quota_value h) (arrays h a)"
    using assms(4) quota_kept(1) [OF a1] by (auto simp: list_all_iff)
  moreover have "list_all (\<lambda>q. new_since h h' (quota_ptrs q)) qs"
    using c(2) allocates_lim [OF a1] by (fastforce simp: list_all_iff new_since_def l'(2))
  ultimately show ?thesis
    using a' c(3) assms(3) allocates_lim [OF a2] by (simp add: l')
qed

section \<open>Changing a copy\<close>

text \<open>What a handler does to an object of its own.\<close>

datatype change = Set_int nat int | Set_key nat string int

fun change_ptr :: "change \<Rightarrow> nat" where
  "change_ptr (Set_int a v) = a"
| "change_ptr (Set_key a k v) = a"

fun apply_change :: "change \<Rightarrow> 'm heap \<Rightarrow> 'm heap" where
  "apply_change (Set_int a v) = set_int a v"
| "apply_change (Set_key a k v) = set_key a k v"

lemma map_option_upd: "a \<notin> set_option p \<Longrightarrow> map_option (f(a := v)) p = map_option f p"
  by (cases p) auto

lemma change_elsewhere:
  "change_ptr c \<notin> quota_ptrs q \<Longrightarrow> quota_value (apply_change c h) q = quota_value h q"
  by (cases c) (simp_all add: quota_value_def spec_value_def status_value_def quota_ptrs_def
      spec_ptrs_def status_ptrs_def map_ptrs_def set_int_def set_key_def map_option_upd del: fun_upd_apply)

lemma changes_elsewhere:
  "list_all (\<lambda>c. change_ptr c \<notin> quota_ptrs q) cs \<Longrightarrow> quota_value (fold apply_change cs h) q = quota_value h q"
proof (induction cs arbitrary: h)
  case (Cons c cs)
  then show ?case using change_elsewhere [of c q h] by simp
qed simp

text \<open>(C33)
  A deep copy of a quota says the same as the original and shares nothing with it: whatever is
  written afterwards through the pointers and maps of the copy, as the lease manager does to
  the objects its client's cache hands out, the original says what it said.
\<close>

theorem deep_copy_independent:
  assumes "meta_ok copy_meta" "quota_in h q"
    and "ObjectQuota_DeepCopy copy_meta (Some q) h = (r, h')"
  shows "\<exists>q'. r = Some q' \<and> quota_value h' q' = quota_value h q \<and>
    quota_ptrs q' \<inter> quota_ptrs q = {} \<and>
    (list_all (\<lambda>c. change_ptr c \<in> quota_ptrs q') cs \<longrightarrow>
       quota_value (fold apply_change cs h') q = quota_value h q)"
proof -
  obtain q' h1 where c: "ObjectQuota_DeepCopyInto copy_meta q h = (q', h1)" by fastforce
  have r: "r = Some q'" "h' = h1"
    using assms(3) by (simp_all add: ObjectQuota_DeepCopy_def copy_pointee_def c)
  from quota_copy_ok [OF assms(1,2) c] have ok: "allocates h h'" "new_since h h' (quota_ptrs q')"
    "quota_value h' q' = quota_value h q" by (simp_all add: copied_def r)
  have disj: "quota_ptrs q' \<inter> quota_ptrs q = {}"
    using ok(2) assms(2) unfolding new_since_def quota_in_def by fastforce
  have "quota_value (fold apply_change cs h') q = quota_value h q"
    if "list_all (\<lambda>c. change_ptr c \<in> quota_ptrs q') cs"
  proof -
    have "list_all (\<lambda>c. change_ptr c \<notin> quota_ptrs q) cs"
      using that disj by (auto simp: list_all_iff)
    then show ?thesis using changes_elsewhere quota_kept(1) [OF ok(1) assms(2)] by metis
  qed
  with r(1) ok(3) disj show ?thesis by blast
qed

text \<open>A quota with a limit and the credits of one node, in a heap of four cells.\<close>

definition cached :: "unit quota_obj" where
  "cached = \<lparr>o_meta = (),
     o_spec = \<lparr>p_FileDescriptors = Some 0, p_Processes = None, p_LeaseBatchSize = None\<rparr>,
     o_status = \<lparr>p_FDAllocations = Some 1, p_ProcAllocations = None, v_AvailableFD = 30, p_Version = Some 2\<rparr>\<rparr>"

definition cache_heap :: "unit heap" where
  "cache_heap = \<lparr>ints = (\<lambda>_. 0)(0 := 100, 2 := 1), maps = (\<lambda>_. [])(1 := [(''a'', 70)]), arrays = (\<lambda>_. []),
     lim = 4\<rparr>"

theorem deep_copy_independent_witness:
  "\<exists>q' h'. ObjectQuota_DeepCopy (\<lambda>m h. (m, h)) (Some cached) cache_heap = (Some q', h') \<and>
     p_FDAllocations (o_status q') = Some 5 \<and>
     quota_value (apply_change (Set_key 5 ''b'' 30) h') q' \<noteq> quota_value h' q' \<and>
     quota_value (apply_change (Set_key 5 ''b'' 30) h') cached = quota_value cache_heap cached"
proof -
  obtain r h' where r: "ObjectQuota_DeepCopy (\<lambda>m h. (m, h)) (Some cached) cache_heap = (r, h')" by fastforce
  have "meta_ok (\<lambda>m h. (m, h))" by (simp add: meta_ok_def)
  moreover have "quota_in cache_heap cached"
    by (simp add: quota_in_def cached_def cache_heap_def quota_ptrs_def spec_ptrs_def status_ptrs_def
        map_ptrs_def keys_distinct_def)
  ultimately obtain q' where q': "r = Some q'"
    "list_all (\<lambda>c. change_ptr c \<in> quota_ptrs q') [Set_key 5 ''b'' 30] \<longrightarrow>
      quota_value (fold apply_change [Set_key 5 ''b'' 30] h') cached = quota_value cache_heap cached"
    using deep_copy_independent [OF _ _ r, of "[Set_key 5 ''b'' 30]"] by blast
  have "case ObjectQuota_DeepCopy (\<lambda>m h. (m, h)) (Some cached) cache_heap of
      (None, h) \<Rightarrow> False
    | (Some q, h) \<Rightarrow> p_FDAllocations (o_status q) = Some 5 \<and>
        FDAllocations (snd (quota_value h q)) = Some [(''a'', 70)] \<and>
        FDAllocations (snd (quota_value (apply_change (Set_key 5 ''b'' 30) h) q)) = Some [(''a'', 70), (''b'', 30)]"
    by code_simp
  then have v: "p_FDAllocations (o_status q') = Some 5"
    "FDAllocations (snd (quota_value h' q')) \<noteq>
       FDAllocations (snd (quota_value (apply_change (Set_key 5 ''b'' 30) h') q'))"
    by (simp_all add: r q'(1))
  have "5 \<in> quota_ptrs q'" using v(1) by (simp add: quota_ptrs_def status_ptrs_def map_ptrs_def)
  with q' v r show ?thesis by (intro exI [of _ q'] exI [of _ h']) auto
qed

end
