(* ===== verification/Wire_Order.thy ===== *)
theory Wire_Order
  imports Hook_Props
begin

text \<open>
  The bindings exist for little-endian and for big-endian machines (\<^verbatim>\<open>ebpf/bpf_bpfel.go\<close>,
  \<^verbatim>\<open>ebpf/bpf_bpfeb.go\<close>) and declare the same structs; the breach watcher decodes records with
  \<^verbatim>\<open>binary.LittleEndian\<close> on both.
\<close>

section \<open>Stores of a machine\<close>

datatype byte_order = Little | Big

definition bytes_in :: "byte_order \<Rightarrow> nat \<Rightarrow> nat \<Rightarrow> byte list" where
  "bytes_in ord n v = (case ord of Little \<Rightarrow> le_bytes n v | Big \<Rightarrow> rev (le_bytes n v))"

definition store_in :: "byte_order \<Rightarrow> mem \<Rightarrow> nat \<Rightarrow> nat \<Rightarrow> nat \<Rightarrow> mem" where
  "store_in ord m a n v = (\<lambda>b. if a \<le> b \<and> b < a + n then bytes_in ord n v ! (b - a) else m b)"

definition store_member_in :: "byte_order \<Rightarrow> ctype \<Rightarrow> string list \<Rightarrow> nat \<Rightarrow> nat \<Rightarrow> mem \<Rightarrow> mem" where
  "store_member_in ord t xs a v m =
     (case member_at t xs of None \<Rightarrow> m | Some (off, n) \<Rightarrow> store_in ord m (a + off) n v)"

text \<open>\<^verbatim>\<open>emit_breach_event\<close> on a machine of either byte order.\<close>

definition write_event_in :: "byte_order \<Rightarrow> breach_event \<Rightarrow> nat \<Rightarrow> mem \<Rightarrow> mem" where
  "write_event_in ord e a m =
     (let put = store_member_in ord struct_breach_event;
          m = put [''ns_key''] a (unat (be_ns_key e)) m;
          m = put [''cgid''] a (unat (be_cgid e)) m;
          m = put [''pid''] a (unat (be_pid e)) m;
          m = put [''reason''] a (unat (be_reason e)) m;
          m = put [''timestamp''] a (unat (be_timestamp e)) m
      in put [''top_cgid''] a (unat (be_top_cgid e)) m)"

lemma store_little: "store_in Little = store"
  by (intro ext) (auto simp: store_in_def store_def bytes_in_def)

lemma store_member_little: "store_member_in Little t xs a v m = store_member t xs a v m"
  by (simp add: store_member_in_def store_member_def store_little split: option.split)

lemma write_event_little: "write_event_in Little e a m = write_event e a m"
  by (simp add: write_event_in_def write_event_def Let_def store_member_little)

section \<open>What the watcher decodes\<close>

definition bswap :: "nat \<Rightarrow> nat \<Rightarrow> nat" where
  "bswap n v = le_val (rev (le_bytes n v))"

definition swap_event :: "breach_event \<Rightarrow> breach_event" where
  "swap_event e =
     \<lparr>be_ns_key = word_of_nat (bswap 8 (unat (be_ns_key e))),
      be_cgid = word_of_nat (bswap 8 (unat (be_cgid e))),
      be_pid = word_of_nat (bswap 4 (unat (be_pid e))),
      be_reason = word_of_nat (bswap 4 (unat (be_reason e))),
      be_timestamp = word_of_nat (bswap 8 (unat (be_timestamp e))),
      be_top_cgid = word_of_nat (bswap 8 (unat (be_top_cgid e)))\<rparr>"

lemma load_store_in: "load (store_in ord m a n v) a n = le_val (bytes_in ord n v)"
proof -
  have "map (store_in ord m a n v) [a..<a + n] = bytes_in ord n v"
    by (rule nth_equalityI) (auto simp: store_in_def bytes_in_def split: byte_order.split)
  then show ?thesis by (simp add: load_def)
qed

lemma load_store_in_other: "b + k \<le> a \<or> a + n \<le> b \<Longrightarrow> load (store_in ord m a n v) b k = load m b k"
  unfolding load_def by (rule arg_cong [of _ _ le_val]) (auto simp: store_in_def)

lemma watch_swapped:
  "watch_record (map (write_event_in Big e a m) [a..<a + c_size struct_breach_event]) = Some (swap_event e)"
proof -
  let ?m = "write_event_in Big e a m"
  have "load ?m (a + 0) 8 = bswap 8 (unat (be_ns_key e))" "load ?m (a + 8) 8 = bswap 8 (unat (be_cgid e))"
    "load ?m (a + 16) 4 = bswap 4 (unat (be_pid e))" "load ?m (a + 20) 4 = bswap 4 (unat (be_reason e))"
    "load ?m (a + 24) 8 = bswap 8 (unat (be_timestamp e))" "load ?m (a + 32) 8 = bswap 8 (unat (be_top_cgid e))"
    by (simp_all add: write_event_in_def Let_def store_member_in_def event_member_at load_store_in
        load_store_in_other bytes_in_def bswap_def)
  then show ?thesis
    using event_word [of 0 8 ?m a] event_word [of 8 8 ?m a] event_word [of 16 4 ?m a]
      event_word [of 20 4 ?m a] event_word [of 24 8 ?m a] event_word [of 32 8 ?m a]
    by (simp add: watch_record_def bpfBreachEvent_def c_size_def swap_event_def)
qed

lemma le_val_append: "le_val (xs @ ys) = le_val xs + 256 ^ length xs * le_val ys"
  by (induction xs) (simp_all add: algebra_simps)

lemma le_val_zeros [simp]: "le_val (replicate n 0) = 0"
  by (induction n) simp_all

lemma le_bytes_zero: "le_bytes n 0 = replicate n 0"
  by (induction n) simp_all

lemma bswap_low:
  assumes "b < 256"
  shows "bswap (Suc n) b = b * 256 ^ n"
proof -
  have "le_bytes (Suc n) b = word_of_nat b # replicate n 0"
    using assms by (simp add: le_bytes_zero)
  moreover have "unat (word_of_nat b :: byte) = b" using assms unat_byte [of b] by simp
  ultimately show ?thesis
    by (simp add: bswap_def le_val_append del: le_bytes.simps)
qed

text \<open>
  On a little-endian machine the watcher decodes the event that was written; on a big-endian one
  it decodes every field with its bytes reversed, for example the cgroup 5 as
  0x0500000000000000.
\<close>

lemma events_by_byte_order:
  "watch_record (map (write_event_in ord e a m) [a..<a + c_size struct_breach_event]) =
     Some (case ord of Little \<Rightarrow> e | Big \<Rightarrow> swap_event e) \<and>
   be_top_cgid (swap_event (e\<lparr>be_top_cgid := 5\<rparr>)) = 0x0500000000000000"
proof
  show "watch_record (map (write_event_in ord e a m) [a..<a + c_size struct_breach_event]) =
     Some (case ord of Little \<Rightarrow> e | Big \<Rightarrow> swap_event e)"
    by (cases ord) (simp_all add: write_event_little watch_written watch_swapped)
  show "be_top_cgid (swap_event (e\<lparr>be_top_cgid := 5\<rparr>)) = 0x0500000000000000"
    using bswap_low [of 5 7] by (simp add: swap_event_def)
qed

end
