(* ===== verification/Crd.thy ===== *)
theory Crd
  imports Lease_Props
begin

text \<open>
  \<^verbatim>\<open>config/crd.yaml\<close>, with which a cluster is told of the quota objects, and the JSON form the
  tags of \<^verbatim>\<open>types.go\<close> give them. What Kubernetes does with a schema is its documented
  behaviour: fields the schema does not name are pruned, and a status is updated under a path
  that exists only when the definition enables the status subresource.
\<close>

section \<open>JSON and schemas\<close>

datatype json = JInt int | JStr string | JArr "json list" | JObj "(string \<times> json) list"

text \<open>The flag of an object schema is \<^verbatim>\<open>x-kubernetes-preserve-unknown-fields\<close>.\<close>

datatype schema = SInt | SArr schema | SObj bool "(string \<times> schema) list"

fun conforms :: "schema \<Rightarrow> json \<Rightarrow> bool"
  and conforms_items :: "schema \<Rightarrow> json list \<Rightarrow> bool"
  and conforms_fields :: "(string \<times> schema) list \<Rightarrow> (string \<times> json) list \<Rightarrow> bool"
where
  "conforms SInt v = (case v of JInt i \<Rightarrow> True | _ \<Rightarrow> False)"
| "conforms (SArr t) v = (case v of JArr vs \<Rightarrow> conforms_items t vs | _ \<Rightarrow> False)"
| "conforms (SObj keep props) v = (case v of JObj fs \<Rightarrow> conforms_fields props fs | _ \<Rightarrow> False)"
| "conforms_items t [] = True"
| "conforms_items t (v # vs) = (conforms t v \<and> conforms_items t vs)"
| "conforms_fields props [] = True"
| "conforms_fields props ((k, v) # fs) =
     ((case map_of props k of None \<Rightarrow> True | Some t \<Rightarrow> conforms t v) \<and> conforms_fields props fs)"

fun prune :: "schema \<Rightarrow> json \<Rightarrow> json"
  and prune_items :: "schema \<Rightarrow> json list \<Rightarrow> json list"
  and prune_fields :: "bool \<Rightarrow> (string \<times> schema) list \<Rightarrow> (string \<times> json) list \<Rightarrow> (string \<times> json) list"
where
  "prune (SObj keep props) (JObj fs) = JObj (prune_fields keep props fs)"
| "prune (SArr t) (JArr vs) = JArr (prune_items t vs)"
| "prune t v = v"
| "prune_items t [] = []"
| "prune_items t (v # vs) = prune t v # prune_items t vs"
| "prune_fields keep props [] = []"
| "prune_fields keep props ((k, v) # fs) =
     (case map_of props k of
        Some t \<Rightarrow> (k, prune t v) # prune_fields keep props fs
      | None \<Rightarrow> if keep then (k, v) # prune_fields keep props fs else prune_fields keep props fs)"

section \<open>The objects in JSON\<close>

definition int_field :: "string \<Rightarrow> int option \<Rightarrow> (string \<times> json) list" where
  "int_field k v = (case v of None \<Rightarrow> [] | Some i \<Rightarrow> [(k, JInt i)])"

text \<open>\<^verbatim>\<open>omitempty\<close> leaves out a nil pointer, a map without entries and the number 0.\<close>

definition map_field :: "string \<Rightarrow> credits option \<Rightarrow> (string \<times> json) list" where
  "map_field k m =
     (case m of
        None \<Rightarrow> []
      | Some [] \<Rightarrow> []
      | Some c \<Rightarrow> [(k, JObj (map (\<lambda>(n, v). (n, JInt v)) c))])"

definition spec_json :: "ObjectQuotaSpec \<Rightarrow> json" where
  "spec_json s = JObj
     (int_field ''fileDescriptors'' (FileDescriptors s) @ int_field ''processes'' (Processes s) @
      int_field ''leaseBatchSize'' (LeaseBatchSize s))"

definition status_json :: "ObjectQuotaStatus \<Rightarrow> json" where
  "status_json st = JObj
     (map_field ''fdAllocations'' (FDAllocations st) @
      map_field ''procAllocations'' (ProcAllocations st) @
      int_field ''available'' (if AvailableFD st = 0 then None else Some (AvailableFD st)) @
      int_field ''version'' (Version st))"

section \<open>The definition\<close>

record crd =
  crd_group :: string
  crd_version :: string
  crd_kind :: string
  crd_list_kind :: string
  crd_spec :: schema
  crd_status :: schema
  crd_subresources :: "string list"

definition crd_yaml :: crd where
  "crd_yaml = \<lparr>crd_group = ''quota.melonlorrd.dev'', crd_version = ''v1alpha1'',
     crd_kind = ''ObjectQuota'', crd_list_kind = ''ObjectQuotaList'',
     crd_spec = SObj False
       [(''fileDescriptors'', SInt), (''processes'', SInt), (''leaseBatchSize'', SInt)],
     crd_status = SObj False [(''conditions'', SArr (SObj True []))],
     crd_subresources = []\<rparr>"

text \<open>The types the client knows: group, version and kind.\<close>

type_synonym scheme = "(string \<times> string \<times> string) set"

definition GroupVersion :: "string \<times> string" where
  "GroupVersion = (''quota.melonlorrd.dev'', ''v1alpha1'')"

definition addKnownTypes :: "scheme \<Rightarrow> scheme" where
  "addKnownTypes s =
     (case GroupVersion of (g, v) \<Rightarrow> s \<union> {(g, v, ''ObjectQuota''), (g, v, ''ObjectQuotaList'')})"

section \<open>What a server of the definition does\<close>

text \<open>
  Of an object that is read, spec and status say nothing that is pruned; without the status
  subresource a status update is answered by an error and changes nothing.
\<close>

definition kept_by :: "crd \<Rightarrow> ObjectQuota \<Rightarrow> bool" where
  "kept_by d q \<longleftrightarrow>
     prune (crd_spec d) (spec_json (Spec q)) = spec_json (Spec q) \<and>
     prune (crd_status d) (status_json (Status q)) = status_json (Status q)"

definition served_by :: "crd \<Rightarrow> 'w api \<Rightarrow> 'w store \<Rightarrow> ('w \<Rightarrow> ObjectQuota set) \<Rightarrow> bool" where
  "served_by d api stored versions \<longleftrightarrow>
     (\<forall>w ns n q. get_quota api w ns n = Some q \<longrightarrow> kept_by d q) \<and>
     (''status'' \<notin> set (crd_subresources d) \<longrightarrow>
        (\<forall>w q. \<not> snd (status_update api w q) \<and>
           unchanged stored versions w (fst (status_update api w q))))"

section \<open>What the schema keeps\<close>

lemma prune_fields_append:
  "prune_fields keep props (xs @ ys) = prune_fields keep props xs @ prune_fields keep props ys"
  by (induction xs) (auto split: option.split)

lemma conforms_fields_append:
  "conforms_fields props (xs @ ys) = (conforms_fields props xs \<and> conforms_fields props ys)"
  by (induction xs) auto

lemma spec_fields:
  "prune (crd_spec crd_yaml) (spec_json s) = spec_json s"
  "conforms (crd_spec crd_yaml) (spec_json s)"
  by (auto simp: crd_yaml_def spec_json_def int_field_def prune_fields_append conforms_fields_append
      split: option.split)

lemma status_pruned: "prune (crd_status crd_yaml) (status_json st) = JObj []"
  by (auto simp: crd_yaml_def status_json_def int_field_def map_field_def prune_fields_append
      split: option.split list.split)

lemma status_empty:
  "status_json st = JObj [] \<longleftrightarrow>
     FDAllocations st \<in> {None, Some []} \<and> ProcAllocations st \<in> {None, Some []} \<and>
     AvailableFD st = 0 \<and> Version st = None"
  by (auto simp: status_json_def int_field_def map_field_def split: option.splits list.splits if_splits)

lemma kept_status: "kept_by crd_yaml q \<longleftrightarrow> status_json (Status q) = JObj []"
  by (auto simp: kept_by_def spec_fields status_pruned)

text \<open>(C22)
  The definition names the group, version and kinds the client registers. A spec of any values
  has the types of its schema and is kept whole; of a status nothing the lease manager keeps there is
  kept, neither the credits nor what is available nor the version.
\<close>

theorem crd_types:
  "{(crd_group crd_yaml, crd_version crd_yaml, crd_kind crd_yaml),
    (crd_group crd_yaml, crd_version crd_yaml, crd_list_kind crd_yaml)} = addKnownTypes {} \<and>
   conforms (crd_spec crd_yaml) (spec_json s) \<and>
   prune (crd_spec crd_yaml) (spec_json s) = spec_json s \<and>
   prune (crd_status crd_yaml) (status_json st) = JObj []"
  by (simp add: spec_fields status_pruned) (simp add: crd_yaml_def addKnownTypes_def GroupVersion_def)

section \<open>Requests on such a server\<close>

lemma served_read:
  assumes "served_by crd_yaml api stored versions" "get_quota api w ns n = Some q"
  shows "FDAllocations (Status q) \<in> {None, Some []}" "ProcAllocations (Status q) \<in> {None, Some []}"
proof -
  have "kept_by crd_yaml q" using assms by (simp add: served_by_def)
  then show "FDAllocations (Status q) \<in> {None, Some []}" "ProcAllocations (Status q) \<in> {None, Some []}"
    by (simp_all add: kept_status status_empty)
qed

lemma served_update:
  assumes "served_by crd_yaml api stored versions" "status_update api w q = (w', b)"
  shows "\<not> b" "unchanged stored versions w w'"
proof -
  have "''status'' \<notin> set (crd_subresources crd_yaml)" by (simp add: crd_yaml_def)
  with assms(1) have "\<not> snd (status_update api w q)"
    "unchanged stored versions w (fst (status_update api w q))" by (simp_all add: served_by_def)
  with assms(2) show "\<not> b" "unchanged stored versions w w'" by simp_all
qed

lemma unchanged_refl [simp]: "unchanged stored versions w w" by (simp add: unchanged_def)

lemma unchanged_trans:
  "unchanged stored versions a b \<Longrightarrow> unchanged stored versions b c \<Longrightarrow> unchanged stored versions a c"
  by (simp add: unchanged_def)

lemma no_allocations:
  "FDAllocations st \<in> {None, Some []} \<Longrightarrow> (case FDAllocations st of None \<Rightarrow> [] | Some a \<Rightarrow> a) = []"
  "ProcAllocations st \<in> {None, Some []} \<Longrightarrow> (case ProcAllocations st of None \<Rightarrow> [] | Some a \<Rightarrow> a) = []"
  by auto

lemma request_served:
  assumes s: "served_by crd_yaml api stored versions" and api: "api_ok api stored versions"
    and r: "RequestLease api m ns node batch now w = (a, w')"
  shows "\<not> (\<exists>g > 0. a = Inr g)" "unchanged stored versions w w'"
proof -
  have "\<not> (\<exists>g > 0. a = Inr g) \<and> unchanged stored versions w w'"
  proof (cases "node = nodeID m \<and> get_quota api w (fst (isProcSuffix ns)) (fst (isProcSuffix ns)) \<noteq> None")
    case False
    with r show ?thesis by (auto simp: RequestLease_def split: prod.splits if_splits option.splits)
  next
    case True
    obtain b p where k: "isProcSuffix ns = (b, p)" by fastforce
    with True obtain q where q: "get_quota api w b b = Some q" by auto
    note empty = no_allocations(1) [OF served_read(1) [OF s q]] no_allocations(2) [OF served_read(2) [OF s q]]
    show ?thesis
      using r True k q served_update [OF s] ensureLease_unchanged [OF api]
      by (auto simp: RequestLease_def requestFD_def requestProc_def empty Let_def credit_of_def
          split: if_splits prod.splits bool.splits)
  qed
  then show "\<not> (\<exists>g > 0. a = Inr g)" "unchanged stored versions w w'" by simp_all
qed

lemma release_served:
  assumes s: "served_by crd_yaml api stored versions"
  shows "ReleaseLease api m ns node w = (0, w)"
proof -
  obtain b p where k: "isProcSuffix ns = (b, p)" by fastforce
  show ?thesis
  proof (cases "get_quota api w b b")
    case None
    with k show ?thesis by (simp add: ReleaseLease_def)
  next
    case (Some q)
    with k served_read [OF s Some] show ?thesis
      by (auto simp: ReleaseLease_def releaseFD_def releaseProc_def)
  qed
qed

lemma reclaim_served:
  assumes s: "served_by crd_yaml api stored versions"
  shows "ReclaimExpiredLeases api m ns now w = (True, w)"
proof (cases "get_quota api w ns ns")
  case None
  then show ?thesis by (simp add: ReclaimExpiredLeases_def)
next
  case (Some q)
  from served_read [OF s Some] show ?thesis
    by (auto simp: ReclaimExpiredLeases_def Some Let_def keep_active_def split: option.split)
qed

lemma renew_served:
  assumes "served_by crd_yaml api stored versions" "api_ok api stored versions"
  shows "unchanged stored versions w (renew_all api m now qs w)"
proof (induction qs arbitrary: w)
  case (Cons q qs)
  from unchanged_trans [OF ensureLease_unchanged [OF assms(2)] Cons.IH] show ?case
    by (simp add: reclaim_served [OF assms(1)])
qed simp

lemma step_served:
  assumes "served_by crd_yaml api stored versions" "api_ok api stored versions"
  shows "unchanged stored versions w (node_step api op w)"
proof -
  have "unchanged stored versions v (snd (RequestLease api m ns node r now v))" for m ns node r now v
    using request_served(2) [OF assms] by (metis prod.collapse)
  then show ?thesis
    using assms
    by (cases "(api, op, w)" rule: node_step.cases)
      (simp_all add: release_served reclaim_served renewal_tick_def renew_served
        RemoveLease_def deleteLease_unchanged split: option.split)
qed

lemma run_served:
  assumes "served_by crd_yaml api stored versions" "api_ok api stored versions"
  shows "unchanged stored versions w (nodes_run api ops w)"
proof (induction ops arbitrary: w)
  case (Cons op ops)
  from unchanged_trans [OF step_served [OF assms] Cons.IH] show ?case by simp
qed simp

end
