(* ===== verification/Crd_Props.thy ===== *)
theory Crd_Props
  imports Crd Cluster
begin

text \<open>
  A cluster that was told of the quota objects by \<^verbatim>\<open>config/crd.yaml\<close>: the credits of the lease
  manager are never stored, and every node enforces the whole limit.
\<close>

fun asks :: "'w api \<Rightarrow> 'w cluster_op \<Rightarrow> bool" where
  "asks api (Sync_fds env batch) \<longleftrightarrow> en_api env = api"
| "asks api (Sync_procs env procs batch) \<longleftrightarrow> en_api env = api"
| "asks api (Hooks n cs) \<longleftrightarrow> True"

lemma limit_served:
  fixes env :: "'w env" and w :: 'w
  assumes "served_by crd_yaml api stored versions" "api_ok api stored versions" "en_api env = api"
  shows "unchanged stored versions (world s) (world (snd (lease_limit env key limit batch s)))"
    and "\<not> (\<exists>g > 0. lease_answer env key batch w = Inr g)"
proof -
  note req = request_served [OF assms(1,2)]
  show "unchanged stored versions (world s) (world (snd (lease_limit env key limit batch s)))"
    using req(2) assms(3) by (auto simp: lease_limit_def split: option.split prod.split)
  show "\<not> (\<exists>g > 0. lease_answer env key batch w = Inr g)"
    using req(1) assms(3) by (auto simp: lease_answer_def split: option.splits) (metis prod.collapse)
qed

lemma step_served_cluster:
  assumes "served_by crd_yaml api stored versions" "api_ok api stored versions" "asks api op"
  shows "unchanged stored versions (cl_world c) (cl_world (cluster_step ns limit op c)) \<and>
    (holds (cluster_step ns limit op c) n \<longrightarrow> holds c n)"
proof (cases op)
  case (Sync_fds env batch)
  with assms(3) have env: "en_api env = api" by simp
  let ?s = "(cl_node c (en_node env))\<lparr>world := cl_world c\<rparr>"
  obtain e s where sy: "SyncNamespace env ns limit batch ?s = (e, s)" by fastforce
  have "unchanged stored versions (cl_world c) (world s)"
    using limit_served(1) [OF assms(1,2) env, of ?s ns limit batch] sync_world [of env ns limit batch ?s]
    by (simp add: sy)
  then show ?thesis
    using limit_served(2) [OF assms(1,2) env] by (auto simp: Sync_fds Let_def sy)
next
  case (Sync_procs env procs batch)
  with assms(3) have env: "en_api env = api" by simp
  let ?s = "(cl_node c (en_node env))\<lparr>world := cl_world c\<rparr>"
  obtain e s where sy: "SyncProcessNamespace env ns procs batch ?s = (e, s)" by fastforce
  show ?thesis
    using limit_served(1) [OF assms(1,2) env, of ?s "ns @ ''-proc''" procs batch]
      sync_proc_world [of env ns procs batch ?s]
    by (simp add: Sync_procs Let_def sy)
qed simp

lemma run_served_cluster:
  assumes "served_by crd_yaml api stored versions" "api_ok api stored versions"
  shows "list_all (asks api) ops \<Longrightarrow>
    unchanged stored versions (cl_world c) (cl_world (cluster_run ns limit ops c)) \<and>
    (holds (cluster_run ns limit ops c) n \<longrightarrow> holds c n)"
proof (induction ops arbitrary: c)
  case (Cons op ops)
  then have op: "asks api op" and ops: "list_all (asks api) ops" by simp_all
  let ?c = "cluster_step ns limit op c"
  have "cluster_run ns limit (op # ops) c = cluster_run ns limit ops ?c" by (simp add: cluster_run_def)
  with step_served_cluster [OF assms op, of c ns limit n] Cons.IH [OF ops, of ?c] show ?case
    by (auto intro: unchanged_trans)
qed (simp add: cluster_run_def)

text \<open>(C10)
  On a server with the definition of the repository no request for credits succeeds: whatever the
  nodes do, the stored quotas stay as they are, and every node that could store a limit enforces
  the limit of the whole cluster.
\<close>

theorem crd_stores_no_credits:
  assumes "served_by crd_yaml api stored versions" "api_ok api stored versions"
    and "list_all (asks api) ops" "\<forall>n. bpf_loaded (nodes n)" "0 \<le> limit" "in_i64 limit"
  shows "let c = cluster_run ns limit ops (cluster_start (nodes_run api ls w) nodes) in
    stored (cl_world c) = stored w \<and>
    (\<forall>n a e. cl_last c n = Some (a, e) \<and> e \<noteq> Some UpdateLimit \<longrightarrow>
       enforces (NamespaceKey ns) (cl_node c n) = limit)"
proof -
  let ?start = "cluster_start (nodes_run api ls w) nodes"
  let ?c = "cluster_run ns limit ops ?start"
  note run = run_served_cluster [OF assms(1-3), where c = ?start and ns = ns and limit = limit]
  have "stored (cl_world ?c) = stored w"
    using run run_served [OF assms(1,2), of w ls] by (simp add: unchanged_def cluster_start_def)
  moreover have none: "\<not> holds ?c n" for n
    using run [where n = n] by (auto simp: holds_def cluster_start_def)
  have "told ns limit ?start" using assms(4) by (simp add: told_def cluster_start_def refused_def)
  from run_told [OF assms(5,6) this] have "told ns limit ?c" .
  then have "enforces (NamespaceKey ns) (cl_node ?c n) = limit"
    if "cl_last ?c n = Some (a, e)" "e \<noteq> Some UpdateLimit" for n a e
    using that none by (auto simp: told_def refused_def)
  ultimately show ?thesis unfolding Let_def by blast
qed

text \<open>A server with the definition, holding one quota, and two nodes.\<close>

definition bare_status :: ObjectQuotaStatus where
  "bare_status = \<lparr>FDAllocations = None, ProcAllocations = None, AvailableFD = 0, Version = None\<rparr>"

definition crd_read :: "ObjectQuota \<Rightarrow> string \<Rightarrow> string \<Rightarrow> ObjectQuota option" where
  "crd_read q ns n =
     (if oq_namespace q = ns \<and> oq_name q = n then Some (q\<lparr>Status := bare_status\<rparr>) else None)"

definition crd_api :: "ObjectQuota api" where
  "crd_api = \<lparr>get_quota = crd_read, status_update = (\<lambda>w q. (w, False)),
     list_quotas = (\<lambda>w. Some [w\<lparr>Status := bare_status\<rparr>]), get_lease = (\<lambda>w ns n. None),
     list_leases = (\<lambda>w ns. Some []), create_lease = (\<lambda>w l. (w, True)),
     update_lease = (\<lambda>w l. (w, True)), remove_lease = (\<lambda>w ns n. (w, True))\<rparr>"

definition crd_versions :: "ObjectQuota \<Rightarrow> ObjectQuota set" where
  "crd_versions q = {q\<lparr>Status := bare_status\<rparr>}"

lemma crd_api_ok: "api_ok crd_api crd_read crd_versions"
  by (auto simp: api_ok_def reads_ok_def versions_ok_def updates_ok_def leases_ok_def crd_api_def
      crd_read_def crd_versions_def split: if_splits)

lemma crd_api_served: "served_by crd_yaml crd_api crd_read crd_versions"
  by (auto simp: served_by_def kept_status status_empty crd_api_def crd_read_def bare_status_def
      split: if_splits)

definition crd_env :: "string \<Rightarrow> ObjectQuota env" where
  "crd_env n =
     \<lparr>en_api = crd_api, en_leaser = Some (ex_node n), en_node = n, en_now = 0,
      en_pods = (\<lambda>w ns. Some []), en_fs = CDir 1 [], en_put = (\<lambda>kind key k. True), en_lru = lru_roomy\<rparr>"

theorem crd_stores_no_credits_witness:
  "let q = ex_quota 100 None 0 None;
       c = cluster_run ''team'' 100 [Sync_fds (crd_env ''a'') 70, Sync_fds (crd_env ''b'') 70]
         (cluster_start (nodes_run crd_api [(ex_node ''a'', 0, Request ''team'' 70)] q) (\<lambda>n. bare_syncer q)) in
     map_option snd (cl_last c ''a'') = Some None \<and> map_option snd (cl_last c ''b'') = Some None \<and>
     enforces (NamespaceKey ''team'') (cl_node c ''a'') = 100 \<and>
     enforces (NamespaceKey ''team'') (cl_node c ''b'') = 100"
proof -
  let ?q = "ex_quota 100 None 0 None" and ?ls = "[(ex_node ''a'', 0, Request ''team'' 70)]"
    and ?ops = "[Sync_fds (crd_env ''a'') 70, Sync_fds (crd_env ''b'') 70]"
  let ?c = "cluster_run ''team'' 100 ?ops (cluster_start (nodes_run crd_api ?ls ?q) (\<lambda>n. bare_syncer ?q))"
  have l: "map_option snd (cl_last ?c ''a'') = Some None" "map_option snd (cl_last ?c ''b'') = Some None"
    by code_simp+
  have "\<forall>n a e. cl_last ?c n = Some (a, e) \<and> e \<noteq> Some UpdateLimit \<longrightarrow>
      enforces (NamespaceKey ''team'') (cl_node ?c n) = 100"
    using crd_stores_no_credits [OF crd_api_served crd_api_ok, of ?ops "\<lambda>n. bare_syncer ?q" 100 "''team''" ?ls ?q]
    by (simp add: crd_env_def bare_syncer_def in_i64_def Let_def del: nodes_run.simps)
  with l show ?thesis by (auto simp: Let_def)
qed

end
