(* ===== verification/Slack.thy ===== *)
theory Slack
  imports Node_Props
begin

text \<open>
  Slack: while the budget and the limit of a lease are far above its count, everything is admitted,
  whether or not the lease is well-formed. A limit below zero is such a lease: the kernel reads it
  as a number of at least \<open>2 ^ 63\<close>.
\<close>

section \<open>Slack of a lease\<close>

definition slack :: "nat \<Rightarrow> u64 \<Rightarrow> quota \<Rightarrow> bool" where
  "slack n ns q \<longleftrightarrow>
     (\<exists>limit lease. limited q ns = Some (limit, lease) \<and>
        unat (cl_count lease) + n < unat limit \<and> unat (cl_count lease) + n < unat (cl_lease_budget lease))"

lemma lease_charge_slack:
  assumes "unat (cl_count lease) < unat limit" "unat (cl_count lease) < unat (cl_lease_budget lease)"
  shows "lease_charge limit lease = (Admit, lease\<lparr>cl_count := cl_count lease + 1\<rparr>)"
  using assms by (simp add: lease_charge_def word_le_nat_alt)

lemma charge_slack:
  assumes "slack (Suc n) ns q" "charge h reason q = (r, q', es)"
  shows "slack n ns q'" and "q_cgroup q (h_cgid h) = Some ns \<Longrightarrow> r = 0"
proof -
  from assms(1) obtain limit lease where l: "limited q ns = Some (limit, lease)"
    "unat (cl_count lease) + Suc n < unat limit"
    "unat (cl_count lease) + Suc n < unat (cl_lease_budget lease)"
    by (auto simp: slack_def)
  have both: "slack n ns q' \<and> (q_cgroup q (h_cgid h) = Some ns \<longrightarrow> r = 0)"
  proof (cases "q_cgroup q (h_cgid h) = Some ns")
    case True
    let ?lease = "touch h (count_inc h (h_cgid h) q) lease"
    have c: "lease_charge limit ?lease = (Admit, ?lease\<lparr>cl_count := cl_count lease + 1\<rparr>)"
      using l by (simp add: lease_charge_slack lease_simps)
    have "cl_count lease < limit" using l(2) by (simp add: word_less_nat_alt)
    then have n: "unat (cl_count lease + 1) = Suc (unat (cl_count lease))" by (rule unat_Suc_below)
    from charge_limited [OF True l(1) c, of reason] assms(2)
    have q': "r = 0" "q' = (count_inc h (h_cgid h) q)\<lparr>q_lease := (q_lease q)(ns \<mapsto>
        ?lease\<lparr>cl_count := cl_count lease + 1\<rparr>)\<rparr>" by (simp_all add: Let_def)
    have "limited q' ns = Some (limit, ?lease\<lparr>cl_count := cl_count lease + 1\<rparr>)"
      using l(1) by (simp add: q'(2) limited_Some_limit view_simps)
    with l n q'(1) show ?thesis by (simp add: slack_def lease_simps)
  next
    case False
    from charge_frame [OF assms(2)] False have "q_limit q' = q_limit q" "q_lease q' ns = q_lease q ns"
      by blast+
    then have "limited q' ns = limited q ns" by (simp add: limited_def split: option.split)
    with l False show ?thesis by (auto simp: slack_def)
  qed
  then show "slack n ns q'" "q_cgroup q (h_cgid h) = Some ns \<Longrightarrow> r = 0" by simp_all
qed

lemma discharge_slack:
  assumes "slack n ns q"
  shows "slack n ns (discharge h q)"
proof -
  from assms obtain limit lease where l: "limited q ns = Some (limit, lease)"
    "unat (cl_count lease) + n < unat limit" "unat (cl_count lease) + n < unat (cl_lease_budget lease)"
    by (auto simp: slack_def)
  then show ?thesis
    by (auto simp: slack_def discharge_limited lease_simps lease_discharge_unat)
qed

lemma slack_less: "slack (Suc n) ns q \<Longrightarrow> slack n ns q"
  by (auto simp: slack_def)

section \<open>Runs with slack\<close>

lemma kstep_slack:
  assumes "slack (Suc n) ns (fd_view s)"
  shows "slack n ns (fd_view (kstep c s))"
proof -
  have track: "slack n ns (fd_view (track_install_fd h s))" for h
    by (rule fd.over_cases [of h s]) (use assms in \<open>auto simp: fd.track_views dest: charge_slack(1)\<close>)
  have close: "slack n ns (fd_view (last_close h s))" for h
    using discharge_slack [OF slack_less [OF assms]] by (simp add: fd.release_views)
  show ?thesis
    using track close slack_less [OF assms]
    by (cases c; cases "snd c") (simp_all add: enforcer_views track_close_fd_drops)
qed

lemma krun_slack: "slack (length cs + n) ns (fd_view s) \<Longrightarrow> slack n ns (fd_view (krun cs s))"
  by (induction cs arbitrary: s) (auto dest: kstep_slack)

lemma slack_admits:
  assumes "slack (Suc (length cs)) ns (fd_view s)" "fd_cgroup s (h_cgid h) = Some ns"
  shows "fst (over_limit h (krun cs s)) = 0"
proof -
  have "slack (Suc 0) ns (fd_view (krun cs s))" using krun_slack [of cs "Suc 0" ns s] assms(1) by simp
  moreover have "q_cgroup (fd_view (krun cs s)) (h_cgid h) = Some ns"
    using assms(2) by (simp add: krun_cgroups)
  ultimately show ?thesis
    by (cases h "krun cs s" rule: fd.over_cases) (auto dest: charge_slack(2))
qed

section \<open>Limits below zero\<close>

lemma unat_negative:
  assumes "limit < 0" "in_i64 limit"
  shows "2 ^ 63 \<le> unat (word_of_int limit :: u64)"
proof -
  have "limit mod 2 ^ 64 = (limit + 2 ^ 64) mod 2 ^ 64" by simp
  also have "\<dots> = limit + 2 ^ 64" using assms by (intro mod_pos_pos_trivial) (simp_all add: in_i64_def)
  finally have "int (unat (word_of_int limit :: u64)) = limit + 2 ^ 64"
    by (simp add: uint_word_of_int flip: uint_nat)
  then have "int (2 ^ 63) \<le> int (unat (word_of_int limit :: u64))" using assms(2) by (simp add: in_i64_def)
  then show ?thesis by (simp only: of_nat_le_iff)
qed

text \<open>(C28)
  The schema of a quota has no least value, and a limit below zero is no limit: after it has been
  synchronised, unless the node holds credits, no descriptor of the namespace is refused in the
  next \<open>2 ^ 63\<close> steps of the enforcer, less those counted already.
\<close>

theorem negative_limit_unlimited:
  assumes "SyncNamespace env ns limit batch s = (None, s')" "bpf_loaded s"
    and "fst (lease_limit env ns limit batch s) = limit" "limit < 0" "in_i64 limit"
    and "(case fd_ns_counter (bpf s) (NamespaceKey ns) of None \<Rightarrow> 0 | Some l \<Rightarrow> unat (cl_count l)) +
      length cs + 1 < 2 ^ 63"
    and "fd_cgroup (bpf s') (h_cgid h) = Some (NamespaceKey ns)"
  shows "fst (over_limit h (krun cs (bpf s'))) = 0"
proof -
  let ?k = "NamespaceKey ns" and ?old = "fd_ns_counter (bpf s) (NamespaceKey ns)"
  let ?l = "word_of_int limit :: u64"
  have big: "2 ^ 63 \<le> unat ?l" using assms(4,5) by (rule unat_negative)
  then have "?l \<noteq> 0" by auto
  moreover have "fd_ns_limit (bpf s') ?k = Some ?l" "fd_ns_counter (bpf s') ?k = Some (reset_lease limit ?old)"
    using sync_maps [OF assms(2,1)] by (simp_all add: Let_def assms(3))
  ultimately have "limited (fd_view (bpf s')) ?k = Some (?l, reset_lease limit ?old)"
    by (simp add: limited_Some_limit)
  moreover have "cl_lease_budget (reset_lease limit ?old) = ?l"
    "cl_count (reset_lease limit ?old) = (case ?old of None \<Rightarrow> 0 | Some l \<Rightarrow> cl_count l)"
    using assms(4) by (simp_all add: reset_lease_def microSlice_def split: option.split)
  ultimately have "slack (Suc (length cs)) ?k (fd_view (bpf s'))"
    using assms(6) big by (auto simp: slack_def split: option.splits)
  then show ?thesis using assms(7) by (rule slack_admits)
qed

theorem negative_limit_unlimited_witness:
  "\<exists>s'. SyncNamespace (ex_env [ex_pod]) ''team'' (- 1) 0 (ex_syncer empty_kstate) = (None, s') \<and>
     fd_ns_limit (bpf s') (NamespaceKey ''team'') = Some (- 1) \<and>
     fst (over_limit (ex_helpers 5) (krun (replicate 9 (ex_helpers 5, Fd_install)) (bpf s'))) = 0"
proof -
  let ?r = "SyncNamespace (ex_env [ex_pod]) ''team'' (- 1) 0 (ex_syncer empty_kstate)"
  have v: "fst ?r = None" "fd_cgroup (bpf (snd ?r)) 5 = Some (NamespaceKey ''team'')"
    "fd_ns_limit (bpf (snd ?r)) (NamespaceKey ''team'') = Some (word_of_int (- 1))"
    by code_simp+
  from v(1) obtain s' where r: "?r = (None, s')" by (cases ?r) (simp only: fst_conv)
  have "fst (over_limit (ex_helpers 5) (krun (replicate 9 (ex_helpers 5, Fd_install)) (bpf s'))) = 0"
  proof (rule negative_limit_unlimited [OF r])
    show "fst (lease_limit (ex_env [ex_pod]) ''team'' (- 1) 0 (ex_syncer empty_kstate)) = - 1"
      by (simp add: lease_limit_def ex_env_def)
    show "fd_cgroup (bpf s') (h_cgid (ex_helpers 5)) = Some (NamespaceKey ''team'')"
      using v(2) by (simp only: r snd_conv) (simp add: ex_helpers_def)
  qed (simp_all add: ex_syncer_def in_i64_def empty_kstate_def)
  moreover have "fd_ns_limit (bpf s') (NamespaceKey ''team'') = Some (- 1)"
    using v(3) by (simp only: r snd_conv) simp
  ultimately show ?thesis using r by blast
qed

end
