(* ===== verification/Spec2Isabelle.thy ===== *)
theory Spec2Isabelle
  imports Enforcer_Props Race_Props Hook_Props Lease_Props Cgroup_Props Syncer_Props Node_Props
    Breach_Watch Sync_Race_Props Cluster Attach Boot Deep_Copy Wire_Order
    Crd_Props Slack
begin

text \<open>
  Verification of object-quota-manager.

  The program limits the open file descriptors and the processes of a Kubernetes namespace. It
  has a half in the kernel and a half in user space, which share maps.

  The kernel half is \<^verbatim>\<open>ebpf/src/enforcer_kern.c\<close>: four BPF programs at \<^verbatim>\<open>fd_install\<close>,
  \<^verbatim>\<open>filp_close\<close>, \<^verbatim>\<open>kernel_clone\<close> and \<^verbatim>\<open>do_exit\<close>. They find the namespace of the current
  cgroup, count, compare with the limit and a budget below it, report a breach to a ring buffer
  and kill the caller when its cgroup is the top consumer.

  The user half is a manager on every node. \<^verbatim>\<open>controller.go\<close> calls it for every change of a
  quota or a pod; \<^verbatim>\<open>syncer.go\<close> fills the maps, scans for cgroups and kills the top consumer
  of a reported breach; \<^verbatim>\<open>cgroup.go\<close> finds the cgroups of a pod; \<^verbatim>\<open>manager.go\<close> makes the
  key of a namespace; \<^verbatim>\<open>lease_k8s.go\<close> divides a cluster-wide limit among the nodes through
  the status of the quota object.

  Theories, in the order of the code.

  \<^item> \<^verbatim>\<open>Prelude\<close>: the lemmas on maps and words the others share.

  \<^item> \<^verbatim>\<open>Kern_State\<close> (the value structs and the nine maps as \<open>kstate\<close>, with the events and the
  signals of a run), \<^verbatim>\<open>Kern_Proc\<close> and \<^verbatim>\<open>Kern_Fd\<close> (every function and program of
  \<^verbatim>\<open>enforcer_kern.c\<close>). What the BPF helpers return to one invocation is a record
  \<open>helpers\<close>; an LRU map may evict and may refuse, which is the hypothesis \<open>lru_ok\<close>.

  \<^item> \<^verbatim>\<open>Lease_Core\<close>, \<^verbatim>\<open>Quota_View\<close>, \<^verbatim>\<open>Quota_Spec\<close>, \<^verbatim>\<open>Enforcer\<close>, \<^verbatim>\<open>Enforcer_Run\<close>: the
  arithmetic of a lease; the two halves of the enforcer as one pair of operations on the four
  maps of a resource; the abstract pool they implement; the locale of a limit enforcer, with
  its interpretations for descriptors and processes; and runs. \<^verbatim>\<open>Top_Consumer\<close> and
  \<^verbatim>\<open>Budget_Lag\<close> hold the two arguments that need more than the invariant of a lease.
  \<^verbatim>\<open>Enforcer_Props\<close> has their properties.

  \<^item> \<^verbatim>\<open>Kern_Mirror\<close> (the process half is the descriptor half with the maps exchanged),
  \<^verbatim>\<open>Kern_Race\<close>, \<^verbatim>\<open>Kern_Machine\<close>, \<^verbatim>\<open>Race_Props\<close>: the four programs access by access, any
  number of CPUs interleaving. An install or a clone makes at most 16 accesses, a last close or an
  exit at most 6: with that much fuel the programs running alone are the sequential ones, and
  in every schedule each of them returns within its bound.

  \<^item> \<^verbatim>\<open>C_Layout\<close>, \<^verbatim>\<open>C_Memory\<close>: sizes, alignments and offsets of C types, and byte memory.
  \<^verbatim>\<open>Vm_File\<close>, \<^verbatim>\<open>Vm_Task\<close>, \<^verbatim>\<open>Vm_Cgroup\<close>, \<^verbatim>\<open>Vm_Vfs\<close>, \<^verbatim>\<open>Vm_Ns\<close>, \<^verbatim>\<open>Vm_Sched\<close>, \<^verbatim>\<open>Vm_Bpf\<close>: the
  declarations of \<^verbatim>\<open>vmlinux.h\<close> of the objects at the hooks, with every type they hold by
  value. \<^verbatim>\<open>Hook_Objects\<close>, \<^verbatim>\<open>Hook_Props\<close>: the reference count the close hook reads, and
  the events and leases as bytes on both sides (\<^verbatim>\<open>bpf_bpfel.go\<close>, the decoding in
  \<^verbatim>\<open>syncer.go\<close>).

  \<^item> \<^verbatim>\<open>Go_Base\<close> (64-bit integers and division of Go), \<^verbatim>\<open>Quota_Api\<close> (the quota and Lease
  objects, and the API server as an argument with \<open>api_ok\<close>: reads return what is stored and a
  status update succeeds only on the version that was read), \<^verbatim>\<open>Lease_Manager\<close> (every
  operation of \<^verbatim>\<open>lease_k8s.go\<close>), \<^verbatim>\<open>Credit_Pool\<close>, \<^verbatim>\<open>Lease_World\<close> (the invariant of the
  credits over the operations of all nodes), \<^verbatim>\<open>Leaser\<close> (the interface of \<^verbatim>\<open>lease.go\<close> as a
  locale, interpreted by the manager), \<^verbatim>\<open>Lease_Props\<close>.

  \<^item> \<^verbatim>\<open>Ns_Key\<close> (\<^verbatim>\<open>manager.go\<close>, FNV-1a), \<^verbatim>\<open>Go_Strings\<close> (what is used of \<^verbatim>\<open>strings\<close>,
  \<^verbatim>\<open>bufio\<close> and \<^verbatim>\<open>strconv\<close>), \<^verbatim>\<open>Cgroup_Fs\<close> and \<^verbatim>\<open>Cgroup_Props\<close> (\<^verbatim>\<open>cgroup.go\<close> and the
  walk of the scanner, over a tree of directories with inode numbers).

  \<^item> \<^verbatim>\<open>Syncer\<close> (the operations of \<^verbatim>\<open>syncer.go\<close> on a record \<open>syncer\<close> that holds the BPF maps
  as a \<open>kstate\<close>, with everything outside in a record \<open>env\<close>), \<^verbatim>\<open>Controller\<close> (the scanner,
  loading and the two reconcilers), \<^verbatim>\<open>Syncer_Frame\<close> (the contract of the updates of one
  resource as a locale, the pod loop proved over it, and its interpretations for descriptors
  and processes) and \<^verbatim>\<open>Syncer_Props\<close> (synchronising, alone and with the enforcer in between), \<^verbatim>\<open>Node_Run\<close> and \<^verbatim>\<open>Node_Props\<close> (a node as a step
  relation over all of them), \<^verbatim>\<open>Breach_Watch\<close> (the way of a breach from the enforcer
  through the bytes of the record to the processes the manager kills).

  \<^item> \<^verbatim>\<open>Sync_Steps\<close>, \<^verbatim>\<open>Sync_Race\<close>, \<^verbatim>\<open>Sync_Company\<close>, \<^verbatim>\<open>Sync_Race_Props\<close>: the goroutines of
  the manager step by step. A call of \<^verbatim>\<open>SyncNamespace\<close>, \<^verbatim>\<open>SyncProcessNamespace\<close> or
  \<^verbatim>\<open>RemoveNamespace\<close> is a program point of \<open>call\<close>; \<open>call_step\<close> does what lies between two
  points: one system call, one request to the leaser, one listing, or one section under the mutex. The
  two controllers, the scanner, the breach watcher and the enforcer take turns in any order
  (\<open>turn\<close>). Alone, a reconciliation ends within 20 steps for each quota it has to do, in the state
  the sequential definitions compute.

  \<^item> \<^verbatim>\<open>Cluster\<close>: the nodes of a cluster on one API server, in runs of synchronisations and of the
  enforcers. \<^verbatim>\<open>Crd\<close>, \<^verbatim>\<open>Crd_Props\<close>: the definition of the quota objects, \<^verbatim>\<open>config/crd.yaml\<close>, as a
  schema, the JSON the tags of \<^verbatim>\<open>types.go\<close> give them, and a cluster on a server with that
  definition. \<^verbatim>\<open>Slack\<close>: leases far below their budget, and limits below zero. \<^verbatim>\<open>Attach\<close>, \<^verbatim>\<open>Boot\<close>: the programs
  \<^verbatim>\<open>LoadBPF\<close> attaches and what a node is that lacks some; \<^verbatim>\<open>main.go\<close> from the name of the node
  to the running manager, with every exit.

  \<^item> \<^verbatim>\<open>Deep_Copy\<close>: the deep copies of \<^verbatim>\<open>types.go\<close> over a heap of integers, maps and arrays.
  \<^verbatim>\<open>Wire_Order\<close>: the events on machines of either byte order.

  What the properties show. The enforcer refines a pool of limited objects, in every sequence of
  its programs, and stays within the limit after a synchronisation has set it; on several CPUs
  it overshoots by less than their number. A lease whose budget lags is caught up with in a
  bounded number of rejections. The credits of a quota never exceed its limit, whatever the
  nodes interleave, and neither does the sum of what the nodes with credits enforce.
  Synchronising and removing do to the maps exactly what is stated, failures included, and a
  synchronisation does it in every interleaving that gives the other controller nothing of its
  namespace. The books of a manager are consistent in every run. A breach is answered by one
  side only and by the right processes.

  What they show to be otherwise than meant: on a server with the definition of the repository the
  credits are never stored and every node enforces the whole limit; closes can race below zero,
  uncounted installs are discounted, a synchronisation cuts the budget below the count and loses
  counts, a quota removed while a pod event synchronises it stays in force, a removal lets the
  scanner panic, an exhausted pool or a quota of another name is enforced as the whole limit, a
  limit below zero is none, a node without its enforcer still takes credits, and one without its
  exit program only counts upwards. Lemmas beside them show that a past top consumer is killed, a
  quota made again forgets what is open, a limit dropped from a quota stays, process credits of a
  live node are reclaimed, the scanner overlooks late containers, and a big-endian node reads its
  events backwards.

  Hypotheses on what is not in the repository: \<open>lru_ok\<close> and \<open>lru_roomy\<close> (an LRU map, in general
  and while it has room), \<open>accepts\<close> and \<open>roomy\<close> (the bpf system call stores what it is given),
  \<open>api_ok\<close> (the API server), \<open>served_by\<close> (what an API server does with the definition of an
  object: it prunes what the schema does not name, and answers a status update by an error when
  the definition has no status subresource), \<open>cgfs_ok\<close> (a directory has each name once), \<open>meta_ok\<close> (copying
  the metadata of an object only allocates). Each is shown to hold of a concrete instance by the
  witnesses.

  Not modelled. The rest of \<^verbatim>\<open>vmlinux.h\<close>, which is generated and not reached from the program.
  Flags, tickers, contexts and logging; the registration of metrics; the generated
  loading of the BPF object; \<^verbatim>\<open>Close\<close>, which releases what the end of the process releases. The
  controllers have one worker each, the default of their library, and a request to the leaser is
  one step of its caller: what other nodes do to the quota during a request is the
  old version its read may return, after which its update is refused. The runs of \<open>Cluster\<close>
  have no reclaim, after which a node may enforce credits it has lost, and no change of a quota.
\<close>

end
